(* ===== verification/Go_Prelude.thy ===== *)
theory Go_Prelude
  imports Main "HOL-Library.Word"
begin

text \<open>
  The vocabulary the components share: Go byte slices, Go errors as structured values, results of
  fallible functions, and the control flow \<open>if err != nil { return ..., err }\<close>.

  A \<open>[]byte\<close> is a list of 8-bit words. A Go \<open>string\<close> is a byte sequence as well and is an Isabelle
  \<open>string\<close> (a list of 8-bit characters). An error made by \<open>fmt.Errorf\<close> keeps its format string and
  its arguments unrendered, so that an error says which line of the source made it and which error
  it wraps; \<open>Ext\<close> is an error value that comes from code outside the repository.
\<close>

type_synonym byte = "8 word"
type_synonym bytes = "byte list"

datatype goerr = Errorf string "earg list" | Ext string
  and earg = AStr string | AInt int | AErr goerr

type_synonym 'a result = "goerr + 'a"

named_theorems op_defs "definitions of the modelled operations"
named_theorems result_simps "how results flow through error checks"

section \<open>Results\<close>

text \<open>
  \<open>and_then r k\<close> is \<open>x, err := r; if err != nil { return err }; k(x)\<close>, and \<open>wrapf f r\<close> replaces the
  error of \<open>r\<close> by \<open>f err\<close>, as \<open>return fmt.Errorf("...: %w", err)\<close> does.
\<close>

definition and_then :: "'a result \<Rightarrow> ('a \<Rightarrow> 'b result) \<Rightarrow> 'b result" where
  "and_then r k = (case r of Inl e \<Rightarrow> Inl e | Inr x \<Rightarrow> k x)"

definition wrapf :: "(goerr \<Rightarrow> goerr) \<Rightarrow> 'a result \<Rightarrow> 'a result" where
  "wrapf f r = (case r of Inl e \<Rightarrow> Inl (f e) | Inr x \<Rightarrow> Inr x)"

definition of_err :: "goerr option \<Rightarrow> 'a \<Rightarrow> 'a result" where
  "of_err e x = (case e of Some er \<Rightarrow> Inl er | None \<Rightarrow> Inr x)"

abbreviation is_ok :: "'a result \<Rightarrow> bool" where
  "is_ok r \<equiv> \<not> isl r"

lemma and_then_Inl [simp, result_simps]: "and_then (Inl e) k = Inl e"
  by (simp add: and_then_def)

lemma and_then_Inr [simp, result_simps]: "and_then (Inr x) k = k x"
  by (simp add: and_then_def)

lemma and_then_eq_Inr [result_simps]:
  "and_then r k = Inr y \<longleftrightarrow> (\<exists>x. r = Inr x \<and> k x = Inr y)"
  by (cases r) simp_all

lemma and_then_eq_Inl [result_simps]:
  "and_then r k = Inl e \<longleftrightarrow> r = Inl e \<or> (\<exists>x. r = Inr x \<and> k x = Inl e)"
  by (cases r) simp_all

lemma and_then_assoc: "and_then (and_then r k) l = and_then r (\<lambda>x. and_then (k x) l)"
  by (cases r) simp_all

lemma wrapf_Inl [simp, result_simps]: "wrapf f (Inl e) = Inl (f e)"
  by (simp add: wrapf_def)

lemma wrapf_Inr [simp, result_simps]: "wrapf f (Inr x) = Inr x"
  by (simp add: wrapf_def)

lemma wrapf_eq_Inr [simp, result_simps]: "wrapf f r = Inr x \<longleftrightarrow> r = Inr x"
  by (cases r) simp_all

lemma wrapf_eq_Inl [result_simps]: "wrapf f r = Inl e \<longleftrightarrow> (\<exists>e0. r = Inl e0 \<and> e = f e0)"
  by (cases r) auto

lemma of_err_simps [simp, result_simps]: "of_err None x = Inr x" "of_err (Some e) x = Inl e"
  by (simp_all add: of_err_def)

lemma of_err_eq_Inr [result_simps]: "of_err e x = Inr y \<longleftrightarrow> e = None \<and> x = y"
  by (cases e) auto

lemma of_err_eq_Inl [result_simps]: "of_err e x = Inl er \<longleftrightarrow> e = Some er"
  by (cases e) auto

lemma is_ok_iff: "is_ok r \<longleftrightarrow> (\<exists>x. r = Inr x)"
  by (cases r) auto

section \<open>Bytes and strings\<close>

text \<open>The conversions \<open>[]byte(s)\<close> and \<open>string(b)\<close>.\<close>

definition bytes_of :: "string \<Rightarrow> bytes" where
  "bytes_of s = map of_char s"

definition string_of :: "bytes \<Rightarrow> string" where
  "string_of bs = map (\<lambda>b. char_of (unat b)) bs"

lemma unat_byte_less [simp]: "unat (b :: byte) < 256"
  using unsigned_less [of b] by simp

lemma unat_of_char_byte: "unat (of_char c :: byte) = of_char c"
proof -
  have "(of_char c :: byte) = of_nat (of_char c)"
    by (rule of_nat_of_char [symmetric])
  then show ?thesis
    by (simp add: unat_of_nat take_bit_eq_mod)
qed

lemma string_of_bytes_of [simp]: "string_of (bytes_of s) = s"
  by (simp add: string_of_def bytes_of_def unat_of_char_byte o_def)

lemma of_char_char_of_byte: "(of_char (char_of (unat b)) :: byte) = b"
proof -
  have "(of_char (char_of (unat b)) :: byte) = of_nat (of_char (char_of (unat b)))"
    by (rule of_nat_of_char [symmetric])
  also have "\<dots> = of_nat (unat b)"
    by simp
  finally show ?thesis
    by simp
qed

lemma bytes_of_string_of [simp]: "bytes_of (string_of bs) = bs"
  by (simp add: string_of_def bytes_of_def of_char_char_of_byte o_def)

lemma length_bytes_of [simp]: "length (bytes_of s) = length s"
  by (simp add: bytes_of_def)

lemma bytes_of_inject [simp]: "bytes_of s = bytes_of t \<longleftrightarrow> s = t"
  by (metis string_of_bytes_of)

text \<open>
  The loop \<open>for i := range b { b[i] = 0 }\<close> that wipes key material, index by index.
\<close>

definition zeroize :: "bytes \<Rightarrow> bytes" where
  "zeroize bs = fold (\<lambda>i b. b[i := 0]) [0..<length bs] bs"

lemma fold_update_prefix:
  "n \<le> length bs \<Longrightarrow> fold (\<lambda>i b. b[i := x]) [0..<n] bs = replicate n x @ drop n bs"
proof (induction n)
  case 0
  then show ?case by simp
next
  case (Suc n)
  then have "drop n bs = bs ! n # drop (Suc n) bs"
    by (simp add: Cons_nth_drop_Suc)
  with Suc show ?case
    by (simp add: list_update_append replicate_append_same)
qed

lemma zeroize_eq [simp]: "zeroize bs = replicate (length bs) 0"
  by (simp add: zeroize_def fold_update_prefix)

text \<open>
  A fixed-size buffer that a callee fills: \<open>var out [n]byte; f(&out[0])\<close> leaves \<open>n\<close> bytes whatever
  the callee wrote.
\<close>

definition fill_buffer :: "nat \<Rightarrow> bytes \<Rightarrow> bytes" where
  "fill_buffer n bs = take n (bs @ replicate n 0)"

lemma length_fill_buffer [simp]: "length (fill_buffer n bs) = n"
  by (simp add: fill_buffer_def)

lemma fill_buffer_exact [simp]: "length bs = n \<Longrightarrow> fill_buffer n bs = bs"
  by (simp add: fill_buffer_def)

section \<open>Codecs\<close>

text \<open>
  An encoder with a decoder that inverts it. The clients of an encoding use it through this
  contract only: a decoded value is the encoded one, and two values with one encoding are equal.
\<close>

locale codec =
  fixes enc :: "'a \<Rightarrow> 'b"
    and dec :: "'b \<Rightarrow> 'a result"
    and valid :: "'a \<Rightarrow> bool"
  assumes dec_enc: "valid x \<Longrightarrow> dec (enc x) = Inr x"
begin

lemma enc_inject: "valid x \<Longrightarrow> valid y \<Longrightarrow> enc x = enc y \<longleftrightarrow> x = y"
  by (metis dec_enc sum.inject(2))

lemma dec_enc_ok: "valid x \<Longrightarrow> is_ok (dec (enc x))"
  by (simp add: dec_enc)

lemma and_then_dec_enc: "valid x \<Longrightarrow> and_then (wrapf f (dec (enc x))) k = k x"
  by (simp add: dec_enc)

end

end
