(* ===== verification/Go_Strings.thy ===== *)
theory Go_Strings
  imports Go_Prelude "HOL-Library.Sublist"
begin

text \<open>
  The part of Go's standard library on strings that the program calls: \<open>encoding/hex\<close>,
  \<open>strconv.Atoi\<close>, \<open>fmt.Sprintf("%d")\<close>, \<open>strings.ToLower\<close>, \<open>strings.TrimSpace\<close>,
  \<open>strings.Contains\<close>, \<open>fmt.Sscanf("%02x")\<close> and the rendering of errors to text.
\<close>

section \<open>encoding/hex\<close>

definition hex_char :: "nat \<Rightarrow> char" where
  "hex_char n = ''0123456789abcdef'' ! n"

definition hex_val :: "char \<Rightarrow> nat option" where
  "hex_val c = (let n = of_char c in
     if 48 \<le> n \<and> n \<le> 57 then Some (n - 48)
     else if 97 \<le> n \<and> n \<le> 102 then Some (n - 87)
     else if 65 \<le> n \<and> n \<le> 70 then Some (n - 55)
     else None)"

definition byte_hex :: "byte \<Rightarrow> string" where
  "byte_hex b = [hex_char (unat b div 16), hex_char (unat b mod 16)]"

text \<open>\<open>hex.EncodeToString\<close>: two lower-case digits per byte.\<close>

definition hex_EncodeToString :: "bytes \<Rightarrow> string" where
  "hex_EncodeToString bs = concat (map byte_hex bs)"

definition err_invalid_byte :: "char \<Rightarrow> goerr" where
  "err_invalid_byte c = Errorf ''encoding/hex: invalid byte: %#U'' [AInt (of_char c)]"

definition err_hex_length :: goerr where
  "err_hex_length = Errorf ''encoding/hex: odd length hex string'' []"

text \<open>
  \<open>hex.DecodeString\<close>: pairs of digits from the left, either case; an invalid digit is reported before
  an odd length.
\<close>

fun hex_DecodeString :: "string \<Rightarrow> bytes result" where
  "hex_DecodeString [] = Inr []"
| "hex_DecodeString [c] =
     (case hex_val c of None \<Rightarrow> Inl (err_invalid_byte c) | Some _ \<Rightarrow> Inl err_hex_length)"
| "hex_DecodeString (c # d # cs) =
     (case hex_val c of None \<Rightarrow> Inl (err_invalid_byte c)
      | Some a \<Rightarrow> (case hex_val d of None \<Rightarrow> Inl (err_invalid_byte d)
        | Some b \<Rightarrow> and_then (hex_DecodeString cs) (\<lambda>bs. Inr (of_nat (a * 16 + b) # bs))))"

lemma hex_val_bound: "hex_val c = Some a \<Longrightarrow> a < 16"
  by (auto simp: hex_val_def Let_def split: if_splits)

lemma hex_val_hex_char [simp]: "n < 16 \<Longrightarrow> hex_val (hex_char n) = Some n"
proof -
  have "\<forall>n\<in>set [0..<16]. hex_val (hex_char n) = Some n"
    by code_simp
  then show "n < 16 \<Longrightarrow> hex_val (hex_char n) = Some n"
    by simp
qed

lemma nibbles_byte: "of_nat (unat b div 16 * 16 + unat b mod 16) = (b :: byte)"
  by simp

lemma nibble_bounds [simp]: "unat (b :: byte) div 16 < 16" "unat (b :: byte) mod 16 < 16"
proof -
  show "unat b div 16 < 16"
    by (rule less_mult_imp_div_less) (use unat_byte_less [of b] in simp)
qed simp

lemma hex_Encode_Nil [simp]: "hex_EncodeToString [] = []"
  by (simp add: hex_EncodeToString_def)

lemma hex_Encode_Cons [simp]: "hex_EncodeToString (b # bs) = byte_hex b @ hex_EncodeToString bs"
  by (simp add: hex_EncodeToString_def)

lemma length_hex_Encode [simp]: "length (hex_EncodeToString bs) = 2 * length bs"
  by (induction bs) (simp_all add: byte_hex_def)

lemma hex_Decode_Encode [simp]: "hex_DecodeString (hex_EncodeToString bs) = Inr bs"
proof (induction bs)
  case Nil
  then show ?case by simp
next
  case (Cons b bs)
  then show ?case
    using nibbles_byte [of b] by (simp add: byte_hex_def)
qed

lemma hex_Encode_inject: "hex_EncodeToString xs = hex_EncodeToString ys \<longleftrightarrow> xs = ys"
  by (metis hex_Decode_Encode sum.inject(2))

text \<open>A decoded string has two characters per byte, all of them digits.\<close>

lemma hex_Decode_length: "hex_DecodeString s = Inr bs \<Longrightarrow> length s = 2 * length bs"
  by (induction s arbitrary: bs rule: hex_DecodeString.induct)
    (auto simp: result_simps split: option.splits)

lemma hex_Decode_Inr_iff:
  "is_ok (hex_DecodeString s) \<longleftrightarrow> even (length s) \<and> (\<forall>c\<in>set s. hex_val c \<noteq> None)"
proof (induction s rule: hex_DecodeString.induct)
  case (3 c d cs)
  then show ?case
    by (cases "hex_DecodeString cs") (auto split: option.splits)
qed (auto split: option.splits)

interpretation hexc: codec hex_EncodeToString hex_DecodeString "\<lambda>_. True"
  by unfold_locales simp

section \<open>fmt.Sscanf(s, "%02x", &b)\<close>

text \<open>
  Scanning one byte with the verb \<open>%02x\<close>: leading blanks are skipped (a newline is an error), then
  at most two hexadecimal digits are read and at least one must be there. What follows the digits
  is not looked at. The strings scanned here are two bytes long, so a blank outside ASCII leaves
  nothing to read and is the same error.
\<close>

definition scan_blank :: "char \<Rightarrow> bool" where
  "scan_blank c = (of_char c \<in> {9, 11, 12, 13, 32 :: nat})"

definition err_scan_newline :: goerr where
  "err_scan_newline = Errorf ''unexpected newline'' []"

definition err_scan_eof :: goerr where
  "err_scan_eof = Errorf ''unexpected EOF'' []"

definition err_scan_int :: goerr where
  "err_scan_int = Errorf ''expected integer'' []"

fun scan_digits :: "nat \<Rightarrow> string \<Rightarrow> nat list" where
  "scan_digits (Suc w) (c # cs) =
     (case hex_val c of None \<Rightarrow> [] | Some a \<Rightarrow> a # scan_digits w cs)"
| "scan_digits _ _ = []"

definition sscanf_02x :: "string \<Rightarrow> byte result" where
  "sscanf_02x s =
     (case dropWhile scan_blank s of
        [] \<Rightarrow> Inl err_scan_eof
      | c # cs \<Rightarrow>
          (if of_char c = (10 :: nat) then Inl err_scan_newline
           else case scan_digits 2 (c # cs) of
                  [] \<Rightarrow> Inl err_scan_int
                | ds \<Rightarrow> Inr (of_nat (foldl (\<lambda>a d. a * 16 + d) 0 ds))))"

lemma scan_blank_not_hex: "hex_val c = Some a \<Longrightarrow> \<not> scan_blank c"
  by (auto simp: hex_val_def scan_blank_def Let_def split: if_splits)

lemma newline_not_hex: "hex_val c = Some a \<Longrightarrow> of_char c \<noteq> (10 :: nat)"
  by (auto simp: hex_val_def Let_def split: if_splits)

lemma sscanf_02x_pair:
  "hex_val c = Some a \<Longrightarrow> hex_val d = Some b \<Longrightarrow> sscanf_02x [c, d] = Inr (of_nat (a * 16 + b))"
  by (simp add: sscanf_02x_def scan_blank_not_hex newline_not_hex numeral_2_eq_2)

section \<open>Decimal numbers\<close>

text \<open>The digits of a number, most significant first, and \<open>fmt.Sprintf("%d", n)\<close>.\<close>

fun nat_dec :: "nat \<Rightarrow> string" where
  "nat_dec n = (if n < 10 then [char_of (48 + n)] else nat_dec (n div 10) @ [char_of (48 + n mod 10)])"

declare nat_dec.simps [simp del]

definition int_dec :: "int \<Rightarrow> string" where
  "int_dec i = (if i < 0 then CHR ''-'' # nat_dec (nat (- i)) else nat_dec (nat i))"

definition dec_val :: "char \<Rightarrow> nat option" where
  "dec_val c = (let n = of_char c in if 48 \<le> n \<and> n \<le> 57 then Some (n - 48) else None)"

fun dec_digits :: "nat \<Rightarrow> string \<Rightarrow> nat option" where
  "dec_digits acc [] = Some acc"
| "dec_digits acc (c # cs) =
     (case dec_val c of None \<Rightarrow> None | Some d \<Rightarrow> dec_digits (acc * 10 + d) cs)"

text \<open>
  \<open>strconv.Atoi\<close> on a 64-bit platform: an optional sign, at least one decimal digit and nothing else,
  and a value that fits \<open>int64\<close>; \<open>None\<close> stands for its error.
\<close>

definition atoi :: "string \<Rightarrow> int option" where
  "atoi s =
     (let neg = (case s of c # _ \<Rightarrow> c = CHR ''-'' | [] \<Rightarrow> False);
          ds = (case s of c # cs \<Rightarrow> if c = CHR ''-'' \<or> c = CHR ''+'' then cs else s | [] \<Rightarrow> s)
      in if ds = [] then None
         else case dec_digits 0 ds of
                None \<Rightarrow> None
              | Some n \<Rightarrow>
                  (let i = (if neg then - int n else int n)
                   in if - (2 ^ 63) \<le> i \<and> i < 2 ^ 63 then Some i else None))"

lemma dec_val_char [simp]: "d < 10 \<Longrightarrow> dec_val (char_of (48 + d)) = Some d"
  by (simp add: dec_val_def)

lemma nat_dec_digit_chars: "c \<in> set (nat_dec n) \<Longrightarrow> \<exists>d<(10::nat). c = char_of (48 + d)"
proof (induction n rule: nat_dec.induct)
  case (1 n)
  show ?case
  proof (cases "n < 10")
    case True
    with "1.prems" show ?thesis by (auto simp: nat_dec.simps [of n])
  next
    case False
    then have "c \<in> set (nat_dec (n div 10)) \<or> c = char_of (48 + n mod 10)"
      using "1.prems" by (auto simp: nat_dec.simps [of n])
    then show ?thesis
    proof
      assume "c = char_of (48 + n mod 10)"
      then show ?thesis
        by (intro exI [of _ "n mod 10"]) simp
    qed (rule "1.IH" [OF False])
  qed
qed

lemma nat_dec_not_Nil [simp]: "nat_dec n \<noteq> []"
  by (subst nat_dec.simps) simp

lemma dec_digits_append:
  "dec_digits acc (xs @ ys) = (case dec_digits acc xs of None \<Rightarrow> None | Some a \<Rightarrow> dec_digits a ys)"
  by (induction xs arbitrary: acc) (auto split: option.splits)

lemma dec_digits_nat_dec [simp]: "dec_digits 0 (nat_dec n) = Some n"
proof (induction n rule: nat_dec.induct)
  case (1 n)
  show ?case
  proof (cases "n < 10")
    case True
    then show ?thesis by (simp add: nat_dec.simps [of n])
  next
    case False
    then show ?thesis
      by (simp add: nat_dec.simps [of n] dec_digits_append 1)
  qed
qed

lemma hd_nat_dec: "nat_dec n = c # cs \<Longrightarrow> c \<noteq> CHR ''-'' \<and> c \<noteq> CHR ''+''"
proof -
  assume "nat_dec n = c # cs"
  then obtain d :: nat where "d < 10" "c = char_of (48 + d)"
    using nat_dec_digit_chars [of c n] by auto
  then have "of_char c \<ge> (48 :: nat)"
    by simp
  then show ?thesis
    by auto
qed

lemma atoi_int_dec: "- (2 ^ 63) \<le> i \<Longrightarrow> i < 2 ^ 63 \<Longrightarrow> atoi (int_dec i) = Some i"
proof (cases "i < 0")
  case True
  assume "- (2 ^ 63) \<le> i" "i < 2 ^ 63"
  with True show ?thesis by (simp add: atoi_def int_dec_def Let_def)
next
  case False
  assume b: "- (2 ^ 63) \<le> i" "i < 2 ^ 63"
  obtain c cs where c: "nat_dec (nat i) = c # cs"
    by (cases "nat_dec (nat i)") auto
  with False b hd_nat_dec [OF c] dec_digits_nat_dec [of "nat i"] show ?thesis
    by (simp add: atoi_def int_dec_def Let_def)
qed

lemma nat_dec_inject: "nat_dec m = nat_dec n \<longleftrightarrow> m = n"
  by (metis dec_digits_nat_dec option.inject)

section \<open>Strings\<close>

text \<open>
  \<open>strings.ToLower\<close>: ASCII strings are mapped byte by byte; a string with other runes goes through
  Go's Unicode table, which is the parameter \<open>uni\<close>.
\<close>

definition ascii_lower :: "char \<Rightarrow> char" where
  "ascii_lower c = (let n = of_char c :: nat in if 65 \<le> n \<and> n \<le> 90 then char_of (n + 32) else c)"

definition is_ascii :: "string \<Rightarrow> bool" where
  "is_ascii s = list_all (\<lambda>c. of_char c < (128 :: nat)) s"

definition to_lower :: "(string \<Rightarrow> string) \<Rightarrow> string \<Rightarrow> string" where
  "to_lower uni s = (if is_ascii s then map ascii_lower s else uni s)"

lemma ascii_lower_idem: "ascii_lower (ascii_lower c) = ascii_lower c"
  by (simp add: ascii_lower_def Let_def)

lemma ascii_lower_ascii: "of_char c < (128 :: nat) \<Longrightarrow> of_char (ascii_lower c) < (128 :: nat)"
  by (simp add: ascii_lower_def Let_def)

lemma to_lower_idem_ascii: "is_ascii s \<Longrightarrow> to_lower uni (to_lower uni s) = to_lower uni s"
  by (auto simp: to_lower_def is_ascii_def list_all_iff ascii_lower_idem ascii_lower_ascii)

text \<open>\<open>strings.Contains\<close> is the library's \<open>sublist\<close>; \<open>strings.TrimSpace\<close> drops ASCII blanks.\<close>

definition strings_Contains :: "string \<Rightarrow> string \<Rightarrow> bool" where
  "strings_Contains s sub = sublist sub s"

definition trim_blank :: "char \<Rightarrow> bool" where
  "trim_blank c = (of_char c \<in> {9, 10, 11, 12, 13, 32 :: nat})"

definition trim_space :: "string \<Rightarrow> string" where
  "trim_space s = rev (dropWhile trim_blank (rev (dropWhile trim_blank s)))"

lemma trim_space_id: "list_all (\<lambda>c. \<not> trim_blank c) s \<Longrightarrow> trim_space s = s"
  by (simp add: trim_space_def list_all_iff dropWhile_eq_self_iff hd_rev last_in_set
      hd_in_set del: set_rev) (metis dropWhile_eq_self_iff hd_in_set rev_rev_ident set_rev)

lemma trim_space_newline:
  "list_all (\<lambda>c. \<not> trim_blank c) s \<Longrightarrow> trim_space (s @ [CHR 0x0A]) = s"
  by (cases s) (auto simp: trim_space_def trim_blank_def list_all_iff dropWhile_eq_self_iff
      dropWhile_append hd_rev last_in_set hd_in_set split: if_splits)

end
