(* ===== verification/Blstutil.thy ===== *)
theory Blstutil
  imports Go_Strings
begin

text \<open>
  Package \<open>internal/blstutil\<close> over the blst Go binding (\<open>vendor/github.com/supranational/blst/bindings/go\<close>).
  A secret key is a scalar: a non-zero number below the order \<open>curve_r\<close> of the BLS12-381 groups,
  serialised as 32 big-endian bytes. The C routines behind the binding (key derivation, group
  arithmetic, hashing to the curve, point compression) are the fields of the parameter record
  \<open>blst\<close>; the Go code around them, with its length checks and its fixed-size output arrays, is
  defined here. \<open>keygen_valid\<close> states what the IETF draft promises of \<open>blst_keygen\<close>: a scalar in range.
\<close>

section \<open>Scalars\<close>

definition SecretKeySize :: nat where "SecretKeySize = 32"
definition PublicKeySize :: nat where "PublicKeySize = 48"
definition SignatureSize :: nat where "SignatureSize = 96"

lemmas size_defs = SecretKeySize_def PublicKeySize_def SignatureSize_def

definition curve_r :: nat where
  "curve_r = 0x73eda753299d7d483339d80809a1d80553bda402fffe5bfeffffffff00000001"

fun be_value :: "nat \<Rightarrow> bytes \<Rightarrow> nat" where
  "be_value acc [] = acc"
| "be_value acc (b # bs) = be_value (acc * 256 + unat b) bs"

fun be_encode :: "nat \<Rightarrow> nat \<Rightarrow> bytes" where
  "be_encode 0 n = []"
| "be_encode (Suc k) n = be_encode k (n div 256) @ [of_nat n]"

lemma length_be_encode [simp]: "length (be_encode k n) = k"
  by (induction k arbitrary: n) simp_all

lemma be_value_append: "be_value acc (xs @ ys) = be_value (be_value acc xs) ys"
  by (induction xs arbitrary: acc) simp_all

lemma be_value_encode: "n < 256 ^ k \<Longrightarrow> be_value 0 (be_encode k n) = n"
proof (induction k arbitrary: n)
  case 0
  then show ?case by simp
next
  case (Suc k)
  then have "n div 256 < 256 ^ k"
    by (simp add: less_mult_imp_div_less mult.commute)
  then have "be_value 0 (be_encode k (n div 256)) = n div 256"
    by (rule Suc.IH)
  then show ?case
    by (simp add: be_value_append unat_of_nat take_bit_eq_mod)
qed

lemma be_encode_value: "be_encode (length bs) (be_value 0 bs) = bs"
proof (induction bs rule: rev_induct)
  case Nil
  then show ?case by simp
next
  case (snoc b bs)
  have "(be_value 0 bs * 256 + unat b) div 256 = be_value 0 bs"
    using unat_byte_less [of b] by simp
  moreover have "(of_nat (be_value 0 bs * 256 + unat b) :: byte) = b"
  proof -
    have "(of_nat (be_value 0 bs * 256 + unat b) :: byte) = of_nat (be_value 0 bs) * of_nat 256 + of_nat (unat b)"
      by (simp only: of_nat_add of_nat_mult)
    also have "(of_nat 256 :: byte) = 0"
      by simp
    finally show ?thesis by simp
  qed
  ultimately show ?case
    using snoc by (simp add: be_value_append)
qed

lemma be_value_zeros [simp]: "be_value 0 (replicate n 0) = 0"
  by (induction n) simp_all

definition scalar_ok :: "nat \<Rightarrow> bool" where
  "scalar_ok n \<longleftrightarrow> 0 < n \<and> n < curve_r"

lemma curve_r_bound: "curve_r < 256 ^ 32"
  by (simp add: curve_r_def)

lemma scalar_ok_bound: "scalar_ok n \<Longrightarrow> n < 256 ^ 32"
  using curve_r_bound by (simp add: scalar_ok_def)

section \<open>The blst Go binding\<close>

record ('p1, 'p2) blst =
  c_keygen :: "bytes \<Rightarrow> nat"
  c_sk_to_pk :: "nat \<Rightarrow> 'p1"
  c_p1_compress :: "'p1 \<Rightarrow> bytes"
  c_hash_to_g2 :: "bytes \<Rightarrow> bytes \<Rightarrow> 'p2"
  c_sign :: "'p2 \<Rightarrow> nat \<Rightarrow> 'p2"
  c_p2_compress :: "'p2 \<Rightarrow> bytes"

definition blst_KeyGen :: "('p1, 'p2) blst \<Rightarrow> bytes \<Rightarrow> nat option" where
  "blst_KeyGen B ikm = (if length ikm < 32 then None else Some (c_keygen B ikm))"

definition Scalar_Serialize :: "nat \<Rightarrow> bytes" where
  "Scalar_Serialize n = be_encode 32 n"

definition Scalar_Deserialize :: "bytes \<Rightarrow> nat option" where
  "Scalar_Deserialize bs =
     (if length bs \<noteq> 32 \<or> \<not> scalar_ok (be_value 0 bs) then None else Some (be_value 0 bs))"

definition P1Affine_From :: "('p1, 'p2) blst \<Rightarrow> nat \<Rightarrow> 'p1 option" where
  "P1Affine_From B s = Some (c_sk_to_pk B s)"

definition P1Affine_Compress :: "('p1, 'p2) blst \<Rightarrow> 'p1 \<Rightarrow> bytes" where
  "P1Affine_Compress B p = fill_buffer 48 (c_p1_compress B p)"

definition P2Affine_Sign :: "('p1, 'p2) blst \<Rightarrow> nat \<Rightarrow> bytes \<Rightarrow> bytes \<Rightarrow> 'p2 option" where
  "P2Affine_Sign B s msg dst = Some (c_sign B (c_hash_to_g2 B msg dst) s)"

definition P2Affine_Compress :: "('p1, 'p2) blst \<Rightarrow> 'p2 \<Rightarrow> bytes" where
  "P2Affine_Compress B p = fill_buffer 96 (c_p2_compress B p)"

definition keygen_valid :: "('p1, 'p2) blst \<Rightarrow> bool" where
  "keygen_valid B \<longleftrightarrow> (\<forall>ikm. 32 \<le> length ikm \<longrightarrow> scalar_ok (c_keygen B ikm))"

lemmas binding_defs = blst_KeyGen_def P1Affine_From_def P1Affine_Compress_def P2Affine_Sign_def
  P2Affine_Compress_def

lemma Deserialize_Serialize: "scalar_ok n \<Longrightarrow> Scalar_Deserialize (Scalar_Serialize n) = Some n"
  using be_value_encode [OF scalar_ok_bound]
  by (simp add: Scalar_Deserialize_def Scalar_Serialize_def)

lemma Deserialize_Some_iff:
  "Scalar_Deserialize bs = Some n \<longleftrightarrow> scalar_ok n \<and> bs = Scalar_Serialize n"
proof
  assume d: "Scalar_Deserialize bs = Some n"
  then have "length bs = 32" "n = be_value 0 bs" "scalar_ok n"
    by (auto simp: Scalar_Deserialize_def split: if_splits)
  then show "scalar_ok n \<and> bs = Scalar_Serialize n"
    using be_encode_value [of bs] by (simp add: Scalar_Serialize_def)
qed (auto simp: Deserialize_Serialize)

lemma length_Serialize [simp]: "length (Scalar_Serialize n) = 32"
  by (simp add: Scalar_Serialize_def)

lemma Deserialize_zeros [simp]: "Scalar_Deserialize (replicate n 0) = None"
  by (simp add: Scalar_Deserialize_def scalar_ok_def)

section \<open>blstutil\<close>

definition DSTSign :: bytes where
  "DSTSign = bytes_of ''BLS_SIG_BLS12381G2_XMD:SHA-256_SSWU_RO_POP_''"

definition DSTPoP :: bytes where
  "DSTPoP = bytes_of ''BLS_POP_BLS12381G2_XMD:SHA-256_SSWU_RO_POP_''"

text \<open>The dash of the source's messages, as its three UTF-8 bytes.\<close>

definition dash :: string where
  "dash = [CHR 0xE2, CHR 0x80, CHR 0x94]"

definition err_bad_scalar :: goerr where
  "err_bad_scalar = Errorf (''invalid BLS key material '' @ dash @ '' not a valid scalar'') []"

definition blstutil_KeyGen :: "('p1, 'p2) blst \<Rightarrow> bytes \<Rightarrow> bytes result" where
  "blstutil_KeyGen B ikm =
     (if length ikm < 32
      then Inl (Errorf ''IKM must be at least 32 bytes, got %d'' [AInt (int (length ikm))])
      else case blst_KeyGen B ikm of
             None \<Rightarrow> Inl (Errorf ''BLS key generation failed'' [])
           | Some sk \<Rightarrow> Inr (Scalar_Serialize sk))"

definition ValidateSecretKey :: "bytes \<Rightarrow> bool" where
  "ValidateSecretKey skBytes =
     (if length skBytes \<noteq> SecretKeySize then False else Scalar_Deserialize skBytes \<noteq> None)"

definition blstutil_deserialize :: "bytes \<Rightarrow> nat result" where
  "blstutil_deserialize skBytes =
     (if length skBytes \<noteq> SecretKeySize
      then Inl (Errorf ''expected %d-byte secret key, got %d''
                  [AInt (int SecretKeySize), AInt (int (length skBytes))])
      else case Scalar_Deserialize skBytes of
             None \<Rightarrow> Inl err_bad_scalar
           | Some sk \<Rightarrow> Inr sk)"

definition blstutil_PublicKey :: "('p1, 'p2) blst \<Rightarrow> bytes \<Rightarrow> bytes result" where
  "blstutil_PublicKey B skBytes =
     and_then (blstutil_deserialize skBytes) (\<lambda>sk.
       case P1Affine_From B sk of
         None \<Rightarrow> Inl (Errorf ''BLS public key derivation failed'' [])
       | Some pk \<Rightarrow> Inr (P1Affine_Compress B pk))"

definition blstutil_Sign :: "('p1, 'p2) blst \<Rightarrow> bytes \<Rightarrow> bytes \<Rightarrow> bytes \<Rightarrow> bytes result" where
  "blstutil_Sign B skBytes msg dst =
     and_then (blstutil_deserialize skBytes) (\<lambda>sk.
       case P2Affine_Sign B sk msg dst of
         None \<Rightarrow> Inl (Errorf ''BLS sign failed'' [])
       | Some sig \<Rightarrow> Inr (P2Affine_Compress B sig))"

section \<open>What the key operations compute\<close>

text \<open>
  The reference: the compressed public key and the compressed signature of a scalar. Every backend
  is measured against these two.
\<close>

definition bls_pk :: "('p1, 'p2) blst \<Rightarrow> nat \<Rightarrow> bytes" where
  "bls_pk B sk = fill_buffer 48 (c_p1_compress B (c_sk_to_pk B sk))"

definition bls_sig :: "('p1, 'p2) blst \<Rightarrow> nat \<Rightarrow> bytes \<Rightarrow> bytes \<Rightarrow> bytes" where
  "bls_sig B sk msg dst = fill_buffer 96 (c_p2_compress B (c_sign B (c_hash_to_g2 B msg dst) sk))"

lemma length_bls_pk [simp]: "length (bls_pk B sk) = 48"
  by (simp add: bls_pk_def)

lemma length_bls_sig [simp]: "length (bls_sig B sk msg dst) = 96"
  by (simp add: bls_sig_def)

lemma ValidateSecretKey_iff:
  "ValidateSecretKey bs \<longleftrightarrow> (\<exists>sk. scalar_ok sk \<and> bs = Scalar_Serialize sk)"
proof -
  have "ValidateSecretKey bs \<longleftrightarrow> (\<exists>sk. Scalar_Deserialize bs = Some sk)"
    by (auto simp: ValidateSecretKey_def size_defs Scalar_Deserialize_def)
  then show ?thesis
    by (simp add: Deserialize_Some_iff)
qed

lemma deserialize_Inr_iff [result_simps]:
  "blstutil_deserialize bs = Inr sk \<longleftrightarrow> scalar_ok sk \<and> bs = Scalar_Serialize sk"
proof -
  have "blstutil_deserialize bs = Inr sk \<longleftrightarrow> Scalar_Deserialize bs = Some sk"
    by (auto simp: blstutil_deserialize_def size_defs Scalar_Deserialize_def)
  then show ?thesis
    by (simp add: Deserialize_Some_iff)
qed

lemma deserialize_Serialize [simp]:
  "scalar_ok sk \<Longrightarrow> blstutil_deserialize (Scalar_Serialize sk) = Inr sk"
  by (simp add: deserialize_Inr_iff)

lemma deserialize_ok_iff: "is_ok (blstutil_deserialize bs) \<longleftrightarrow> ValidateSecretKey bs"
  by (simp add: is_ok_iff deserialize_Inr_iff ValidateSecretKey_iff)

lemma deserialize_zeros: "is_ok (blstutil_deserialize (replicate n 0)) = False"
  by (simp add: blstutil_deserialize_def)

lemma PublicKey_eq:
  "blstutil_PublicKey B bs = and_then (blstutil_deserialize bs) (\<lambda>sk. Inr (bls_pk B sk))"
  by (simp add: blstutil_PublicKey_def binding_defs bls_pk_def)

lemma Sign_eq:
  "blstutil_Sign B bs msg dst = and_then (blstutil_deserialize bs) (\<lambda>sk. Inr (bls_sig B sk msg dst))"
  by (simp add: blstutil_Sign_def binding_defs bls_sig_def)

lemma PublicKey_Serialize [simp]:
  "scalar_ok sk \<Longrightarrow> blstutil_PublicKey B (Scalar_Serialize sk) = Inr (bls_pk B sk)"
  by (simp add: PublicKey_eq)

lemma Sign_Serialize [simp]:
  "scalar_ok sk \<Longrightarrow> blstutil_Sign B (Scalar_Serialize sk) msg dst = Inr (bls_sig B sk msg dst)"
  by (simp add: Sign_eq)

lemma Sign_zeros: "is_ok (blstutil_Sign B (replicate n 0) msg dst) = False"
  by (cases "blstutil_deserialize (replicate n 0)")
    (use deserialize_zeros [of n] in \<open>simp_all add: Sign_eq\<close>)

lemma Sign_zeros_error: "blstutil_Sign B (replicate SecretKeySize 0) msg dst = Inl err_bad_scalar"
  using Sign_zeros [of B SecretKeySize msg dst]
  by (auto simp: blstutil_Sign_def blstutil_deserialize_def P2Affine_Sign_def result_simps split: option.splits)

lemma KeyGen_Inr:
  "keygen_valid B \<Longrightarrow> blstutil_KeyGen B ikm = Inr skBytes \<Longrightarrow>
     \<exists>sk. scalar_ok sk \<and> skBytes = Scalar_Serialize sk \<and> sk = c_keygen B ikm"
  by (auto simp: blstutil_KeyGen_def blst_KeyGen_def keygen_valid_def split: if_splits)

lemma KeyGen_32 [simp]:
  "32 \<le> length ikm \<Longrightarrow> blstutil_KeyGen B ikm = Inr (Scalar_Serialize (c_keygen B ikm))"
  by (simp add: blstutil_KeyGen_def blst_KeyGen_def)

text \<open>Serialisation is a codec on the valid scalars.\<close>

interpretation scalarc: codec Scalar_Serialize blstutil_deserialize scalar_ok
  by unfold_locales simp

section \<open>A concrete curve stand-in\<close>

text \<open>
  Witnesses instantiate the C routines with small computable functions: points are numbers and byte
  lists, the key is derived from the first byte of the seed and is always in range. Nothing but the
  witnesses uses it.
\<close>

definition toy_blst :: "(nat, bytes) blst" where
  "toy_blst = \<lparr> c_keygen = (\<lambda>ikm. case ikm of [] \<Rightarrow> 1 | b # _ \<Rightarrow> unat b + 1),
     c_sk_to_pk = (\<lambda>s. s), c_p1_compress = (\<lambda>p. be_encode 48 p),
     c_hash_to_g2 = (\<lambda>m d. drop 4 (take 7 d) @ m), c_sign = (\<lambda>p s. be_encode 2 s @ p),
     c_p2_compress = (\<lambda>p. p) \<rparr>"

lemma keygen_valid_toy: "keygen_valid toy_blst"
proof -
  have "scalar_ok (c_keygen toy_blst ikm)" for ikm
  proof (cases ikm)
    case (Cons b bs)
    have "unat b < 256"
      by simp
    then have "unat b + 1 < curve_r"
      unfolding curve_r_def by linarith
    with Cons show ?thesis
      by (simp add: toy_blst_def scalar_ok_def)
  qed (simp add: toy_blst_def scalar_ok_def curve_r_def)
  then show ?thesis by (simp add: keygen_valid_def)
qed

section \<open>Keys that look alike\<close>

text \<open>
  Two keys, each on its own curve, that nobody can tell apart by their public keys and by the signatures of the listed
  messages, each with its separation tag.
\<close>

definition same_answers ::
  "('p1, 'p2) blst \<Rightarrow> ('q1, 'q2) blst \<Rightarrow> (bytes \<times> bytes) list \<Rightarrow> nat \<Rightarrow> nat \<Rightarrow> bool" where
  "same_answers B B' Q sk sk' \<longleftrightarrow> bls_pk B sk = bls_pk B' sk'
     \<and> list_all (\<lambda>(msg, dst). bls_sig B sk msg dst = bls_sig B' sk' msg dst) Q"

text \<open>A curve on which a key does what the one below it does on the other.\<close>

definition shifted_blst :: "(nat, bytes) blst" where
  "shifted_blst = toy_blst\<lparr>c_keygen := (\<lambda>ikm. c_keygen toy_blst ikm + 1), c_sk_to_pk := (\<lambda>s. s - 1),
     c_sign := (\<lambda>p s. be_encode 2 (s - 1) @ p)\<rparr>"

lemma shifted_same: "same_answers toy_blst shifted_blst Q sk (sk + 1)"
  by (simp add: same_answers_def shifted_blst_def toy_blst_def bls_pk_def bls_sig_def list_all_iff)

end
