(* ===== verification/Vault_Plugin.thy ===== *)
theory Vault_Plugin
  imports Blstutil
begin

text \<open>
  The Vault secrets plugin (\<open>vault-plugin/backend\<close>): keys are stored as hex scalars under \<open>keys/<name>\<close> and
  used inside the plugin. Vault's storage is a map from keys to values whose reads and writes can
  fail; the request's fields are what the framework parsed. The framework itself (path patterns, field
  schemas) is outside the repository.
\<close>

section \<open>BLS operations on hex strings\<close>

definition plugin_generateKey :: "('p1, 'p2) blst \<Rightarrow> bytes result \<Rightarrow> string result" where
  "plugin_generateKey B rnd =
     and_then (wrapf (\<lambda>e. Errorf ''reading entropy: %w'' [AErr e]) rnd) (\<lambda>r.
     case blst_KeyGen B (fill_buffer 32 r) of
       None \<Rightarrow> Inl (Errorf ''BLS key generation failed'' [])
     | Some sk \<Rightarrow> Inr (hex_EncodeToString (Scalar_Serialize sk)))"

definition plugin_deserialize :: "string \<Rightarrow> nat result" where
  "plugin_deserialize skHex =
     and_then (wrapf (\<lambda>e. Errorf ''decoding key hex: %w'' [AErr e]) (hex_DecodeString skHex)) (\<lambda>skBytes.
     if length skBytes \<noteq> 32
     then Inl (Errorf ''expected 32-byte key, got %d'' [AInt (int (length skBytes))])
     else case Scalar_Deserialize skBytes of
            None \<Rightarrow> Inl (Errorf ''invalid BLS scalar'' [])
          | Some sk \<Rightarrow> Inr sk)"

definition plugin_publicKeyHex :: "('p1, 'p2) blst \<Rightarrow> string \<Rightarrow> string result" where
  "plugin_publicKeyHex B skHex =
     and_then (plugin_deserialize skHex) (\<lambda>sk.
     case P1Affine_From B sk of
       None \<Rightarrow> Inl (Errorf ''BLS public key derivation failed'' [])
     | Some pk \<Rightarrow> Inr (hex_EncodeToString (P1Affine_Compress B pk)))"

definition plugin_sign :: "('p1, 'p2) blst \<Rightarrow> string \<Rightarrow> string \<Rightarrow> string \<Rightarrow> string result" where
  "plugin_sign B skHex msgHex dstHex =
     and_then (plugin_deserialize skHex) (\<lambda>sk.
     and_then (wrapf (\<lambda>e. Errorf ''decoding message: %w'' [AErr e]) (hex_DecodeString msgHex)) (\<lambda>msg.
     and_then (wrapf (\<lambda>e. Errorf ''decoding DST: %w'' [AErr e]) (hex_DecodeString dstHex)) (\<lambda>dst.
     case P2Affine_Sign B sk msg dst of
       None \<Rightarrow> Inl (Errorf ''BLS sign failed'' [])
     | Some sig \<Rightarrow> Inr (hex_EncodeToString (P2Affine_Compress B sig)))))"

text \<open>The stored text of a scalar: hex digits of either case that decode to its serialisation.\<close>

definition hex_key :: "string \<Rightarrow> nat \<Rightarrow> bool" where
  "hex_key skHex sk \<longleftrightarrow> scalar_ok sk \<and> hex_DecodeString skHex = Inr (Scalar_Serialize sk)"

lemma plugin_deserialize_Inr_iff [result_simps]: "plugin_deserialize skHex = Inr sk \<longleftrightarrow> hex_key skHex sk"
proof -
  have "plugin_deserialize skHex = Inr sk \<longleftrightarrow>
      (\<exists>bs. hex_DecodeString skHex = Inr bs \<and> Scalar_Deserialize bs = Some sk)"
    by (auto simp: plugin_deserialize_def result_simps Scalar_Deserialize_def split: if_splits option.splits)
  then show ?thesis
    by (auto simp: Deserialize_Some_iff hex_key_def)
qed

lemma hex_key_unique: "hex_key s sk \<Longrightarrow> hex_key s sk' \<Longrightarrow> sk = sk'"
  by (auto simp: hex_key_def scalarc.enc_inject)

lemma hex_key_encode [simp]: "scalar_ok sk \<Longrightarrow> hex_key (hex_EncodeToString (Scalar_Serialize sk)) sk"
  by (simp add: hex_key_def)

lemma hex_key_length: "hex_key s sk \<Longrightarrow> length s = 64"
  by (auto simp: hex_key_def dest!: hex_Decode_length)

lemma publicKeyHex_key [simp]:
  "hex_key skHex sk \<Longrightarrow> plugin_publicKeyHex B skHex = Inr (hex_EncodeToString (bls_pk B sk))"
  by (simp add: plugin_publicKeyHex_def plugin_deserialize_Inr_iff [THEN iffD2] binding_defs bls_pk_def)

lemma publicKeyHex_Inr_iff [result_simps]:
  "plugin_publicKeyHex B skHex = Inr pkHex \<longleftrightarrow>
     (\<exists>sk. hex_key skHex sk \<and> pkHex = hex_EncodeToString (bls_pk B sk))"
  by (auto simp: plugin_publicKeyHex_def result_simps binding_defs bls_pk_def)

lemma plugin_sign_key [simp]:
  "hex_key skHex sk \<Longrightarrow> plugin_sign B skHex (hex_EncodeToString msg) (hex_EncodeToString dst) =
     Inr (hex_EncodeToString (bls_sig B sk msg dst))"
  by (simp add: plugin_sign_def plugin_deserialize_Inr_iff [THEN iffD2] binding_defs bls_sig_def)

lemma generateKey_Inr:
  "keygen_valid B \<Longrightarrow> plugin_generateKey B rnd = Inr skHex \<Longrightarrow>
     \<exists>r sk. rnd = Inr r \<and> sk = c_keygen B (fill_buffer 32 r) \<and> hex_key skHex sk
       \<and> skHex = hex_EncodeToString (Scalar_Serialize sk)"
  by (auto simp: plugin_generateKey_def blst_KeyGen_def keygen_valid_def result_simps)

section \<open>Storage\<close>

record vstorage =
  st_entries :: "string \<rightharpoonup> bytes"
  st_get_err :: "string \<Rightarrow> goerr option"
  st_put_err :: "string \<Rightarrow> goerr option"

definition storage_Get :: "vstorage \<Rightarrow> string \<Rightarrow> bytes option result" where
  "storage_Get st k = of_err (st_get_err st k) (st_entries st k)"

definition storage_Put :: "vstorage \<Rightarrow> string \<Rightarrow> bytes \<Rightarrow> vstorage \<times> goerr option" where
  "storage_Put st k v =
     (case st_put_err st k of Some e \<Rightarrow> (st, Some e)
      | None \<Rightarrow> (st\<lparr>st_entries := (st_entries st)(k \<mapsto> v)\<rparr>, None))"

definition storageKeyPrefix :: string where
  "storageKeyPrefix = ''keys/''"

abbreviation entry_key :: "string \<Rightarrow> string" where
  "entry_key name \<equiv> storageKeyPrefix @ name"

section \<open>Requests and responses\<close>

text \<open>
  The fields of a request: the name from the path, and the body fields, \<open>None\<close> when \<open>GetOk\<close> reports that
  the field was not given. A response carries data, or it is an error response, which is not a Go
  error.
\<close>

record field_data =
  fd_name :: string
  fd_key :: "string option"
  fd_message :: "string option"
  fd_dst :: "string option"

datatype response = RespData "(string \<times> string) list" | ErrorResponse string "earg list"

definition plugin_dstSign :: string where
  "plugin_dstSign = hex_EncodeToString (bytes_of ''BLS_SIG_BLS12381G2_XMD:SHA-256_SSWU_RO_POP_'')"

definition plugin_dstPopProve :: string where
  "plugin_dstPopProve = hex_EncodeToString (bytes_of ''BLS_POP_BLS12381G2_XMD:SHA-256_SSWU_RO_POP_'')"

lemma plugin_dst [simp]:
  "plugin_dstSign = hex_EncodeToString DSTSign" "plugin_dstPopProve = hex_EncodeToString DSTPoP"
  by (simp_all add: plugin_dstSign_def plugin_dstPopProve_def DSTSign_def DSTPoP_def)

definition loadKey :: "vstorage \<Rightarrow> string \<Rightarrow> string result" where
  "loadKey st name =
     and_then (wrapf (\<lambda>e. Errorf ''storage read: %w'' [AErr e]) (storage_Get st (entry_key name))) (\<lambda>entry.
     case entry of None \<Rightarrow> Inr [] | Some v \<Rightarrow> Inr (string_of v))"

definition keyExists :: "vstorage \<Rightarrow> field_data \<Rightarrow> bool result" where
  "keyExists st d = and_then (storage_Get st (entry_key (fd_name d))) (\<lambda>entry. Inr (entry \<noteq> None))"

definition keyDoesNotExist :: "vstorage \<Rightarrow> field_data \<Rightarrow> bool result" where
  "keyDoesNotExist st d = and_then (storage_Get st (entry_key (fd_name d))) (\<lambda>entry. Inr (entry \<noteq> None))"

text \<open>
  The write that ends both \<open>handleGenerate\<close> and \<open>handleImport\<close>: store the scalar, answer with the name
  and the public key.
\<close>

definition store_key :: "vstorage \<Rightarrow> string \<Rightarrow> string \<Rightarrow> string \<Rightarrow> vstorage \<times> response result" where
  "store_key st name skHex pkHex =
     (case storage_Put st (entry_key name) (bytes_of skHex) of
        (st', Some e) \<Rightarrow> (st', Inl (Errorf ''storage write: %w'' [AErr e]))
      | (st', None) \<Rightarrow> (st', Inr (RespData [(''name'', name), (''public_key'', pkHex)])))"

definition handleGenerate ::
  "('p1, 'p2) blst \<Rightarrow> bytes result \<Rightarrow> vstorage \<Rightarrow> field_data \<Rightarrow> vstorage \<times> response result" where
  "handleGenerate B rnd st d =
     (let name = fd_name d in
      case storage_Get st (entry_key name) of
        Inl e \<Rightarrow> (st, Inl (Errorf ''storage read: %w'' [AErr e]))
      | Inr (Some _) \<Rightarrow> (st, Inr (ErrorResponse
            (''key %q already exists '' @ dash @ '' delete it first to regenerate'') [AStr name]))
      | Inr None \<Rightarrow>
         (case plugin_generateKey B rnd of
            Inl e \<Rightarrow> (st, Inl (Errorf ''generating key: %w'' [AErr e]))
          | Inr skHex \<Rightarrow>
             (case plugin_publicKeyHex B skHex of
                Inl e \<Rightarrow> (st, Inl (Errorf ''deriving public key: %w'' [AErr e]))
              | Inr pkHex \<Rightarrow> store_key st name skHex pkHex)))"

definition handleImport ::
  "('p1, 'p2) blst \<Rightarrow> vstorage \<Rightarrow> field_data \<Rightarrow> vstorage \<times> response result" where
  "handleImport B st d =
     (let name = fd_name d in
      case fd_key d of
        None \<Rightarrow> (st, Inr (ErrorResponse ''key is required'' []))
      | Some skHex \<Rightarrow>
         (if length skHex \<noteq> 64
          then (st, Inr (ErrorResponse ''key must be a 64-character hex string (32 bytes)'' []))
          else case plugin_publicKeyHex B skHex of
            Inl e \<Rightarrow> (st, Inl (Errorf ''invalid BLS key: %w'' [AErr e]))
          | Inr pkHex \<Rightarrow>
             (case storage_Get st (entry_key name) of
                Inl e \<Rightarrow> (st, Inl (Errorf ''storage read: %w'' [AErr e]))
              | Inr (Some _) \<Rightarrow> (st, Inr (ErrorResponse
                    (''key %q already exists '' @ dash @ '' delete it first to overwrite'') [AStr name]))
              | Inr None \<Rightarrow> store_key st name skHex pkHex)))"

definition handlePublicKey ::
  "('p1, 'p2) blst \<Rightarrow> vstorage \<Rightarrow> field_data \<Rightarrow> response result" where
  "handlePublicKey B st d =
     (let name = fd_name d in
      and_then (loadKey st name) (\<lambda>skHex.
      if skHex = [] then Inr (ErrorResponse ''key %q not found'' [AStr name])
      else and_then (wrapf (\<lambda>e. Errorf ''deriving public key: %w'' [AErr e])
                       (plugin_publicKeyHex B skHex)) (\<lambda>pkHex.
           Inr (RespData [(''public_key'', pkHex)]))))"

definition doSign ::
  "('p1, 'p2) blst \<Rightarrow> vstorage \<Rightarrow> string \<Rightarrow> string \<Rightarrow> string \<Rightarrow> response result" where
  "doSign B st name msgHex dstHex =
     and_then (loadKey st name) (\<lambda>skHex.
     if skHex = [] then Inr (ErrorResponse ''key %q not found'' [AStr name])
     else and_then (wrapf (\<lambda>e. Errorf ''signing: %w'' [AErr e]) (plugin_sign B skHex msgHex dstHex)) (\<lambda>sigHex.
          Inr (RespData [(''signature'', sigHex)])))"

definition handleSign :: "('p1, 'p2) blst \<Rightarrow> vstorage \<Rightarrow> field_data \<Rightarrow> response result" where
  "handleSign B st d =
     (case fd_message d of
        None \<Rightarrow> Inr (ErrorResponse ''message is required'' [])
      | Some msgHex \<Rightarrow>
          (let dst = (case fd_dst d of Some v \<Rightarrow> v | None \<Rightarrow> plugin_dstSign)
           in doSign B st (fd_name d) msgHex dst))"

definition handleSignPoP :: "('p1, 'p2) blst \<Rightarrow> vstorage \<Rightarrow> field_data \<Rightarrow> response result" where
  "handleSignPoP B st d =
     (case fd_message d of
        None \<Rightarrow> Inr (ErrorResponse ''message is required'' [])
      | Some msgHex \<Rightarrow> doSign B st (fd_name d) msgHex plugin_dstPopProve)"

text \<open>The table of paths: an endpoint per pattern \<open>keys/<name>/<endpoint>\<close>, each with its handler.\<close>

datatype endpoint = Generate | Import | PublicKeyRead | SignEp | SignPopEp

fun endpoint_suffix :: "endpoint \<Rightarrow> string" where
  "endpoint_suffix Generate = ''generate''"
| "endpoint_suffix Import = ''import''"
| "endpoint_suffix PublicKeyRead = ''public-key''"
| "endpoint_suffix SignEp = ''sign''"
| "endpoint_suffix SignPopEp = ''sign-pop''"

text \<open>
  The framework asks the path's existence check whether a write creates or updates, and calls the
  handler registered for that operation; both operations of a write path have the same handler, and
  the public key is only read.
\<close>

datatype operation = CreateOperation | UpdateOperation | ReadOperation

fun write_operation :: "vstorage \<Rightarrow> endpoint \<Rightarrow> field_data \<Rightarrow> operation result" where
  "write_operation st PublicKeyRead d = Inr UpdateOperation"
| "write_operation st Generate d =
     and_then (keyDoesNotExist st d) (\<lambda>ex. Inr (if ex then UpdateOperation else CreateOperation))"
| "write_operation st Import d =
     and_then (keyDoesNotExist st d) (\<lambda>ex. Inr (if ex then UpdateOperation else CreateOperation))"
| "write_operation st SignEp d =
     and_then (keyExists st d) (\<lambda>ex. Inr (if ex then UpdateOperation else CreateOperation))"
| "write_operation st SignPopEp d =
     and_then (keyExists st d) (\<lambda>ex. Inr (if ex then UpdateOperation else CreateOperation))"

definition err_unsupported_operation :: goerr where
  "err_unsupported_operation = Ext ''unsupported operation''"

fun plugin_handle ::
  "('p1, 'p2) blst \<Rightarrow> bytes result \<Rightarrow> vstorage \<Rightarrow> endpoint \<Rightarrow> operation \<Rightarrow> field_data \<Rightarrow>
    vstorage \<times> response result" where
  "plugin_handle B rnd st PublicKeyRead ReadOperation d = (st, handlePublicKey B st d)"
| "plugin_handle B rnd st PublicKeyRead _ d = (st, Inl err_unsupported_operation)"
| "plugin_handle B rnd st _ ReadOperation d = (st, Inl err_unsupported_operation)"
| "plugin_handle B rnd st Generate _ d = handleGenerate B rnd st d"
| "plugin_handle B rnd st Import _ d = handleImport B st d"
| "plugin_handle B rnd st SignEp _ d = (st, handleSign B st d)"
| "plugin_handle B rnd st SignPopEp _ d = (st, handleSignPoP B st d)"

definition plugin_write ::
  "('p1, 'p2) blst \<Rightarrow> bytes result \<Rightarrow> vstorage \<Rightarrow> endpoint \<Rightarrow> field_data \<Rightarrow> vstorage \<times> response result" where
  "plugin_write B rnd st ep d =
     (case write_operation st ep d of Inl e \<Rightarrow> (st, Inl e) | Inr op \<Rightarrow> plugin_handle B rnd st ep op d)"

definition plugin_read ::
  "('p1, 'p2) blst \<Rightarrow> vstorage \<Rightarrow> endpoint \<Rightarrow> field_data \<Rightarrow> response result" where
  "plugin_read B st ep d = snd (plugin_handle B (Inl err_unsupported_operation) st ep ReadOperation d)"

lemmas plugin_defs [op_defs] = handleGenerate_def handleImport_def handlePublicKey_def doSign_def
  handleSign_def handleSignPoP_def store_key_def loadKey_def storage_Get_def storage_Put_def

end
