(* ===== verification/Vault_Paths.thy ===== *)
theory Vault_Paths
  imports Vault_Plugin
begin

text \<open>
  The plugin as it is registered with Vault (\<open>vault-plugin/main.go\<close>, \<open>backend.go\<close> and the path tables of
  \<open>path_keys.go\<close> and \<open>path_sign.go\<close>). The framework that dispatches over the tables is outside the
  repository; what is relied on is that it calls the operation registered for a request, with the fields the
  path declares and the path's existence check deciding between create and update.
\<close>

section \<open>The tables\<close>

type_synonym callback = "vstorage \<Rightarrow> field_data \<Rightarrow> vstorage \<times> response result"

text \<open>
  A pattern is a text, the group for the key's name, and a text. Descriptions and help texts are left out.
\<close>

record plugin_path =
  pp_Pattern :: "string \<times> string"
  pp_Fields :: "string list"
  pp_ExistenceCheck :: "(vstorage \<Rightarrow> field_data \<Rightarrow> bool result) option"
  pp_Operations :: "(operation \<times> callback) list"

definition reading :: "(vstorage \<Rightarrow> field_data \<Rightarrow> response result) \<Rightarrow> callback" where
  "reading h st d = (st, h st d)"

definition pathKeys :: "('p1, 'p2) blst \<Rightarrow> bytes result \<Rightarrow> plugin_path list" where
  "pathKeys B rnd =
    [\<lparr>pp_Pattern = (''keys/'', ''/generate''), pp_Fields = [''name''],
      pp_ExistenceCheck = Some keyDoesNotExist,
      pp_Operations = [(CreateOperation, handleGenerate B rnd), (UpdateOperation, handleGenerate B rnd)]\<rparr>,
     \<lparr>pp_Pattern = (''keys/'', ''/import''), pp_Fields = [''name'', ''key''],
      pp_ExistenceCheck = Some keyDoesNotExist,
      pp_Operations = [(CreateOperation, handleImport B), (UpdateOperation, handleImport B)]\<rparr>,
     \<lparr>pp_Pattern = (''keys/'', ''/public-key''), pp_Fields = [''name''],
      pp_ExistenceCheck = None,
      pp_Operations = [(ReadOperation, reading (handlePublicKey B))]\<rparr>]"

definition pathSign :: "('p1, 'p2) blst \<Rightarrow> plugin_path list" where
  "pathSign B =
    [\<lparr>pp_Pattern = (''keys/'', ''/sign''), pp_Fields = [''name'', ''message'', ''dst''],
      pp_ExistenceCheck = Some keyExists,
      pp_Operations = [(CreateOperation, reading (handleSign B)), (UpdateOperation, reading (handleSign B))]\<rparr>,
     \<lparr>pp_Pattern = (''keys/'', ''/sign-pop''), pp_Fields = [''name'', ''message''],
      pp_ExistenceCheck = Some keyExists,
      pp_Operations = [(CreateOperation, reading (handleSignPoP B)), (UpdateOperation, reading (handleSignPoP B))]\<rparr>]"

text \<open>The factory: \<open>setup_err\<close> is what the framework's \<open>Setup\<close> returned.\<close>

definition Factory :: "('p1, 'p2) blst \<Rightarrow> bytes result \<Rightarrow> goerr option \<Rightarrow> plugin_path list result" where
  "Factory B rnd setup_err =
     (case setup_err of
        Some e \<Rightarrow> Inl (Errorf ''setup: %w'' [AErr e])
      | None \<Rightarrow> Inr (pathKeys B rnd @ pathSign B))"

definition plugin_main :: "goerr option \<Rightarrow> int" where
  "plugin_main served = (case served of Some _ \<Rightarrow> 1 | None \<Rightarrow> 0)"

section \<open>Dispatch over the tables\<close>

text \<open>The path of an endpoint, the fields a handler gets to see, and the operations of a request.\<close>

definition path_for :: "plugin_path list \<Rightarrow> endpoint \<Rightarrow> plugin_path option" where
  "path_for ps ep = find (\<lambda>p. pp_Pattern p = (storageKeyPrefix, CHR ''/'' # endpoint_suffix ep)) ps"

definition declared :: "plugin_path \<Rightarrow> field_data \<Rightarrow> field_data" where
  "declared p d =
     (let keep = (\<lambda>f v. if f \<in> set (pp_Fields p) then v else None)
      in d\<lparr>fd_key := keep ''key'' (fd_key d), fd_message := keep ''message'' (fd_message d),
           fd_dst := keep ''dst'' (fd_dst d)\<rparr>)"

definition run_operation :: "plugin_path \<Rightarrow> operation \<Rightarrow> callback" where
  "run_operation p op st d =
     (case map_of (pp_Operations p) op of
        Some h \<Rightarrow> h st (declared p d)
      | None \<Rightarrow> (st, Inl err_unsupported_operation))"

definition written_as :: "plugin_path \<Rightarrow> vstorage \<Rightarrow> field_data \<Rightarrow> operation result" where
  "written_as p st d =
     (case pp_ExistenceCheck p of
        None \<Rightarrow> Inr UpdateOperation
      | Some chk \<Rightarrow> and_then (chk st (declared p d)) (\<lambda>ex. Inr (if ex then UpdateOperation else CreateOperation)))"

named_theorems path_defs "the tables and the dispatch over them"
declare pathKeys_def [path_defs] pathSign_def [path_defs] path_for_def [path_defs] declared_def [path_defs]
  run_operation_def [path_defs] written_as_def [path_defs] reading_def [path_defs] storageKeyPrefix_def [path_defs]

lemma handlers_declared [path_defs]:
  "handleGenerate B rnd st (d\<lparr>fd_key := k, fd_message := m, fd_dst := t\<rparr>) = handleGenerate B rnd st d"
  "handleImport B st (d\<lparr>fd_message := m, fd_dst := t\<rparr>) = handleImport B st d"
  "handlePublicKey B st (d\<lparr>fd_key := k, fd_message := m, fd_dst := t\<rparr>) = handlePublicKey B st d"
  "handleSign B st (d\<lparr>fd_key := k\<rparr>) = handleSign B st d"
  "handleSignPoP B st (d\<lparr>fd_key := k, fd_dst := t\<rparr>) = handleSignPoP B st d"
  by (simp_all add: handleGenerate_def handleImport_def handlePublicKey_def handleSign_def handleSignPoP_def
      split: option.split)

text \<open>
  C38. The registered tables are the plugin: once the framework is set up, every endpoint has its one path in
  the tables, and running an operation through the path, with only the fields the path declares, is running
  the handler of the endpoint, creating or updating as its existence check says. No handler depends on a
  field its path does not declare, and an operation without an entry is refused.
\<close>

theorem Factory_dispatch:
  "case Factory B rnd setup_err of
     Inl e \<Rightarrow> \<exists>e0. setup_err = Some e0 \<and> e = Errorf ''setup: %w'' [AErr e0]
   | Inr ps \<Rightarrow> (\<exists>p. path_for ps ep = Some p
       \<and> [q \<leftarrow> ps. pp_Pattern q = pp_Pattern p] = [p]
       \<and> run_operation p op st d = plugin_handle B rnd st ep op d
       \<and> written_as p st d = write_operation st ep d)"
proof (cases setup_err)
  case None
  then show ?thesis
    by (cases ep; cases op) (simp_all add: Factory_def path_defs keyExists_def keyDoesNotExist_def Let_def)
qed (simp add: Factory_def)

end
