(* ===== verification/Vault_Plugin_Inv.thy ===== *)
theory Vault_Plugin_Inv
  imports Vault_Plugin
begin

text \<open>
  What the plugin guarantees: every stored entry is a valid key, a stored key never changes when
  requests run one after the other, and the answers are the reference public key and signatures. The
  last section runs two generate requests interleaved, at the grain of their storage calls.
\<close>

section \<open>The storage invariant\<close>

definition stored_key :: "vstorage \<Rightarrow> string \<Rightarrow> nat \<Rightarrow> bool" where
  "stored_key st name sk \<longleftrightarrow> (\<exists>v. st_entries st (entry_key name) = Some v \<and> hex_key (string_of v) sk)"

definition plugin_inv :: "vstorage \<Rightarrow> bool" where
  "plugin_inv st \<longleftrightarrow> (\<forall>k v. st_entries st k = Some v \<longrightarrow> (\<exists>sk. hex_key (string_of v) sk))"

lemma plugin_inv_empty: "st_entries st = Map.empty \<Longrightarrow> plugin_inv st"
  by (simp add: plugin_inv_def)

lemma stored_key_unique: "stored_key st n sk \<Longrightarrow> stored_key st n sk' \<Longrightarrow> sk = sk'"
  by (auto simp: stored_key_def dest: hex_key_unique)

text \<open>
  A storage step either leaves the entries alone or adds one new entry, which is a key.
\<close>

definition adds_key :: "vstorage \<Rightarrow> vstorage \<Rightarrow> string \<Rightarrow> string \<Rightarrow> bool" where
  "adds_key st st' name skHex \<longleftrightarrow>
     st_entries st (entry_key name) = None \<and> (\<exists>sk. hex_key skHex sk)
     \<and> st' = st\<lparr>st_entries := (st_entries st)(entry_key name \<mapsto> bytes_of skHex)\<rparr>"

lemma store_key_cases:
  "store_key st name skHex pkHex = (st', r) \<Longrightarrow>
     (st' = st \<and> (\<exists>e. r = Inl e)) \<or>
     (st' = st\<lparr>st_entries := (st_entries st)(entry_key name \<mapsto> bytes_of skHex)\<rparr>
      \<and> r = Inr (RespData [(''name'', name), (''public_key'', pkHex)]))"
  by (auto simp: store_key_def storage_Put_def split: option.splits)

lemma Get_None: "storage_Get st k = Inr None \<Longrightarrow> st_entries st k = None"
  by (simp add: storage_Get_def result_simps)

lemma handleGenerate_cases:
  assumes "keygen_valid B" "handleGenerate B rnd st d = (st', r)"
  shows "(st' = st \<and> (\<forall>xs. r \<noteq> Inr (RespData xs)))
    \<or> (\<exists>r0 sk. rnd = Inr r0 \<and> sk = c_keygen B (fill_buffer 32 r0) \<and> scalar_ok sk
        \<and> adds_key st st' (fd_name d) (hex_EncodeToString (Scalar_Serialize sk))
        \<and> r = Inr (RespData [(''name'', fd_name d), (''public_key'', hex_EncodeToString (bls_pk B sk))]))"
proof (cases "storage_Get st (entry_key (fd_name d))")
  case (Inl e)
  with assms show ?thesis by (auto simp: handleGenerate_def Let_def)
next
  case (Inr entry)
  show ?thesis
  proof (cases entry)
    case (Some v)
    with Inr assms show ?thesis by (auto simp: handleGenerate_def Let_def)
  next
    case None
    show ?thesis
    proof (cases "plugin_generateKey B rnd")
      case (Inl e)
      with None Inr assms show ?thesis by (auto simp: handleGenerate_def Let_def)
    next
      case gen: (Inr skHex)
      from generateKey_Inr [OF assms(1) gen] obtain r0 sk where key: "rnd = Inr r0"
        "sk = c_keygen B (fill_buffer 32 r0)" "hex_key skHex sk"
        "skHex = hex_EncodeToString (Scalar_Serialize sk)" by blast
      with None Inr gen assms(2)
      have "store_key st (fd_name d) skHex (hex_EncodeToString (bls_pk B sk)) = (st', r)"
        by (simp add: handleGenerate_def Let_def)
      from store_key_cases [OF this] key Get_None [of st "entry_key (fd_name d)"] Inr None
      show ?thesis
        by (auto simp: adds_key_def hex_key_def)
    qed
  qed
qed

lemma handleImport_cases:
  assumes "handleImport B st d = (st', r)"
  shows "(st' = st \<and> (\<forall>xs. r \<noteq> Inr (RespData xs)))
    \<or> (\<exists>skHex sk. fd_key d = Some skHex \<and> hex_key skHex sk \<and> adds_key st st' (fd_name d) skHex
        \<and> r = Inr (RespData [(''name'', fd_name d), (''public_key'', hex_EncodeToString (bls_pk B sk))]))"
proof (cases "fd_key d")
  case None
  with assms show ?thesis by (auto simp: handleImport_def Let_def)
next
  case (Some skHex)
  show ?thesis
  proof (cases "plugin_publicKeyHex B skHex")
    case (Inl e)
    with Some assms show ?thesis by (auto simp: handleImport_def Let_def split: if_splits)
  next
    case (Inr pkHex)
    then obtain sk where key: "hex_key skHex sk" "pkHex = hex_EncodeToString (bls_pk B sk)"
      by (auto simp: result_simps)
    show ?thesis
    proof (cases "storage_Get st (entry_key (fd_name d)) = Inr None")
      case True
      with Some Inr key hex_key_length [OF key(1)] assms
      have "store_key st (fd_name d) skHex pkHex = (st', r)"
        by (simp add: handleImport_def Let_def)
      from store_key_cases [OF this] key Some Get_None [OF True] show ?thesis
        by (auto simp: adds_key_def)
    next
      case False
      with Some Inr assms show ?thesis
        by (auto simp: handleImport_def Let_def split: if_splits sum.splits option.splits)
    qed
  qed
qed

lemma plugin_write_cases:
  assumes "keygen_valid B" "plugin_write B rnd st ep d = (st', r)"
  shows "st' = st \<or> (\<exists>skHex. adds_key st st' (fd_name d) skHex)"
proof (cases "write_operation st ep d")
  case (Inl e)
  with assms show ?thesis by (simp add: plugin_write_def)
next
  case (Inr op)
  with assms(2) have h: "plugin_handle B rnd st ep op d = (st', r)"
    by (simp add: plugin_write_def)
  show ?thesis
  proof (cases ep)
    case Generate
    with h show ?thesis
      by (cases op) (auto dest!: handleGenerate_cases [OF assms(1)])
  next
    case Import
    with h show ?thesis
      by (cases op) (auto dest!: handleImport_cases)
  qed (use h in \<open>cases op; simp\<close>)+
qed

lemma adds_key_inv: "adds_key st st' n skHex \<Longrightarrow> plugin_inv st \<Longrightarrow> plugin_inv st'"
  by (auto simp: adds_key_def plugin_inv_def)

lemma adds_key_keeps: "adds_key st st' n skHex \<Longrightarrow> stored_key st m sk \<Longrightarrow> stored_key st' m sk"
  by (auto simp: adds_key_def stored_key_def)

section \<open>Requests one after the other\<close>

record vault_request =
  rq_endpoint :: endpoint
  rq_data :: field_data
  rq_random :: "bytes result"

fun run_requests :: "('p1, 'p2) blst \<Rightarrow> vstorage \<Rightarrow> vault_request list \<Rightarrow> vstorage" where
  "run_requests B st [] = st"
| "run_requests B st (q # qs) =
     run_requests B (fst (plugin_write B (rq_random q) st (rq_endpoint q) (rq_data q))) qs"

lemma run_requests_inv:
  assumes "keygen_valid B"
  shows "plugin_inv st \<Longrightarrow> plugin_inv (run_requests B st qs)"
proof (induction qs arbitrary: st)
  case (Cons q qs)
  obtain st' r where w: "plugin_write B (rq_random q) st (rq_endpoint q) (rq_data q) = (st', r)"
    by fastforce
  from plugin_write_cases [OF assms w] Cons.prems have "plugin_inv st'"
    by (auto intro: adds_key_inv)
  with w Cons.IH show ?case by simp
qed simp

lemma run_requests_keeps:
  assumes "keygen_valid B"
  shows "stored_key st name sk \<Longrightarrow> stored_key (run_requests B st qs) name sk"
proof (induction qs arbitrary: st)
  case (Cons q qs)
  obtain st' r where w: "plugin_write B (rq_random q) st (rq_endpoint q) (rq_data q) = (st', r)"
    by fastforce
  from plugin_write_cases [OF assms w] Cons.prems have "stored_key st' name sk"
    by (auto intro: adds_key_keeps)
  with w Cons.IH show ?case by simp
qed simp

section \<open>Answers\<close>

lemma loadKey_stored:
  "stored_key st name sk \<Longrightarrow> st_get_err st (entry_key name) = None \<Longrightarrow>
     \<exists>skHex. loadKey st name = Inr skHex \<and> hex_key skHex sk \<and> skHex \<noteq> []"
  using hex_key_length by (fastforce simp: stored_key_def loadKey_def storage_Get_def)

lemma handlePublicKey_stored:
  assumes "stored_key st (fd_name d) sk" "st_get_err st (entry_key (fd_name d)) = None"
  shows "handlePublicKey B st d = Inr (RespData [(''public_key'', hex_EncodeToString (bls_pk B sk))])"
  using loadKey_stored [OF assms] by (auto simp: handlePublicKey_def Let_def)

lemma doSign_stored:
  assumes "stored_key st name sk" "st_get_err st (entry_key name) = None"
  shows "doSign B st name (hex_EncodeToString msg) (hex_EncodeToString dst) =
     Inr (RespData [(''signature'', hex_EncodeToString (bls_sig B sk msg dst))])"
  using loadKey_stored [OF assms] by (auto simp: doSign_def)

lemma handleSign_stored:
  assumes "stored_key st (fd_name d) sk" "st_get_err st (entry_key (fd_name d)) = None"
    and "fd_message d = Some (hex_EncodeToString msg)"
    and "fd_dst d = map_option hex_EncodeToString dst"
  shows "handleSign B st d = Inr (RespData [(''signature'',
     hex_EncodeToString (bls_sig B sk msg (case dst of Some t \<Rightarrow> t | None \<Rightarrow> DSTSign)))])"
  using assms by (cases dst) (simp_all add: handleSign_def doSign_stored)

lemma handleSignPoP_stored:
  assumes "stored_key st (fd_name d) sk" "st_get_err st (entry_key (fd_name d)) = None"
    and "fd_message d = Some (hex_EncodeToString msg)"
  shows "handleSignPoP B st d = Inr (RespData [(''signature'', hex_EncodeToString (bls_sig B sk msg DSTPoP))])"
  using assms by (simp add: handleSignPoP_def doSign_stored)

section \<open>Generate requests interleaved\<close>

text \<open>
  Vault serves requests concurrently, and nothing in the plugin orders the storage read of one
  \<open>handleGenerate\<close> against the storage write of another. A request in flight is \<open>Arrived\<close> before its
  read, \<open>Checked\<close> between the read and the write, \<open>Answered\<close> after; \<open>generate_step\<close> takes it one storage
  call further.
\<close>

datatype generate_pc = Arrived | Checked string string | Answered "response result"

fun generate_step ::
  "('p1, 'p2) blst \<Rightarrow> bytes result \<Rightarrow> string \<Rightarrow> vstorage \<Rightarrow> generate_pc \<Rightarrow> vstorage \<times> generate_pc" where
  "generate_step B rnd name st Arrived =
     (st, case storage_Get st (entry_key name) of
        Inl e \<Rightarrow> Answered (Inl (Errorf ''storage read: %w'' [AErr e]))
      | Inr (Some _) \<Rightarrow> Answered (Inr (ErrorResponse
            (''key %q already exists '' @ dash @ '' delete it first to regenerate'') [AStr name]))
      | Inr None \<Rightarrow>
         (case plugin_generateKey B rnd of
            Inl e \<Rightarrow> Answered (Inl (Errorf ''generating key: %w'' [AErr e]))
          | Inr skHex \<Rightarrow>
             (case plugin_publicKeyHex B skHex of
                Inl e \<Rightarrow> Answered (Inl (Errorf ''deriving public key: %w'' [AErr e]))
              | Inr pkHex \<Rightarrow> Checked skHex pkHex)))"
| "generate_step B rnd name st (Checked skHex pkHex) =
     (let (st', r) = store_key st name skHex pkHex in (st', Answered r))"
| "generate_step B rnd name st (Answered r) = (st, Answered r)"

declare generate_step.simps(1) [simp del]

lemma hex_key_encode_iff:
  "scalar_ok sk \<Longrightarrow> hex_key (hex_EncodeToString (Scalar_Serialize sk)) sk' \<longleftrightarrow> sk' = sk"
  by (auto dest: hex_key_unique [OF hex_key_encode])

text \<open>
  Two requests for the same name under a schedule: \<open>True\<close> lets the first take a step, \<open>False\<close> the
  second.
\<close>

fun run_race ::
  "('p1, 'p2) blst \<Rightarrow> bytes result \<times> bytes result \<Rightarrow> string \<Rightarrow> bool list \<Rightarrow>
    vstorage \<times> generate_pc \<times> generate_pc \<Rightarrow> vstorage \<times> generate_pc \<times> generate_pc" where
  "run_race B rnds name [] s = s"
| "run_race B rnds name (True # sched) (st, p, q) =
     (let (st', p') = generate_step B (fst rnds) name st p in run_race B rnds name sched (st', p', q))"
| "run_race B rnds name (False # sched) (st, p, q) =
     (let (st', q') = generate_step B (snd rnds) name st q in run_race B rnds name sched (st', p, q'))"

definition generated :: "('p1, 'p2) blst \<Rightarrow> string \<Rightarrow> nat \<Rightarrow> generate_pc" where
  "generated B name sk = Answered (Inr (RespData
     [(''name'', name), (''public_key'', hex_EncodeToString (bls_pk B sk))]))"

lemma generate_step_check:
  assumes "keygen_valid B" "st_get_err st (entry_key name) = None" "st_entries st (entry_key name) = None"
  shows "generate_step B (Inr r) name st Arrived =
    (let sk = c_keygen B (fill_buffer 32 r)
     in (st, Checked (hex_EncodeToString (Scalar_Serialize sk)) (hex_EncodeToString (bls_pk B sk))))"
proof -
  have "scalar_ok (c_keygen B (fill_buffer 32 r))"
    using assms(1) by (simp add: keygen_valid_def)
  with assms(2,3) show ?thesis
    by (simp add: generate_step.simps(1) storage_Get_def plugin_generateKey_def blst_KeyGen_def Let_def
        publicKeyHex_key [OF hex_key_encode])
qed

lemma store_key_ok:
  "st_put_err st (entry_key name) = None \<Longrightarrow>
     store_key st name skHex pkHex =
       (st\<lparr>st_entries := (st_entries st)(entry_key name \<mapsto> bytes_of skHex)\<rparr>,
        Inr (RespData [(''name'', name), (''public_key'', pkHex)]))"
  by (simp add: store_key_def storage_Put_def)

definition no_faults :: "vstorage \<Rightarrow> string \<Rightarrow> bool" where
  "no_faults st name \<longleftrightarrow> st_get_err st (entry_key name) = None \<and> st_put_err st (entry_key name) = None"

section \<open>Properties\<close>

definition empty_storage :: vstorage where
  "empty_storage = \<lparr>st_entries = Map.empty, st_get_err = (\<lambda>_. None), st_put_err = (\<lambda>_. None)\<rparr>"

text \<open>
  C9. Under any sequence of requests, with any storage faults, every entry of the plugin's storage is a
  valid key, and the key stored under a name is never replaced.
\<close>

theorem plugin_requests_safe:
  assumes "keygen_valid B" "plugin_inv st"
  shows "plugin_inv (run_requests B st qs)
    \<and> (\<forall>name sk. stored_key st name sk \<longrightarrow> stored_key (run_requests B st qs) name sk)"
  using run_requests_inv [OF assms] run_requests_keeps [OF assms(1)] by blast

lemma plugin_requests_safe_witness:
  "plugin_inv (run_requests toy_blst empty_storage
     [\<lparr>rq_endpoint = Generate, rq_data = \<lparr>fd_name = ''a'', fd_key = None, fd_message = None, fd_dst = None\<rparr>,
        rq_random = Inr [7]\<rparr>])"
proof -
  have "plugin_inv empty_storage"
    by (simp add: plugin_inv_def empty_storage_def)
  from plugin_requests_safe [OF keygen_valid_toy this] show ?thesis by blast
qed

lemma adds_key_stores:
  "adds_key st st' name skHex \<Longrightarrow> hex_key skHex sk \<Longrightarrow> stored_key st' name sk"
  by (simp add: adds_key_def stored_key_def)

lemma adds_key_fresh: "adds_key st st' name skHex \<Longrightarrow> \<not> stored_key st name sk"
  by (simp add: adds_key_def stored_key_def)

text \<open>
  An acknowledged key is a usable key: when a generate request is answered with data, the answer
  is the name and the public key of the new scalar, that scalar is stored under the name which had
  none, and from then on reading the public key and signing answer with this scalar's reference values
  as long as the storage can be read.
\<close>

lemma generate_acknowledged:
  assumes "keygen_valid B" "handleGenerate B rnd st d = (st', Inr (RespData xs))"
  shows "\<exists>sk. (\<forall>sk'. \<not> stored_key st (fd_name d) sk') \<and> stored_key st' (fd_name d) sk
    \<and> xs = [(''name'', fd_name d), (''public_key'', hex_EncodeToString (bls_pk B sk))]"
proof -
  from handleGenerate_cases [OF assms] obtain sk where "scalar_ok sk"
    "adds_key st st' (fd_name d) (hex_EncodeToString (Scalar_Serialize sk))"
    "xs = [(''name'', fd_name d), (''public_key'', hex_EncodeToString (bls_pk B sk))]"
    by auto
  then show ?thesis
    by (intro exI [of _ sk]) (auto intro: adds_key_stores dest: adds_key_fresh)
qed

definition test_request :: "string option \<Rightarrow> string option \<Rightarrow> field_data" where
  "test_request key msg = \<lparr>fd_name = ''validator'', fd_key = key, fd_message = msg, fd_dst = None\<rparr>"

lemma handleGenerate_empty:
  assumes "keygen_valid B" "no_faults st (fd_name d)" "st_entries st (entry_key (fd_name d)) = None"
  shows "handleGenerate B (Inr r) st d =
    (let sk = c_keygen B (fill_buffer 32 r)
     in (st\<lparr>st_entries := (st_entries st)(entry_key (fd_name d) \<mapsto>
            bytes_of (hex_EncodeToString (Scalar_Serialize sk)))\<rparr>,
         Inr (RespData [(''name'', fd_name d), (''public_key'', hex_EncodeToString (bls_pk B sk))])))"
proof -
  have "scalar_ok (c_keygen B (fill_buffer 32 r))"
    using assms(1) by (simp add: keygen_valid_def)
  with assms(2,3) show ?thesis
    by (simp add: handleGenerate_def storage_Get_def plugin_generateKey_def blst_KeyGen_def Let_def
        publicKeyHex_key [OF hex_key_encode] store_key_ok no_faults_def)
qed

lemma no_faults_empty [simp]: "no_faults empty_storage name" "st_entries empty_storage = Map.empty"
  by (simp_all add: no_faults_def empty_storage_def)

text \<open>
  Importing: the stored entry changes only when the request is answered with data; then the given
  text was the hex form of a valid scalar, the name had no key before and has this scalar's now, and
  the answer carries its public key.
\<close>

lemma import_acknowledged:
  "handleImport B st d = (st', r) \<Longrightarrow>
    (case r of Inr (RespData xs) \<Rightarrow>
       (\<exists>skHex sk. fd_key d = Some skHex \<and> hex_key skHex sk \<and> (\<forall>sk'. \<not> stored_key st (fd_name d) sk')
          \<and> stored_key st' (fd_name d) sk
          \<and> xs = [(''name'', fd_name d), (''public_key'', hex_EncodeToString (bls_pk B sk))])
     | _ \<Rightarrow> st' = st)"
  by (drule handleImport_cases)
    (auto intro: adds_key_stores dest: adds_key_fresh split: sum.splits response.splits)

lemma handleImport_empty:
  assumes "hex_key skHex sk" "fd_key d = Some skHex"
    and "no_faults st (fd_name d)" "st_entries st (entry_key (fd_name d)) = None"
  shows "handleImport B st d =
    (st\<lparr>st_entries := (st_entries st)(entry_key (fd_name d) \<mapsto> bytes_of skHex)\<rparr>,
     Inr (RespData [(''name'', fd_name d), (''public_key'', hex_EncodeToString (bls_pk B sk))]))"
  using assms
  by (simp add: handleImport_def storage_Get_def Let_def hex_key_length publicKeyHex_key [OF assms(1)]
      store_key_ok no_faults_def)

lemma scalar_ok_5 [simp]: "scalar_ok 5"
  by (simp add: scalar_ok_def curve_r_def)

definition test_storage :: vstorage where
  "test_storage = empty_storage\<lparr>st_entries :=
     [entry_key ''validator'' \<mapsto> bytes_of (hex_EncodeToString (Scalar_Serialize 5))]\<rparr>"

text \<open>
  The endpoints of a stored key: as long as the storage can be read, signing answers with the
  reference signature under the given separation tag or, without one, the Warp tag; a proof of
  possession is signed under its own tag whatever the caller sends; and the public key is the stored
  scalar's.
\<close>

lemma plugin_signs:
  assumes "stored_key st (fd_name d) sk" "st_get_err st (entry_key (fd_name d)) = None"
    and "fd_message d = Some (hex_EncodeToString msg)" "fd_dst d = map_option hex_EncodeToString dst"
  shows "snd (plugin_write B rnd st SignEp d) = Inr (RespData [(''signature'',
      hex_EncodeToString (bls_sig B sk msg (case dst of Some t \<Rightarrow> t | None \<Rightarrow> DSTSign)))])
    \<and> snd (plugin_write B rnd st SignPopEp d) = Inr (RespData [(''signature'',
      hex_EncodeToString (bls_sig B sk msg DSTPoP))])
    \<and> plugin_read B st PublicKeyRead d = Inr (RespData [(''public_key'', hex_EncodeToString (bls_pk B sk))])"
  using assms
  by (simp add: plugin_write_def plugin_read_def keyExists_def storage_Get_def handleSign_stored
      handleSignPoP_stored handlePublicKey_stored)

text \<open>
  The existence check of the generate and import paths is the check of the signing paths, so a write to a
  name that has a key is an update for all of them.
\<close>

lemma keyDoesNotExist_is_keyExists: "keyDoesNotExist st d = keyExists st d"
  by (simp add: keyDoesNotExist_def keyExists_def)

text \<open>
  C27. The race of two generate requests for one name: when both read the storage before either
  writes, both are answered with success and their own public key, and the storage keeps the second
  key only. The first caller was acknowledged a key that no longer exists.
\<close>

theorem generate_race:
  assumes "keygen_valid B" "no_faults st name" "st_entries st (entry_key name) = None"
    and "sk1 = c_keygen B (fill_buffer 32 r1)" "sk2 = c_keygen B (fill_buffer 32 r2)" "sk1 \<noteq> sk2"
  shows "\<exists>st'. run_race B (Inr r1, Inr r2) name [True, False, True, False] (st, Arrived, Arrived)
        = (st', generated B name sk1, generated B name sk2)
      \<and> stored_key st' name sk2 \<and> \<not> stored_key st' name sk1"
proof -
  have "scalar_ok (c_keygen B (fill_buffer 32 r))" for r
    using assms(1) by (simp add: keygen_valid_def)
  with assms show ?thesis
    by (simp add: no_faults_def generate_step_check Let_def store_key_ok generated_def stored_key_def
        hex_key_encode_iff)
qed

lemma generate_race_witness:
  "\<exists>st'. run_race toy_blst (Inr [1], Inr [2]) ''validator'' [True, False, True, False]
        (empty_storage, Arrived, Arrived)
      = (st', generated toy_blst ''validator'' 2, generated toy_blst ''validator'' 3)
    \<and> \<not> stored_key st' ''validator'' 2"
proof -
  have k: "2 = c_keygen toy_blst (fill_buffer 32 [1])" "3 = c_keygen toy_blst (fill_buffer 32 [2])"
    by (simp_all add: toy_blst_def fill_buffer_def)
  show ?thesis
    using generate_race [OF keygen_valid_toy, of empty_storage "''validator''", OF _ _ k] by auto
qed

text \<open>
  Without interference there is no race: the two storage steps of a generate request run one after
  the other are the handler.
\<close>

lemma generate_steps_refine:
  "(case generate_step B rnd (fd_name d) st Arrived of
      (st1, pc1) \<Rightarrow> generate_step B rnd (fd_name d) st1 pc1)
   = (case handleGenerate B rnd st d of (st', r) \<Rightarrow> (st', Answered r))"
  by (auto simp: handleGenerate_def generate_step.simps(1) Let_def split: sum.splits option.splits prod.splits)

end
