(* ===== verification/Vault_Plugin_Conc.thy ===== *)
theory Vault_Plugin_Conc
  imports Vault_Plugin_Inv
begin

text \<open>
  The plugin under concurrent requests: any number of generate and import requests in flight, each taken one
  storage call further at a time, in any order, while storage faults come and go. Theory \<open>Vault_Plugin_Inv\<close>
  shows that two of them for one name can lose a key; here it is shown that nothing else can go wrong.
\<close>

section \<open>Requests in flight\<close>

text \<open>\<open>handleImport\<close> at the grain of its storage calls; \<open>handleGenerate\<close> is \<open>generate_step\<close>.\<close>

fun import_step ::
  "('p1, 'p2) blst \<Rightarrow> string option \<Rightarrow> string \<Rightarrow> vstorage \<Rightarrow> generate_pc \<Rightarrow> vstorage \<times> generate_pc" where
  "import_step B key name st Arrived =
     (st, case key of
        None \<Rightarrow> Answered (Inr (ErrorResponse ''key is required'' []))
      | Some skHex \<Rightarrow>
         (if length skHex \<noteq> 64
          then Answered (Inr (ErrorResponse ''key must be a 64-character hex string (32 bytes)'' []))
          else case plugin_publicKeyHex B skHex of
            Inl e \<Rightarrow> Answered (Inl (Errorf ''invalid BLS key: %w'' [AErr e]))
          | Inr pkHex \<Rightarrow>
             (case storage_Get st (entry_key name) of
                Inl e \<Rightarrow> Answered (Inl (Errorf ''storage read: %w'' [AErr e]))
              | Inr (Some _) \<Rightarrow> Answered (Inr (ErrorResponse
                    (''key %q already exists '' @ dash @ '' delete it first to overwrite'') [AStr name]))
              | Inr None \<Rightarrow> Checked skHex pkHex)))"
| "import_step B key name st (Checked skHex pkHex) =
     (let (st', r) = store_key st name skHex pkHex in (st', Answered r))"
| "import_step B key name st (Answered r) = (st, Answered r)"

declare import_step.simps(1) [simp del]

datatype create_kind = GenerateKey "bytes result" | ImportKey "string option"

fun create_step ::
  "('p1, 'p2) blst \<Rightarrow> create_kind \<Rightarrow> string \<Rightarrow> vstorage \<Rightarrow> generate_pc \<Rightarrow> vstorage \<times> generate_pc" where
  "create_step B (GenerateKey rnd) = generate_step B rnd"
| "create_step B (ImportKey key) = import_step B key"

record create_request =
  cq_kind :: create_kind
  cq_name :: string
  cq_pc :: generate_pc

record plugin_state =
  ps_storage :: vstorage
  ps_requests :: "nat \<rightharpoonup> create_request"

inductive conc_step :: "('p1, 'p2) blst \<Rightarrow> plugin_state \<Rightarrow> plugin_state \<Rightarrow> bool"
  for B :: "('p1, 'p2) blst" where
  arrives: "ps_requests s i = None \<Longrightarrow> conc_step B s (s\<lparr>ps_requests := (ps_requests s)(i \<mapsto>
     \<lparr>cq_kind = k, cq_name = name, cq_pc = Arrived\<rparr>)\<rparr>)"
| moves: "ps_requests s i = Some q \<Longrightarrow>
     create_step B (cq_kind q) (cq_name q) (ps_storage s) (cq_pc q) = (st', pc') \<Longrightarrow>
     conc_step B s (s\<lparr>ps_storage := st', ps_requests := (ps_requests s)(i \<mapsto> q\<lparr>cq_pc := pc'\<rparr>)\<rparr>)"
| faults: "conc_step B s (s\<lparr>ps_storage := (ps_storage s)\<lparr>st_get_err := g, st_put_err := p\<rparr>\<rparr>)"

inductive_cases conc_step_cases: "conc_step B s t"

text \<open>The states reached from an idle plugin through states that satisfy \<open>P\<close>.\<close>

inductive conc_reach ::
  "('p1, 'p2) blst \<Rightarrow> (plugin_state \<Rightarrow> bool) \<Rightarrow> vstorage \<Rightarrow> plugin_state \<Rightarrow> bool"
  for B :: "('p1, 'p2) blst" and P :: "plugin_state \<Rightarrow> bool" and st :: vstorage where
  idle: "conc_reach B P st \<lparr>ps_storage = st, ps_requests = Map.empty\<rparr>"
| further: "conc_reach B P st s \<Longrightarrow> conc_step B s t \<Longrightarrow> P t \<Longrightarrow> conc_reach B P st t"

fun in_flight :: "create_request \<Rightarrow> bool" where
  "in_flight q = (case cq_pc q of Answered _ \<Rightarrow> False | _ \<Rightarrow> True)"

definition exclusive :: "plugin_state \<Rightarrow> bool" where
  "exclusive s \<longleftrightarrow> (\<forall>i j p q. ps_requests s i = Some p \<longrightarrow> ps_requests s j = Some q \<longrightarrow>
     in_flight p \<longrightarrow> in_flight q \<longrightarrow> cq_name p = cq_name q \<longrightarrow> i = j)"

section \<open>One request\<close>

definition key_pair :: "('p1, 'p2) blst \<Rightarrow> string \<Rightarrow> string \<Rightarrow> bool" where
  "key_pair B skHex pkHex \<longleftrightarrow> (\<exists>sk. hex_key skHex sk \<and> pkHex = hex_EncodeToString (bls_pk B sk))"

text \<open>After the read: an error or error response, or a key to be stored under a name that had none.\<close>

definition read_ok :: "('p1, 'p2) blst \<Rightarrow> vstorage \<Rightarrow> string \<Rightarrow> generate_pc \<Rightarrow> bool" where
  "read_ok B st name pc = (case pc of Arrived \<Rightarrow> False
     | Checked skHex pkHex \<Rightarrow> key_pair B skHex pkHex \<and> st_entries st (entry_key name) = None
     | Answered r \<Rightarrow> (\<forall>xs. r \<noteq> Inr (RespData xs)))"

lemma generate_arrived:
  assumes "keygen_valid B" "generate_step B rnd name st Arrived = (st', pc)"
  shows "st' = st \<and> read_ok B st name pc"
proof (cases "storage_Get st (entry_key name) = Inr None")
  case True
  from Get_None [OF this] True assms(2) generateKey_Inr [OF assms(1), of rnd] show ?thesis
    by (auto simp: read_ok_def generate_step.simps(1) key_pair_def result_simps split: sum.splits)
qed (use assms(2) in \<open>auto simp: read_ok_def generate_step.simps(1) split: sum.splits option.splits\<close>)

lemma import_arrived:
  assumes "import_step B key name st Arrived = (st', pc)"
  shows "st' = st \<and> read_ok B st name pc"
  using assms
  by (auto simp: read_ok_def import_step.simps(1) key_pair_def result_simps dest: Get_None
      split: sum.splits option.splits if_splits)

lemma create_arrived:
  assumes "keygen_valid B" "create_step B k name st Arrived = (st', pc)"
  shows "st' = st \<and> read_ok B st name pc"
proof (cases k)
  case (GenerateKey rnd)
  with assms(2) generate_arrived [OF assms(1)] show ?thesis by simp
next
  case (ImportKey key)
  with assms(2) import_arrived [of B key name st] show ?thesis by simp
qed

lemma create_checked:
  "create_step B k name st (Checked skHex pkHex) = (let (st', r) = store_key st name skHex pkHex in (st', Answered r))"
  "create_step B k name st (Answered r) = (st, Answered r)"
  by (cases k; simp)+

text \<open>Alone, the two storage steps of an import are the handler.\<close>

lemma import_steps_refine:
  "(case import_step B (fd_key d) (fd_name d) st Arrived of
      (st1, pc1) \<Rightarrow> import_step B (fd_key d) (fd_name d) st1 pc1)
   = (case handleImport B st d of (st', r) \<Rightarrow> (st', Answered r))"
  by (auto simp: handleImport_def import_step.simps(1) Let_def split: sum.splits option.splits prod.splits)

section \<open>All requests together\<close>

text \<open>
  What holds of the requests whatever their order: a key between check and write is a key with its public key,
  and an acknowledgement names the request and such a public key.
\<close>

definition request_ok :: "('p1, 'p2) blst \<Rightarrow> create_request \<Rightarrow> bool" where
  "request_ok B q = (case cq_pc q of Arrived \<Rightarrow> True
     | Checked skHex pkHex \<Rightarrow> key_pair B skHex pkHex
     | Answered r \<Rightarrow> (\<forall>xs. r = Inr (RespData xs) \<longrightarrow>
         (\<exists>sk. xs = [(''name'', cq_name q), (''public_key'', hex_EncodeToString (bls_pk B sk))])))"

definition conc_inv :: "('p1, 'p2) blst \<Rightarrow> plugin_state \<Rightarrow> bool" where
  "conc_inv B s \<longleftrightarrow> plugin_inv (ps_storage s) \<and> (\<forall>i q. ps_requests s i = Some q \<longrightarrow> request_ok B q)"

lemma inv_entries: "plugin_inv (st\<lparr>st_get_err := g, st_put_err := p\<rparr>) = plugin_inv st"
  by (simp add: plugin_inv_def)

lemma inv_put:
  assumes "plugin_inv st" "hex_key skHex sk"
  shows "plugin_inv (st\<lparr>st_entries := (st_entries st)(k \<mapsto> bytes_of skHex)\<rparr>)"
  using assms exI [of "hex_key skHex" sk] by (simp add: plugin_inv_def)

lemma stored_entries: "stored_key (st\<lparr>st_get_err := g, st_put_err := p\<rparr>) name sk = stored_key st name sk"
  by (simp add: stored_key_def)

lemma request_moves:
  assumes "keygen_valid B" "create_step B (cq_kind q) (cq_name q) st (cq_pc q) = (st', pc')"
    and "plugin_inv st" "request_ok B q"
  shows "plugin_inv st' \<and> request_ok B (q\<lparr>cq_pc := pc'\<rparr>)"
proof (cases "cq_pc q")
  case Arrived
  with create_arrived [OF assms(1), of "cq_kind q" "cq_name q" st st' pc'] assms show ?thesis
    by (auto simp: request_ok_def read_ok_def split: generate_pc.splits)
next
  case (Checked skHex pkHex)
  with assms(4) obtain sk where k: "hex_key skHex sk" "pkHex = hex_EncodeToString (bls_pk B sk)"
    by (auto simp: request_ok_def key_pair_def)
  obtain r where r: "store_key st (cq_name q) skHex pkHex = (st', r)" "pc' = Answered r"
    using assms(2) Checked by (auto simp: create_checked split: prod.splits)
  from store_key_cases [OF r(1)] assms(3) k r(2) show ?thesis
    by (auto simp: request_ok_def intro: inv_put)
next
  case (Answered r)
  with assms show ?thesis by (auto simp: create_checked)
qed

lemma conc_inv_reach:
  assumes "keygen_valid B" "plugin_inv st" "conc_reach B P st s"
  shows "conc_inv B s"
  using assms(3)
proof (induction rule: conc_reach.induct)
  case idle
  with assms(2) show ?case by (simp add: conc_inv_def)
next
  case (further s t)
  from further.hyps(2) show ?case
  proof (cases rule: conc_step.cases)
    case (arrives i k name)
    with further.IH show ?thesis by (auto simp: conc_inv_def request_ok_def)
  next
    case (moves i q st' pc')
    with further.IH request_moves [OF assms(1) moves(3)] show ?thesis
      by (auto simp: conc_inv_def)
  next
    case (faults g p)
    with further.IH show ?thesis by (simp add: conc_inv_def inv_entries)
  qed
qed

text \<open>
  However requests interleave, also two for one name, the storage holds valid keys only, and every
  acknowledgement carries the request's name and the public key of some scalar.
\<close>

lemma interleaved_keys_valid:
  assumes "keygen_valid B" "plugin_inv st" "conc_reach B (\<lambda>_. True) st s"
  shows "plugin_inv (ps_storage s)
    \<and> (\<forall>i q. ps_requests s i = Some q \<longrightarrow> request_ok B q)"
  using conc_inv_reach [OF assms] by (simp add: conc_inv_def)

text \<open>
  With one request per name in flight, more holds: the name of a key between check and write has no entry yet,
  and an acknowledged key is the stored one.
\<close>

definition settled :: "('p1, 'p2) blst \<Rightarrow> vstorage \<Rightarrow> create_request \<Rightarrow> bool" where
  "settled B st q = (case cq_pc q of Arrived \<Rightarrow> True
     | Checked skHex pkHex \<Rightarrow> st_entries st (entry_key (cq_name q)) = None
     | Answered r \<Rightarrow> (\<forall>xs. r = Inr (RespData xs) \<longrightarrow> (\<exists>sk. stored_key st (cq_name q) sk
         \<and> xs = [(''name'', cq_name q), (''public_key'', hex_EncodeToString (bls_pk B sk))])))"

definition exclusive_inv :: "('p1, 'p2) blst \<Rightarrow> vstorage \<Rightarrow> plugin_state \<Rightarrow> bool" where
  "exclusive_inv B st0 s \<longleftrightarrow> exclusive s
     \<and> (\<forall>i q. ps_requests s i = Some q \<longrightarrow> settled B (ps_storage s) q)
     \<and> (\<forall>name sk. stored_key st0 name sk \<longrightarrow> stored_key (ps_storage s) name sk)"

lemma settled_adds:
  assumes "settled B st q" "adds_key st st' name skHex" "in_flight q \<longrightarrow> cq_name q \<noteq> name"
  shows "settled B st' q"
  using assms adds_key_keeps [OF assms(2)]
  by (fastforce simp: settled_def adds_key_def split: generate_pc.splits)

lemma settled_faults: "settled B (st\<lparr>st_get_err := g, st_put_err := p\<rparr>) q = settled B st q"
  by (cases "cq_pc q") (simp_all add: settled_def stored_entries)

lemma exclusive_moves:
  assumes "keygen_valid B" "exclusive_inv B st0 s" "conc_inv B s" "ps_requests s i = Some q"
    and "create_step B (cq_kind q) (cq_name q) (ps_storage s) (cq_pc q) = (st', pc')"
  shows "settled B st' (q\<lparr>cq_pc := pc'\<rparr>)
    \<and> (\<forall>j p. j \<noteq> i \<longrightarrow> ps_requests s j = Some p \<longrightarrow> settled B st' p)
    \<and> (\<forall>name sk. stored_key (ps_storage s) name sk \<longrightarrow> stored_key st' name sk)"
proof -
  have s: "exclusive s" "settled B (ps_storage s) q" "request_ok B q"
    "\<And>j p. ps_requests s j = Some p \<Longrightarrow> settled B (ps_storage s) p"
    using assms(2-4) by (auto simp: exclusive_inv_def conc_inv_def)
  show ?thesis
  proof (cases "cq_pc q")
    case Arrived
    with create_arrived [OF assms(1), of "cq_kind q" "cq_name q" "ps_storage s" st' pc'] assms(5) s show ?thesis
      by (auto simp: settled_def read_ok_def split: generate_pc.splits)
  next
    case (Answered r)
    with assms(5) s show ?thesis by (auto simp: create_checked)
  next
    case (Checked skHex pkHex)
    with s(2,3) obtain sk where k: "hex_key skHex sk" "pkHex = hex_EncodeToString (bls_pk B sk)"
      "st_entries (ps_storage s) (entry_key (cq_name q)) = None"
      by (auto simp: request_ok_def settled_def key_pair_def)
    obtain r where r: "store_key (ps_storage s) (cq_name q) skHex pkHex = (st', r)" "pc' = Answered r"
      using assms(5) Checked by (auto simp: create_checked split: prod.splits)
    show ?thesis
    proof (cases "isl r")
      case True
      with store_key_cases [OF r(1)] r(2) s(4) show ?thesis
        by (auto simp: settled_def)
    next
      case False
      with store_key_cases [OF r(1)] k have a: "adds_key (ps_storage s) st' (cq_name q) skHex"
        "r = Inr (RespData [(''name'', cq_name q), (''public_key'', pkHex)])"
        by (auto simp: adds_key_def)
      have "settled B st' p" if "j \<noteq> i" "ps_requests s j = Some p" for j p
        using settled_adds [OF s(4) [OF that(2)] a(1)] s(1) that assms(4) Checked
        by (fastforce simp: exclusive_def)
      moreover have "settled B st' (q\<lparr>cq_pc := pc'\<rparr>)"
        using adds_key_stores [OF a(1) k(1)] a(2) r(2) k(2) by (auto simp: settled_def)
      ultimately show ?thesis
        using adds_key_keeps [OF a(1)] by blast
    qed
  qed
qed

lemma exclusive_reach:
  assumes "keygen_valid B" "plugin_inv st" "conc_reach B exclusive st s"
  shows "exclusive_inv B st s"
  using assms(3)
proof (induction rule: conc_reach.induct)
  case idle
  show ?case by (simp add: exclusive_inv_def exclusive_def)
next
  case (further s t)
  note inv = conc_inv_reach [OF assms(1,2) further.hyps(1)]
  from further.hyps(2) show ?case
  proof (cases rule: conc_step.cases)
    case (arrives i k name)
    with further show ?thesis
      by (auto simp: exclusive_inv_def settled_def [of _ _ "\<lparr>cq_kind = k, cq_name = name, cq_pc = Arrived\<rparr>"])
  next
    case (moves i q st' pc')
    with exclusive_moves [OF assms(1) further.IH inv moves(2,3)] further.IH further.hyps(3) show ?thesis
      by (auto simp: exclusive_inv_def)
  next
    case (faults g p)
    with further.IH further.hyps(3) show ?thesis
      by (simp add: exclusive_inv_def settled_faults stored_entries)
  qed
qed

text \<open>
  C10. The race is the only way to lose a key: as long as no two create requests for one name are in flight at
  the same time, every acknowledged key is the key stored under its name, in every later state and whatever
  other requests and storage faults come in between, and no key that was stored before is ever replaced.
\<close>

theorem no_acknowledged_key_lost:
  assumes "keygen_valid B" "plugin_inv st" "conc_reach B exclusive st s"
  shows "(\<forall>i q xs. ps_requests s i = Some q \<longrightarrow> cq_pc q = Answered (Inr (RespData xs)) \<longrightarrow>
      (\<exists>sk. stored_key (ps_storage s) (cq_name q) sk
        \<and> xs = [(''name'', cq_name q), (''public_key'', hex_EncodeToString (bls_pk B sk))]))
    \<and> (\<forall>name sk. stored_key st name sk \<longrightarrow> stored_key (ps_storage s) name sk)"
proof -
  from exclusive_reach [OF assms] have "settled B (ps_storage s) q" if "ps_requests s i = Some q" for i q
    using that by (auto simp: exclusive_inv_def)
  moreover from exclusive_reach [OF assms] have "stored_key st name sk \<longrightarrow> stored_key (ps_storage s) name sk" for name sk
    by (simp add: exclusive_inv_def)
  ultimately show ?thesis
    by (fastforce simp: settled_def)
qed

section \<open>Instances\<close>

definition import_state :: "generate_pc \<Rightarrow> vstorage \<Rightarrow> plugin_state" where
  "import_state pc st = \<lparr>ps_storage = st, ps_requests = [0 \<mapsto>
     \<lparr>cq_kind = ImportKey (Some (hex_EncodeToString (Scalar_Serialize 5))), cq_name = ''validator'', cq_pc = pc\<rparr>]\<rparr>"

definition import_answer :: "response result" where
  "import_answer = Inr (RespData [(''name'', ''validator''), (''public_key'', hex_EncodeToString (bls_pk toy_blst 5))])"

lemma import_run:
  assumes "\<And>pc st'. P (import_state pc st')"
  shows "conc_reach toy_blst P empty_storage (import_state (Answered import_answer) test_storage)"
proof -
  let ?hex = "hex_EncodeToString (Scalar_Serialize 5)" and ?pk = "hex_EncodeToString (bls_pk toy_blst 5)"
  have k: "hex_key ?hex 5" by simp
  have "conc_step toy_blst \<lparr>ps_storage = empty_storage, ps_requests = Map.empty\<rparr> (import_state Arrived empty_storage)"
    using conc_step.arrives [of "\<lparr>ps_storage = empty_storage, ps_requests = Map.empty\<rparr>" 0 toy_blst "ImportKey (Some ?hex)" "''validator''"]
    by (simp add: import_state_def)
  then have r1: "conc_reach toy_blst P empty_storage (import_state Arrived empty_storage)"
    using conc_reach.further [OF conc_reach.idle] assms by blast
  have "import_step toy_blst (Some ?hex) ''validator'' empty_storage Arrived = (empty_storage, Checked ?hex ?pk)"
    by (simp add: import_step.simps(1) hex_key_length [OF k] publicKeyHex_key [OF k] storage_Get_def empty_storage_def)
  then have "conc_step toy_blst (import_state Arrived empty_storage) (import_state (Checked ?hex ?pk) empty_storage)"
    using conc_step.moves [of "import_state Arrived empty_storage" 0 _ toy_blst empty_storage "Checked ?hex ?pk"]
    by (simp add: import_state_def)
  then have r2: "conc_reach toy_blst P empty_storage (import_state (Checked ?hex ?pk) empty_storage)"
    using conc_reach.further [OF r1] assms by blast
  have "store_key empty_storage ''validator'' ?hex ?pk = (test_storage, import_answer)"
    by (simp add: store_key_ok empty_storage_def test_storage_def import_answer_def)
  then have "conc_step toy_blst (import_state (Checked ?hex ?pk) empty_storage)
      (import_state (Answered import_answer) test_storage)"
    using conc_step.moves [of "import_state (Checked ?hex ?pk) empty_storage" 0 _ toy_blst test_storage "Answered import_answer"]
    by (simp add: import_state_def)
  then show ?thesis
    using conc_reach.further [OF r2] assms by blast
qed

lemma plugin_inv_empty_storage [simp]: "plugin_inv empty_storage"
  by (simp add: plugin_inv_empty)

lemma no_acknowledged_key_lost_witness:
  "\<exists>sk. stored_key test_storage ''validator'' sk
     \<and> hex_EncodeToString (bls_pk toy_blst 5) = hex_EncodeToString (bls_pk toy_blst sk)"
proof -
  have "conc_reach toy_blst exclusive empty_storage (import_state (Answered import_answer) test_storage)"
    by (rule import_run) (simp add: exclusive_def import_state_def)
  from no_acknowledged_key_lost [OF keygen_valid_toy plugin_inv_empty_storage this, THEN conjunct1, THEN spec, of 0]
  show ?thesis
    by (simp add: import_state_def import_answer_def)
qed

end
