(* ===== verification/Go_Flags.thy ===== *)
theory Go_Flags
  imports Go_Strings
begin

text \<open>
  The command line as the vendored libraries read it: \<open>strconv\<close> for the values, the flag sets of \<open>pflag\<close>, and the
  command tree of \<open>cobra\<close>, as far as the program uses them: string, integer and boolean flags, none of them
  persistent, deprecated or in groups, and commands without validation of their arguments.
\<close>

section \<open>Values\<close>

definition ParseBool :: "string \<Rightarrow> bool option" where
  "ParseBool s =
     (if s \<in> {''1'', ''t'', ''T'', ''TRUE'', ''true'', ''True''} then Some True
      else if s \<in> {''0'', ''f'', ''F'', ''FALSE'', ''false'', ''False''} then Some False
      else None)"

text \<open>
  \<open>strconv.ParseInt(s, 0, 64)\<close>: a sign, a base prefix, digits and underscores between them. The digits are
  read in order, and whichever of a bad digit and a value past 64 bits comes first is the error.
\<close>

datatype num_error = ErrSyntax | ErrRange

definition digit_val :: "char \<Rightarrow> nat option" where
  "digit_val c =
     (let n = of_char (ascii_lower c) in
      if 48 \<le> n \<and> n \<le> 57 then Some (n - 48)
      else if 97 \<le> n \<and> n \<le> 122 then Some (n - 97 + 10)
      else None)"

fun uint_digits :: "nat \<Rightarrow> nat \<Rightarrow> string \<Rightarrow> num_error + nat" where
  "uint_digits base n [] = Inr n"
| "uint_digits base n (c # cs) =
     (if c = CHR ''_'' then uint_digits base n cs
      else case digit_val c of
             None \<Rightarrow> Inl ErrSyntax
           | Some d \<Rightarrow>
               if d \<ge> base then Inl ErrSyntax
               else if n * base + d > 2 ^ 64 - 1 then Inl ErrRange
               else uint_digits base (n * base + d) cs)"

text \<open>\<open>underscoreOK\<close>; \<open>saw\<close> is the class of the last character: start, digit, underscore, other.\<close>

datatype saw = SawStart | SawDigit | SawUnderscore | SawOther

fun underscores_ok :: "bool \<Rightarrow> saw \<Rightarrow> string \<Rightarrow> bool" where
  "underscores_ok hex saw [] = (saw \<noteq> SawUnderscore)"
| "underscores_ok hex saw (c # cs) =
     (let n = of_char (ascii_lower c) in
      if (48 \<le> n \<and> n \<le> (57 :: nat)) \<or> (hex \<and> 97 \<le> n \<and> n \<le> 102) then underscores_ok hex SawDigit cs
      else if c = CHR ''_'' then (if saw \<noteq> SawDigit then False else underscores_ok hex SawUnderscore cs)
      else if saw = SawUnderscore then False
      else underscores_ok hex SawOther cs)"

definition base_prefix :: "string \<Rightarrow> nat option" where
  "base_prefix s = (case s of
     c0 # c1 # _ \<Rightarrow> if c0 \<noteq> CHR ''0'' then None
        else if ascii_lower c1 = CHR ''b'' then Some 2
        else if ascii_lower c1 = CHR ''o'' then Some 8
        else if ascii_lower c1 = CHR ''x'' then Some 16
        else None
   | _ \<Rightarrow> None)"

definition ParseUint :: "string \<Rightarrow> num_error + nat" where
  "ParseUint s =
     (if s = [] then Inl ErrSyntax
      else let (base, ds) =
             (case base_prefix s of
                Some b \<Rightarrow> if length s \<ge> 3 then (b, drop 2 s) else (8, tl s)
              | None \<Rightarrow> if hd s = CHR ''0'' then (8, tl s) else (10, s))
           in case uint_digits base 0 ds of
                Inl e \<Rightarrow> Inl e
              | Inr n \<Rightarrow>
                  if CHR ''_'' \<in> set ds \<and> \<not> (case base_prefix s of
                       Some b \<Rightarrow> underscores_ok (b = 16) SawDigit (drop 2 s)
                     | None \<Rightarrow> underscores_ok False SawStart s)
                  then Inl ErrSyntax else Inr n)"

definition ParseInt :: "string \<Rightarrow> num_error + int" where
  "ParseInt s =
     (let neg = (case s of c # _ \<Rightarrow> c = CHR ''-'' | [] \<Rightarrow> False);
          ds = (case s of c # cs \<Rightarrow> if c = CHR ''-'' \<or> c = CHR ''+'' then cs else s | [] \<Rightarrow> s)
      in case ParseUint ds of
           Inl e \<Rightarrow> Inl e
         | Inr n \<Rightarrow>
             if (\<not> neg \<and> n \<ge> 2 ^ 63) \<or> (neg \<and> n > 2 ^ 63) then Inl ErrRange
             else Inr (if neg then - int n else int n))"

fun num_error_text :: "num_error \<Rightarrow> string" where
  "num_error_text ErrSyntax = ''invalid syntax''"
| "num_error_text ErrRange = ''value out of range''"

section \<open>Flag sets\<close>

datatype flag_kind = StringFlag | IntFlag | BoolFlag

record flag =
  fl_Name :: string
  fl_Shorthand :: "char option"
  fl_Kind :: flag_kind

definition NoOptDefVal :: "flag \<Rightarrow> string" where
  "NoOptDefVal f = (if fl_Kind f = BoolFlag then ''true'' else [])"

definition Lookup :: "flag list \<Rightarrow> string \<Rightarrow> flag option" where
  "Lookup fs name = find (\<lambda>f. fl_Name f = name) fs"

definition ShorthandLookup :: "flag list \<Rightarrow> char \<Rightarrow> flag option" where
  "ShorthandLookup fs c = find (\<lambda>f. fl_Shorthand f = Some c) fs"

text \<open>What parsing has found: the flags that were given, with the text of their last value, and the arguments.\<close>

record parsed =
  pa_given :: "string \<rightharpoonup> string"
  pa_args :: "string list"

datatype parse_error = ErrHelp | FlagError goerr

definition flag_text :: "flag \<Rightarrow> string" where
  "flag_text f = (case fl_Shorthand f of
     Some c \<Rightarrow> CHR ''-'' # c # '', --'' @ fl_Name f
   | None \<Rightarrow> ''--'' @ fl_Name f)"

definition value_error :: "flag \<Rightarrow> string \<Rightarrow> goerr option" where
  "value_error f v = (case fl_Kind f of
     StringFlag \<Rightarrow> None
   | IntFlag \<Rightarrow> (case ParseInt v of
        Inl e \<Rightarrow> Some (Errorf (''strconv.ParseInt: parsing %q: '' @ num_error_text e) [AStr v])
      | Inr _ \<Rightarrow> None)
   | BoolFlag \<Rightarrow> (case ParseBool v of
        None \<Rightarrow> Some (Errorf ''strconv.ParseBool: parsing %q: invalid syntax'' [AStr v])
      | Some _ \<Rightarrow> None))"

definition flag_Set :: "flag \<Rightarrow> string \<Rightarrow> parsed \<Rightarrow> parse_error + parsed" where
  "flag_Set f v p = (case value_error f v of
     Some e \<Rightarrow> Inl (FlagError (Errorf ''invalid argument %q for %q flag: %v'' [AStr v, AStr (flag_text f), AErr e]))
   | None \<Rightarrow> Inr (p\<lparr>pa_given := (pa_given p)(fl_Name f \<mapsto> v)\<rparr>))"

definition split_eq :: "string \<Rightarrow> string \<times> string option" where
  "split_eq s = (takeWhile (\<lambda>c. c \<noteq> CHR ''='') s,
     case dropWhile (\<lambda>c. c \<noteq> CHR ''='') s of [] \<Rightarrow> None | _ # v \<Rightarrow> Some v)"

definition parseLongArg ::
  "flag list \<Rightarrow> string \<Rightarrow> string list \<Rightarrow> parsed \<Rightarrow> parse_error + string list \<times> parsed" where
  "parseLongArg fs s args p =
     (let name = drop 2 s in
      if name = [] \<or> hd name = CHR ''-'' \<or> hd name = CHR ''=''
      then Inl (FlagError (Errorf ''bad flag syntax: %s'' [AStr s]))
      else case split_eq name of (name, val) \<Rightarrow>
       (case Lookup fs name of
          None \<Rightarrow> if name = ''help'' then Inl ErrHelp
                  else Inl (FlagError (Errorf ''unknown flag: --%s'' [AStr name]))
        | Some f \<Rightarrow>
           (case val of
              Some v \<Rightarrow> map_sum id (Pair args) (flag_Set f v p)
            | None \<Rightarrow>
                if NoOptDefVal f \<noteq> [] then map_sum id (Pair args) (flag_Set f (NoOptDefVal f) p)
                else (case args of
                        v # rest \<Rightarrow> map_sum id (Pair rest) (flag_Set f v p)
                      | [] \<Rightarrow> Inl (FlagError (Errorf ''flag needs an argument: %s'' [AStr s]))))))"

text \<open>\<open>parseShortArg\<close> with \<open>parseSingleShortArg\<close>: the letters after one dash, of which a value ends the run.\<close>

fun parseShortArg ::
  "flag list \<Rightarrow> string \<Rightarrow> string list \<Rightarrow> parsed \<Rightarrow> parse_error + string list \<times> parsed" where
  "parseShortArg fs [] args p = Inr (args, p)"
| "parseShortArg fs (c # cs) args p =
     (if take 5 (c # cs) = ''test.'' then Inr (args, p)
      else case ShorthandLookup fs c of
        None \<Rightarrow> if c = CHR ''h'' then Inl ErrHelp
                else Inl (FlagError (Errorf ''unknown shorthand flag: %q in -%s'' [AInt (of_char c), AStr (c # cs)]))
      | Some f \<Rightarrow>
          if length cs > 1 \<and> hd cs = CHR ''='' then map_sum id (Pair args) (flag_Set f (tl cs) p)
          else if NoOptDefVal f \<noteq> [] then
            (case flag_Set f (NoOptDefVal f) p of Inl e \<Rightarrow> Inl e | Inr p' \<Rightarrow> parseShortArg fs cs args p')
          else if cs \<noteq> [] then map_sum id (Pair args) (flag_Set f cs p)
          else (case args of
                  v # rest \<Rightarrow> map_sum id (Pair rest) (flag_Set f v p)
                | [] \<Rightarrow> Inl (FlagError (Errorf ''flag needs an argument: %q in -%s'' [AInt (of_char c), AStr (c # cs)]))))"

lemma parseLongArg_shorter: "parseLongArg fs s args p = Inr (rest, p') \<Longrightarrow> length rest \<le> length args"
  by (auto simp: parseLongArg_def Let_def map_sum_def split: if_splits prod.splits option.splits list.splits sum.splits)

lemma parseShortArg_shorter: "parseShortArg fs s args p = Inr (rest, p') \<Longrightarrow> length rest \<le> length args"
  by (induction fs s args p rule: parseShortArg.induct)
    (auto simp: map_sum_def split: if_splits option.splits list.splits sum.splits)

definition add_arg :: "string \<Rightarrow> parsed \<Rightarrow> parsed" where
  "add_arg s p = p\<lparr>pa_args := pa_args p @ [s]\<rparr>"

function parseArgs :: "flag list \<Rightarrow> string list \<Rightarrow> parsed \<Rightarrow> parse_error + parsed" where
  "parseArgs fs [] p = Inr p"
| "parseArgs fs (s # args) p =
     (if length s \<le> 1 \<or> hd s \<noteq> CHR ''-'' then parseArgs fs args (add_arg s p)
      else if s ! 1 = CHR ''-'' then
        (if length s = 2 then Inr (p\<lparr>pa_args := pa_args p @ args\<rparr>)
         else case parseLongArg fs s args p of Inl e \<Rightarrow> Inl e | Inr (rest, p') \<Rightarrow> parseArgs fs rest p')
      else case parseShortArg fs (tl s) args p of Inl e \<Rightarrow> Inl e | Inr (rest, p') \<Rightarrow> parseArgs fs rest p')"
  by pat_completeness auto
termination
  by (relation "measure (\<lambda>(fs, args, p). length args)")
    (auto dest!: parseLongArg_shorter parseShortArg_shorter)

declare parseArgs.simps(2) [simp del]

definition flags_Parse :: "flag list \<Rightarrow> string list \<Rightarrow> parse_error + parsed" where
  "flags_Parse fs args = parseArgs fs args \<lparr>pa_given = Map.empty, pa_args = []\<rparr>"

section \<open>Command trees\<close>

datatype 'r command = Command (cmd_Name: string) (cmd_Flags: "flag list") (cmd_RunE: "'r option")
  (cmd_Commands: "'r command list")

definition takes_next :: "flag list \<Rightarrow> string \<Rightarrow> bool" where
  "takes_next fs s \<longleftrightarrow> CHR ''='' \<notin> set s \<and>
     (take 2 s = ''--'' \<and> \<not> (case Lookup fs (drop 2 s) of Some f \<Rightarrow> NoOptDefVal f \<noteq> [] | None \<Rightarrow> False)
      \<or> take 1 s = ''-'' \<and> length s = 2 \<and> \<not> (case ShorthandLookup fs (s ! 1) of Some f \<Rightarrow> NoOptDefVal f \<noteq> [] | None \<Rightarrow> False))"

fun stripFlags :: "flag list \<Rightarrow> string list \<Rightarrow> string list" where
  "stripFlags fs [] = []"
| "stripFlags fs (s # args) =
     (if s = ''--'' then []
      else if takes_next fs s then (case args of _ # a # rest \<Rightarrow> stripFlags fs (a # rest) | _ \<Rightarrow> [])
      else if s \<noteq> [] \<and> hd s \<noteq> CHR ''-'' then s # stripFlags fs args
      else stripFlags fs args)"

fun argsMinusFirstX :: "flag list \<Rightarrow> string list \<Rightarrow> string \<Rightarrow> string list" where
  "argsMinusFirstX fs [] x = []"
| "argsMinusFirstX fs (s # args) x =
     (if s = ''--'' then s # args
      else if takes_next fs s then (case args of v # rest \<Rightarrow> s # v # argsMinusFirstX fs rest x | [] \<Rightarrow> [s])
      else if (s = [] \<or> hd s \<noteq> CHR ''-'') \<and> s = x then args
      else s # argsMinusFirstX fs args x)"

definition findNext :: "'r command \<Rightarrow> string \<Rightarrow> 'r command option" where
  "findNext c name = find (\<lambda>d. cmd_Name d = name) (cmd_Commands c)"

lemma findNext_size [termination_simp]: "findNext c name = Some d \<Longrightarrow> size d < size c"
proof -
  assume "findNext c name = Some d"
  then have "d \<in> set (cmd_Commands c)"
    by (auto simp: findNext_def find_Some_iff)
  then have "size d < Suc (size_list size (cmd_Commands c))"
    by (simp add: size_list_estimation' less_Suc_eq_le)
  then show ?thesis
    by (cases c) simp
qed

text \<open>\<open>innerfind\<close>, with whether the command is still the root.\<close>

function innerfind :: "'r command \<Rightarrow> bool \<Rightarrow> string list \<Rightarrow> 'r command \<times> bool \<times> string list" where
  "innerfind c root args =
     (case stripFlags (cmd_Flags c) args of
        [] \<Rightarrow> (c, root, args)
      | next # _ \<Rightarrow>
         (case findNext c next of
            Some d \<Rightarrow> innerfind d False (argsMinusFirstX (cmd_Flags c) args next)
          | None \<Rightarrow> (c, root, args)))"
  by pat_completeness auto
termination
  by (relation "measure (\<lambda>(c, root, args). size c)") (auto simp: findNext_size)

declare innerfind.simps [simp del]

text \<open>The suggestions that follow the error's text are left out.\<close>

definition Find :: "'r command \<Rightarrow> string list \<Rightarrow> goerr + 'r command \<times> string list" where
  "Find c args =
     (case innerfind c True args of (d, root, a) \<Rightarrow>
        let words = stripFlags (cmd_Flags d) a in
        if cmd_Commands d \<noteq> [] \<and> root \<and> words \<noteq> []
        then Inl (Errorf ''unknown command %q for %q'' [AStr (hd words), AStr (cmd_Name c)])
        else Inr (d, a))"

definition help_flag :: flag where
  "help_flag = \<lparr>fl_Name = ''help'', fl_Shorthand = Some (CHR ''h''), fl_Kind = BoolFlag\<rparr>"

datatype 'r execution = ShowHelp | Refuse goerr | Run 'r "string \<rightharpoonup> string" "string list"

text \<open>\<open>execute\<close> up to the check for required flags and the call of \<open>RunE\<close>.\<close>

definition execute :: "'r command \<Rightarrow> string list \<Rightarrow> 'r execution" where
  "execute c a =
     (case flags_Parse (cmd_Flags c @ [help_flag]) a of
        Inl ErrHelp \<Rightarrow> ShowHelp
      | Inl (FlagError e) \<Rightarrow> Refuse e
      | Inr p \<Rightarrow>
          if Option.bind (pa_given p ''help'') ParseBool = Some True then ShowHelp
          else (case cmd_RunE c of None \<Rightarrow> ShowHelp | Some r \<Rightarrow> Run r (pa_given p) (pa_args p)))"

section \<open>Written command lines\<close>

text \<open>A flag as one writes it, as two words or with an equals sign.\<close>

fun render_flag :: "string \<times> string \<times> bool \<Rightarrow> string list" where
  "render_flag (name, v, eq) = (if eq then [''--'' @ name @ CHR ''='' # v] else [''--'' @ name, v])"

definition render_flags :: "(string \<times> string \<times> bool) list \<Rightarrow> string list" where
  "render_flags ws = concat (map render_flag ws)"

definition values_of :: "(string \<times> string \<times> bool) list \<Rightarrow> string \<rightharpoonup> string" where
  "values_of ws = map_of (rev (map (\<lambda>(name, v, eq). (name, v)) ws))"

text \<open>A boolean flag takes its value only with the equals sign; alone it means true.\<close>

definition writable :: "flag list \<Rightarrow> string \<times> string \<times> bool \<Rightarrow> bool" where
  "writable fs w = (case w of (name, v, eq) \<Rightarrow>
     (case Lookup fs name of
        None \<Rightarrow> False
      | Some f \<Rightarrow> value_error f v = None \<and> (fl_Kind f = BoolFlag \<longrightarrow> eq)))"

definition plain_name :: "string \<Rightarrow> bool" where
  "plain_name n \<longleftrightarrow> n \<noteq> [] \<and> hd n \<noteq> CHR ''-'' \<and> CHR ''='' \<notin> set n"

lemma Lookup_name: "Lookup fs name = Some f \<Longrightarrow> f \<in> set fs \<and> fl_Name f = name"
  by (auto simp: Lookup_def find_Some_iff)

lemma Lookup_append: "Lookup fs name = Some f \<Longrightarrow> Lookup (fs @ gs) name = Some f"
  by (induction fs) (auto simp: Lookup_def)

lemma split_eq_plain:
  "CHR ''='' \<notin> set n \<Longrightarrow> split_eq n = (n, None)"
  "CHR ''='' \<notin> set n \<Longrightarrow> split_eq (n @ CHR ''='' # v) = (n, Some v)"
proof -
  assume n: "CHR ''='' \<notin> set n"
  then have d: "dropWhile (\<lambda>c. c \<noteq> CHR ''='') n = []" "takeWhile (\<lambda>c. c \<noteq> CHR ''='') n = n"
    by (auto simp: takeWhile_eq_all_conv)
  show "split_eq n = (n, None)"
    by (simp only: split_eq_def d) simp
  from n show "split_eq (n @ CHR ''='' # v) = (n, Some v)"
    by (induction n) (auto simp: split_eq_def)
qed

lemma parse_flag:
  assumes "plain_name name" "Lookup fs name = Some f" "value_error f v = None" "fl_Kind f = BoolFlag \<longrightarrow> eq"
  shows "parseArgs fs (render_flag (name, v, eq) @ rest) p =
    parseArgs fs rest (p\<lparr>pa_given := (pa_given p)(name \<mapsto> v)\<rparr>)"
proof -
  from assms(1) obtain c cs where name: "name = c # cs" "c \<noteq> CHR ''-''" "c \<noteq> CHR ''=''" "CHR ''='' \<notin> set name"
    by (cases name) (auto simp: plain_name_def)
  note plain = split_eq_plain(1) [OF name(4)] split_eq_plain(2) [OF name(4), of v]
  have "flag_Set f v p = Inr (p\<lparr>pa_given := (pa_given p)(name \<mapsto> v)\<rparr>)"
    using assms(3) Lookup_name [OF assms(2)] by (simp add: flag_Set_def)
  with assms(2,4) name plain show ?thesis
    by (cases eq) (simp_all add: parseArgs.simps(2) [of fs "CHR ''-'' # CHR ''-'' # _"] parseLongArg_def NoOptDefVal_def Let_def)
qed

lemma values_of_Nil: "values_of [] = Map.empty"
  by (simp add: values_of_def)

lemma values_of_Cons: "m ++ values_of ((name, v, eq) # ws) = m(name \<mapsto> v) ++ values_of ws"
  by (auto simp: values_of_def map_add_def fun_eq_iff split: option.splits)

lemma parse_flags:
  assumes "\<forall>f \<in> set fs. plain_name (fl_Name f)"
  shows "list_all (writable fs) ws \<Longrightarrow>
    parseArgs fs (render_flags ws @ rest) p = parseArgs fs rest (p\<lparr>pa_given := pa_given p ++ values_of ws\<rparr>)"
proof (induction ws arbitrary: p)
  case (Cons w ws)
  obtain name v eq where w: "w = (name, v, eq)" by (cases w)
  with Cons.prems obtain f where f: "Lookup fs name = Some f" "value_error f v = None" "fl_Kind f = BoolFlag \<longrightarrow> eq"
    by (auto simp: writable_def split: option.splits)
  with assms Lookup_name [OF f(1)] have "plain_name name" by auto
  note step = parse_flag [OF this f, of "render_flags ws @ rest" p]
  have "render_flags (w # ws) @ rest = render_flag (name, v, eq) @ render_flags ws @ rest"
    by (simp add: w render_flags_def)
  moreover from Cons.prems have "list_all (writable fs) ws" by simp
  ultimately show ?case
    using Cons.IH [of "p\<lparr>pa_given := (pa_given p)(name \<mapsto> v)\<rparr>"]
    by (simp only: step w values_of_Cons) (simp add: fun_upd_def)
qed (simp add: render_flags_def values_of_Nil)

end
