(* ===== verification/Go_Log.thy ===== *)
theory Go_Log
  imports Go_Prelude
begin

text \<open>
  What \<open>log/slog\<close> is given: a level, a message and the attributes behind it, each a name with its value. A logger is
  whatever collects the lines, so a line is a value; its time stamp and its JSON form are the logger's own.
\<close>

datatype log_level = LevelDebug | LevelInfo | LevelWarn | LevelError

datatype log_line = LogLine (log_level: log_level) (log_msg: string) (log_attrs: "(string \<times> earg) list")

end
