(* ===== verification/Backend_Iface.thy ===== *)
theory Backend_Iface
  imports Blstutil Go_Log
begin

text \<open>
  Package \<open>backend\<close>: the interface every signing backend implements, as a record of operations on the
  backend's own state, and the contract the rest of the program relies on, as locales. What \<open>Close\<close> writes to the
  backend's logger is an operation of its own.

  \<open>holds b sk\<close> says that backend \<open>b\<close> is ready to sign with the scalar \<open>sk\<close>. The contract of a backend is
  that it then answers with the reference public key and the reference signatures under the two domain
  separation tags. A backend that keeps the key in its own memory also promises that \<open>Close\<close> wipes it.
\<close>

record 's Backend =
  be_PublicKey :: "'s \<Rightarrow> bytes result"
  be_Sign :: "'s \<Rightarrow> bytes \<Rightarrow> bytes result"
  be_SignProofOfPossession :: "'s \<Rightarrow> bytes \<Rightarrow> bytes result"
  be_Close :: "'s \<Rightarrow> 's \<times> goerr option"
  be_CloseLog :: "'s \<Rightarrow> log_line list"

locale signing_backend =
  fixes B :: "('p1, 'p2) blst"
    and M :: "'s Backend"
    and holds :: "'s \<Rightarrow> nat \<Rightarrow> bool"
  assumes PublicKey_law: "holds b sk \<Longrightarrow> be_PublicKey M b = Inr (bls_pk B sk)"
    and Sign_law: "holds b sk \<Longrightarrow> be_Sign M b msg = Inr (bls_sig B sk msg DSTSign)"
    and SignPoP_law: "holds b sk \<Longrightarrow> be_SignProofOfPossession M b msg = Inr (bls_sig B sk msg DSTPoP)"
begin

lemmas laws = PublicKey_law Sign_law SignPoP_law

lemma PublicKey_size: "holds b sk \<Longrightarrow> \<exists>pk. be_PublicKey M b = Inr pk \<and> length pk = 48"
  by (simp add: laws)

lemma Sign_size: "holds b sk \<Longrightarrow> \<exists>sig. be_Sign M b msg = Inr sig \<and> length sig = 96"
  by (simp add: laws)

lemma SignPoP_size:
  "holds b sk \<Longrightarrow> \<exists>sig. be_SignProofOfPossession M b msg = Inr sig \<and> length sig = 96"
  by (simp add: laws)

lemma same_key_same_answers:
  "holds b sk \<Longrightarrow> holds b' sk \<Longrightarrow>
     be_PublicKey M b = be_PublicKey M b' \<and> be_Sign M b msg = be_Sign M b' msg \<and>
     be_SignProofOfPossession M b msg = be_SignProofOfPossession M b' msg"
  by (simp add: laws)

end

locale local_backend = signing_backend B M holds
  for B :: "('p1, 'p2) blst" and M :: "'s Backend" and holds :: "'s \<Rightarrow> nat \<Rightarrow> bool" +
  fixes local_key :: "'s \<Rightarrow> bool" and key_bytes :: "'s \<Rightarrow> bytes"
  assumes holds_local: "holds b sk \<Longrightarrow> local_key b"
    and Close_local: "local_key b \<Longrightarrow> local_key (fst (be_Close M b))"
    and Sign_key: "local_key b \<Longrightarrow> be_Sign M b msg = blstutil_Sign B (key_bytes b) msg DSTSign"
    and SignPoP_key: "local_key b \<Longrightarrow> be_SignProofOfPossession M b msg = blstutil_Sign B (key_bytes b) msg DSTPoP"
    and Close_wipes: "local_key b \<Longrightarrow> key_bytes (fst (be_Close M b)) = replicate (length (key_bytes b)) 0"
    and Close_PublicKey: "local_key b \<Longrightarrow> be_PublicKey M (fst (be_Close M b)) = be_PublicKey M b"
begin

lemma Close_spec:
  assumes "local_key b"
  shows "key_bytes (fst (be_Close M b)) = replicate (length (key_bytes b)) 0 \<and>
   \<not> is_ok (be_Sign M (fst (be_Close M b)) msg) \<and>
   \<not> is_ok (be_SignProofOfPossession M (fst (be_Close M b)) msg) \<and>
   be_PublicKey M (fst (be_Close M b)) = be_PublicKey M b"
  using Close_local [OF assms] assms
  by (simp add: Sign_key SignPoP_key Close_wipes Close_PublicKey Sign_zeros)

lemma not_holds_after_Close: "local_key b \<Longrightarrow> \<not> holds (fst (be_Close M b)) sk"
  using Close_spec [of b "[]"] by (auto simp: Sign_law)

lemma holds_length: "holds b sk \<Longrightarrow> length (key_bytes b) = SecretKeySize"
  using Sign_law [of b sk "[]"] Sign_key [OF holds_local, of b sk "[]"]
  by (auto simp: blstutil_Sign_def blstutil_deserialize_def split: if_splits)

text \<open>Once closed, a backend that held a key fails with one and the same error, whatever the key was.\<close>

lemma Sign_after_Close:
  assumes "holds b sk"
  shows "be_Sign M (fst (be_Close M b)) msg = Inl err_bad_scalar"
    "be_SignProofOfPossession M (fst (be_Close M b)) msg = Inl err_bad_scalar"
    "be_PublicKey M (fst (be_Close M b)) = Inr (bls_pk B sk)"
  using holds_length [OF assms] Close_local [OF holds_local [OF assms]] holds_local [OF assms]
  by (simp_all add: Sign_key SignPoP_key Close_wipes Close_PublicKey Sign_zeros_error PublicKey_law [OF assms])

end

section \<open>Keys held in memory\<close>

text \<open>
  The state the memory, AWS, GCP and Azure backends share: the serialised scalar and the cached
  compressed public key (their logger is left out: nothing reads it).
\<close>

record keypair =
  skBytes :: bytes
  pkBytes :: bytes

definition keypair_holds :: "('p1, 'p2) blst \<Rightarrow> ('x) keypair_scheme \<Rightarrow> nat \<Rightarrow> bool" where
  "keypair_holds B b sk \<longleftrightarrow> scalar_ok sk \<and> skBytes b = Scalar_Serialize sk \<and> pkBytes b = bls_pk B sk"

definition wipe_key :: "('x) keypair_scheme \<Rightarrow> ('x) keypair_scheme" where
  "wipe_key b = b\<lparr>skBytes := zeroize (skBytes b)\<rparr>"

lemma wipe_key_sel [simp]:
  "skBytes (wipe_key b) = replicate (length (skBytes b)) 0" "pkBytes (wipe_key b) = pkBytes b"
  by (simp_all add: wipe_key_def)

end
