(* ===== verification/Backend_Memory.thy ===== *)
theory Backend_Memory
  imports Backend_Iface
begin

text \<open>
  Package \<open>backend/memory\<close>: a fresh key on every start. \<open>rnd\<close> is what \<open>crypto/rand.Read\<close> put into the
  32-byte seed, or its error.
\<close>

type_synonym memory_Backend = keypair

definition memory_New :: "('p1, 'p2) blst \<Rightarrow> bytes result \<Rightarrow> memory_Backend result" where
  "memory_New B rnd =
     and_then (wrapf (\<lambda>e. Errorf ''reading random bytes: %w'' [AErr e]) rnd) (\<lambda>r.
     let ikm = fill_buffer 32 r in
     and_then (wrapf (\<lambda>e. Errorf ''BLS key generation failed: %w'' [AErr e])
                 (blstutil_KeyGen B ikm)) (\<lambda>sk.
     and_then (wrapf (\<lambda>e. Errorf ''BLS public key derivation failed: %w'' [AErr e])
                 (blstutil_PublicKey B sk)) (\<lambda>pk.
     Inr \<lparr>skBytes = sk, pkBytes = pk\<rparr>)))"

definition memory_dstSign :: bytes where
  "memory_dstSign = DSTSign"

definition memory_dstPopProve :: bytes where
  "memory_dstPopProve = DSTPoP"

definition memory_PublicKey :: "memory_Backend \<Rightarrow> bytes result" where
  "memory_PublicKey b = Inr (pkBytes b)"

definition memory_Sign :: "('p1, 'p2) blst \<Rightarrow> memory_Backend \<Rightarrow> bytes \<Rightarrow> bytes result" where
  "memory_Sign B b msg = blstutil_Sign B (skBytes b) msg memory_dstSign"

definition memory_SignProofOfPossession ::
  "('p1, 'p2) blst \<Rightarrow> memory_Backend \<Rightarrow> bytes \<Rightarrow> bytes result" where
  "memory_SignProofOfPossession B b msg = blstutil_Sign B (skBytes b) msg memory_dstPopProve"

definition memory_Close :: "memory_Backend \<Rightarrow> memory_Backend \<times> goerr option" where
  "memory_Close b = (wipe_key b, None)"

definition memory_ops :: "('p1, 'p2) blst \<Rightarrow> memory_Backend Backend" where
  "memory_ops B = \<lparr>be_PublicKey = memory_PublicKey, be_Sign = memory_Sign B,
     be_SignProofOfPossession = memory_SignProofOfPossession B, be_Close = memory_Close,
     be_CloseLog = (\<lambda>_. [])\<rparr>"

lemmas memory_defs [op_defs] = memory_dstSign_def memory_dstPopProve_def memory_PublicKey_def memory_Sign_def memory_SignProofOfPossession_def
  memory_Close_def memory_ops_def

interpretation memb: local_backend B "memory_ops B" "keypair_holds B" "\<lambda>_. True" skBytes
  for B :: "('p1, 'p2) blst"
  by unfold_locales (simp_all add: memory_defs keypair_holds_def)

text \<open>
  Starting the memory backend: when the random source delivers and key generation keeps to its
  contract, \<open>New\<close> succeeds and the backend holds the scalar derived from the seed; when the source
  fails, so does \<open>New\<close>, with the source's error wrapped.
\<close>

lemma memory_New_spec:
  assumes "keygen_valid B"
  shows "case rnd of
           Inr r \<Rightarrow> (\<exists>b. memory_New B rnd = Inr b \<and> keypair_holds B b (c_keygen B (fill_buffer 32 r)))
         | Inl e \<Rightarrow> memory_New B rnd = Inl (Errorf ''reading random bytes: %w'' [AErr e])"
proof (cases rnd)
  case (Inr r)
  moreover have "scalar_ok (c_keygen B (fill_buffer 32 r))"
    using assms by (simp add: keygen_valid_def)
  ultimately show ?thesis
    by (simp add: memory_New_def Let_def keypair_holds_def)
qed (simp add: memory_New_def)

end
