(* ===== verification/Go_OS.thy ===== *)
theory Go_OS
  imports Go_Strings
begin

text \<open>
  The operating system as the program uses it through package \<open>os\<close>: regular files with contents and
  permission bits, reached by path. Every system call can fail: \<open>os_fail\<close> says which call fails and
  with what error, and \<open>os_short\<close> how many bytes a failing write leaves behind. Links, directories
  and other processes are not modelled: two paths are one file exactly when they are equal.
\<close>

unbundle bit_operations_syntax

record os_file =
  f_data :: bytes
  f_mode :: "32 word"

datatype syscall = OpenRead string | ReadAll string | OpenTrunc string | OpenWrite string
  | Stat string | WriteTo string | Sync string | CloseFile string | Unlink string

record os_state =
  os_files :: "string \<rightharpoonup> os_file"
  os_umask :: "32 word"
  os_fail :: "syscall \<Rightarrow> goerr option"
  os_short :: "string \<Rightarrow> nat"

definition err_not_exist :: "string \<Rightarrow> goerr" where
  "err_not_exist p = Errorf ''open %s: no such file or directory'' [AStr p]"

definition set_file :: "os_state \<Rightarrow> string \<Rightarrow> os_file \<Rightarrow> os_state" where
  "set_file S p f = S\<lparr>os_files := (os_files S)(p \<mapsto> f)\<rparr>"

definition os_ReadFile :: "os_state \<Rightarrow> string \<Rightarrow> bytes result" where
  "os_ReadFile S p =
     (case os_fail S (OpenRead p) of Some e \<Rightarrow> Inl e
      | None \<Rightarrow> (case os_files S p of None \<Rightarrow> Inl (err_not_exist p)
        | Some f \<Rightarrow> of_err (os_fail S (ReadAll p)) (f_data f)))"

text \<open>
  \<open>os.WriteFile\<close>: open with create and truncate, write, close. The permission bits are used only when
  the file is created; a failed write leaves the truncated file with what was written.
\<close>

definition os_WriteFile ::
  "os_state \<Rightarrow> string \<Rightarrow> bytes \<Rightarrow> 32 word \<Rightarrow> os_state \<times> goerr option" where
  "os_WriteFile S p data perm =
     (case os_fail S (OpenTrunc p) of Some e \<Rightarrow> (S, Some e)
      | None \<Rightarrow>
          (let mode = (case os_files S p of None \<Rightarrow> perm AND NOT (os_umask S) | Some f \<Rightarrow> f_mode f)
           in case os_fail S (WriteTo p) of
                Some e \<Rightarrow> (set_file S p \<lparr>f_data = take (os_short S p) data, f_mode = mode\<rparr>, Some e)
              | None \<Rightarrow> (set_file S p \<lparr>f_data = data, f_mode = mode\<rparr>, os_fail S (CloseFile p))))"

text \<open>\<open>f.Write(zs)\<close> on a file opened for writing at offset 0 without truncation.\<close>

definition overwrite :: "bytes \<Rightarrow> bytes \<Rightarrow> bytes" where
  "overwrite old new = new @ drop (length new) old"

definition os_Overwrite :: "os_state \<Rightarrow> string \<Rightarrow> os_file \<Rightarrow> bytes \<Rightarrow> os_state \<times> goerr option" where
  "os_Overwrite S p f zs =
     (case os_fail S (WriteTo p) of
        Some e \<Rightarrow> (set_file S p (f\<lparr>f_data := overwrite (f_data f) (take (os_short S p) zs)\<rparr>), Some e)
      | None \<Rightarrow> (set_file S p (f\<lparr>f_data := overwrite (f_data f) zs\<rparr>), None))"

definition os_Remove :: "os_state \<Rightarrow> string \<Rightarrow> os_state \<times> goerr option" where
  "os_Remove S p =
     (case os_fail S (Unlink p) of Some e \<Rightarrow> (S, Some e)
      | None \<Rightarrow> (case os_files S p of None \<Rightarrow> (S, Some (err_not_exist p))
        | Some _ \<Rightarrow> (S\<lparr>os_files := (os_files S)(p := None)\<rparr>, None)))"

named_theorems os_defs "the file operations"
declare os_ReadFile_def [os_defs] os_WriteFile_def [os_defs] os_Overwrite_def [os_defs]
  os_Remove_def [os_defs] set_file_def [os_defs]

definition readable :: "os_state \<Rightarrow> string \<Rightarrow> bool" where
  "readable S p \<longleftrightarrow> os_fail S (OpenRead p) = None \<and> os_fail S (ReadAll p) = None"

definition contents :: "os_state \<Rightarrow> string \<Rightarrow> bytes option" where
  "contents S p = map_option f_data (os_files S p)"

lemma ReadFile_eq: "readable S p \<Longrightarrow>
    os_ReadFile S p = (case contents S p of None \<Rightarrow> Inl (err_not_exist p) | Some d \<Rightarrow> Inr d)"
  by (auto simp: os_ReadFile_def readable_def contents_def split: option.splits)

lemma ReadFile_Inr: "os_ReadFile S p = Inr d \<Longrightarrow> contents S p = Some d"
  by (auto simp: os_ReadFile_def contents_def result_simps split: option.splits)

lemma WriteFile_ok_contents:
  "os_WriteFile S p d perm = (S', None) \<Longrightarrow> contents S' p = Some d"
  by (auto simp: os_defs contents_def Let_def split: option.splits)

lemma WriteFile_frame:
  "os_WriteFile S p d perm = (S', e) \<Longrightarrow> q \<noteq> p \<Longrightarrow> contents S' q = contents S q"
  by (auto simp: os_defs contents_def Let_def split: option.splits)

lemma WriteFile_env: "os_WriteFile S p d perm = (S', e) \<Longrightarrow>
    os_fail S' = os_fail S \<and> os_short S' = os_short S \<and> os_umask S' = os_umask S"
  by (auto simp: os_defs Let_def split: option.splits)

lemma WriteFile_created_mode:
  "os_WriteFile S p d perm = (S', None) \<Longrightarrow> os_files S p = None \<Longrightarrow>
    \<exists>f. os_files S' p = Some f \<and> f_mode f = perm AND NOT (os_umask S)"
  by (auto simp: os_defs Let_def split: option.splits)

lemma WriteFile_kept_mode:
  "os_WriteFile S p d perm = (S', None) \<Longrightarrow> os_files S p = Some f \<Longrightarrow>
    \<exists>f'. os_files S' p = Some f' \<and> f_mode f' = f_mode f"
  by (auto simp: os_defs Let_def split: option.splits)

lemma readable_WriteFile:
  "os_WriteFile S p d perm = (S', e) \<Longrightarrow> readable S' q \<longleftrightarrow> readable S q"
  by (drule WriteFile_env) (simp add: readable_def)

text \<open>A machine on which no call fails, for witnesses.\<close>

definition quiet_os :: "(string \<rightharpoonup> os_file) \<Rightarrow> os_state" where
  "quiet_os fs = \<lparr>os_files = fs, os_umask = 18, os_fail = (\<lambda>_. None), os_short = (\<lambda>_. 0)\<rparr>"

lemma readable_quiet [simp]: "readable (quiet_os fs) p"
  by (simp add: readable_def quiet_os_def)

end
