(* ===== verification/Config.thy ===== *)
theory Config
  imports Go_OS
begin

text \<open>
  Package \<open>config\<close>: the configuration record, its defaults, the YAML file and the environment
  overrides. The YAML decoder is third-party code and is the parameter \<open>unmarshal\<close>: it decodes a
  document over the configuration it is given, as \<open>yaml.Unmarshal(data, &cfg)\<close> does. The environment
  is a function from names to values, with the empty string for an unset name as \<open>os.Getenv\<close>
  returns it. \<open>uni\<close> is Go's Unicode lower-casing for strings outside ASCII.
\<close>

section \<open>The configuration\<close>

definition BackendMemory :: string where "BackendMemory = ''memory''"
definition BackendAWSKMS :: string where "BackendAWSKMS = ''aws-kms''"
definition BackendGCPKMS :: string where "BackendGCPKMS = ''gcp-kms''"
definition BackendAzureKV :: string where "BackendAzureKV = ''azure-kv''"
definition BackendVault :: string where "BackendVault = ''vault''"
definition BackendAWSNitro :: string where "BackendAWSNitro = ''aws-nitro''"

lemmas backend_names = BackendMemory_def BackendAWSKMS_def BackendGCPKMS_def BackendAzureKV_def
  BackendVault_def BackendAWSNitro_def

record AWSConfig =
  aws_Region :: string
  aws_KMSKeyID :: string
  aws_EncryptedBLSKeyPath :: string
  aws_EndpointURL :: string

record AWSNitroConfig =
  nitro_Region :: string
  nitro_EIFPath :: string
  nitro_KMSKeyID :: string
  nitro_EncryptedBLSKeyPath :: string
  nitro_CPUCount :: int
  nitro_MemoryMiB :: int
  nitro_EnclaveCID :: "32 word"

record GCPConfig =
  gcp_Project :: string
  gcp_Location :: string
  gcp_KeyRing :: string
  gcp_KeyName :: string
  gcp_EncryptedBLSKeyPath :: string

record AzureConfig =
  azure_VaultURL :: string
  azure_KeyName :: string
  azure_EncryptedBLSKeyPath :: string

record VaultConfig =
  vault_Address :: string
  vault_MountPath :: string
  vault_KeyName :: string
  vault_AuthMethod :: string
  vault_Token :: string
  vault_KubernetesRole :: string
  vault_KubernetesJWTPath :: string
  vault_AWSRole :: string

record Config =
  cfg_Backend :: string
  cfg_Listen :: string
  cfg_Port :: int
  cfg_AWS :: AWSConfig
  cfg_Nitro :: AWSNitroConfig
  cfg_GCP :: GCPConfig
  cfg_Azure :: AzureConfig
  cfg_Vault :: VaultConfig

definition zero_AWS :: AWSConfig where
  "zero_AWS = \<lparr>aws_Region = [], aws_KMSKeyID = [], aws_EncryptedBLSKeyPath = [], aws_EndpointURL = []\<rparr>"

definition zero_Nitro :: AWSNitroConfig where
  "zero_Nitro = \<lparr>nitro_Region = [], nitro_EIFPath = [], nitro_KMSKeyID = [],
     nitro_EncryptedBLSKeyPath = [], nitro_CPUCount = 0, nitro_MemoryMiB = 0, nitro_EnclaveCID = 0\<rparr>"

definition zero_GCP :: GCPConfig where
  "zero_GCP = \<lparr>gcp_Project = [], gcp_Location = [], gcp_KeyRing = [], gcp_KeyName = [],
     gcp_EncryptedBLSKeyPath = []\<rparr>"

definition zero_Azure :: AzureConfig where
  "zero_Azure = \<lparr>azure_VaultURL = [], azure_KeyName = [], azure_EncryptedBLSKeyPath = []\<rparr>"

definition zero_Vault :: VaultConfig where
  "zero_Vault = \<lparr>vault_Address = [], vault_MountPath = [], vault_KeyName = [], vault_AuthMethod = [],
     vault_Token = [], vault_KubernetesRole = [], vault_KubernetesJWTPath = [], vault_AWSRole = []\<rparr>"

definition Defaults :: Config where
  "Defaults = \<lparr>cfg_Backend = BackendMemory, cfg_Listen = ''127.0.0.1'', cfg_Port = 50051,
     cfg_AWS = zero_AWS, cfg_Nitro = zero_Nitro, cfg_GCP = zero_GCP, cfg_Azure = zero_Azure,
     cfg_Vault = zero_Vault\<rparr>"

definition Addr :: "Config \<Rightarrow> string" where
  "Addr c = cfg_Listen c @ '':'' @ int_dec (cfg_Port c)"

section \<open>Environment overrides\<close>

text \<open>
  One override: \<open>if v := os.Getenv(name); v != "" { field = v }\<close>, for the field that \<open>upd\<close> updates.
  The flag overrides of package \<open>main\<close> have the same shape.
\<close>

definition override :: "string \<Rightarrow> ((string \<Rightarrow> string) \<Rightarrow> 'c \<Rightarrow> 'c) \<Rightarrow> 'c \<Rightarrow> 'c" where
  "override v upd c = (if v = [] then c else upd (\<lambda>_. v) c)"

definition applyEnv_core :: "(string \<Rightarrow> string) \<Rightarrow> (string \<Rightarrow> string) \<Rightarrow> Config \<Rightarrow> Config" where
  "applyEnv_core uni env c =
    (let v = env ''BACKEND'';
         c = (if v = [] then c else c\<lparr>cfg_Backend := to_lower uni v\<rparr>);
         c = override (env ''LISTEN'') cfg_Listen_update c;
         v = env ''PORT''
     in if v = [] then c
        else case atoi v of Some p \<Rightarrow> c\<lparr>cfg_Port := p\<rparr> | None \<Rightarrow> c)"

definition applyEnv_AWS :: "(string \<Rightarrow> string) \<Rightarrow> AWSConfig \<Rightarrow> AWSConfig" where
  "applyEnv_AWS env a =
    (let a = override (env ''AWS_REGION'') aws_Region_update a;
         a = override (env ''AWS_KMS_KEY_ID'') aws_KMSKeyID_update a;
         a = override (env ''AWS_ENDPOINT_URL'') aws_EndpointURL_update a
     in override (env ''AWS_ENCRYPTED_BLS_KEY_PATH'') aws_EncryptedBLSKeyPath_update a)"

definition applyEnv_GCP :: "(string \<Rightarrow> string) \<Rightarrow> GCPConfig \<Rightarrow> GCPConfig" where
  "applyEnv_GCP env g =
    (let g = override (env ''GCP_PROJECT'') gcp_Project_update g;
         g = override (env ''GCP_LOCATION'') gcp_Location_update g;
         g = override (env ''GCP_KEY_RING'') gcp_KeyRing_update g;
         g = override (env ''GCP_KEY_NAME'') gcp_KeyName_update g
     in override (env ''GCP_ENCRYPTED_BLS_KEY_PATH'') gcp_EncryptedBLSKeyPath_update g)"

definition applyEnv_Azure :: "(string \<Rightarrow> string) \<Rightarrow> AzureConfig \<Rightarrow> AzureConfig" where
  "applyEnv_Azure env a =
    (let a = override (env ''AZURE_VAULT_URL'') azure_VaultURL_update a;
         a = override (env ''AZURE_KEY_NAME'') azure_KeyName_update a
     in override (env ''AZURE_ENCRYPTED_BLS_KEY_PATH'') azure_EncryptedBLSKeyPath_update a)"

definition applyEnv_Vault :: "(string \<Rightarrow> string) \<Rightarrow> VaultConfig \<Rightarrow> VaultConfig" where
  "applyEnv_Vault env w =
    (let w = override (env ''VAULT_ADDR'') vault_Address_update w;
         w = override (env ''VAULT_MOUNT_PATH'') vault_MountPath_update w;
         w = override (env ''VAULT_KEY_NAME'') vault_KeyName_update w;
         w = override (env ''VAULT_AUTH_METHOD'') vault_AuthMethod_update w;
         w = override (env ''VAULT_TOKEN'') vault_Token_update w;
         w = override (env ''VAULT_KUBERNETES_ROLE'') vault_KubernetesRole_update w
     in override (env ''VAULT_AWS_ROLE'') vault_AWSRole_update w)"

definition applyEnv :: "(string \<Rightarrow> string) \<Rightarrow> (string \<Rightarrow> string) \<Rightarrow> Config \<Rightarrow> Config" where
  "applyEnv uni env c =
    (let c = applyEnv_core uni env c;
         c = c\<lparr>cfg_AWS := applyEnv_AWS env (cfg_AWS c)\<rparr>;
         c = c\<lparr>cfg_GCP := applyEnv_GCP env (cfg_GCP c)\<rparr>;
         c = c\<lparr>cfg_Azure := applyEnv_Azure env (cfg_Azure c)\<rparr>
     in c\<lparr>cfg_Vault := applyEnv_Vault env (cfg_Vault c)\<rparr>)"

definition Load ::
  "(string \<Rightarrow> string) \<Rightarrow> (bytes \<Rightarrow> Config \<Rightarrow> Config result) \<Rightarrow> (string \<Rightarrow> string) \<Rightarrow> os_state \<Rightarrow>
    string \<Rightarrow> Config result" where
  "Load uni unmarshal env S path =
     and_then
       (if path \<noteq> [] then
          and_then (wrapf (\<lambda>e. Errorf ''reading config file %q: %w'' [AStr path, AErr e])
                      (os_ReadFile S path)) (\<lambda>data.
            wrapf (\<lambda>e. Errorf ''parsing config file %q: %w'' [AStr path, AErr e])
              (unmarshal data Defaults))
        else Inr Defaults)
       (\<lambda>cfg. Inr (applyEnv uni env cfg))"

section \<open>Properties of the overrides\<close>

lemma override_empty [simp]: "override [] upd c = c"
  by (simp add: override_def)

text \<open>
  An override is an update of its field by a conditional, which keeps chains of overrides linear.
\<close>

lemma override_update: "upd (\<lambda>x. x) c = c \<Longrightarrow> override v upd c = upd (\<lambda>x. if v = [] then x else v) c"
  by (simp add: override_def)

lemma update_id_AWSConfig [simp]:
  "aws_Region_update (\<lambda>x. x) (r :: AWSConfig) = r"
  "aws_KMSKeyID_update (\<lambda>x. x) (r :: AWSConfig) = r"
  "aws_EndpointURL_update (\<lambda>x. x) (r :: AWSConfig) = r"
  "aws_EncryptedBLSKeyPath_update (\<lambda>x. x) (r :: AWSConfig) = r"
  by (cases r; simp)+

lemma update_id_GCPConfig [simp]:
  "gcp_Project_update (\<lambda>x. x) (r :: GCPConfig) = r"
  "gcp_Location_update (\<lambda>x. x) (r :: GCPConfig) = r"
  "gcp_KeyRing_update (\<lambda>x. x) (r :: GCPConfig) = r"
  "gcp_KeyName_update (\<lambda>x. x) (r :: GCPConfig) = r"
  "gcp_EncryptedBLSKeyPath_update (\<lambda>x. x) (r :: GCPConfig) = r"
  by (cases r; simp)+

lemma update_id_AzureConfig [simp]:
  "azure_VaultURL_update (\<lambda>x. x) (r :: AzureConfig) = r"
  "azure_KeyName_update (\<lambda>x. x) (r :: AzureConfig) = r"
  "azure_EncryptedBLSKeyPath_update (\<lambda>x. x) (r :: AzureConfig) = r"
  by (cases r; simp)+

lemma update_id_VaultConfig [simp]:
  "vault_Address_update (\<lambda>x. x) (r :: VaultConfig) = r"
  "vault_MountPath_update (\<lambda>x. x) (r :: VaultConfig) = r"
  "vault_KeyName_update (\<lambda>x. x) (r :: VaultConfig) = r"
  "vault_AuthMethod_update (\<lambda>x. x) (r :: VaultConfig) = r"
  "vault_Token_update (\<lambda>x. x) (r :: VaultConfig) = r"
  "vault_KubernetesRole_update (\<lambda>x. x) (r :: VaultConfig) = r"
  "vault_AWSRole_update (\<lambda>x. x) (r :: VaultConfig) = r"
  by (cases r; simp)+

lemma update_id_Config [simp]:
  "cfg_Backend_update (\<lambda>x. x) (r :: Config) = r"
  "cfg_Listen_update (\<lambda>x. x) (r :: Config) = r"
  "cfg_AWS_update (\<lambda>x. x) (r :: Config) = r"
  "cfg_GCP_update (\<lambda>x. x) (r :: Config) = r"
  "cfg_Azure_update (\<lambda>x. x) (r :: Config) = r"
  "cfg_Vault_update (\<lambda>x. x) (r :: Config) = r"
  by (cases r; simp)+

lemma atoi_Nil [simp]: "atoi [] = None"
  by (simp add: atoi_def)

text \<open>Every string setting with the variable that overrides it.\<close>

definition env_table :: "(string \<times> (Config \<Rightarrow> string)) list" where
  "env_table =
    [(''LISTEN'', cfg_Listen),
     (''AWS_REGION'', aws_Region \<circ> cfg_AWS), (''AWS_KMS_KEY_ID'', aws_KMSKeyID \<circ> cfg_AWS),
     (''AWS_ENDPOINT_URL'', aws_EndpointURL \<circ> cfg_AWS),
     (''AWS_ENCRYPTED_BLS_KEY_PATH'', aws_EncryptedBLSKeyPath \<circ> cfg_AWS),
     (''GCP_PROJECT'', gcp_Project \<circ> cfg_GCP), (''GCP_LOCATION'', gcp_Location \<circ> cfg_GCP),
     (''GCP_KEY_RING'', gcp_KeyRing \<circ> cfg_GCP), (''GCP_KEY_NAME'', gcp_KeyName \<circ> cfg_GCP),
     (''GCP_ENCRYPTED_BLS_KEY_PATH'', gcp_EncryptedBLSKeyPath \<circ> cfg_GCP),
     (''AZURE_VAULT_URL'', azure_VaultURL \<circ> cfg_Azure), (''AZURE_KEY_NAME'', azure_KeyName \<circ> cfg_Azure),
     (''AZURE_ENCRYPTED_BLS_KEY_PATH'', azure_EncryptedBLSKeyPath \<circ> cfg_Azure),
     (''VAULT_ADDR'', vault_Address \<circ> cfg_Vault), (''VAULT_MOUNT_PATH'', vault_MountPath \<circ> cfg_Vault),
     (''VAULT_KEY_NAME'', vault_KeyName \<circ> cfg_Vault),
     (''VAULT_AUTH_METHOD'', vault_AuthMethod \<circ> cfg_Vault), (''VAULT_TOKEN'', vault_Token \<circ> cfg_Vault),
     (''VAULT_KUBERNETES_ROLE'', vault_KubernetesRole \<circ> cfg_Vault),
     (''VAULT_AWS_ROLE'', vault_AWSRole \<circ> cfg_Vault)]"

text \<open>The settings no variable reaches.\<close>

definition unreached :: "Config \<Rightarrow> AWSNitroConfig \<times> string" where
  "unreached c = (cfg_Nitro c, vault_KubernetesJWTPath (cfg_Vault c))"

lemma applyEnv_AWS_sel:
  "aws_Region (applyEnv_AWS env a) = (if env ''AWS_REGION'' = [] then aws_Region a else env ''AWS_REGION'')"
  "aws_KMSKeyID (applyEnv_AWS env a) =
     (if env ''AWS_KMS_KEY_ID'' = [] then aws_KMSKeyID a else env ''AWS_KMS_KEY_ID'')"
  "aws_EndpointURL (applyEnv_AWS env a) =
     (if env ''AWS_ENDPOINT_URL'' = [] then aws_EndpointURL a else env ''AWS_ENDPOINT_URL'')"
  "aws_EncryptedBLSKeyPath (applyEnv_AWS env a) =
     (if env ''AWS_ENCRYPTED_BLS_KEY_PATH'' = [] then aws_EncryptedBLSKeyPath a
      else env ''AWS_ENCRYPTED_BLS_KEY_PATH'')"
  by (simp_all add: applyEnv_AWS_def override_update)

lemma applyEnv_GCP_sel:
  "gcp_Project (applyEnv_GCP env g) = (if env ''GCP_PROJECT'' = [] then gcp_Project g else env ''GCP_PROJECT'')"
  "gcp_Location (applyEnv_GCP env g) =
     (if env ''GCP_LOCATION'' = [] then gcp_Location g else env ''GCP_LOCATION'')"
  "gcp_KeyRing (applyEnv_GCP env g) = (if env ''GCP_KEY_RING'' = [] then gcp_KeyRing g else env ''GCP_KEY_RING'')"
  "gcp_KeyName (applyEnv_GCP env g) = (if env ''GCP_KEY_NAME'' = [] then gcp_KeyName g else env ''GCP_KEY_NAME'')"
  "gcp_EncryptedBLSKeyPath (applyEnv_GCP env g) =
     (if env ''GCP_ENCRYPTED_BLS_KEY_PATH'' = [] then gcp_EncryptedBLSKeyPath g
      else env ''GCP_ENCRYPTED_BLS_KEY_PATH'')"
  by (simp_all add: applyEnv_GCP_def override_update)

lemma applyEnv_Azure_sel:
  "azure_VaultURL (applyEnv_Azure env a) =
     (if env ''AZURE_VAULT_URL'' = [] then azure_VaultURL a else env ''AZURE_VAULT_URL'')"
  "azure_KeyName (applyEnv_Azure env a) =
     (if env ''AZURE_KEY_NAME'' = [] then azure_KeyName a else env ''AZURE_KEY_NAME'')"
  "azure_EncryptedBLSKeyPath (applyEnv_Azure env a) =
     (if env ''AZURE_ENCRYPTED_BLS_KEY_PATH'' = [] then azure_EncryptedBLSKeyPath a
      else env ''AZURE_ENCRYPTED_BLS_KEY_PATH'')"
  by (simp_all add: applyEnv_Azure_def override_update)

lemma applyEnv_Vault_sel:
  "vault_Address (applyEnv_Vault env w) = (if env ''VAULT_ADDR'' = [] then vault_Address w else env ''VAULT_ADDR'')"
  "vault_MountPath (applyEnv_Vault env w) =
     (if env ''VAULT_MOUNT_PATH'' = [] then vault_MountPath w else env ''VAULT_MOUNT_PATH'')"
  "vault_KeyName (applyEnv_Vault env w) =
     (if env ''VAULT_KEY_NAME'' = [] then vault_KeyName w else env ''VAULT_KEY_NAME'')"
  "vault_AuthMethod (applyEnv_Vault env w) =
     (if env ''VAULT_AUTH_METHOD'' = [] then vault_AuthMethod w else env ''VAULT_AUTH_METHOD'')"
  "vault_Token (applyEnv_Vault env w) = (if env ''VAULT_TOKEN'' = [] then vault_Token w else env ''VAULT_TOKEN'')"
  "vault_KubernetesRole (applyEnv_Vault env w) =
     (if env ''VAULT_KUBERNETES_ROLE'' = [] then vault_KubernetesRole w else env ''VAULT_KUBERNETES_ROLE'')"
  "vault_AWSRole (applyEnv_Vault env w) =
     (if env ''VAULT_AWS_ROLE'' = [] then vault_AWSRole w else env ''VAULT_AWS_ROLE'')"
  "vault_KubernetesJWTPath (applyEnv_Vault env w) = vault_KubernetesJWTPath w"
  by (simp_all add: applyEnv_Vault_def override_update)

lemma applyEnv_core_sel:
  "cfg_Backend (applyEnv_core uni env c) =
     (if env ''BACKEND'' = [] then cfg_Backend c else to_lower uni (env ''BACKEND''))"
  "cfg_Listen (applyEnv_core uni env c) = (if env ''LISTEN'' = [] then cfg_Listen c else env ''LISTEN'')"
  "cfg_Port (applyEnv_core uni env c) =
     (case atoi (env ''PORT'') of Some p \<Rightarrow> p | None \<Rightarrow> cfg_Port c)"
  "cfg_AWS (applyEnv_core uni env c) = cfg_AWS c"
  "cfg_Nitro (applyEnv_core uni env c) = cfg_Nitro c"
  "cfg_GCP (applyEnv_core uni env c) = cfg_GCP c"
  "cfg_Azure (applyEnv_core uni env c) = cfg_Azure c"
  "cfg_Vault (applyEnv_core uni env c) = cfg_Vault c"
  by (auto simp: applyEnv_core_def override_update Let_def atoi_Nil split: option.split)

lemma applyEnv_sel:
  "cfg_Backend (applyEnv uni env c) = cfg_Backend (applyEnv_core uni env c)"
  "cfg_Listen (applyEnv uni env c) = cfg_Listen (applyEnv_core uni env c)"
  "cfg_Port (applyEnv uni env c) = cfg_Port (applyEnv_core uni env c)"
  "cfg_AWS (applyEnv uni env c) = applyEnv_AWS env (cfg_AWS c)"
  "cfg_GCP (applyEnv uni env c) = applyEnv_GCP env (cfg_GCP c)"
  "cfg_Azure (applyEnv uni env c) = applyEnv_Azure env (cfg_Azure c)"
  "cfg_Vault (applyEnv uni env c) = applyEnv_Vault env (cfg_Vault c)"
  "cfg_Nitro (applyEnv uni env c) = cfg_Nitro c"
  by (simp_all add: applyEnv_def Let_def applyEnv_core_sel)

lemmas applyEnv_sels = applyEnv_sel applyEnv_core_sel applyEnv_AWS_sel applyEnv_GCP_sel
  applyEnv_Azure_sel applyEnv_Vault_sel



end
