(* ===== verification/Backend_AWS.thy ===== *)
theory Backend_AWS
  imports Backend_Iface Config
begin

text \<open>
  Package \<open>backend/awskms\<close>: at start the encrypted key blob is read from disk and decrypted by AWS KMS,
  then the key is held in memory. The AWS SDK is the parameter record \<open>aws_cloud\<close>: loading the
  configuration from options, and the Decrypt and Encrypt calls of a client built from it.
\<close>

record aws_DecryptInput =
  dec_KeyId :: string
  dec_CiphertextBlob :: bytes
  dec_EncryptionAlgorithm :: string

record aws_EncryptInput =
  enc_KeyId :: string
  enc_Plaintext :: bytes
  enc_EncryptionAlgorithm :: string

record aws_opts =
  opt_Region :: string
  opt_Static :: "(string \<times> string \<times> string) option"

record aws_client =
  acl_opts :: aws_opts
  acl_BaseEndpoint :: "string option"

record aws_cloud =
  aws_LoadDefaultConfig :: "aws_opts \<Rightarrow> goerr option"
  aws_Decrypt :: "aws_client \<Rightarrow> aws_DecryptInput \<Rightarrow> bytes result"
  aws_Encrypt :: "aws_client \<Rightarrow> aws_EncryptInput \<Rightarrow> bytes result"

definition SymmetricDefault :: string where
  "SymmetricDefault = ''SYMMETRIC_DEFAULT''"

definition awskms_NewKMSClient :: "aws_cloud \<Rightarrow> AWSConfig \<Rightarrow> aws_client result" where
  "awskms_NewKMSClient cloud cfg =
     (let opts = \<lparr>opt_Region = aws_Region cfg, opt_Static = None\<rparr>;
          opts = (if aws_EndpointURL cfg \<noteq> []
                  then opts\<lparr>opt_Static := Some (''test'', ''test'', [])\<rparr> else opts)
      in case aws_LoadDefaultConfig cloud opts of
           Some e \<Rightarrow> Inl (Errorf ''loading AWS config: %w'' [AErr e])
         | None \<Rightarrow> Inr \<lparr>acl_opts = opts,
             acl_BaseEndpoint = (if aws_EndpointURL cfg \<noteq> [] then Some (aws_EndpointURL cfg) else None)\<rparr>)"

type_synonym awskms_Backend = keypair

definition awskms_backendFromBytes :: "('p1, 'p2) blst \<Rightarrow> bytes \<Rightarrow> awskms_Backend result" where
  "awskms_backendFromBytes B sk =
     (if length sk \<noteq> SecretKeySize
      then Inl (Errorf ''expected %d-byte BLS scalar, got %d bytes''
                  [AInt (int SecretKeySize), AInt (int (length sk))])
      else if \<not> ValidateSecretKey sk then Inl err_bad_scalar
      else and_then (wrapf (\<lambda>e. Errorf ''BLS public key derivation: %w'' [AErr e])
                       (blstutil_PublicKey B sk)) (\<lambda>pk.
           Inr \<lparr>skBytes = sk, pkBytes = pk\<rparr>))"

text \<open>The two calls of the SDK's client that the package uses; of the output only the bytes matter.\<close>

type_synonym kmsDecryptor = "aws_DecryptInput \<Rightarrow> bytes result"

type_synonym kmsEncryptor = "aws_EncryptInput \<Rightarrow> bytes result"

definition awskms_newWithClient ::
  "('p1, 'p2) blst \<Rightarrow> os_state \<Rightarrow> AWSConfig \<Rightarrow> kmsDecryptor \<Rightarrow>
    awskms_Backend result" where
  "awskms_newWithClient B S cfg decrypt =
     and_then (wrapf (\<lambda>e. Errorf ''reading encrypted key %q: %w''
                            [AStr (aws_EncryptedBLSKeyPath cfg), AErr e])
                 (os_ReadFile S (aws_EncryptedBLSKeyPath cfg))) (\<lambda>ciphertext.
     and_then (wrapf (\<lambda>e. Errorf ''KMS decrypt: %w'' [AErr e])
                 (decrypt \<lparr>dec_KeyId = aws_KMSKeyID cfg, dec_CiphertextBlob = ciphertext,
                    dec_EncryptionAlgorithm = SymmetricDefault\<rparr>)) (\<lambda>plaintext.
     awskms_backendFromBytes B plaintext))"

definition awskms_New ::
  "('p1, 'p2) blst \<Rightarrow> aws_cloud \<Rightarrow> os_state \<Rightarrow> AWSConfig \<Rightarrow> awskms_Backend result" where
  "awskms_New B cloud S cfg =
     and_then (awskms_NewKMSClient cloud cfg) (\<lambda>client.
     awskms_newWithClient B S cfg (aws_Decrypt cloud client))"

definition awskms_dstSign :: bytes where
  "awskms_dstSign = DSTSign"

definition awskms_dstPopProve :: bytes where
  "awskms_dstPopProve = DSTPoP"

definition awskms_PublicKey :: "awskms_Backend \<Rightarrow> bytes result" where
  "awskms_PublicKey b = Inr (pkBytes b)"

definition awskms_Sign :: "('p1, 'p2) blst \<Rightarrow> awskms_Backend \<Rightarrow> bytes \<Rightarrow> bytes result" where
  "awskms_Sign B b msg = blstutil_Sign B (skBytes b) msg awskms_dstSign"

definition awskms_SignProofOfPossession ::
  "('p1, 'p2) blst \<Rightarrow> awskms_Backend \<Rightarrow> bytes \<Rightarrow> bytes result" where
  "awskms_SignProofOfPossession B b msg = blstutil_Sign B (skBytes b) msg awskms_dstPopProve"

definition awskms_Close :: "awskms_Backend \<Rightarrow> awskms_Backend \<times> goerr option" where
  "awskms_Close b = (wipe_key b, None)"

definition awskms_Encrypt ::
  "kmsEncryptor \<Rightarrow> string \<Rightarrow> bytes \<Rightarrow> bytes result" where
  "awskms_Encrypt encrypt keyID plaintext =
     wrapf (\<lambda>e. Errorf ''KMS encrypt: %w'' [AErr e])
       (encrypt \<lparr>enc_KeyId = keyID, enc_Plaintext = plaintext,
          enc_EncryptionAlgorithm = SymmetricDefault\<rparr>)"

definition awskms_ops :: "('p1, 'p2) blst \<Rightarrow> awskms_Backend Backend" where
  "awskms_ops B = \<lparr>be_PublicKey = awskms_PublicKey, be_Sign = awskms_Sign B,
     be_SignProofOfPossession = awskms_SignProofOfPossession B, be_Close = awskms_Close,
     be_CloseLog = (\<lambda>_. [])\<rparr>"

lemmas awskms_defs [op_defs] = awskms_dstSign_def awskms_dstPopProve_def awskms_PublicKey_def awskms_Sign_def awskms_SignProofOfPossession_def
  awskms_Close_def awskms_ops_def

interpretation awsb: local_backend B "awskms_ops B" "keypair_holds B" "\<lambda>_. True" skBytes
  for B :: "('p1, 'p2) blst"
  by unfold_locales (simp_all add: awskms_defs keypair_holds_def)

section \<open>Loading the key\<close>

lemma awskms_fromBytes_iff:
  "awskms_backendFromBytes B bs = Inr b \<longleftrightarrow>
     (\<exists>sk. scalar_ok sk \<and> bs = Scalar_Serialize sk \<and> b = \<lparr>skBytes = bs, pkBytes = bls_pk B sk\<rparr>)"
  by (auto simp: awskms_backendFromBytes_def result_simps ValidateSecretKey_iff size_defs)

lemma awskms_fromBytes_Serialize [simp]:
  "scalar_ok sk \<Longrightarrow> awskms_backendFromBytes B (Scalar_Serialize sk) =
     Inr \<lparr>skBytes = Scalar_Serialize sk, pkBytes = bls_pk B sk\<rparr>"
  by (auto simp: awskms_fromBytes_iff)

text \<open>
  A backend comes into being only with a valid key: whatever the blob and KMS return, when \<open>New\<close>
  succeeds the file was read, KMS decrypted it under the configured key id to the 32-byte
  serialisation of a scalar in range, and the backend holds that scalar.
\<close>

lemma awskms_New_holds:
  "awskms_New B cloud S cfg = Inr b \<Longrightarrow>
     \<exists>client ct sk. awskms_NewKMSClient cloud cfg = Inr client
       \<and> contents S (aws_EncryptedBLSKeyPath cfg) = Some ct
       \<and> aws_Decrypt cloud client \<lparr>dec_KeyId = aws_KMSKeyID cfg, dec_CiphertextBlob = ct,
            dec_EncryptionAlgorithm = SymmetricDefault\<rparr> = Inr (Scalar_Serialize sk)
       \<and> keypair_holds B b sk"
  by (auto simp: awskms_New_def awskms_newWithClient_def result_simps awskms_fromBytes_iff
      keypair_holds_def dest!: ReadFile_Inr)

text \<open>
  The client for a custom endpoint uses the static test credentials; without one the default
  credential chain is used and the endpoint is not overridden.
\<close>

lemma NewKMSClient_iff:
  "awskms_NewKMSClient cloud cfg = Inr client \<longleftrightarrow>
     (if aws_EndpointURL cfg = []
      then client = \<lparr>acl_opts = \<lparr>opt_Region = aws_Region cfg, opt_Static = None\<rparr>, acl_BaseEndpoint = None\<rparr>
      else client = \<lparr>acl_opts = \<lparr>opt_Region = aws_Region cfg, opt_Static = Some (''test'', ''test'', [])\<rparr>,
             acl_BaseEndpoint = Some (aws_EndpointURL cfg)\<rparr>)
     \<and> aws_LoadDefaultConfig cloud (acl_opts client) = None"
  by (auto simp: awskms_NewKMSClient_def Let_def split: option.splits)

section \<open>The mock of the unit tests\<close>

text \<open>
  The XOR cipher \<open>mockKMS\<close> of \<open>awskms_test.go\<close>, with the cloud that serves it: the instance at which the
  hypotheses on KMS are shown to hold.
\<close>

definition mockKMS_xor :: "bytes \<Rightarrow> bytes \<Rightarrow> bytes" where
  "mockKMS_xor key inp = map (\<lambda>i. (inp ! i) XOR (key ! (i mod 32))) [0..<length inp]"

lemma xor_xor_byte: "(a XOR b) XOR b = (a :: byte)"
  by (simp add: xor.assoc)

lemma mockKMS_xor_involution: "mockKMS_xor key (mockKMS_xor key inp) = inp"
  by (rule nth_equalityI) (simp_all add: mockKMS_xor_def xor_xor_byte)

definition mock_aws :: "bytes \<Rightarrow> aws_cloud" where
  "mock_aws key = \<lparr>aws_LoadDefaultConfig = (\<lambda>_. None),
     aws_Decrypt = (\<lambda>_ i. Inr (mockKMS_xor key (dec_CiphertextBlob i))),
     aws_Encrypt = (\<lambda>_ i. Inr (mockKMS_xor key (enc_Plaintext i)))\<rparr>"

definition mock_key :: bytes where
  "mock_key = replicate 32 0x5A"

definition aws_test_cfg :: AWSConfig where
  "aws_test_cfg = \<lparr>aws_Region = ''us-east-1'', aws_KMSKeyID = ''fake-key-id'',
     aws_EncryptedBLSKeyPath = ''bls.key.enc'', aws_EndpointURL = []\<rparr>"

definition aws_test_os :: os_state where
  "aws_test_os = quiet_os [''bls.key.enc'' \<mapsto>
     \<lparr>f_data = mockKMS_xor mock_key (Scalar_Serialize 5), f_mode = 0\<rparr>]"

lemma aws_test_New:
  "awskms_New toy_blst (mock_aws mock_key) aws_test_os aws_test_cfg =
     Inr \<lparr>skBytes = Scalar_Serialize 5, pkBytes = bls_pk toy_blst 5\<rparr>"
proof -
  have "scalar_ok 5"
    by (simp add: scalar_ok_def curve_r_def)
  moreover have "os_ReadFile aws_test_os ''bls.key.enc'' = Inr (mockKMS_xor mock_key (Scalar_Serialize 5))"
    by (simp add: os_ReadFile_def aws_test_os_def quiet_os_def)
  ultimately show ?thesis
    by (simp add: awskms_New_def awskms_newWithClient_def awskms_NewKMSClient_def aws_test_cfg_def
        mock_aws_def mockKMS_xor_involution)
qed

end
