(* ===== verification/Backend_GCP.thy ===== *)
theory Backend_GCP
  imports Backend_Iface Config
begin

text \<open>
  Package \<open>backend/gcpkms\<close>. The Google client library is the parameter record \<open>gcp_cloud\<close>: making a
  client, its Decrypt and Encrypt calls and the error its \<open>Close\<close> returns. The backend keeps the client
  and closes it after wiping the key.
\<close>

record gcp_cloud =
  gcp_NewClient :: "goerr option"
  gcp_Decrypt :: "string \<Rightarrow> bytes \<Rightarrow> bytes result"
  gcp_Encrypt :: "string \<Rightarrow> bytes \<Rightarrow> bytes result"
  gcp_CloseErr :: "goerr option"

record gcpkms_Backend = keypair +
  gcp_client :: "gcp_cloud option"

definition resourceName :: "GCPConfig \<Rightarrow> string" where
  "resourceName cfg = ''projects/'' @ gcp_Project cfg @ ''/locations/'' @ gcp_Location cfg
     @ ''/keyRings/'' @ gcp_KeyRing cfg @ ''/cryptoKeys/'' @ gcp_KeyName cfg"

definition gcpkms_NewKMSClient :: "gcp_cloud \<Rightarrow> gcp_cloud result" where
  "gcpkms_NewKMSClient cloud =
     (case gcp_NewClient cloud of
        Some e \<Rightarrow> Inl (Errorf ''creating GCP KMS client: %w'' [AErr e])
      | None \<Rightarrow> Inr cloud)"

definition gcpkms_backendFromBytes :: "('p1, 'p2) blst \<Rightarrow> bytes \<Rightarrow> gcpkms_Backend result" where
  "gcpkms_backendFromBytes B sk =
     (if length sk \<noteq> SecretKeySize
      then Inl (Errorf ''expected %d-byte BLS scalar, got %d bytes''
                  [AInt (int SecretKeySize), AInt (int (length sk))])
      else if \<not> ValidateSecretKey sk then Inl (Errorf ''invalid BLS key material'' [])
      else and_then (wrapf (\<lambda>e. Errorf ''BLS public key derivation: %w'' [AErr e])
                       (blstutil_PublicKey B sk)) (\<lambda>pk.
           Inr \<lparr>skBytes = sk, pkBytes = pk, gcp_client = None\<rparr>))"

definition gcpkms_newWithClient ::
  "('p1, 'p2) blst \<Rightarrow> os_state \<Rightarrow> GCPConfig \<Rightarrow> gcp_cloud \<Rightarrow> gcpkms_Backend result" where
  "gcpkms_newWithClient B S cfg client =
     and_then (wrapf (\<lambda>e. Errorf ''reading encrypted key %q: %w''
                            [AStr (gcp_EncryptedBLSKeyPath cfg), AErr e])
                 (os_ReadFile S (gcp_EncryptedBLSKeyPath cfg))) (\<lambda>ciphertext.
     and_then (wrapf (\<lambda>e. Errorf ''GCP KMS decrypt: %w'' [AErr e])
                 (gcp_Decrypt client (resourceName cfg) ciphertext)) (\<lambda>plaintext.
     and_then (gcpkms_backendFromBytes B plaintext) (\<lambda>b.
     Inr (b\<lparr>gcp_client := Some client\<rparr>))))"

definition gcpkms_New ::
  "('p1, 'p2) blst \<Rightarrow> gcp_cloud \<Rightarrow> os_state \<Rightarrow> GCPConfig \<Rightarrow> gcpkms_Backend result" where
  "gcpkms_New B cloud S cfg =
     (case gcp_NewClient cloud of
        Some e \<Rightarrow> Inl (Errorf ''creating GCP KMS client: %w'' [AErr e])
      | None \<Rightarrow> gcpkms_newWithClient B S cfg cloud)"

definition gcpkms_dstSign :: bytes where
  "gcpkms_dstSign = DSTSign"

definition gcpkms_dstPopProve :: bytes where
  "gcpkms_dstPopProve = DSTPoP"

definition gcpkms_PublicKey :: "gcpkms_Backend \<Rightarrow> bytes result" where
  "gcpkms_PublicKey b = Inr (pkBytes b)"

definition gcpkms_Sign :: "('p1, 'p2) blst \<Rightarrow> gcpkms_Backend \<Rightarrow> bytes \<Rightarrow> bytes result" where
  "gcpkms_Sign B b msg = blstutil_Sign B (skBytes b) msg gcpkms_dstSign"

definition gcpkms_SignProofOfPossession ::
  "('p1, 'p2) blst \<Rightarrow> gcpkms_Backend \<Rightarrow> bytes \<Rightarrow> bytes result" where
  "gcpkms_SignProofOfPossession B b msg = blstutil_Sign B (skBytes b) msg gcpkms_dstPopProve"

definition gcpkms_Close :: "gcpkms_Backend \<Rightarrow> gcpkms_Backend \<times> goerr option" where
  "gcpkms_Close b =
     (let b = wipe_key b
      in case gcp_client b of Some client \<Rightarrow> (b, gcp_CloseErr client) | None \<Rightarrow> (b, None))"

definition gcpkms_Encrypt :: "gcp_cloud \<Rightarrow> string \<Rightarrow> bytes \<Rightarrow> bytes result" where
  "gcpkms_Encrypt client keyName plaintext =
     wrapf (\<lambda>e. Errorf ''GCP KMS encrypt: %w'' [AErr e]) (gcp_Encrypt client keyName plaintext)"

definition gcpkms_ops :: "('p1, 'p2) blst \<Rightarrow> gcpkms_Backend Backend" where
  "gcpkms_ops B = \<lparr>be_PublicKey = gcpkms_PublicKey, be_Sign = gcpkms_Sign B,
     be_SignProofOfPossession = gcpkms_SignProofOfPossession B, be_Close = gcpkms_Close,
     be_CloseLog = (\<lambda>_. [])\<rparr>"

lemmas gcpkms_defs [op_defs] = gcpkms_dstSign_def gcpkms_dstPopProve_def gcpkms_PublicKey_def gcpkms_Sign_def gcpkms_SignProofOfPossession_def
  gcpkms_Close_def gcpkms_ops_def

interpretation gcpb: local_backend B "gcpkms_ops B" "keypair_holds B" "\<lambda>_. True" skBytes
  for B :: "('p1, 'p2) blst"
  by unfold_locales (simp_all add: gcpkms_defs keypair_holds_def Let_def split: option.split)

section \<open>Loading the key\<close>

lemma gcpkms_fromBytes_iff:
  "gcpkms_backendFromBytes B bs = Inr b \<longleftrightarrow>
     (\<exists>sk. scalar_ok sk \<and> bs = Scalar_Serialize sk \<and>
       b = \<lparr>skBytes = bs, pkBytes = bls_pk B sk, gcp_client = None\<rparr>)"
  by (auto simp: gcpkms_backendFromBytes_def result_simps ValidateSecretKey_iff size_defs)

text \<open>
  The GCP backend, like the AWS one, holds a valid scalar whenever \<open>New\<close> succeeds, and it is the
  one KMS returned for the blob under the configured key resource; it keeps the client it decrypted
  with.
\<close>

lemma gcpkms_New_holds:
  "gcpkms_New B cloud S cfg = Inr b \<Longrightarrow>
     \<exists>ct sk. contents S (gcp_EncryptedBLSKeyPath cfg) = Some ct
       \<and> gcp_Decrypt cloud (resourceName cfg) ct = Inr (Scalar_Serialize sk)
       \<and> keypair_holds B b sk \<and> gcp_client b = Some cloud"
  by (auto simp: gcpkms_New_def gcpkms_newWithClient_def result_simps gcpkms_fromBytes_iff
      keypair_holds_def split: option.splits dest!: ReadFile_Inr)

definition gcp_test_cfg :: GCPConfig where
  "gcp_test_cfg = \<lparr>gcp_Project = ''p'', gcp_Location = ''l'', gcp_KeyRing = ''r'', gcp_KeyName = ''k'',
     gcp_EncryptedBLSKeyPath = ''bls.key.enc''\<rparr>"

definition gcp_test_cloud :: gcp_cloud where
  "gcp_test_cloud = \<lparr>gcp_NewClient = None, gcp_Decrypt = (\<lambda>_ ct. Inr (rev ct)),
     gcp_Encrypt = (\<lambda>_ pt. Inr (rev pt)), gcp_CloseErr = None\<rparr>"

definition gcp_test_os :: os_state where
  "gcp_test_os = quiet_os [''bls.key.enc'' \<mapsto> \<lparr>f_data = rev (Scalar_Serialize 5), f_mode = 0\<rparr>]"

lemma gcp_test_New:
  "gcpkms_New toy_blst gcp_test_cloud gcp_test_os gcp_test_cfg =
     Inr \<lparr>skBytes = Scalar_Serialize 5, pkBytes = bls_pk toy_blst 5, gcp_client = Some gcp_test_cloud\<rparr>"
proof -
  have "scalar_ok 5"
    by (simp add: scalar_ok_def curve_r_def)
  then have "gcpkms_backendFromBytes toy_blst (Scalar_Serialize 5) =
      Inr \<lparr>skBytes = Scalar_Serialize 5, pkBytes = bls_pk toy_blst 5, gcp_client = None\<rparr>"
    by (auto simp: gcpkms_fromBytes_iff)
  moreover have "os_ReadFile gcp_test_os ''bls.key.enc'' = Inr (rev (Scalar_Serialize 5))"
    by (simp add: os_ReadFile_def gcp_test_os_def quiet_os_def)
  ultimately show ?thesis
    by (simp add: gcpkms_New_def gcpkms_newWithClient_def gcp_test_cfg_def gcp_test_cloud_def)
qed

end
