(* ===== verification/Backend_Azure.thy ===== *)
theory Backend_Azure
  imports Backend_Iface Config
begin

text \<open>
  Package \<open>backend/azurekv\<close>. The Azure SDK is the parameter record \<open>azure_cloud\<close>: the credential, the
  client for a vault URL and its Decrypt and Encrypt calls, which take the key name, the key version
  and the algorithm.
\<close>

record azure_cloud =
  az_NewCredential :: "goerr option"
  az_NewClient :: "string \<Rightarrow> goerr option"
  az_Decrypt :: "string \<Rightarrow> string \<Rightarrow> string \<Rightarrow> string \<Rightarrow> bytes \<Rightarrow> bytes result"
  az_Encrypt :: "string \<Rightarrow> string \<Rightarrow> string \<Rightarrow> string \<Rightarrow> bytes \<Rightarrow> bytes result"

record kv_client =
  kv_Decrypt :: "string \<Rightarrow> string \<Rightarrow> string \<Rightarrow> bytes \<Rightarrow> bytes result"
  kv_Encrypt :: "string \<Rightarrow> string \<Rightarrow> string \<Rightarrow> bytes \<Rightarrow> bytes result"

definition RSAOAEP256 :: string where
  "RSAOAEP256 = ''RSA-OAEP-256''"

definition azurekv_NewKVClient :: "azure_cloud \<Rightarrow> string \<Rightarrow> kv_client result" where
  "azurekv_NewKVClient cloud vaultURL =
     (case az_NewCredential cloud of
        Some e \<Rightarrow> Inl (Errorf ''creating Azure credential: %w'' [AErr e])
      | None \<Rightarrow>
         (case az_NewClient cloud vaultURL of
            Some e \<Rightarrow> Inl (Errorf ''creating Azure Key Vault client: %w'' [AErr e])
          | None \<Rightarrow> Inr \<lparr>kv_Decrypt = az_Decrypt cloud vaultURL, kv_Encrypt = az_Encrypt cloud vaultURL\<rparr>))"

type_synonym azurekv_Backend = keypair

definition azurekv_backendFromBytes :: "('p1, 'p2) blst \<Rightarrow> bytes \<Rightarrow> azurekv_Backend result" where
  "azurekv_backendFromBytes B sk =
     (if length sk \<noteq> SecretKeySize
      then Inl (Errorf ''expected %d-byte BLS scalar, got %d bytes''
                  [AInt (int SecretKeySize), AInt (int (length sk))])
      else if \<not> ValidateSecretKey sk then Inl (Errorf ''invalid BLS key material'' [])
      else and_then (wrapf (\<lambda>e. Errorf ''BLS public key derivation: %w'' [AErr e])
                       (blstutil_PublicKey B sk)) (\<lambda>pk.
           Inr \<lparr>skBytes = sk, pkBytes = pk\<rparr>))"

definition azurekv_newWithClient ::
  "('p1, 'p2) blst \<Rightarrow> os_state \<Rightarrow> AzureConfig \<Rightarrow> kv_client \<Rightarrow> azurekv_Backend result" where
  "azurekv_newWithClient B S cfg client =
     and_then (wrapf (\<lambda>e. Errorf ''reading encrypted key %q: %w''
                            [AStr (azure_EncryptedBLSKeyPath cfg), AErr e])
                 (os_ReadFile S (azure_EncryptedBLSKeyPath cfg))) (\<lambda>ciphertext.
     and_then (wrapf (\<lambda>e. Errorf ''Azure KV decrypt: %w'' [AErr e])
                 (kv_Decrypt client (azure_KeyName cfg) [] RSAOAEP256 ciphertext)) (\<lambda>plaintext.
     azurekv_backendFromBytes B plaintext))"

definition azurekv_New ::
  "('p1, 'p2) blst \<Rightarrow> azure_cloud \<Rightarrow> os_state \<Rightarrow> AzureConfig \<Rightarrow> azurekv_Backend result" where
  "azurekv_New B cloud S cfg =
     (case az_NewCredential cloud of
        Some e \<Rightarrow> Inl (Errorf ''creating Azure credential: %w'' [AErr e])
      | None \<Rightarrow>
         (case az_NewClient cloud (azure_VaultURL cfg) of
            Some e \<Rightarrow> Inl (Errorf ''creating Azure Key Vault client: %w'' [AErr e])
          | None \<Rightarrow> azurekv_newWithClient B S cfg
              \<lparr>kv_Decrypt = az_Decrypt cloud (azure_VaultURL cfg),
               kv_Encrypt = az_Encrypt cloud (azure_VaultURL cfg)\<rparr>))"

definition azurekv_dstSign :: bytes where
  "azurekv_dstSign = DSTSign"

definition azurekv_dstPopProve :: bytes where
  "azurekv_dstPopProve = DSTPoP"

definition azurekv_PublicKey :: "azurekv_Backend \<Rightarrow> bytes result" where
  "azurekv_PublicKey b = Inr (pkBytes b)"

definition azurekv_Sign :: "('p1, 'p2) blst \<Rightarrow> azurekv_Backend \<Rightarrow> bytes \<Rightarrow> bytes result" where
  "azurekv_Sign B b msg = blstutil_Sign B (skBytes b) msg azurekv_dstSign"

definition azurekv_SignProofOfPossession ::
  "('p1, 'p2) blst \<Rightarrow> azurekv_Backend \<Rightarrow> bytes \<Rightarrow> bytes result" where
  "azurekv_SignProofOfPossession B b msg = blstutil_Sign B (skBytes b) msg azurekv_dstPopProve"

definition azurekv_Close :: "azurekv_Backend \<Rightarrow> azurekv_Backend \<times> goerr option" where
  "azurekv_Close b = (wipe_key b, None)"

definition azurekv_Encrypt :: "kv_client \<Rightarrow> string \<Rightarrow> bytes \<Rightarrow> bytes result" where
  "azurekv_Encrypt client keyName plaintext =
     wrapf (\<lambda>e. Errorf ''Azure KV encrypt: %w'' [AErr e])
       (kv_Encrypt client keyName [] RSAOAEP256 plaintext)"

definition azurekv_ops :: "('p1, 'p2) blst \<Rightarrow> azurekv_Backend Backend" where
  "azurekv_ops B = \<lparr>be_PublicKey = azurekv_PublicKey, be_Sign = azurekv_Sign B,
     be_SignProofOfPossession = azurekv_SignProofOfPossession B, be_Close = azurekv_Close,
     be_CloseLog = (\<lambda>_. [])\<rparr>"

lemmas azurekv_defs [op_defs] = azurekv_dstSign_def azurekv_dstPopProve_def azurekv_PublicKey_def azurekv_Sign_def
  azurekv_SignProofOfPossession_def azurekv_Close_def azurekv_ops_def

interpretation azb: local_backend B "azurekv_ops B" "keypair_holds B" "\<lambda>_. True" skBytes
  for B :: "('p1, 'p2) blst"
  by unfold_locales (simp_all add: azurekv_defs keypair_holds_def)

section \<open>Loading the key\<close>

lemma azurekv_fromBytes_iff:
  "azurekv_backendFromBytes B bs = Inr b \<longleftrightarrow>
     (\<exists>sk. scalar_ok sk \<and> bs = Scalar_Serialize sk \<and> b = \<lparr>skBytes = bs, pkBytes = bls_pk B sk\<rparr>)"
  by (auto simp: azurekv_backendFromBytes_def result_simps ValidateSecretKey_iff size_defs)

text \<open>
  The Azure backend holds a valid scalar whenever \<open>New\<close> succeeds, namely the one Key Vault
  returned for the blob with RSA-OAEP-256 under the latest version of the configured key.
\<close>

lemma azurekv_New_holds:
  "azurekv_New B cloud S cfg = Inr b \<Longrightarrow>
     \<exists>ct sk. contents S (azure_EncryptedBLSKeyPath cfg) = Some ct
       \<and> az_Decrypt cloud (azure_VaultURL cfg) (azure_KeyName cfg) [] ''RSA-OAEP-256'' ct
           = Inr (Scalar_Serialize sk)
       \<and> keypair_holds B b sk"
  by (auto simp: azurekv_New_def azurekv_newWithClient_def result_simps azurekv_fromBytes_iff
      keypair_holds_def RSAOAEP256_def split: option.splits dest!: ReadFile_Inr)

definition azure_test_cfg :: AzureConfig where
  "azure_test_cfg = \<lparr>azure_VaultURL = ''https://v'', azure_KeyName = ''k'',
     azure_EncryptedBLSKeyPath = ''bls.key.enc''\<rparr>"

definition azure_test_cloud :: azure_cloud where
  "azure_test_cloud = \<lparr>az_NewCredential = None, az_NewClient = (\<lambda>_. None),
     az_Decrypt = (\<lambda>_ _ _ _ ct. Inr (rev ct)), az_Encrypt = (\<lambda>_ _ _ _ pt. Inr (rev pt))\<rparr>"

definition azure_test_os :: os_state where
  "azure_test_os = quiet_os [''bls.key.enc'' \<mapsto> \<lparr>f_data = rev (Scalar_Serialize 5), f_mode = 0\<rparr>]"

lemma azure_test_New:
  "azurekv_New toy_blst azure_test_cloud azure_test_os azure_test_cfg =
     Inr \<lparr>skBytes = Scalar_Serialize 5, pkBytes = bls_pk toy_blst 5\<rparr>"
proof -
  have "scalar_ok 5"
    by (simp add: scalar_ok_def curve_r_def)
  then have "azurekv_backendFromBytes toy_blst (Scalar_Serialize 5) =
      Inr \<lparr>skBytes = Scalar_Serialize 5, pkBytes = bls_pk toy_blst 5\<rparr>"
    by (auto simp: azurekv_fromBytes_iff)
  moreover have "os_ReadFile azure_test_os ''bls.key.enc'' = Inr (rev (Scalar_Serialize 5))"
    by (simp add: os_ReadFile_def azure_test_os_def quiet_os_def)
  ultimately show ?thesis
    by (simp add: azurekv_New_def azurekv_newWithClient_def azure_test_cfg_def azure_test_cloud_def)
qed

end
