(* ===== verification/Vault_Server.thy ===== *)
theory Vault_Server
  imports Vault_Backend
begin

text \<open>
  The Vault backend and the plugin put together: a Vault server that has the plugin mounted, as an instance
  of the API parameter, and the proof that the backend over it is a signing backend for the stored key.
  The routing follows the plugin's own path table; which names the framework's generic name pattern
  accepts is the parameter \<open>gn\<close>, of which only the names at hand matter.
\<close>

section \<open>Serving the plugin\<close>

record vault_world =
  vw_storage :: vstorage
  vw_accepts :: "string \<Rightarrow> bool"

definition endpoints :: "endpoint list" where
  "endpoints = [Generate, Import, PublicKeyRead, SignEp, SignPopEp]"

text \<open>A path \<open>mount/keys/name/endpoint\<close> with an acceptable name, taken apart.\<close>

definition route_path :: "(string \<Rightarrow> bool) \<Rightarrow> string \<Rightarrow> string \<Rightarrow> (endpoint \<times> string) option" where
  "route_path gn mount path =
     (let pre = mount @ ''/keys/'';
          rest = drop (length pre) path;
          name = takeWhile (\<lambda>c. c \<noteq> CHR ''/'') rest;
          suffix = drop (length name) rest
      in if take (length pre) path = pre \<and> gn name
         then map_option (\<lambda>ep. (ep, name)) (find (\<lambda>ep. CHR ''/'' # endpoint_suffix ep = suffix) endpoints)
         else None)"

definition request_data :: "string \<Rightarrow> (string \<times> string) list \<Rightarrow> field_data" where
  "request_data name dat = \<lparr>fd_name = name, fd_key = map_of dat ''key'',
     fd_message = map_of dat ''message'', fd_dst = map_of dat ''dst''\<rparr>"

text \<open>A response on the wire: data is a secret with that data; error responses and Go errors are errors.\<close>

fun api_answer :: "response result \<Rightarrow> vault_secret option result" where
  "api_answer (Inl e) = Inl e"
| "api_answer (Inr (ErrorResponse fmt args)) = Inl (Errorf fmt args)"
| "api_answer (Inr (RespData xs)) =
     Inr (Some \<lparr>sec_Data = Some (map_option VString \<circ> map_of xs), sec_Auth = None\<rparr>)"

definition err_denied :: goerr where "err_denied = Ext ''permission denied''"
definition err_no_route :: goerr where "err_no_route = Ext ''unsupported path''"

definition plugin_api ::
  "('p1, 'p2) blst \<Rightarrow> (string \<Rightarrow> bool) \<Rightarrow> string \<Rightarrow> bytes result \<Rightarrow> vault_world vault_api" where
  "plugin_api B gn mount rnd = \<lparr>
     va_NewClient = (\<lambda>addr. Inr \<lparr>vc_Address = addr, vc_Token = []\<rparr>),
     va_NewAuth = (\<lambda>_. None),
     va_Login = (\<lambda>w _ _. (w, Inl err_no_route)),
     va_Read = (\<lambda>w client path.
        if \<not> vw_accepts w (vc_Token client) then Inl err_denied
        else case route_path gn mount path of
               None \<Rightarrow> Inr None
             | Some (ep, name) \<Rightarrow> api_answer (plugin_read B (vw_storage w) ep (request_data name []))),
     va_Write = (\<lambda>w client path dat.
        if \<not> vw_accepts w (vc_Token client) then (w, Inl err_denied)
        else case route_path gn mount path of
               None \<Rightarrow> (w, Inl err_no_route)
             | Some (ep, name) \<Rightarrow>
                 (let (st', r) = plugin_write B rnd (vw_storage w) ep (request_data name dat)
                  in (w\<lparr>vw_storage := st'\<rparr>, api_answer r))),
     va_LookupSelf = (\<lambda>w client. if vw_accepts w (vc_Token client)
        then Inr \<lparr>ti_TTL = Inr 0, ti_Renewable = Inr False\<rparr> else Inl err_denied),
     va_RenewSelf = (\<lambda>w client. (w, Some err_denied))\<rparr>"

definition good_name :: "(string \<Rightarrow> bool) \<Rightarrow> string \<Rightarrow> bool" where
  "good_name gn name \<longleftrightarrow> gn name \<and> CHR ''/'' \<notin> set name"

lemma find_endpoint: "find (\<lambda>ep'. endpoint_suffix ep' = endpoint_suffix ep) endpoints = Some ep"
  by (cases ep) (simp_all add: endpoints_def)

lemma takeWhile_name:
  "CHR ''/'' \<notin> set name \<Longrightarrow> takeWhile (\<lambda>c. c \<noteq> CHR ''/'') (name @ CHR ''/'' # rest) = name"
  by (induction name) auto

lemma route_key_path:
  "good_name gn name \<Longrightarrow>
     route_path gn mount (key_path mount name (endpoint_suffix ep)) = Some (ep, name)"
  by (simp add: route_path_def key_path_def good_name_def takeWhile_name find_endpoint Let_def)

section \<open>A signing backend\<close>

definition vault_holds ::
  "('p1, 'p2) blst \<Rightarrow> (string \<Rightarrow> bool) \<Rightarrow> string \<Rightarrow> vault_world \<Rightarrow> vault_Backend \<Rightarrow> nat \<Rightarrow> bool" where
  "vault_holds B gn mount w b sk \<longleftrightarrow>
     vw_accepts w (vc_Token (vb_client b)) \<and> good_name gn (vb_keyName b) \<and> vb_mountPath b = mount
     \<and> stored_key (vw_storage w) (vb_keyName b) sk
     \<and> st_get_err (vw_storage w) (entry_key (vb_keyName b)) = None
     \<and> vb_pkBytes b = bls_pk B sk"

lemma signed_by_plugin:
  assumes "vault_holds B gn mount w b sk" "ep = SignEp \<and> dst = DSTSign \<or> ep = SignPopEp \<and> dst = DSTPoP"
  shows "snd (vault_requestSign (plugin_api B gn mount rnd) w b (hex_EncodeToString msg)
           (hex_EncodeToString dst) (endpoint_suffix ep)) = Inr (bls_sig B sk msg dst)"
proof -
  let ?d = "request_data (vb_keyName b) [(''message'', hex_EncodeToString msg), (''dst'', hex_EncodeToString dst)]"
  have d: "fd_name ?d = vb_keyName b" "fd_message ?d = Some (hex_EncodeToString msg)"
    "fd_dst ?d = map_option hex_EncodeToString (Some dst)"
    by (simp_all add: request_data_def)
  have st: "stored_key (vw_storage w) (fd_name ?d) sk" "st_get_err (vw_storage w) (entry_key (fd_name ?d)) = None"
    using assms(1) by (simp_all add: vault_holds_def d)
  have "plugin_write B rnd (vw_storage w) ep ?d = (vw_storage w,
      Inr (RespData [(''signature'', hex_EncodeToString (bls_sig B sk msg dst))]))"
    using assms(2) handleSign_stored [OF st d(2,3)] handleSignPoP_stored [OF st d(2)] st(2)
    by (auto simp: plugin_write_def keyExists_def storage_Get_def)
  then show ?thesis
    using assms(1)
    by (simp add: vault_requestSign_def plugin_api_def vault_holds_def route_key_path Let_def
        secret_string_def)
qed

interpretation vaultb:
  signing_backend B "vault_ops (plugin_api B gn mount rnd) w" "vault_holds B gn mount w"
  for B :: "('p1, 'p2) blst" and gn mount rnd w
proof (unfold_locales, goal_cases)
  case (1 b sk)
  then show ?case by (simp add: vault_ops_def vault_PublicKey_def vault_holds_def)
next
  case (2 b sk msg)
  from signed_by_plugin [OF 2, of SignEp DSTSign rnd msg] show ?case
    by (simp add: vault_ops_def vault_Sign_def vault_dstSign_def)
next
  case (3 b sk msg)
  from signed_by_plugin [OF 3, of SignPopEp DSTPoP rnd msg] show ?case
    by (simp add: vault_ops_def vault_SignProofOfPossession_def vault_dstPopProve_def)
qed

lemma vault_New_holds_plugin:
  assumes "stored_key (vw_storage w) (vault_KeyName cfg) sk" "good_name gn (vault_KeyName cfg)"
    and "st_get_err (vw_storage w) (entry_key (vault_KeyName cfg)) = None"
    and "vault_AuthMethod cfg = ''token''" "vault_Token cfg \<noteq> []" "vw_accepts w (vault_Token cfg)"
  shows "\<exists>b. vault_New (plugin_api B gn (vault_mount cfg) rnd) S w cfg = (w, Inr b)
    \<and> vault_holds B gn (vault_mount cfg) w b sk"
proof -
  let ?api = "plugin_api B gn (vault_mount cfg) rnd"
  let ?b = "\<lparr>vb_client = \<lparr>vc_Address = vault_Address cfg, vc_Token = vault_Token cfg\<rparr>, vb_cfg = cfg,
    vb_mountPath = vault_mount cfg, vb_keyName = vault_KeyName cfg, vb_pkBytes = bls_pk B sk,
    vb_cancelled = False\<rparr>"
  have "handlePublicKey B (vw_storage w) (request_data (vault_KeyName cfg) []) =
      Inr (RespData [(''public_key'', hex_EncodeToString (bls_pk B sk))])"
    using assms(1,3) by (intro handlePublicKey_stored) (simp_all add: request_data_def)
  then have new: "vault_New ?api S w cfg = (w, Inr ?b)"
    using assms(2,4-6) route_key_path [OF assms(2), of "vault_mount cfg" PublicKeyRead]
    by (simp add: vault_New_def vault_authenticate_def vault_fetchPublicKey_def plugin_api_def
        plugin_read_def secret_string_def Let_def)
  have h: "vault_holds B gn (vault_mount cfg) w ?b sk"
    using assms by (simp add: vault_holds_def)
  from new h show ?thesis by blast
qed

text \<open>
  Starting the Vault backend over the plugin: with an accepted static token and a stored key under
  the configured name, \<open>New\<close> succeeds, and the backend answers with that key's reference public key
  and signatures.
\<close>

lemma vault_New_over_plugin:
  assumes "stored_key (vw_storage w) (vault_KeyName cfg) sk" "good_name gn (vault_KeyName cfg)"
    and "st_get_err (vw_storage w) (entry_key (vault_KeyName cfg)) = None"
    and "vault_AuthMethod cfg = ''token''" "vault_Token cfg \<noteq> []" "vw_accepts w (vault_Token cfg)"
  shows "\<exists>b. vault_New (plugin_api B gn (vault_mount cfg) rnd) S w cfg = (w, Inr b)
    \<and> vault_PublicKey b = Inr (bls_pk B sk)
    \<and> snd (vault_Sign (plugin_api B gn (vault_mount cfg) rnd) w b msg) = Inr (bls_sig B sk msg DSTSign)
    \<and> snd (vault_SignProofOfPossession (plugin_api B gn (vault_mount cfg) rnd) w b msg)
        = Inr (bls_sig B sk msg DSTPoP)"
proof -
  from vault_New_holds_plugin [OF assms, of B rnd S] obtain b where
    b: "vault_New (plugin_api B gn (vault_mount cfg) rnd) S w cfg = (w, Inr b)" "vault_holds B gn (vault_mount cfg) w b sk"
    by blast
  from b(1) vaultb.laws [OF b(2), of rnd] show ?thesis
    by (auto simp: vault_ops_def)
qed

definition test_world :: vault_world where
  "test_world = \<lparr>vw_storage = test_storage, vw_accepts = (\<lambda>t. t = ''root'')\<rparr>"

definition test_vault_cfg :: VaultConfig where
  "test_vault_cfg = zero_Vault\<lparr>vault_KeyName := ''validator'', vault_AuthMethod := ''token'',
     vault_Token := ''root''\<rparr>"

lemma stored_test [simp]: "stored_key test_storage ''validator'' 5" "st_get_err test_storage k = None"
  by (simp_all add: stored_key_def test_storage_def empty_storage_def)

end
