(* ===== verification/Keytool.thy ===== *)
theory Keytool
  imports Backend_AWS Backend_GCP Backend_Azure Vault_Server
begin

text \<open>
  Package \<open>keytool\<close>: generating a key and encrypting it for a KMS, migrating a plaintext key, and their
  Vault variants. An operation acts on the files and on the Vault server's state; the three KMS clouds are
  the parameter records of their backends.
\<close>

section \<open>Operations\<close>

record kms_clouds =
  cl_AWS :: aws_cloud
  cl_GCP :: gcp_cloud
  cl_Azure :: azure_cloud

record GenerateOpts =
  go_Backend :: string
  go_OutputPath :: string
  go_AWS :: AWSConfig
  go_GCP :: GCPConfig
  go_Azure :: AzureConfig
  go_Vault :: VaultConfig

record MigrateOpts =
  mo_Backend :: string
  mo_InputPath :: string
  mo_OutputPath :: string
  mo_DeleteInput :: bool
  mo_AWS :: AWSConfig
  mo_GCP :: GCPConfig
  mo_Azure :: AzureConfig
  mo_Vault :: VaultConfig

definition generateBLSKey :: "('p1, 'p2) blst \<Rightarrow> bytes result \<Rightarrow> bytes result" where
  "generateBLSKey B rnd =
     and_then (wrapf (\<lambda>e. Errorf ''reading random bytes: %w'' [AErr e]) rnd) (\<lambda>r.
     blstutil_KeyGen B (fill_buffer 32 r))"

definition encryptForBackend ::
  "kms_clouds \<Rightarrow> string \<Rightarrow> AWSConfig \<Rightarrow> GCPConfig \<Rightarrow> AzureConfig \<Rightarrow> bytes \<Rightarrow> bytes result" where
  "encryptForBackend C backend awsCfg gcpCfg azureCfg plaintext =
     (if backend = BackendAWSKMS then
        and_then (awskms_NewKMSClient (cl_AWS C) awsCfg) (\<lambda>client.
        awskms_Encrypt (aws_Encrypt (cl_AWS C) client) (aws_KMSKeyID awsCfg) plaintext)
      else if backend = BackendGCPKMS then
        and_then (gcpkms_NewKMSClient (cl_GCP C)) (\<lambda>client.
        let keyName = ''projects/'' @ gcp_Project gcpCfg @ ''/locations/'' @ gcp_Location gcpCfg
              @ ''/keyRings/'' @ gcp_KeyRing gcpCfg @ ''/cryptoKeys/'' @ gcp_KeyName gcpCfg
        in gcpkms_Encrypt client keyName plaintext)
      else if backend = BackendAzureKV then
        and_then (azurekv_NewKVClient (cl_Azure C) (azure_VaultURL azureCfg)) (\<lambda>client.
        azurekv_Encrypt client (azure_KeyName azureCfg) plaintext)
      else Inl (Errorf (''unsupported backend %q '' @ dash @ '' valid options: aws-kms, gcp-kms, azure-kv'')
                  [AStr backend]))"

text \<open>The mode of the written blob is 0600, that is 0x180.\<close>

definition keytool_writeFile :: "os_state \<Rightarrow> string \<Rightarrow> bytes \<Rightarrow> os_state \<times> goerr option" where
  "keytool_writeFile S path dat =
     (case os_WriteFile S path dat 0x180 of
        (S', Some e) \<Rightarrow> (S', Some (Errorf ''writing encrypted key to %q: %w'' [AStr path, AErr e]))
      | (S', None) \<Rightarrow> (S', None))"

definition secureDelete :: "os_state \<Rightarrow> string \<Rightarrow> os_state \<times> goerr option" where
  "secureDelete S path =
     (case os_fail S (OpenWrite path) of Some e \<Rightarrow> (S, Some e)
      | None \<Rightarrow> (case os_files S path of None \<Rightarrow> (S, Some (err_not_exist path))
        | Some f \<Rightarrow> (case os_fail S (Stat path) of Some e \<Rightarrow> (S, Some e)
          | None \<Rightarrow>
             (let zeros = replicate (length (f_data f)) 0 in
              case os_Overwrite S path f zeros of
                (S', Some e) \<Rightarrow> (S', Some e)
              | (S', None) \<Rightarrow> (case os_fail S' (Sync path) of Some e \<Rightarrow> (S', Some e)
                | None \<Rightarrow> os_Remove S' path)))))"

definition vaultClient :: "'w vault_api \<Rightarrow> VaultConfig \<Rightarrow> vault_client result" where
  "vaultClient api cfg =
     and_then (wrapf (\<lambda>e. Errorf ''creating Vault client: %w'' [AErr e])
                 (va_NewClient api (vault_Address cfg))) (\<lambda>client.
     if vault_Token cfg = []
     then Inl (Errorf ''vault.token must be set for keytool (auth_method=token)'' [])
     else Inr (client\<lparr>vc_Token := vault_Token cfg\<rparr>))"

text \<open>
  \<open>vaultGenerate\<close> and \<open>vaultImport\<close> write to the key's generate and import endpoints and read the public
  key from the answer; they differ in the endpoint, the body and the message of a failed call.
\<close>

definition vault_write_key ::
  "'w vault_api \<Rightarrow> 'w \<Rightarrow> VaultConfig \<Rightarrow> string \<Rightarrow> (string \<times> string) list \<Rightarrow> string \<Rightarrow>
    'w \<times> string result" where
  "vault_write_key api w cfg ep body failed =
     (case vaultClient api cfg of
        Inl e \<Rightarrow> (w, Inl e)
      | Inr client \<Rightarrow>
         (let mountPath = (if vault_MountPath cfg = [] then ''bls'' else vault_MountPath cfg);
              (w', r) = va_Write api w client (key_path mountPath (vault_KeyName cfg) ep) body
          in (w',
              and_then (wrapf (\<lambda>e. Errorf failed [AErr e]) r) (\<lambda>secret.
              secret_string (Errorf ''Vault returned empty response'' [])
                (Errorf ''unexpected public_key type in Vault response'' []) ''public_key'' secret))))"

definition vaultGenerate :: "'w vault_api \<Rightarrow> 'w \<Rightarrow> VaultConfig \<Rightarrow> 'w \<times> string result" where
  "vaultGenerate api w cfg = vault_write_key api w cfg ''generate'' [] ''Vault generate: %w''"

definition vaultImport :: "'w vault_api \<Rightarrow> 'w \<Rightarrow> VaultConfig \<Rightarrow> bytes \<Rightarrow> 'w \<times> string result" where
  "vaultImport api w cfg sk =
     vault_write_key api w cfg ''import'' [(''key'', hex_EncodeToString sk)] ''Vault import: %w''"

definition keytool_Generate ::
  "('p1, 'p2) blst \<Rightarrow> bytes result \<Rightarrow> kms_clouds \<Rightarrow> 'w vault_api \<Rightarrow> os_state \<Rightarrow> 'w \<Rightarrow> GenerateOpts \<Rightarrow>
    os_state \<times> 'w \<times> string result" where
  "keytool_Generate B rnd C api S w opts =
     (if go_Backend opts = BackendVault
      then (let (w', r) = vaultGenerate api w (go_Vault opts) in (S, w', r))
      else case generateBLSKey B rnd of
        Inl e \<Rightarrow> (S, w, Inl e)
      | Inr sk \<Rightarrow> (case blstutil_PublicKey B sk of
          Inl e \<Rightarrow> (S, w, Inl (Errorf ''deriving public key: %w'' [AErr e]))
        | Inr pk \<Rightarrow>
           (case encryptForBackend C (go_Backend opts) (go_AWS opts) (go_GCP opts) (go_Azure opts) sk of
              Inl e \<Rightarrow> (S, w, Inl e)
            | Inr ciphertext \<Rightarrow>
               (case keytool_writeFile S (go_OutputPath opts) ciphertext of
                  (S', Some e) \<Rightarrow> (S', w, Inl e)
                | (S', None) \<Rightarrow> (S', w, Inr (hex_EncodeToString pk))))))"

text \<open>
  The end of both ways through \<open>Migrate\<close>: delete the plaintext if that was asked for, then return the
  public key.
\<close>

definition delete_input :: "os_state \<Rightarrow> MigrateOpts \<Rightarrow> string \<Rightarrow> os_state \<times> string result" where
  "delete_input S opts pkHex =
     (if \<not> mo_DeleteInput opts then (S, Inr pkHex)
      else case secureDelete S (mo_InputPath opts) of
        (S', Some e) \<Rightarrow> (S', Inl (Errorf (''secure delete of %q failed: %w '' @ dash @ '' MANUAL DELETION REQUIRED'')
                           [AStr (mo_InputPath opts), AErr e]))
      | (S', None) \<Rightarrow> (S', Inr pkHex))"

definition keytool_Migrate ::
  "('p1, 'p2) blst \<Rightarrow> kms_clouds \<Rightarrow> 'w vault_api \<Rightarrow> os_state \<Rightarrow> 'w \<Rightarrow> MigrateOpts \<Rightarrow>
    os_state \<times> 'w \<times> string result" where
  "keytool_Migrate B C api S w opts =
     (case os_ReadFile S (mo_InputPath opts) of
        Inl e \<Rightarrow> (S, w, Inl (Errorf ''reading plaintext key %q: %w'' [AStr (mo_InputPath opts), AErr e]))
      | Inr sk \<Rightarrow>
        if length sk \<noteq> 32
        then (S, w, Inl (Errorf ''expected 32-byte BLS scalar in %q, got %d bytes''
                           [AStr (mo_InputPath opts), AInt (int (length sk))]))
        else if \<not> ValidateSecretKey sk
        then (S, w, Inl (Errorf ''%q does not contain a valid BLS scalar'' [AStr (mo_InputPath opts)]))
        else if mo_Backend opts = BackendVault
        then (case vaultImport api w (mo_Vault opts) sk of
                (w', Inl e) \<Rightarrow> (S, w', Inl e)
              | (w', Inr pkHex) \<Rightarrow> (let (S', r) = delete_input S opts pkHex in (S', w', r)))
        else (case blstutil_PublicKey B sk of
                Inl e \<Rightarrow> (S, w, Inl (Errorf ''deriving public key: %w'' [AErr e]))
              | Inr pk \<Rightarrow>
                 (case encryptForBackend C (mo_Backend opts) (mo_AWS opts) (mo_GCP opts) (mo_Azure opts) sk of
                    Inl e \<Rightarrow> (S, w, Inl e)
                  | Inr ciphertext \<Rightarrow>
                     (case keytool_writeFile S (mo_OutputPath opts) ciphertext of
                        (S', Some e) \<Rightarrow> (S', w, Inl e)
                      | (S', None) \<Rightarrow>
                         (let (S'', r) = delete_input S' opts (hex_EncodeToString pk) in (S'', w, r))))))"

end
