(* ===== verification/Keytool_Props.thy ===== *)
theory Keytool_Props
  imports Keytool
begin

text \<open>
  What \<open>keytool\<close> guarantees: a generated or migrated key is the one the signing backend loads, the
  plaintext is never lost before its encrypted form is on disk, and what \<open>secureDelete\<close> leaves behind.
\<close>

section \<open>Writing and deleting files\<close>

lemma writeFile_cases:
  "keytool_writeFile S p d = (S', e) \<Longrightarrow>
     (e = None \<longrightarrow> contents S' p = Some d) \<and> (\<forall>q. q \<noteq> p \<longrightarrow> contents S' q = contents S q)
     \<and> os_fail S' = os_fail S"
  by (auto simp: keytool_writeFile_def split: prod.splits option.splits
      dest: WriteFile_ok_contents WriteFile_frame WriteFile_env)

lemma contents_set_file: "contents (set_file S p f) q = (if q = p then Some (f_data f) else contents S q)"
  by (simp add: contents_def set_file_def)

lemma contents_Remove: "os_Remove S p = (S', None) \<Longrightarrow> contents S' p = None"
  by (auto simp: os_Remove_def contents_def split: option.splits)

lemma Remove_frame: "os_Remove S p = (S', e) \<Longrightarrow> q \<noteq> p \<Longrightarrow> contents S' q = contents S q"
  by (auto simp: os_Remove_def contents_def split: option.splits)

lemma Remove_Some: "os_Remove S p = (S', Some e) \<Longrightarrow> S' = S"
  by (auto simp: os_Remove_def split: option.splits)

lemma overwrite_zeros [simp]: "overwrite d (replicate (length d) 0) = replicate (length d) 0"
  by (simp add: overwrite_def)

lemma secureDelete_frame: "secureDelete S p = (S', e) \<Longrightarrow> q \<noteq> p \<Longrightarrow> contents S' q = contents S q"
  by (auto simp: secureDelete_def os_Overwrite_def contents_set_file Let_def dest: Remove_frame
      split: option.splits)

text \<open>
  C32. Deleting a plaintext key: when \<open>secureDelete\<close> reports success the file is gone; when it fails after
  the overwrite went through (the sync or the removal failed), what is left of the file is zeros and the
  key is not in it. No other file changes.
\<close>

theorem secureDelete_spec:
  "secureDelete S p = (S', e) \<Longrightarrow>
     (e = None \<longrightarrow> contents S p \<noteq> None \<and> contents S' p = None)
   \<and> (e \<noteq> None \<longrightarrow> os_fail S (OpenWrite p) = None \<longrightarrow> os_fail S (Stat p) = None \<longrightarrow>
        os_fail S (WriteTo p) = None \<longrightarrow> contents S' p = map_option (\<lambda>d. replicate (length d) 0) (contents S p))
   \<and> (\<forall>q. q \<noteq> p \<longrightarrow> contents S' q = contents S q)"
proof (intro conjI allI impI)
  assume h: "secureDelete S p = (S', e)"
  show "contents S p \<noteq> None" "contents S' p = None" if "e = None"
    using h that by (auto simp: secureDelete_def contents_def [of S] Let_def dest: contents_Remove
        split: option.splits prod.splits)
  show "contents S' p = map_option (\<lambda>d. replicate (length d) 0) (contents S p)"
    if "e \<noteq> None" "os_fail S (OpenWrite p) = None" "os_fail S (Stat p) = None" "os_fail S (WriteTo p) = None"
    using h that by (auto simp: secureDelete_def os_Overwrite_def contents_def set_file_def Let_def
        dest!: Remove_Some split: option.splits prod.splits)
  show "contents S' q = contents S q" if "q \<noteq> p" for q
    using secureDelete_frame [OF h that] .
qed

definition key_file :: os_file where
  "key_file = \<lparr>f_data = Scalar_Serialize 5, f_mode = 0x180\<rparr>"

lemma secureDelete_spec_witness:
  "contents (fst (secureDelete (quiet_os [''signer.key'' \<mapsto> key_file]) ''signer.key'')) ''signer.key'' = None"
proof -
  let ?S = "quiet_os [''signer.key'' \<mapsto> key_file]"
  have "secureDelete ?S ''signer.key'' = (fst (secureDelete ?S ''signer.key''), None)"
    by (simp add: secureDelete_def os_Overwrite_def os_Remove_def quiet_os_def set_file_def Let_def)
  from secureDelete_spec [OF this] show ?thesis by simp
qed

text \<open>
  C36. The permissions of the written blob: a file that \<open>writeFile\<close> creates is closed to group and others
  (none of the bits 077 is set), but a file that was already there keeps whatever permissions it had.
\<close>

theorem writeFile_mode:
  assumes "keytool_writeFile S p d = (S', None)"
  shows "\<exists>f'. os_files S' p = Some f' \<and> f_data f' = d
    \<and> (case os_files S p of None \<Rightarrow> f_mode f' AND 0x3F = 0 | Some f \<Rightarrow> f_mode f' = f_mode f)"
proof -
  have bits: "(0x180 AND m) AND 0x3F = (0 :: 32 word)" for m
  proof -
    have "(0x180 AND m) AND 0x3F = (0x180 AND 0x3F) AND (m :: 32 word)"
      by (simp only: ac_simps)
    then show ?thesis by simp
  qed
  from assms have w: "os_WriteFile S p d 0x180 = (S', None)"
    by (auto simp: keytool_writeFile_def split: prod.splits option.splits)
  show ?thesis
  proof (cases "os_files S p")
    case None
    with w show ?thesis
      by (auto simp: os_WriteFile_def set_file_def Let_def bits split: option.splits)
  next
    case (Some f)
    with w show ?thesis
      by (auto simp: os_WriteFile_def set_file_def Let_def split: option.splits)
  qed
qed

lemma writeFile_mode_witness:
  "os_files (fst (keytool_writeFile (quiet_os [''bls.key.enc'' \<mapsto> \<lparr>f_data = [], f_mode = 0x1B6\<rparr>]) ''bls.key.enc'' [1]))
     ''bls.key.enc'' = Some \<lparr>f_data = [1], f_mode = 0x1B6\<rparr>"
proof -
  let ?S = "quiet_os [''bls.key.enc'' \<mapsto> \<lparr>f_data = [], f_mode = 0x1B6\<rparr>]"
  have "keytool_writeFile ?S ''bls.key.enc'' [1] = (fst (keytool_writeFile ?S ''bls.key.enc'' [1]), None)"
    by (simp add: keytool_writeFile_def os_WriteFile_def quiet_os_def Let_def)
  from writeFile_mode [OF this] show ?thesis
    by (auto simp: quiet_os_def)
qed

section \<open>Migrating without losing the key\<close>

lemma delete_input_frame:
  "delete_input S opts pk = (S', r) \<Longrightarrow> q \<noteq> mo_InputPath opts \<Longrightarrow> contents S' q = contents S q"
  by (auto simp: delete_input_def split: if_splits prod.splits option.splits dest: secureDelete_frame)

lemma delete_input_result: "delete_input S opts pk = (S', Inr x) \<Longrightarrow> x = pk"
  by (auto simp: delete_input_def split: if_splits prod.splits option.splits)

lemma Migrate_kms_cases:
  assumes "keytool_Migrate B C api S w opts = (S', w', r)" "mo_Backend opts \<noteq> BackendVault"
  shows "(S' = S \<and> \<not> is_ok r) \<or>
    (\<exists>sk ct S1 e. scalar_ok sk \<and> contents S (mo_InputPath opts) = Some (Scalar_Serialize sk)
      \<and> encryptForBackend C (mo_Backend opts) (mo_AWS opts) (mo_GCP opts) (mo_Azure opts)
          (Scalar_Serialize sk) = Inr ct
      \<and> keytool_writeFile S (mo_OutputPath opts) ct = (S1, e)
      \<and> (case e of Some er \<Rightarrow> S' = S1 \<and> \<not> is_ok r
         | None \<Rightarrow> delete_input S1 opts (hex_EncodeToString (bls_pk B sk)) = (S', r)))"
proof (cases "os_ReadFile S (mo_InputPath opts)")
  case (Inl e)
  with assms show ?thesis by (auto simp: keytool_Migrate_def)
next
  case (Inr d)
  show ?thesis
  proof (cases "ValidateSecretKey d")
    case False
    with Inr assms show ?thesis by (auto simp: keytool_Migrate_def split: if_splits)
  next
    case True
    then obtain sk where sk: "scalar_ok sk" "d = Scalar_Serialize sk"
      by (auto simp: ValidateSecretKey_iff)
    show ?thesis
    proof (cases "encryptForBackend C (mo_Backend opts) (mo_AWS opts) (mo_GCP opts) (mo_Azure opts) d")
      case (Inl e)
      with Inr True sk assms show ?thesis by (auto simp: keytool_Migrate_def)
    next
      case enc: (Inr ct)
      obtain S1 e where w: "keytool_writeFile S (mo_OutputPath opts) ct = (S1, e)" by fastforce
      have "case e of Some er \<Rightarrow> S' = S1 \<and> \<not> is_ok r
         | None \<Rightarrow> delete_input S1 opts (hex_EncodeToString (bls_pk B sk)) = (S', r)"
        using assms Inr True sk enc w
        by (auto simp: keytool_Migrate_def split: option.splits prod.splits)
      with sk enc w ReadFile_Inr [OF Inr] show ?thesis by blast
    qed
  qed
qed

text \<open>
  C3. Migration never loses the key: whatever system call or KMS call fails, if the plaintext file is not
  what it was, then the encrypted form of exactly this key is complete in the output file, provided the
  output path is another file.
\<close>

theorem Migrate_keeps_key:
  assumes "keytool_Migrate B C api S w opts = (S', w', r)" "mo_Backend opts \<noteq> BackendVault"
    and "mo_OutputPath opts \<noteq> mo_InputPath opts"
    and "contents S' (mo_InputPath opts) \<noteq> contents S (mo_InputPath opts)"
  shows "\<exists>sk ct. scalar_ok sk \<and> contents S (mo_InputPath opts) = Some (Scalar_Serialize sk)
    \<and> encryptForBackend C (mo_Backend opts) (mo_AWS opts) (mo_GCP opts) (mo_Azure opts) (Scalar_Serialize sk) = Inr ct
    \<and> contents S' (mo_OutputPath opts) = Some ct \<and> mo_DeleteInput opts"
proof -
  from Migrate_kms_cases [OF assms(1,2)] assms(4) obtain sk ct S1 e where c: "scalar_ok sk"
    "contents S (mo_InputPath opts) = Some (Scalar_Serialize sk)"
    "encryptForBackend C (mo_Backend opts) (mo_AWS opts) (mo_GCP opts) (mo_Azure opts) (Scalar_Serialize sk) = Inr ct"
    "keytool_writeFile S (mo_OutputPath opts) ct = (S1, e)"
    "case e of Some er \<Rightarrow> S' = S1 \<and> \<not> is_ok r
     | None \<Rightarrow> delete_input S1 opts (hex_EncodeToString (bls_pk B sk)) = (S', r)"
    by auto
  note wf = writeFile_cases [OF c(4)]
  from wf assms(3) have same: "contents S1 (mo_InputPath opts) = contents S (mo_InputPath opts)" by simp
  with c(5) assms(4) have e: "e = None" by (auto split: option.splits)
  with c(5) have d: "delete_input S1 opts (hex_EncodeToString (bls_pk B sk)) = (S', r)" by simp
  with same assms(4) have "mo_DeleteInput opts" by (auto simp: delete_input_def split: if_splits)
  with c(1-3) wf e delete_input_frame [OF d] assms(3) show ?thesis by auto
qed

text \<open>
  C31. Migrating a key onto itself destroys it: with the output path equal to the input path and the
  plaintext to be deleted, a migration that reports success leaves neither the plaintext nor the
  encrypted key: the file is gone and no other file has changed.
\<close>

theorem Migrate_onto_itself:
  assumes "keytool_Migrate B C api S w opts = (S', w', Inr pkHex)" "mo_Backend opts \<noteq> BackendVault"
    and "mo_OutputPath opts = mo_InputPath opts" "mo_DeleteInput opts"
  shows "contents S' (mo_InputPath opts) = None
    \<and> (\<forall>q. q \<noteq> mo_InputPath opts \<longrightarrow> contents S' q = contents S q)"
proof -
  from Migrate_kms_cases [OF assms(1,2)] obtain sk ct S1 e where c:
    "keytool_writeFile S (mo_OutputPath opts) ct = (S1, e)"
    "case e of Some er \<Rightarrow> S' = S1 \<and> \<not> is_ok (Inr pkHex :: string result)
     | None \<Rightarrow> delete_input S1 opts (hex_EncodeToString (bls_pk B sk)) = (S', Inr pkHex)"
    by auto
  then have d: "delete_input S1 opts (hex_EncodeToString (bls_pk B sk)) = (S', Inr pkHex)"
    by (auto split: option.splits)
  with assms(4) have "secureDelete S1 (mo_InputPath opts) = (S', None)"
    by (auto simp: delete_input_def split: prod.splits option.splits)
  then have "contents S' (mo_InputPath opts) = None"
    by (auto simp: secureDelete_def Let_def dest: contents_Remove split: option.splits prod.splits)
  with writeFile_cases [OF c(1)] delete_input_frame [OF d] assms(3) show ?thesis by auto
qed


section \<open>Instances\<close>

definition test_clouds :: kms_clouds where
  "test_clouds = \<lparr>cl_AWS = mock_aws mock_key, cl_GCP = gcp_test_cloud, cl_Azure = azure_test_cloud\<rparr>"

definition migrate_opts :: "string \<Rightarrow> MigrateOpts" where
  "migrate_opts out = \<lparr>mo_Backend = ''aws-kms'', mo_InputPath = ''signer.key'', mo_OutputPath = out,
     mo_DeleteInput = True, mo_AWS = aws_test_cfg, mo_GCP = zero_GCP, mo_Azure = zero_Azure,
     mo_Vault = zero_Vault\<rparr>"

definition migrate_os :: os_state where
  "migrate_os = quiet_os [''signer.key'' \<mapsto> key_file]"

abbreviation test_api :: "vault_world vault_api" where
  "test_api \<equiv> plugin_api toy_blst (\<lambda>_. True) ''bls'' (Inr [])"

abbreviation test_migrate :: "string \<Rightarrow> os_state \<times> vault_world \<times> string result" where
  "test_migrate out \<equiv> keytool_Migrate toy_blst test_clouds test_api migrate_os test_world (migrate_opts out)"

lemma migrate_env: "os_fail migrate_os = (\<lambda>_. None)" "os_files migrate_os = [''signer.key'' \<mapsto> key_file]"
  by (simp_all add: migrate_os_def quiet_os_def)

lemma test_migrate_run:
  "snd (snd (test_migrate out)) = Inr (hex_EncodeToString (bls_pk toy_blst 5))
   \<and> os_files (fst (test_migrate out)) ''signer.key'' = None"
  by (simp add: keytool_Migrate_def os_ReadFile_def migrate_env key_file_def migrate_opts_def
      ValidateSecretKey_iff backend_names encryptForBackend_def awskms_NewKMSClient_def test_clouds_def
      mock_aws_def awskms_Encrypt_def keytool_writeFile_def os_WriteFile_def delete_input_def
      secureDelete_def os_Overwrite_def os_Remove_def set_file_def Let_def aws_test_cfg_def
      exI [of _ 5])

lemma Migrate_keeps_key_witness:
  "contents (fst (test_migrate ''bls.key.enc'')) ''bls.key.enc'' \<noteq> None"
proof -
  let ?r = "test_migrate ''bls.key.enc''"
  have "?r = (fst ?r, fst (snd ?r), snd (snd ?r))" by simp
  moreover have "contents (fst ?r) ''signer.key'' \<noteq> contents migrate_os ''signer.key''"
    using test_migrate_run by (simp add: contents_def migrate_env)
  ultimately show ?thesis
    using Migrate_keeps_key [of toy_blst test_clouds test_api migrate_os test_world
        "migrate_opts ''bls.key.enc''" "fst ?r" "fst (snd ?r)" "snd (snd ?r)"]
    by (auto simp: migrate_opts_def backend_names)
qed

lemma Migrate_onto_itself_witness:
  "contents (fst (test_migrate ''signer.key'')) ''signer.key'' = None"
proof -
  let ?r = "test_migrate ''signer.key''"
  have "?r = (fst ?r, fst (snd ?r), Inr (hex_EncodeToString (bls_pk toy_blst 5)))"
    using test_migrate_run by (simp add: prod_eq_iff)
  from Migrate_onto_itself [OF this] show ?thesis
    by (simp add: migrate_opts_def backend_names)
qed

end
