(* ===== verification/Keytool_Roundtrip.thy ===== *)
theory Keytool_Roundtrip
  imports Keytool_Props
begin

text \<open>
  From \<open>keytool\<close> to the server: the blob that \<open>Generate\<close> or \<open>Migrate\<close> writes is one the backend of the same
  cloud starts from, and the key that ends up in Vault is the one the Vault backend signs with. What is
  asked of a cloud is that decrypting with the key and algorithm of an encryption gives back the plaintext.
\<close>

section \<open>Clouds that decrypt what they encrypted\<close>

definition aws_inverts :: "aws_cloud \<Rightarrow> bool" where
  "aws_inverts cloud \<longleftrightarrow> (\<forall>client k pt ct alg.
     aws_Encrypt cloud client \<lparr>enc_KeyId = k, enc_Plaintext = pt, enc_EncryptionAlgorithm = alg\<rparr> = Inr ct \<longrightarrow>
     aws_Decrypt cloud client \<lparr>dec_KeyId = k, dec_CiphertextBlob = ct, dec_EncryptionAlgorithm = alg\<rparr> = Inr pt)"

definition gcp_inverts :: "gcp_cloud \<Rightarrow> bool" where
  "gcp_inverts cloud \<longleftrightarrow> (\<forall>k pt ct. gcp_Encrypt cloud k pt = Inr ct \<longrightarrow> gcp_Decrypt cloud k ct = Inr pt)"

definition azure_inverts :: "azure_cloud \<Rightarrow> bool" where
  "azure_inverts cloud \<longleftrightarrow> (\<forall>url k v alg pt ct.
     az_Encrypt cloud url k v alg pt = Inr ct \<longrightarrow> az_Decrypt cloud url k v alg ct = Inr pt)"

definition clouds_invert :: "kms_clouds \<Rightarrow> bool" where
  "clouds_invert C \<longleftrightarrow> aws_inverts (cl_AWS C) \<and> gcp_inverts (cl_GCP C) \<and> azure_inverts (cl_Azure C)"

lemma test_clouds_invert: "clouds_invert test_clouds"
  by (simp add: clouds_invert_def aws_inverts_def gcp_inverts_def azure_inverts_def test_clouds_def
      mock_aws_def gcp_test_cloud_def azure_test_cloud_def mockKMS_xor_involution)

text \<open>
  Starting the backend called \<open>name\<close> from the blob at \<open>path\<close> gives a backend that holds \<open>sk\<close>.
\<close>

definition starts_with ::
  "('p1, 'p2) blst \<Rightarrow> kms_clouds \<Rightarrow> os_state \<Rightarrow> string \<Rightarrow> string \<Rightarrow> AWSConfig \<Rightarrow> GCPConfig \<Rightarrow> AzureConfig \<Rightarrow>
    nat \<Rightarrow> bool" where
  "starts_with B C S name path a g z sk \<longleftrightarrow>
     (name = BackendAWSKMS \<and> (\<exists>b. awskms_New B (cl_AWS C) S (a\<lparr>aws_EncryptedBLSKeyPath := path\<rparr>) = Inr b
        \<and> keypair_holds B b sk))
   \<or> (name = BackendGCPKMS \<and> (\<exists>b. gcpkms_New B (cl_GCP C) S (g\<lparr>gcp_EncryptedBLSKeyPath := path\<rparr>) = Inr b
        \<and> keypair_holds B b sk))
   \<or> (name = BackendAzureKV \<and> (\<exists>b. azurekv_New B (cl_Azure C) S (z\<lparr>azure_EncryptedBLSKeyPath := path\<rparr>) = Inr b
        \<and> keypair_holds B b sk))"

lemma awskms_loads:
  assumes "awskms_NewKMSClient cloud a = Inr client" "aws_inverts cloud" "scalar_ok sk"
    and "awskms_Encrypt (aws_Encrypt cloud client) (aws_KMSKeyID a) (Scalar_Serialize sk) = Inr ct"
    and "os_ReadFile S path = Inr ct"
  shows "\<exists>b. awskms_New B cloud S (a\<lparr>aws_EncryptedBLSKeyPath := path\<rparr>) = Inr b \<and> keypair_holds B b sk"
proof -
  have "awskms_NewKMSClient cloud (a\<lparr>aws_EncryptedBLSKeyPath := path\<rparr>) = Inr client"
    using assms(1) by (auto simp: NewKMSClient_iff split: if_splits)
  with assms show ?thesis
    by (simp add: awskms_New_def awskms_newWithClient_def awskms_Encrypt_def aws_inverts_def keypair_holds_def)
qed

lemma gcpkms_loads:
  assumes "gcp_NewClient cloud = None" "gcp_inverts cloud" "scalar_ok sk"
    and "gcpkms_Encrypt cloud (resourceName g) (Scalar_Serialize sk) = Inr ct"
    and "os_ReadFile S path = Inr ct"
  shows "\<exists>b. gcpkms_New B cloud S (g\<lparr>gcp_EncryptedBLSKeyPath := path\<rparr>) = Inr b \<and> keypair_holds B b sk"
proof -
  have "gcpkms_backendFromBytes B (Scalar_Serialize sk) =
      Inr \<lparr>skBytes = Scalar_Serialize sk, pkBytes = bls_pk B sk, gcp_client = None\<rparr>"
    using assms(3) by (auto simp: gcpkms_fromBytes_iff)
  moreover have "resourceName (g\<lparr>gcp_EncryptedBLSKeyPath := path\<rparr>) = resourceName g"
    by (simp add: resourceName_def)
  ultimately show ?thesis
    using assms by (simp add: gcpkms_New_def gcpkms_newWithClient_def gcpkms_Encrypt_def gcp_inverts_def
        keypair_holds_def)
qed

lemma azurekv_loads:
  assumes "azurekv_NewKVClient cloud (azure_VaultURL z) = Inr client" "azure_inverts cloud" "scalar_ok sk"
    and "azurekv_Encrypt client (azure_KeyName z) (Scalar_Serialize sk) = Inr ct"
    and "os_ReadFile S path = Inr ct"
  shows "\<exists>b. azurekv_New B cloud S (z\<lparr>azure_EncryptedBLSKeyPath := path\<rparr>) = Inr b \<and> keypair_holds B b sk"
proof -
  have "azurekv_backendFromBytes B (Scalar_Serialize sk) =
      Inr \<lparr>skBytes = Scalar_Serialize sk, pkBytes = bls_pk B sk\<rparr>"
    using assms(3) by (auto simp: azurekv_fromBytes_iff)
  with assms show ?thesis
    by (auto simp: azurekv_New_def azurekv_newWithClient_def azurekv_NewKVClient_def azurekv_Encrypt_def
        azure_inverts_def keypair_holds_def split: option.splits)
qed

lemma encrypted_starts:
  assumes "encryptForBackend C name a g z (Scalar_Serialize sk) = Inr ct" "clouds_invert C" "scalar_ok sk"
    and "readable S path" "contents S path = Some ct"
  shows "starts_with B C S name path a g z sk"
proof -
  have rd: "os_ReadFile S path = Inr ct"
    using assms(4,5) by (simp add: ReadFile_eq)
  consider "name = BackendAWSKMS" | "name = BackendGCPKMS" | "name = BackendAzureKV"
    using assms(1) by (auto simp: encryptForBackend_def split: if_splits)
  then show ?thesis
  proof cases
    case 1
    with assms(1) obtain client where "awskms_NewKMSClient (cl_AWS C) a = Inr client"
      "awskms_Encrypt (aws_Encrypt (cl_AWS C) client) (aws_KMSKeyID a) (Scalar_Serialize sk) = Inr ct"
      by (auto simp: encryptForBackend_def result_simps)
    from awskms_loads [OF this(1) _ assms(3) this(2) rd, of B] 1 assms(2) show ?thesis
      by (auto simp: starts_with_def clouds_invert_def)
  next
    case 2
    with assms(1) have "gcp_NewClient (cl_GCP C) = None"
      "gcpkms_Encrypt (cl_GCP C) (resourceName g) (Scalar_Serialize sk) = Inr ct"
      by (auto simp: encryptForBackend_def result_simps gcpkms_NewKMSClient_def backend_names
          resourceName_def split: option.splits)
    from gcpkms_loads [OF this(1) _ assms(3) this(2) rd, of B] 2 assms(2) show ?thesis
      by (auto simp: starts_with_def clouds_invert_def)
  next
    case 3
    with assms(1) obtain client where "azurekv_NewKVClient (cl_Azure C) (azure_VaultURL z) = Inr client"
      "azurekv_Encrypt client (azure_KeyName z) (Scalar_Serialize sk) = Inr ct"
      by (auto simp: encryptForBackend_def result_simps backend_names)
    from azurekv_loads [OF this(1) _ assms(3) this(2) rd, of B] 3 assms(2) show ?thesis
      by (auto simp: starts_with_def clouds_invert_def)
  qed
qed

section \<open>Generate, then serve\<close>

lemma Generate_kms_cases:
  assumes "keytool_Generate B rnd C api S w opts = (S', w', Inr pkHex)" "go_Backend opts \<noteq> BackendVault"
    and "keygen_valid B"
  shows "\<exists>r sk ct. rnd = Inr r \<and> sk = c_keygen B (fill_buffer 32 r) \<and> scalar_ok sk
    \<and> encryptForBackend C (go_Backend opts) (go_AWS opts) (go_GCP opts) (go_Azure opts) (Scalar_Serialize sk) = Inr ct
    \<and> keytool_writeFile S (go_OutputPath opts) ct = (S', None)
    \<and> pkHex = hex_EncodeToString (bls_pk B sk) \<and> w' = w"
proof (cases rnd)
  case (Inl e)
  with assms(1,2) show ?thesis by (simp add: keytool_Generate_def generateBLSKey_def)
next
  case (Inr r)
  let ?sk = "c_keygen B (fill_buffer 32 r)"
  have ok: "scalar_ok ?sk"
    using assms(3) by (simp add: keygen_valid_def)
  with Inr assms(1,2) show ?thesis
    by (auto simp: keytool_Generate_def generateBLSKey_def split: sum.splits prod.splits option.splits)
qed

text \<open>
  A generated key is the key that is served: when \<open>Generate\<close> reports a public key for one of the three
  clouds, the backend of that cloud, configured with the output file, starts from what \<open>Generate\<close> left on
  disk and holds a key with exactly that public key.
\<close>

lemma Generate_then_serve:
  assumes "keytool_Generate B rnd C api S w opts = (S', w', Inr pkHex)" "go_Backend opts \<noteq> BackendVault"
    and "keygen_valid B" "clouds_invert C" "readable S (go_OutputPath opts)"
  shows "\<exists>sk. pkHex = hex_EncodeToString (bls_pk B sk)
    \<and> starts_with B C S' (go_Backend opts) (go_OutputPath opts) (go_AWS opts) (go_GCP opts) (go_Azure opts) sk"
proof -
  from Generate_kms_cases [OF assms(1-3)] obtain sk ct where c: "scalar_ok sk"
    "encryptForBackend C (go_Backend opts) (go_AWS opts) (go_GCP opts) (go_Azure opts) (Scalar_Serialize sk) = Inr ct"
    "keytool_writeFile S (go_OutputPath opts) ct = (S', None)"
    "pkHex = hex_EncodeToString (bls_pk B sk)" by blast
  from writeFile_cases [OF c(3)] assms(5) have "readable S' (go_OutputPath opts)"
    "contents S' (go_OutputPath opts) = Some ct" by (simp_all add: readable_def)
  from encrypted_starts [OF c(2) assms(4) c(1) this] c(4) show ?thesis by blast
qed

section \<open>Migrate, then serve\<close>

lemma readable_delete_input: "delete_input S opts pk = (S', r) \<Longrightarrow> readable S' q = readable S q"
  by (auto simp: delete_input_def secureDelete_def os_Overwrite_def os_Remove_def set_file_def readable_def
      Let_def split: if_splits prod.splits option.splits)

text \<open>
  A migrated key is the key that is served: when \<open>Migrate\<close> succeeds with an output path other than its
  input, the reported public key is the one of the plaintext scalar, and the backend of the chosen cloud
  starts from the output file with this scalar, whether or not the plaintext was deleted.
\<close>

lemma Migrate_then_serve:
  assumes "keytool_Migrate B C api S w opts = (S', w', Inr pkHex)" "mo_Backend opts \<noteq> BackendVault"
    and "mo_OutputPath opts \<noteq> mo_InputPath opts" "clouds_invert C" "readable S (mo_OutputPath opts)"
  shows "\<exists>sk. contents S (mo_InputPath opts) = Some (Scalar_Serialize sk) \<and> pkHex = hex_EncodeToString (bls_pk B sk)
    \<and> starts_with B C S' (mo_Backend opts) (mo_OutputPath opts) (mo_AWS opts) (mo_GCP opts) (mo_Azure opts) sk"
proof -
  from Migrate_kms_cases [OF assms(1,2)] obtain sk ct S1 e where c: "scalar_ok sk"
    "contents S (mo_InputPath opts) = Some (Scalar_Serialize sk)"
    "encryptForBackend C (mo_Backend opts) (mo_AWS opts) (mo_GCP opts) (mo_Azure opts) (Scalar_Serialize sk) = Inr ct"
    "keytool_writeFile S (mo_OutputPath opts) ct = (S1, e)"
    "case e of Some er \<Rightarrow> S' = S1 \<and> \<not> is_ok (Inr pkHex :: string result)
     | None \<Rightarrow> delete_input S1 opts (hex_EncodeToString (bls_pk B sk)) = (S', Inr pkHex)"
    by auto
  then have e: "e = None" and d: "delete_input S1 opts (hex_EncodeToString (bls_pk B sk)) = (S', Inr pkHex)"
    by (auto split: option.splits)
  from writeFile_cases [OF c(4)] e assms(3,5) delete_input_frame [OF d] readable_delete_input [OF d]
  have "readable S' (mo_OutputPath opts)" "contents S' (mo_OutputPath opts) = Some ct"
    by (simp_all add: readable_def)
  from encrypted_starts [OF c(3) assms(4) c(1) this] c(2) delete_input_result [OF d] show ?thesis by blast
qed

section \<open>Vault\<close>

text \<open>A successful write through the client is a write to the plugin's storage that was answered with data.\<close>

lemma vault_write_plugin:
  assumes "vault_write_key (plugin_api B gn (vault_mount cfg) rnd) w cfg (endpoint_suffix ep) body failed = (w', Inr pkHex)"
    and "good_name gn (vault_KeyName cfg)"
  obtains st' xs where "vault_Token cfg \<noteq> []" "vw_accepts w (vault_Token cfg)" "w' = w\<lparr>vw_storage := st'\<rparr>"
    "plugin_write B rnd (vw_storage w) ep (request_data (vault_KeyName cfg) body) = (st', Inr (RespData xs))"
    "map_of xs ''public_key'' = Some pkHex"
proof -
  have m: "vault_mount cfg = (if vault_MountPath cfg = [] then ''bls'' else vault_MountPath cfg)"
    by (simp add: vault_mount_def defaultMountPath_def)
  obtain st' r where w: "plugin_write B rnd (vw_storage w) ep (request_data (vault_KeyName cfg) body) = (st', r)" by fastforce
  from assms w route_key_path [OF assms(2), of "vault_mount cfg" ep]
  have t: "vault_Token cfg \<noteq> []" "vw_accepts w (vault_Token cfg)" "w' = w\<lparr>vw_storage := st'\<rparr>"
    and s: "\<exists>s dat. api_answer r = Inr (Some s) \<and> sec_Data s = Some dat \<and> dat ''public_key'' = Some (VString pkHex)"
    by (auto simp: vault_write_key_def vaultClient_def plugin_api_def m [symmetric]
        result_simps Let_def split: if_splits)
  then obtain xs where "r = Inr (RespData xs)" "map_of xs ''public_key'' = Some pkHex"
    by (cases r rule: api_answer.cases) auto
  with t w show thesis by (intro that) auto
qed

text \<open>What a key made in Vault leaves behind: it is stored under its name, readable, and its public key was reported.\<close>

definition vault_has :: "('p1, 'p2) blst \<Rightarrow> string \<Rightarrow> nat \<Rightarrow> string \<Rightarrow> vault_world \<Rightarrow> vault_world \<Rightarrow> bool" where
  "vault_has B name sk pkHex w w' \<longleftrightarrow> stored_key (vw_storage w') name sk \<and> pkHex = hex_EncodeToString (bls_pk B sk)
     \<and> vw_accepts w' = vw_accepts w \<and> st_get_err (vw_storage w') (entry_key name) = None"

lemma created_readable:
  "plugin_write B rnd st ep d = (st', Inr (RespData xs)) \<Longrightarrow> ep \<in> {Generate, Import} \<Longrightarrow>
    st_get_err st (entry_key (fd_name d)) = None
    \<and> (plugin_handle B rnd st ep CreateOperation d = (st', Inr (RespData xs))
      \<or> plugin_handle B rnd st ep UpdateOperation d = (st', Inr (RespData xs)))"
  by (auto simp: plugin_write_def keyDoesNotExist_def storage_Get_def result_simps split: sum.splits if_splits)

lemma vaultImport_plugin:
  assumes "vaultImport (plugin_api B gn (vault_mount cfg) rnd) w cfg (Scalar_Serialize sk) = (w', Inr pkHex)"
    and "good_name gn (vault_KeyName cfg)" "scalar_ok sk"
  shows "vault_Token cfg \<noteq> [] \<and> vw_accepts w (vault_Token cfg) \<and> vault_has B (vault_KeyName cfg) sk pkHex w w'"
proof -
  let ?d = "request_data (vault_KeyName cfg) [(''key'', hex_EncodeToString (Scalar_Serialize sk))]"
  have "''import'' = endpoint_suffix Import" by simp
  from vault_write_plugin [OF assms(1) [unfolded vaultImport_def this] assms(2)] obtain st' xs where
    w: "vault_Token cfg \<noteq> []" "vw_accepts w (vault_Token cfg)" "w' = w\<lparr>vw_storage := st'\<rparr>"
    "plugin_write B rnd (vw_storage w) Import ?d = (st', Inr (RespData xs))" "map_of xs ''public_key'' = Some pkHex" .
  from created_readable [OF w(4)] have g: "st_get_err (vw_storage w) (entry_key (vault_KeyName cfg)) = None"
    and h: "handleImport B (vw_storage w) ?d = (st', Inr (RespData xs))"
    by (auto simp: request_data_def)
  from handleImport_cases [OF h] obtain skHex sk' where i: "fd_key ?d = Some skHex" "hex_key skHex sk'"
    "adds_key (vw_storage w) st' (fd_name ?d) skHex"
    "xs = [(''name'', fd_name ?d), (''public_key'', hex_EncodeToString (bls_pk B sk'))]"
    by auto
  from i(1,2) assms(3) have "sk' = sk"
    by (auto simp: request_data_def hex_key_encode_iff)
  with i w g adds_key_stores [OF i(3,2)] show ?thesis
    by (auto simp: request_data_def adds_key_def vault_has_def)
qed

lemma vaultGenerate_plugin:
  assumes "vaultGenerate (plugin_api B gn (vault_mount cfg) rnd) w cfg = (w', Inr pkHex)"
    and "good_name gn (vault_KeyName cfg)" "keygen_valid B"
  shows "\<exists>r. rnd = Inr r \<and> vault_has B (vault_KeyName cfg) (c_keygen B (fill_buffer 32 r)) pkHex w w'"
proof -
  let ?d = "request_data (vault_KeyName cfg) []"
  have "''generate'' = endpoint_suffix Generate" by simp
  from vault_write_plugin [OF assms(1) [unfolded vaultGenerate_def this] assms(2)] obtain st' xs where
    w: "w' = w\<lparr>vw_storage := st'\<rparr>" "plugin_write B rnd (vw_storage w) Generate ?d = (st', Inr (RespData xs))"
    "map_of xs ''public_key'' = Some pkHex" .
  from created_readable [OF w(2)] have g: "st_get_err (vw_storage w) (entry_key (vault_KeyName cfg)) = None"
    and h: "handleGenerate B rnd (vw_storage w) ?d = (st', Inr (RespData xs))"
    by (auto simp: request_data_def)
  from handleGenerate_cases [OF assms(3) h] obtain r sk where i: "rnd = Inr r" "sk = c_keygen B (fill_buffer 32 r)"
    "scalar_ok sk" "adds_key (vw_storage w) st' (fd_name ?d) (hex_EncodeToString (Scalar_Serialize sk))"
    "xs = [(''name'', fd_name ?d), (''public_key'', hex_EncodeToString (bls_pk B sk))]"
    by auto
  with w g adds_key_stores [OF i(4) hex_key_encode [OF i(3)]] show ?thesis
    by (auto simp: request_data_def adds_key_def vault_has_def)
qed

text \<open>
  Migrating into Vault over the plugin: when \<open>Migrate\<close> succeeds, the scalar of the plaintext file is stored under the
  configured name and its public key is reported.
\<close>

lemma Migrate_into_Vault:
  assumes "keytool_Migrate B C (plugin_api B gn (vault_mount (mo_Vault opts)) rnd) S w opts = (S', w', Inr pkHex)"
    and "mo_Backend opts = BackendVault" "good_name gn (vault_KeyName (mo_Vault opts))"
  shows "\<exists>sk. contents S (mo_InputPath opts) = Some (Scalar_Serialize sk)
    \<and> vault_has B (vault_KeyName (mo_Vault opts)) sk pkHex w w'"
proof -
  let ?api = "plugin_api B gn (vault_mount (mo_Vault opts)) rnd"
  from assms(1,2) obtain d where d: "os_ReadFile S (mo_InputPath opts) = Inr d" "ValidateSecretKey d"
    and r: "case vaultImport ?api w (mo_Vault opts) d of
      (w1, Inl e) \<Rightarrow> False
    | (w1, Inr pk) \<Rightarrow> w1 = w' \<and> delete_input S opts pk = (S', Inr pkHex)"
    by (auto simp: keytool_Migrate_def split: sum.splits if_splits prod.splits)
  from d(2) obtain sk where sk: "scalar_ok sk" "d = Scalar_Serialize sk"
    by (auto simp: ValidateSecretKey_iff)
  from r obtain pk where i: "vaultImport ?api w (mo_Vault opts) d = (w', Inr pk)"
    and pk: "delete_input S opts pk = (S', Inr pkHex)"
    by (auto split: prod.splits sum.splits)
  from vaultImport_plugin [OF i [unfolded sk(2)] assms(3) sk(1)] ReadFile_Inr [OF d(1)] sk(2) delete_input_result [OF pk]
  show ?thesis by auto
qed

section \<open>An example\<close>

definition empty_world :: vault_world where
  "empty_world = \<lparr>vw_storage = empty_storage, vw_accepts = (\<lambda>t. t = ''root'')\<rparr>"

definition at_test_key :: "VaultConfig \<Rightarrow> bool" where
  "at_test_key c \<longleftrightarrow> vault_KeyName c = ''validator'' \<and> vault_Token c = ''root'' \<and> vault_mount c = ''bls''"

lemma test_import:
  assumes "at_test_key c"
  shows "vaultImport test_api empty_world c (Scalar_Serialize 5) =
     (empty_world\<lparr>vw_storage := test_storage\<rparr>, Inr (hex_EncodeToString (bls_pk toy_blst 5)))"
proof -
  let ?d = "request_data ''validator'' [(''key'', hex_EncodeToString (Scalar_Serialize 5))]"
  have "handleImport toy_blst empty_storage ?d = (test_storage,
     Inr (RespData [(''name'', ''validator''), (''public_key'', hex_EncodeToString (bls_pk toy_blst 5))]))"
    by (subst handleImport_empty [of _ 5]) (simp_all add: request_data_def test_storage_def)
  then have "plugin_write toy_blst (Inr []) empty_storage Import ?d = (test_storage,
     Inr (RespData [(''name'', ''validator''), (''public_key'', hex_EncodeToString (bls_pk toy_blst 5))]))"
    by (simp add: plugin_write_def keyDoesNotExist_def storage_Get_def empty_storage_def)
  moreover have "(if vault_MountPath c = [] then ''bls'' else vault_MountPath c) = ''bls''"
    using assms by (simp add: at_test_key_def vault_mount_def defaultMountPath_def split: if_splits)
  ultimately show ?thesis
    using route_key_path [of "\<lambda>_. True" "''validator''" "''bls''" Import] assms
    by (simp add: vaultImport_def vault_write_key_def vaultClient_def plugin_api_def empty_world_def
        at_test_key_def good_name_def secret_string_def Let_def)
qed

definition generated_test_key :: nat where
  "generated_test_key = c_keygen toy_blst (fill_buffer 32 [])"

lemma test_generate:
  assumes "at_test_key c"
  shows "\<exists>w. vaultGenerate test_api empty_world c = (w, Inr (hex_EncodeToString (bls_pk toy_blst generated_test_key)))"
proof -
  let ?d = "request_data ''validator'' []"
  obtain st' where "handleGenerate toy_blst (Inr []) empty_storage ?d = (st',
     Inr (RespData [(''name'', ''validator''), (''public_key'', hex_EncodeToString (bls_pk toy_blst generated_test_key))]))"
    using handleGenerate_empty [OF keygen_valid_toy, of empty_storage ?d "[]"]
    by (simp add: request_data_def generated_test_key_def Let_def)
  then have "plugin_write toy_blst (Inr []) empty_storage Generate ?d = (st',
     Inr (RespData [(''name'', ''validator''), (''public_key'', hex_EncodeToString (bls_pk toy_blst generated_test_key))]))"
    by (simp add: plugin_write_def keyDoesNotExist_def storage_Get_def empty_storage_def)
  moreover have "(if vault_MountPath c = [] then ''bls'' else vault_MountPath c) = ''bls''"
    using assms by (simp add: at_test_key_def vault_mount_def defaultMountPath_def split: if_splits)
  ultimately show ?thesis
    using route_key_path [of "\<lambda>_. True" "''validator''" "''bls''" Generate] assms
    by (simp add: vaultGenerate_def vault_write_key_def vaultClient_def plugin_api_def empty_world_def
        at_test_key_def good_name_def secret_string_def Let_def)
qed

end
