(* ===== verification/Go_Base64.thy ===== *)
theory Go_Base64
  imports Go_Strings
begin

text \<open>
  \<open>encoding/base64.StdEncoding\<close>, which \<open>encoding/json\<close> uses for \<open>[]byte\<close> fields: the standard alphabet with
  padding. The decoder skips carriage returns and newlines, demands the padding, and does not look at
  the unused low bits of the last digit.
\<close>

definition b64_char :: "nat \<Rightarrow> char" where
  "b64_char n = (if n < 26 then char_of (n + 65) else if n < 52 then char_of (n + 71)
     else if n < 62 then char_of (n - 4) else if n = 62 then CHR ''+'' else CHR ''/'')"

definition b64_val :: "char \<Rightarrow> nat option" where
  "b64_val c = (let n = of_char c in
     if 65 \<le> n \<and> n \<le> 90 then Some (n - 65)
     else if 97 \<le> n \<and> n \<le> 122 then Some (n - 71)
     else if 48 \<le> n \<and> n \<le> 57 then Some (n + 4)
     else if n = 43 then Some 62 else if n = 47 then Some 63 else None)"

fun b64_encode :: "bytes \<Rightarrow> string" where
  "b64_encode [] = []"
| "b64_encode [a] = [b64_char (unat a div 4), b64_char (unat a mod 4 * 16), CHR ''='', CHR ''='']"
| "b64_encode [a, b] = [b64_char (unat a div 4), b64_char (unat a mod 4 * 16 + unat b div 16),
     b64_char (unat b mod 16 * 4), CHR ''='']"
| "b64_encode (a # b # c # bs) = [b64_char (unat a div 4), b64_char (unat a mod 4 * 16 + unat b div 16),
     b64_char (unat b mod 16 * 4 + unat c div 64), b64_char (unat c mod 64)] @ b64_encode bs"

text \<open>The digits with line breaks removed, four at a time; only the last group may be padded.\<close>

fun b64_groups :: "string \<Rightarrow> bytes option" where
  "b64_groups [] = Some []"
| "b64_groups (p # q # r # s # cs) =
     (case (b64_val p, b64_val q) of
        (Some i, Some j) \<Rightarrow>
          (if r = CHR ''='' then
             (if s = CHR ''='' \<and> cs = [] then Some [of_nat (i * 4 + j div 16)] else None)
           else case b64_val r of
             None \<Rightarrow> None
           | Some k \<Rightarrow>
               (if s = CHR ''='' then
                  (if cs = [] then Some [of_nat (i * 4 + j div 16), of_nat (j mod 16 * 16 + k div 4)] else None)
                else case b64_val s of
                  None \<Rightarrow> None
                | Some l \<Rightarrow> map_option (\<lambda>bs. of_nat (i * 4 + j div 16) # of_nat (j mod 16 * 16 + k div 4)
                                # of_nat (k mod 4 * 64 + l) # bs) (b64_groups cs)))
      | _ \<Rightarrow> None)"
| "b64_groups _ = None"

definition is_newline :: "char \<Rightarrow> bool" where
  "is_newline c = (of_char c \<in> {10, 13 :: nat})"

definition b64_decode :: "string \<Rightarrow> bytes option" where
  "b64_decode s = b64_groups (filter (\<lambda>c. \<not> is_newline c) s)"

lemma of_char_b64: "n < 64 \<Longrightarrow> of_char (b64_char n) = (if n < 26 then n + 65 else if n < 52 then n + 71
     else if n < 62 then n - 4 else if n = 62 then 43 else 47 :: nat)"
  by (simp add: b64_char_def)

lemma b64_val_char [simp]: "n < 64 \<Longrightarrow> b64_val (b64_char n) = Some n"
  by (auto simp: b64_val_def of_char_b64 Let_def)

lemma b64_char_range:
  "n < 64 \<Longrightarrow> of_char (b64_char n) \<in> {43, 47 :: nat} \<union> {48..57} \<union> {65..90} \<union> {97..122}"
  by (simp add: of_char_b64) linarith

lemma b64_char_pad [simp]: "n < 64 \<Longrightarrow> (b64_char n = CHR ''='') = False"
  using b64_char_range [of n] by auto

lemma b64_char_newline [simp]: "n < 64 \<Longrightarrow> is_newline (b64_char n) = False"
  using b64_char_range [of n] by (auto simp: is_newline_def)

lemma pad_newline [simp]: "is_newline (CHR ''='') = False"
  by (simp add: is_newline_def)

text \<open>The digits of a byte triple are in range, and put the bytes together again.\<close>

lemma byte_parts:
  "unat (a :: byte) div 4 < 64" "unat a div 16 < 16" "unat a div 64 < 4"
  using unat_byte_less [of a] by (auto intro!: less_mult_imp_div_less)

lemma digit_bounds: "y < 4 \<Longrightarrow> x < 16 \<Longrightarrow> y * 16 + x < (64 :: nat)" "x < 16 \<Longrightarrow> y < 4 \<Longrightarrow> x * 4 + y < (64 :: nat)"
  by simp_all

lemma sextets [simp]:
  "unat (a :: byte) div 4 < 64"
  "unat (a :: byte) mod 4 * 16 + unat (b :: byte) div 16 < 64"
  "unat (b :: byte) mod 16 * 4 + unat (c :: byte) div 64 < 64"
  "unat (c :: byte) mod 64 < 64"
  by (simp_all add: byte_parts digit_bounds)

lemma sextets_padded [simp]: "unat (a :: byte) mod 4 * 16 < 64" "unat (b :: byte) mod 16 * 4 < 64"
  using digit_bounds(1) [of "unat a mod 4" 0] digit_bounds(2) [of "unat b mod 16" 0] by simp_all

lemma byte_small [simp]:
  "unat (c :: byte) div 64 div 4 = 0" "unat (c :: byte) div 64 mod 4 = unat c div 64"
  "unat (c :: byte) div 16 div 16 = 0" "unat (c :: byte) div 16 mod 16 = unat c div 16"
  using byte_parts [of c] by simp_all

lemma b64_encode_chars:
  "c \<in> set (b64_encode bs) \<Longrightarrow> c = CHR ''='' \<or> (\<exists>n<64. c = b64_char n)"
  by (induction bs rule: b64_encode.induct) (auto intro: sextets sextets_padded)

lemma filter_b64 [simp]: "filter (\<lambda>c. \<not> is_newline c) (b64_encode bs) = b64_encode bs"
  by (auto simp: filter_id_conv dest!: b64_encode_chars)

lemma b64_groups_encode: "b64_groups (b64_encode bs) = Some bs"
  by (induction bs rule: b64_encode.induct) simp_all

lemma b64_decode_encode [simp]: "b64_decode (b64_encode bs) = Some bs"
  by (simp add: b64_decode_def b64_groups_encode)

lemma b64_encode_Nil_iff [simp]: "b64_encode bs = [] \<longleftrightarrow> bs = []"
  by (cases bs rule: b64_encode.cases) simp_all

end
