(* ===== verification/Go_Json.thy ===== *)
theory Go_Json
  imports Go_Base64
begin

text \<open>
  What the enclave protocol uses of \<open>encoding/json\<close>: an encoder for flat objects of strings, and a decoder
  for arbitrary documents into structs of strings and byte slices. The decoder follows Go's: the next
  value of the stream, keys matched exactly or else case-insensitively, unknown keys skipped, repeated
  keys overwriting, \<open>null\<close> leaving a string alone, the first type error reported after the whole value.
  Go's limit on nesting (10000 levels) is not modelled, nor is the wording of its syntax errors: they are
  the parameter \<open>jerr\<close>, a function of the text that was read.
\<close>

section \<open>Text\<close>

text \<open>The number of bytes of the UTF-8 sequence at the head of a string, 0 when it is not valid.\<close>

definition cont_byte :: "char \<Rightarrow> bool" where
  "cont_byte c = (let n = of_char c :: nat in 128 \<le> n \<and> n < 192)"

fun utf8_len :: "string \<Rightarrow> nat" where
  "utf8_len [] = 0"
| "utf8_len (c # cs) =
     (let n = of_char c :: nat; m = (case cs of d # _ \<Rightarrow> of_char d | [] \<Rightarrow> 0) :: nat in
      if n < 128 then 1
      else if 194 \<le> n \<and> n < 224 then (case cs of d # _ \<Rightarrow> if cont_byte d then 2 else 0 | _ \<Rightarrow> 0)
      else if 224 \<le> n \<and> n < 240 then
        (case cs of d # e # _ \<Rightarrow>
           if cont_byte d \<and> cont_byte e \<and> (n = 224 \<longrightarrow> 160 \<le> m) \<and> (n = 237 \<longrightarrow> m < 160) then 3 else 0
         | _ \<Rightarrow> 0)
      else if 240 \<le> n \<and> n < 245 then
        (case cs of d # e # f # _ \<Rightarrow>
           if cont_byte d \<and> cont_byte e \<and> cont_byte f \<and> (n = 240 \<longrightarrow> 144 \<le> m) \<and> (n = 244 \<longrightarrow> m < 144)
           then 4 else 0
         | _ \<Rightarrow> 0)
      else 0)"

definition utf8_encode :: "nat \<Rightarrow> string" where
  "utf8_encode r =
     (if r < 0x80 then [char_of r]
      else if r < 0x800 then [char_of (192 + r div 64), char_of (128 + r mod 64)]
      else if r < 0x10000 then [char_of (224 + r div 4096), char_of (128 + r div 64 mod 64), char_of (128 + r mod 64)]
      else [char_of (240 + r div 262144), char_of (128 + r div 4096 mod 64), char_of (128 + r div 64 mod 64),
            char_of (128 + r mod 64)])"

definition replacement :: string where
  "replacement = utf8_encode 0xFFFD"

section \<open>Encoding strings\<close>

definition short_escape :: "char \<Rightarrow> char option" where
  "short_escape c =
     (if c = CHR 0x22 \<or> c = CHR 0x5C then Some c
      else if c = CHR 0x08 then Some (CHR ''b'') else if c = CHR 0x0C then Some (CHR ''f'')
      else if c = CHR 0x0A then Some (CHR ''n'') else if c = CHR 0x0D then Some (CHR ''r'')
      else if c = CHR 0x09 then Some (CHR ''t'') else None)"

definition esc_char :: "char \<Rightarrow> string" where
  "esc_char c =
     (case short_escape c of Some e \<Rightarrow> [CHR 0x5C, e]
      | None \<Rightarrow>
          if of_char c < (32 :: nat) \<or> c \<in> {CHR ''<'', CHR ''>'', CHR ''&''}
          then [CHR 0x5C, CHR ''u'', CHR ''0'', CHR ''0'', hex_char (of_char c div 16), hex_char (of_char c mod 16)]
          else [c])"

function json_escape :: "string \<Rightarrow> string" where
  "json_escape [] = []"
| "json_escape (c # cs) =
     (if of_char c < (128 :: nat) then esc_char c @ json_escape cs
      else (let n = utf8_len (c # cs) in
        if n = 0 then CHR 0x5C # ''ufffd'' @ json_escape cs
        else if take 3 (c # cs) \<in> {[CHR 0xE2, CHR 0x80, CHR 0xA8], [CHR 0xE2, CHR 0x80, CHR 0xA9]}
        then (CHR 0x5C # ''u202'') @ [if cs ! 1 = CHR 0xA8 then CHR ''8'' else CHR ''9''] @ json_escape (drop 2 cs)
        else take n (c # cs) @ json_escape (drop (n - 1) cs)))"
  by pat_completeness auto
termination by (relation "measure length") auto

definition json_quote :: "string \<Rightarrow> string" where
  "json_quote s = CHR 0x22 # json_escape s @ [CHR 0x22]"

section \<open>Decoding strings\<close>

text \<open>
  The scanner takes the text up to the closing quote and checks the escapes; \<open>json_unquote\<close> then decodes
  it. A lone surrogate and an invalid byte become the replacement character.
\<close>

fun scan_string :: "string \<Rightarrow> (string \<times> string) option" where
  "scan_string [] = None"
| "scan_string (c # cs) =
     (if c = CHR 0x22 then Some ([], cs)
      else if of_char c < (32 :: nat) then None
      else if c = CHR 0x5C then
        (case cs of [] \<Rightarrow> None
         | e # es \<Rightarrow>
            if e = CHR ''u'' \<and> (length es < 4 \<or> list_ex (\<lambda>h. hex_val h = None) (take 4 es)) then None
            else if e \<notin> set (CHR 0x22 # CHR 0x5C # ''/bfnrtu'') then None
            else map_option (\<lambda>(raw, r). (c # e # raw, r)) (scan_string es))
      else map_option (\<lambda>(raw, r). (c # raw, r)) (scan_string cs))"

definition hex4 :: "string \<Rightarrow> nat option" where
  "hex4 s = (case map hex_val (take 4 s) of
     [Some a, Some b, Some c, Some d] \<Rightarrow> Some (((a * 16 + b) * 16 + c) * 16 + d) | _ \<Rightarrow> None)"

definition is_surrogate :: "nat \<Rightarrow> bool" where
  "is_surrogate r \<longleftrightarrow> 0xD800 \<le> r \<and> r < 0xE000"

text \<open>The second half of a surrogate pair, when the text after the first half has one.\<close>

definition low_surrogate :: "nat \<Rightarrow> string \<Rightarrow> nat option" where
  "low_surrogate r s =
     (case s of b # u # t \<Rightarrow>
        if b = CHR 0x5C \<and> u = CHR ''u'' \<and> r < 0xDC00
        then (case hex4 t of
                Some q \<Rightarrow> if 0xDC00 \<le> q \<and> q < 0xE000 then Some ((r - 0xD800) * 1024 + (q - 0xDC00) + 0x10000) else None
              | None \<Rightarrow> None)
        else None
      | _ \<Rightarrow> None)"

definition simple_escape :: "char \<Rightarrow> char option" where
  "simple_escape e =
     (if e \<in> {CHR 0x22, CHR 0x5C, CHR ''/''} then Some e
      else if e = CHR ''b'' then Some (CHR 0x08) else if e = CHR ''f'' then Some (CHR 0x0C)
      else if e = CHR ''n'' then Some (CHR 0x0A) else if e = CHR ''r'' then Some (CHR 0x0D)
      else if e = CHR ''t'' then Some (CHR 0x09) else None)"

function json_unquote :: "string \<Rightarrow> string option" where
  "json_unquote [] = Some []"
| "json_unquote (c # cs) =
     (if c = CHR 0x5C then
        (case cs of [] \<Rightarrow> None
         | e # es \<Rightarrow>
            if e = CHR ''u'' then
              (case hex4 es of None \<Rightarrow> None
               | Some r \<Rightarrow>
                  if is_surrogate r then
                    (case low_surrogate r (drop 4 es) of
                       Some q \<Rightarrow> map_option (\<lambda>s. utf8_encode q @ s) (json_unquote (drop 10 es))
                     | None \<Rightarrow> map_option (\<lambda>s. replacement @ s) (json_unquote (drop 4 es)))
                  else map_option (\<lambda>s. utf8_encode r @ s) (json_unquote (drop 4 es)))
            else (case simple_escape e of None \<Rightarrow> None
               | Some d \<Rightarrow> map_option (Cons d) (json_unquote es)))
      else if c = CHR 0x22 \<or> of_char c < (32 :: nat) then None
      else if of_char c < (128 :: nat) then map_option (Cons c) (json_unquote cs)
      else (let n = utf8_len (c # cs) in
        if n = 0 then map_option (\<lambda>s. replacement @ s) (json_unquote cs)
        else map_option (\<lambda>s. take n (c # cs) @ s) (json_unquote (drop (n - 1) cs))))"
  by pat_completeness auto
termination by (relation "measure length") auto

declare json_escape.simps(2) [simp del] json_unquote.simps(2) [simp del]

lemma json_escape_ascii [simp]:
  "of_char c < (128 :: nat) \<Longrightarrow> json_escape (c # cs) = esc_char c @ json_escape cs"
  by (simp add: json_escape.simps(2))

text \<open>An escaped ASCII character is scanned as a whole and decodes to itself.\<close>

lemma append_single: "(@) [c] = Cons c"
  by (rule ext) simp

lemma scan_escaped:
  "e \<in> {CHR 0x22, CHR 0x5C, CHR ''b'', CHR ''f'', CHR ''n'', CHR ''r'', CHR ''t''} \<Longrightarrow>
     scan_string (CHR 0x5C # e # s) = map_option (\<lambda>(raw, r). (CHR 0x5C # e # raw, r)) (scan_string s)"
  by auto

lemma scan_plain:
  "c \<noteq> CHR 0x22 \<Longrightarrow> c \<noteq> CHR 0x5C \<Longrightarrow> \<not> of_char c < (32 :: nat) \<Longrightarrow>
     scan_string (c # s) = map_option (\<lambda>(raw, r). (c # raw, r)) (scan_string s)"
  by simp

lemma scan_hex_digit:
  "n < 16 \<Longrightarrow> scan_string (hex_char n # s) = map_option (\<lambda>(raw, r). (hex_char n # raw, r)) (scan_string s)"
proof -
  assume "n < 16"
  then have "hex_val (hex_char n) = Some n" by simp
  then have "hex_char n \<noteq> CHR 0x22" "hex_char n \<noteq> CHR 0x5C" "\<not> of_char (hex_char n) < (32 :: nat)"
    by (auto simp: hex_val_def Let_def split: if_splits)
  then show ?thesis by (rule scan_plain)
qed

lemma scan_u:
  "4 \<le> length es \<Longrightarrow> list_all (\<lambda>h. hex_val h \<noteq> None) (take 4 es) \<Longrightarrow>
     scan_string (CHR 0x5C # CHR ''u'' # es) = map_option (\<lambda>(raw, r). (CHR 0x5C # CHR ''u'' # raw, r)) (scan_string es)"
  by (auto simp: list_all_iff list_ex_iff)

lemma scan_unicode:
  assumes "a < 16" "b < 16"
  shows "scan_string ([CHR 0x5C, CHR ''u'', CHR ''0'', CHR ''0'', hex_char a, hex_char b] @ s) =
    map_option (\<lambda>(raw, r). ([CHR 0x5C, CHR ''u'', CHR ''0'', CHR ''0'', hex_char a, hex_char b] @ raw, r)) (scan_string s)"
proof -
  have zero: "CHR ''0'' = hex_char 0"
    by (simp add: hex_char_def)
  have "scan_string ([CHR 0x5C, CHR ''u'', CHR ''0'', CHR ''0'', hex_char a, hex_char b] @ s) =
    map_option (\<lambda>(raw, r). (CHR 0x5C # CHR ''u'' # raw, r))
      (scan_string (hex_char 0 # hex_char 0 # hex_char a # hex_char b # s))"
    unfolding zero append_Cons append_Nil by (rule scan_u) (simp_all add: assms)
  also have "\<dots> = map_option (\<lambda>(raw, r). ([CHR 0x5C, CHR ''u'', CHR ''0'', CHR ''0'', hex_char a, hex_char b] @ raw, r))
      (scan_string s)"
    unfolding zero
    by (simp only: scan_hex_digit [OF assms(1)] scan_hex_digit [OF assms(2)] scan_hex_digit [of 0])
      (cases "scan_string s"; simp split: prod.split)
  finally show ?thesis .
qed

lemma short_escape_Some:
  "short_escape c = Some e \<Longrightarrow> simple_escape e = Some c \<and> e \<noteq> CHR ''u''
     \<and> e \<in> {CHR 0x22, CHR 0x5C, CHR ''b'', CHR ''f'', CHR ''n'', CHR ''r'', CHR ''t''}"
  by (auto simp: short_escape_def simple_escape_def split: if_splits)

lemma short_escape_None: "short_escape c = None \<Longrightarrow> c \<noteq> CHR 0x22 \<and> c \<noteq> CHR 0x5C"
  by (auto simp: short_escape_def split: if_splits)

lemma ascii_nibbles: "of_char c < (128 :: nat) \<Longrightarrow> of_char c div 16 < (16 :: nat) \<and> of_char c mod 16 < (16 :: nat)"
  by simp

lemma scan_esc_char:
  assumes "of_char c < (128 :: nat)"
  shows "scan_string (esc_char c @ s) = map_option (\<lambda>(raw, r). (esc_char c @ raw, r)) (scan_string s)"
proof (cases "short_escape c")
  case (Some e)
  with short_escape_Some [OF Some] scan_escaped [of e s] show ?thesis
    by (simp add: esc_char_def)
next
  case None
  with short_escape_None [OF None] scan_plain [of c s] scan_unicode [of "of_char c div 16" "of_char c mod 16" s]
    ascii_nibbles [OF assms] show ?thesis
    by (simp add: esc_char_def)
qed

lemma unquote_unicode:
  assumes "of_char c < (128 :: nat)"
  shows "json_unquote ([CHR 0x5C, CHR ''u'', CHR ''0'', CHR ''0'', hex_char (of_char c div 16), hex_char (of_char c mod 16)] @ s)
    = map_option (Cons c) (json_unquote s)"
proof -
  have h: "hex_val (CHR ''0'') = Some 0"
    by (simp add: hex_val_def)
  have "hex4 (CHR ''0'' # CHR ''0'' # hex_char (of_char c div 16) # hex_char (of_char c mod 16) # s) = Some (of_char c)"
    using ascii_nibbles [OF assms] h by (simp add: hex4_def)
  moreover have "utf8_encode (of_char c) = [c]" "\<not> is_surrogate (of_char c)"
    using assms by (simp_all add: utf8_encode_def is_surrogate_def)
  ultimately show ?thesis
    by (simp add: json_unquote.simps(2) append_single)
qed

lemma unquote_esc_char:
  assumes "of_char c < (128 :: nat)"
  shows "json_unquote (esc_char c @ s) = map_option (Cons c) (json_unquote s)"
proof (cases "short_escape c")
  case (Some e)
  with short_escape_Some [OF Some] show ?thesis
    by (simp add: esc_char_def json_unquote.simps(2))
next
  case None
  show ?thesis
  proof (cases "of_char c < (32 :: nat) \<or> c \<in> {CHR ''<'', CHR ''>'', CHR ''&''}")
    case True
    with None unquote_unicode [OF assms, of s] show ?thesis
      by (simp only: esc_char_def option.case if_True)
  next
    case False
    with None short_escape_None [OF None] assms show ?thesis
      by (simp add: esc_char_def json_unquote.simps(2))
  qed
qed

lemma scan_escape:
  "is_ascii s \<Longrightarrow> scan_string (json_escape s @ CHR 0x22 # r) = Some (json_escape s, r)"
  by (induction s) (simp_all add: is_ascii_def scan_esc_char)

lemma unquote_escape: "is_ascii s \<Longrightarrow> json_unquote (json_escape s) = Some s"
  by (induction s) (simp_all add: is_ascii_def unquote_esc_char)

end
