(* ===== verification/Go_Json_Parse.thy ===== *)
theory Go_Json_Parse
  imports Go_Json
begin

text \<open>
  The JSON values a decoder reads from a stream, with the fuel that a document of the given length cannot
  exhaust, and the decoding of a value into a struct.
\<close>

section \<open>Values\<close>

datatype json = JNull | JBool bool | JNum string | JStr string | JArr "json list" | JObj "(string \<times> json) list"

definition json_blank :: "char \<Rightarrow> bool" where
  "json_blank c = (of_char c \<in> {9, 10, 13, 32 :: nat})"

definition skip_ws :: "string \<Rightarrow> string" where
  "skip_ws s = dropWhile json_blank s"

definition is_digit :: "char \<Rightarrow> bool" where
  "is_digit c = (let n = of_char c :: nat in 48 \<le> n \<and> n \<le> 57)"

text \<open>A number: sign, integer part without leading zeros, fraction, exponent; the longest that fits.\<close>

definition scan_int :: "string \<Rightarrow> (string \<times> string) option" where
  "scan_int s = (case s of [] \<Rightarrow> None
     | c # cs \<Rightarrow> if c = CHR ''0'' then Some ([c], cs)
                else if is_digit c then Some (takeWhile is_digit s, dropWhile is_digit s) else None)"

definition scan_frac :: "string \<Rightarrow> (string \<times> string) option" where
  "scan_frac s = (case s of c # cs \<Rightarrow>
       if c = CHR ''.'' then
         (if takeWhile is_digit cs = [] then None else Some (c # takeWhile is_digit cs, dropWhile is_digit cs))
       else Some ([], s)
     | [] \<Rightarrow> Some ([], s))"

definition scan_exp :: "string \<Rightarrow> (string \<times> string) option" where
  "scan_exp s = (case s of c # cs \<Rightarrow>
       if c = CHR ''e'' \<or> c = CHR ''E'' then
         (let sign = (case cs of d # _ \<Rightarrow> if d = CHR ''+'' \<or> d = CHR ''-'' then [d] else [] | [] \<Rightarrow> []);
              ds = drop (length sign) cs
          in if takeWhile is_digit ds = [] then None
             else Some (c # sign @ takeWhile is_digit ds, dropWhile is_digit ds))
       else Some ([], s)
     | [] \<Rightarrow> Some ([], s))"

definition scan_number :: "string \<Rightarrow> (string \<times> string) option" where
  "scan_number s =
     (let sign = (case s of c # _ \<Rightarrow> if c = CHR ''-'' then [c] else [] | [] \<Rightarrow> []) in
      Option.bind (scan_int (drop (length sign) s)) (\<lambda>(i, s1).
      Option.bind (scan_frac s1) (\<lambda>(f, s2).
      Option.bind (scan_exp s2) (\<lambda>(e, s3).
      Some (sign @ i @ f @ e, s3)))))"

definition scan_literal :: "string \<Rightarrow> (json \<times> string) option" where
  "scan_literal s =
     (if take 4 s = ''true'' then Some (JBool True, drop 4 s)
      else if take 5 s = ''false'' then Some (JBool False, drop 5 s)
      else if take 4 s = ''null'' then Some (JNull, drop 4 s)
      else map_option (\<lambda>(n, r). (JNum n, r)) (scan_number s))"

definition parse_string :: "string \<Rightarrow> (string \<times> string) option" where
  "parse_string s =
     (case scan_string s of None \<Rightarrow> None
      | Some (raw, r) \<Rightarrow> map_option (\<lambda>t. (t, r)) (json_unquote raw))"

text \<open>\<open>parse_members\<close> and \<open>parse_elements\<close> read on after the opening bracket or a comma.\<close>

fun parse_value :: "nat \<Rightarrow> string \<Rightarrow> (json \<times> string) option"
  and parse_members :: "nat \<Rightarrow> string \<Rightarrow> ((string \<times> json) list \<times> string) option"
  and parse_elements :: "nat \<Rightarrow> string \<Rightarrow> (json list \<times> string) option" where
  "parse_value 0 s = None"
| "parse_value (Suc n) s =
     (case skip_ws s of [] \<Rightarrow> None
      | c # cs \<Rightarrow>
         if c = CHR ''{'' then
           (case skip_ws cs of d # ds \<Rightarrow>
              if d = CHR ''}'' then Some (JObj [], ds)
              else map_option (\<lambda>(m, r). (JObj m, r)) (parse_members n cs)
            | [] \<Rightarrow> None)
         else if c = CHR ''['' then
           (case skip_ws cs of d # ds \<Rightarrow>
              if d = CHR '']'' then Some (JArr [], ds)
              else map_option (\<lambda>(e, r). (JArr e, r)) (parse_elements n cs)
            | [] \<Rightarrow> None)
         else if c = CHR 0x22 then map_option (\<lambda>(t, r). (JStr t, r)) (parse_string cs)
         else scan_literal (c # cs))"
| "parse_members 0 s = None"
| "parse_members (Suc n) s =
     (case skip_ws s of [] \<Rightarrow> None
      | q # cs \<Rightarrow> if q \<noteq> CHR 0x22 then None else
         (case parse_string cs of None \<Rightarrow> None
          | Some (k, r) \<Rightarrow>
             (case skip_ws r of [] \<Rightarrow> None
              | c # r \<Rightarrow> if c \<noteq> CHR '':'' then None else
                 (case parse_value n r of None \<Rightarrow> None
                  | Some (v, r) \<Rightarrow>
                     (case skip_ws r of [] \<Rightarrow> None
                      | d # r \<Rightarrow>
                         if d = CHR '','' then map_option (\<lambda>(m, r). ((k, v) # m, r)) (parse_members n r)
                         else if d = CHR ''}'' then Some ([(k, v)], r) else None)))))"
| "parse_elements 0 s = None"
| "parse_elements (Suc n) s =
     (case parse_value n s of None \<Rightarrow> None
      | Some (v, r) \<Rightarrow>
         (case skip_ws r of [] \<Rightarrow> None
          | d # r \<Rightarrow>
             if d = CHR '','' then map_option (\<lambda>(m, r). (v # m, r)) (parse_elements n r)
             else if d = CHR '']'' then Some ([v], r) else None))"

definition json_fuel :: "string \<Rightarrow> nat" where
  "json_fuel s = Suc (2 * length s)"

definition read_json :: "string \<Rightarrow> json option" where
  "read_json s = map_option fst (parse_value (json_fuel s) s)"

section \<open>The fuel is enough\<close>

text \<open>What a scanner leaves is a shorter text, so a document is read up before the fuel is.\<close>

lemma length_skip_ws: "length (skip_ws s) \<le> length s"
  by (simp add: skip_ws_def length_dropWhile_le)

lemma scan_string_shorter: "scan_string s = Some (raw, r) \<Longrightarrow> length r < length s"
  by (induction s arbitrary: raw r rule: scan_string.induct)
    (fastforce split: if_splits list.splits)+

lemma parse_string_shorter: "parse_string s = Some (t, r) \<Longrightarrow> length r < length s"
  by (auto simp: parse_string_def split: option.splits dest: scan_string_shorter)

lemma scan_int_shorter: "scan_int s = Some (i, r) \<Longrightarrow> length r < length s"
  by (auto simp: scan_int_def le_imp_less_Suc length_dropWhile_le split: list.splits if_splits)

lemma scan_frac_shorter: "scan_frac s = Some (i, r) \<Longrightarrow> length r \<le> length s"
  by (auto simp: scan_frac_def intro: le_SucI length_dropWhile_le split: list.splits if_splits)

lemma scan_exp_shorter: "scan_exp s = Some (i, r) \<Longrightarrow> length r \<le> length s"
proof (cases s)
  case (Cons c cs)
  assume h: "scan_exp s = Some (i, r)"
  have "length (dropWhile is_digit (drop n cs)) \<le> length cs" for n
    by (rule order_trans [OF length_dropWhile_le]) simp
  with h Cons show ?thesis
    by (auto simp: scan_exp_def Let_def le_SucI split: if_splits)
qed (simp add: scan_exp_def)

lemma scan_number_shorter: "scan_number s = Some (i, r) \<Longrightarrow> length r < length s"
proof -
  assume h: "scan_number s = Some (i, r)"
  let ?sign = "case s of c # _ \<Rightarrow> if c = CHR ''-'' then [c] else [] | [] \<Rightarrow> []"
  from h obtain i1 s1 f s2 e where "scan_int (drop (length ?sign) s) = Some (i1, s1)"
    "scan_frac s1 = Some (f, s2)" "scan_exp s2 = Some (e, r)"
    by (auto simp: scan_number_def Let_def bind_eq_Some_conv)
  from scan_int_shorter [OF this(1)] scan_frac_shorter [OF this(2)] scan_exp_shorter [OF this(3)]
  show ?thesis by simp
qed

lemma scan_literal_shorter: "scan_literal s = Some (v, r) \<Longrightarrow> length r < length s"
  by (cases s) (auto simp: scan_literal_def dest: scan_number_shorter split: if_splits)

lemma skip_ws_Cons: "skip_ws s = c # cs \<Longrightarrow> length cs < length s"
  using length_skip_ws [of s] by simp

lemma parse_members_Suc:
  assumes "parse_members (Suc n) s = Some (m, r)"
  obtains cs k r1 r2 v r3 d r4 where "skip_ws s = CHR 0x22 # cs" "parse_string cs = Some (k, r1)"
    "skip_ws r1 = CHR '':'' # r2" "parse_value n r2 = Some (v, r3)" "skip_ws r3 = d # r4"
    "(\<exists>m'. d = CHR '','' \<and> parse_members n r4 = Some (m', r)) \<or> r = r4"
  using assms by (auto split: list.splits if_splits option.splits)

lemma parse_elements_Suc:
  assumes "parse_elements (Suc n) s = Some (e, r)"
  obtains v r3 d r4 where "parse_value n s = Some (v, r3)" "skip_ws r3 = d # r4"
    "(\<exists>e'. d = CHR '','' \<and> parse_elements n r4 = Some (e', r)) \<or> r = r4"
  using assms by (auto split: list.splits if_splits option.splits)

lemma parse_value_Suc:
  assumes "parse_value (Suc n) s = Some (v, r)"
  obtains c cs where "skip_ws s = c # cs"
    "(\<exists>d. skip_ws cs = d # r) \<or> (\<exists>m. parse_members n cs = Some (m, r)) \<or> (\<exists>e. parse_elements n cs = Some (e, r))
     \<or> (\<exists>t. parse_string cs = Some (t, r)) \<or> scan_literal (c # cs) = Some (v, r)"
  using assms by (auto split: list.splits if_splits)

lemma parse_shorter:
  "(\<forall>s v r. parse_value n s = Some (v, r) \<longrightarrow> length r < length s)
   \<and> (\<forall>s m r. parse_members n s = Some (m, r) \<longrightarrow> length r < length s)
   \<and> (\<forall>s e r. parse_elements n s = Some (e, r) \<longrightarrow> length r < length s)"
proof (induction n)
  case (Suc n)
  have v: "length r < length s" if h: "parse_value (Suc n) s = Some (v, r)" for s v r
  proof -
    from h obtain c cs where s: "skip_ws s = c # cs" and
      "(\<exists>d. skip_ws cs = d # r) \<or> (\<exists>m. parse_members n cs = Some (m, r)) \<or> (\<exists>e. parse_elements n cs = Some (e, r))
       \<or> (\<exists>t. parse_string cs = Some (t, r)) \<or> scan_literal (c # cs) = Some (v, r)"
      by (rule parse_value_Suc)
    with Suc have "length r < length (c # cs)"
      using skip_ws_Cons [of cs] parse_string_shorter [of cs] scan_literal_shorter [of "c # cs"]
      by (metis length_Cons less_SucI)
    with s length_skip_ws [of s] show ?thesis by simp
  qed
  have m: "length r < length s" if h: "parse_members (Suc n) s = Some (m, r)" for s m r
  proof -
    from h obtain cs k r1 r2 v r3 d r4 where c: "skip_ws s = CHR 0x22 # cs" "parse_string cs = Some (k, r1)"
      "skip_ws r1 = CHR '':'' # r2" "parse_value n r2 = Some (v, r3)" "skip_ws r3 = d # r4"
      "(\<exists>m'. d = CHR '','' \<and> parse_members n r4 = Some (m', r)) \<or> r = r4"
      by (rule parse_members_Suc)
    have "length r \<le> length r4"
      using c(6) Suc by (auto intro: less_imp_le)
    moreover have "length r3 < length r2" using c(4) Suc by blast
    ultimately show ?thesis
      using skip_ws_Cons [OF c(1)] parse_string_shorter [OF c(2)] skip_ws_Cons [OF c(3)] skip_ws_Cons [OF c(5)]
      by linarith
  qed
  have e: "length r < length s" if h: "parse_elements (Suc n) s = Some (e, r)" for s e r
  proof -
    from h obtain v r3 d r4 where c: "parse_value n s = Some (v, r3)" "skip_ws r3 = d # r4"
      "(\<exists>e'. d = CHR '','' \<and> parse_elements n r4 = Some (e', r)) \<or> r = r4"
      by (rule parse_elements_Suc)
    have "length r \<le> length r4" "length r3 < length s"
      using c(1,3) Suc by (auto intro: less_imp_le)
    with skip_ws_Cons [OF c(2)] show ?thesis by linarith
  qed
  from v m e show ?case by blast
qed simp

text \<open>
  The three functions as bodies over the functions they call. A body looks at shorter texts only, so two
  runs agree as soon as the functions they call agree there.
\<close>

definition value_body :: "(string \<Rightarrow> ((string \<times> json) list \<times> string) option) \<Rightarrow>
    (string \<Rightarrow> (json list \<times> string) option) \<Rightarrow> string \<Rightarrow> (json \<times> string) option" where
  "value_body pm pe s =
     (case skip_ws s of [] \<Rightarrow> None
      | c # cs \<Rightarrow>
         if c = CHR ''{'' then
           (case skip_ws cs of d # ds \<Rightarrow>
              if d = CHR ''}'' then Some (JObj [], ds) else map_option (\<lambda>(m, r). (JObj m, r)) (pm cs)
            | [] \<Rightarrow> None)
         else if c = CHR ''['' then
           (case skip_ws cs of d # ds \<Rightarrow>
              if d = CHR '']'' then Some (JArr [], ds) else map_option (\<lambda>(e, r). (JArr e, r)) (pe cs)
            | [] \<Rightarrow> None)
         else if c = CHR 0x22 then map_option (\<lambda>(t, r). (JStr t, r)) (parse_string cs)
         else scan_literal (c # cs))"

definition after_key :: "string \<Rightarrow> string option" where
  "after_key r = (case skip_ws r of [] \<Rightarrow> None | c # r \<Rightarrow> if c \<noteq> CHR '':'' then None else Some r)"

definition items_body :: "char \<Rightarrow> ('a \<Rightarrow> 'b) \<Rightarrow> (string \<Rightarrow> ('b list \<times> string) option) \<Rightarrow> ('a \<times> string) option \<Rightarrow>
    ('b list \<times> string) option" where
  "items_body close f more item =
     (case item of None \<Rightarrow> None
      | Some (v, r) \<Rightarrow>
         (case skip_ws r of [] \<Rightarrow> None
          | d # r \<Rightarrow>
             if d = CHR '','' then map_option (\<lambda>(m, r). (f v # m, r)) (more r)
             else if d = close then Some ([f v], r) else None))"

definition members_body :: "(string \<Rightarrow> (json \<times> string) option) \<Rightarrow>
    (string \<Rightarrow> ((string \<times> json) list \<times> string) option) \<Rightarrow> string \<Rightarrow> ((string \<times> json) list \<times> string) option" where
  "members_body pv pm s =
     (case skip_ws s of [] \<Rightarrow> None
      | q # cs \<Rightarrow> if q \<noteq> CHR 0x22 then None else
         (case parse_string cs of None \<Rightarrow> None
          | Some (k, r) \<Rightarrow>
             (case after_key r of None \<Rightarrow> None
              | Some r \<Rightarrow> items_body (CHR ''}'') (Pair k) pm (pv r))))"

lemma parse_value_eq: "parse_value (Suc n) s = value_body (parse_members n) (parse_elements n) s"
  by (simp add: value_body_def)

lemma parse_members_eq: "parse_members (Suc n) s = members_body (parse_value n) (parse_members n) s"
  by (auto simp: members_body_def after_key_def items_body_def split: list.split option.split)

lemma parse_elements_eq:
  "parse_elements (Suc n) s = items_body (CHR '']'') (\<lambda>v. v) (parse_elements n) (parse_value n s)"
  by (simp add: items_body_def)

lemmas parse_eqs = parse_value_eq parse_members_eq parse_elements_eq

declare parse_value.simps [simp del] parse_members.simps [simp del] parse_elements.simps [simp del]

lemma value_body_cong:
  assumes "\<And>cs. length cs < length s \<Longrightarrow> pm cs = pm' cs" "\<And>cs. length cs < length s \<Longrightarrow> pe cs = pe' cs"
  shows "value_body pm pe s = value_body pm' pe' s"
proof (cases "skip_ws s")
  case (Cons c cs)
  have "pm cs = pm' cs" "pe cs = pe' cs"
    using assms skip_ws_Cons [OF Cons] by simp_all
  with Cons show ?thesis
    by (simp add: value_body_def split: list.split)
qed (simp add: value_body_def)

lemma items_body_cong:
  assumes "\<And>v r cs. item = Some (v, r) \<Longrightarrow> length cs < length r \<Longrightarrow> more cs = more' cs"
  shows "items_body close f more item = items_body close f more' item"
proof (cases item)
  case (Some p)
  then obtain v r where p: "item = Some (v, r)" by (cases p) auto
  show ?thesis
  proof (cases "skip_ws r")
    case (Cons d ds)
    with assms [OF p] p skip_ws_Cons [OF Cons] show ?thesis by (simp add: items_body_def)
  qed (simp add: items_body_def p)
qed (simp add: items_body_def)

lemma members_body_cong:
  assumes "\<And>cs. length cs < length s \<Longrightarrow> pv cs = pv' cs" "\<And>cs. length cs < length s \<Longrightarrow> pm cs = pm' cs"
    and "\<And>cs v r. pv' cs = Some (v, r) \<Longrightarrow> length r < length cs"
  shows "members_body pv pm s = members_body pv' pm' s"
proof (cases "skip_ws s")
  case (Cons q cs)
  show ?thesis
  proof (cases "parse_string cs")
    case (Some p)
    then obtain k r1 where k: "parse_string cs = Some (k, r1)" by (cases p) auto
    show ?thesis
    proof (cases "after_key r1")
      case a: (Some r2)
      then have "length r2 < length r1"
        by (auto simp: after_key_def dest: skip_ws_Cons split: list.splits if_splits)
      with skip_ws_Cons [OF Cons] parse_string_shorter [OF k] have l: "length r2 < length s" by simp
      have "items_body (CHR ''}'') (Pair k) pm (pv r2) = items_body (CHR ''}'') (Pair k) pm' (pv' r2)"
        unfolding assms(1) [OF l]
        by (rule items_body_cong, rule assms(2)) (use assms(3) l in fastforce)
      with Cons k a show ?thesis by (simp add: members_body_def)
    qed (use Cons k in \<open>simp add: members_body_def\<close>)
  qed (use Cons in \<open>simp add: members_body_def\<close>)
qed (simp add: members_body_def)

text \<open>One more unit of fuel changes nothing once there is more than two units per character.\<close>

lemma parse_fuel_step:
  "(\<forall>s. 2 * length s < n \<longrightarrow> parse_value (Suc n) s = parse_value n s)
   \<and> (\<forall>s. 2 * length s < n \<longrightarrow> parse_members (Suc n) s = parse_members n s)
   \<and> (\<forall>s. Suc (2 * length s) < n \<longrightarrow> parse_elements (Suc n) s = parse_elements n s)"
proof (induction n)
  case (Suc n)
  have v: "parse_value (Suc (Suc n)) s = parse_value (Suc n) s" if "2 * length s < Suc n" for s
    unfolding parse_value_eq by (rule value_body_cong) (use Suc that in simp_all)
  have m: "parse_members (Suc (Suc n)) s = parse_members (Suc n) s" if "2 * length s < Suc n" for s
  proof -
    have "parse_members (Suc (Suc n)) s = members_body (parse_value (Suc n)) (parse_members (Suc n)) s"
      by (rule parse_members_eq)
    also have "\<dots> = members_body (parse_value n) (parse_members n) s"
    proof (rule members_body_cong)
      fix cs v r assume "parse_value n cs = Some (v, r)"
      then show "length r < length cs" using parse_shorter [of n] by blast
    qed (use Suc that in simp_all)
    also have "\<dots> = parse_members (Suc n) s"
      by (rule parse_members_eq [symmetric])
    finally show ?thesis .
  qed
  have e: "parse_elements (Suc (Suc n)) s = parse_elements (Suc n) s" if l: "Suc (2 * length s) < Suc n" for s
  proof -
    from l Suc have pv: "parse_value (Suc n) s = parse_value n s" by simp
    have "items_body (CHR '']'') (\<lambda>v. v) (parse_elements (Suc n)) (parse_value n s)
        = items_body (CHR '']'') (\<lambda>v. v) (parse_elements n) (parse_value n s)"
    proof (rule items_body_cong)
      fix v r and cs :: string
      assume v: "parse_value n s = Some (v, r)" and cs: "length cs < length r"
      from v have "length r < length s" using parse_shorter [of n] by blast
      with cs show "parse_elements (Suc n) cs = parse_elements n cs" using Suc l by simp
    qed
    then show ?thesis
      using parse_elements_eq [of "Suc n" s] parse_elements_eq [of n s] pv by simp
  qed
  from v m e show ?case by blast
qed simp

lemma parse_value_fuel: "2 * length s < n \<Longrightarrow> parse_value n s = parse_value (json_fuel s) s"
proof (induction n)
  case (Suc n)
  show ?case
  proof (cases "2 * length s < n")
    case True
    with Suc.IH parse_fuel_step [of n] show ?thesis by metis
  next
    case False
    with Suc.prems have "n = 2 * length s" by simp
    then show ?thesis by (simp add: json_fuel_def)
  qed
qed simp

section \<open>Structs\<close>

text \<open>
  Go folds a key to upper case, and takes the two letters outside ASCII that fold to ASCII ones along:
  the long s and the Kelvin sign.
\<close>

definition ascii_upper :: "char \<Rightarrow> char" where
  "ascii_upper c = (let n = of_char c :: nat in if 97 \<le> n \<and> n \<le> 122 then char_of (n - 32) else c)"

fun fold_name :: "string \<Rightarrow> string" where
  "fold_name [] = []"
| "fold_name (c # cs) =
     (if c = CHR 0xC5 \<and> take 1 cs = [CHR 0xBF] then CHR ''S'' # fold_name (drop 1 cs)
      else if c = CHR 0xE2 \<and> take 2 cs = [CHR 0x84, CHR 0xAA] then CHR ''K'' # fold_name (drop 2 cs)
      else ascii_upper c # fold_name cs)"

definition field_of :: "string list \<Rightarrow> string \<Rightarrow> string option" where
  "field_of names key = (if key \<in> set names then Some key else find (\<lambda>n. fold_name n = fold_name key) names)"

text \<open>
  Setting a field from a value: a string field takes a string, a byte slice takes base64 or an array of
  numbers, and \<open>null\<close> leaves the string and empties the slice.
\<close>

definition err_type :: "string \<Rightarrow> goerr" where
  "err_type field = Errorf ''json: cannot unmarshal value into Go struct field %s'' [AStr field]"

definition err_base64 :: goerr where
  "err_base64 = Errorf ''illegal base64 data'' []"

definition set_string :: "string \<Rightarrow> json \<Rightarrow> string \<Rightarrow> string result" where
  "set_string field v old = (case v of JStr s \<Rightarrow> Inr s | JNull \<Rightarrow> Inr old | _ \<Rightarrow> Inl (err_type field))"

definition byte_element :: "json \<Rightarrow> byte option" where
  "byte_element v =
     (case v of JNull \<Rightarrow> Some 0
      | JNum t \<Rightarrow> (case dec_digits 0 t of Some n \<Rightarrow> if n < 256 then Some (of_nat n) else None | None \<Rightarrow> None)
      | _ \<Rightarrow> None)"

definition set_bytes :: "string \<Rightarrow> json \<Rightarrow> bytes result" where
  "set_bytes field v =
     (case v of JNull \<Rightarrow> Inr []
      | JStr s \<Rightarrow> (case b64_decode s of Some bs \<Rightarrow> Inr bs | None \<Rightarrow> Inl err_base64)
      | JArr xs \<Rightarrow> (if list_all (\<lambda>x. byte_element x \<noteq> None) xs then Inr (map (the \<circ> byte_element) xs)
                   else Inl (err_type field))
      | _ \<Rightarrow> Inl (err_type field))"

text \<open>
  A struct is decoded field by field. Go goes on after a type error and reports the first one at the end;
  since a failed decoding is discarded by every caller, stopping at the first error gives the same answer.
  The whole decoder takes the text of the connection.
\<close>

fun decode_members ::
  "string list \<Rightarrow> (string \<Rightarrow> json \<Rightarrow> 'm \<Rightarrow> 'm result) \<Rightarrow> (string \<times> json) list \<Rightarrow> 'm \<Rightarrow> 'm result" where
  "decode_members names setf [] m = Inr m"
| "decode_members names setf ((key, v) # kvs) m =
     (case field_of names key of
        None \<Rightarrow> decode_members names setf kvs m
      | Some f \<Rightarrow> and_then (setf f v m) (decode_members names setf kvs))"

definition decode_struct ::
  "string list \<Rightarrow> (string \<Rightarrow> json \<Rightarrow> 'm \<Rightarrow> 'm result) \<Rightarrow> json \<Rightarrow> 'm \<Rightarrow> 'm result" where
  "decode_struct names setf v m =
     (case v of JObj kvs \<Rightarrow> decode_members names setf kvs m | JNull \<Rightarrow> Inr m | _ \<Rightarrow> Inl (err_type []))"

definition json_Decode ::
  "(string \<Rightarrow> goerr) \<Rightarrow> string list \<Rightarrow> (string \<Rightarrow> json \<Rightarrow> 'm \<Rightarrow> 'm result) \<Rightarrow> 'm \<Rightarrow> string \<Rightarrow> 'm result" where
  "json_Decode jerr names setf m text =
     (case read_json text of None \<Rightarrow> Inl (jerr text) | Some v \<Rightarrow> decode_struct names setf v m)"

section \<open>Printed objects are read back\<close>

text \<open>The encoder's form of a flat object of strings: no blanks, a newline at the end.\<close>

fun print_members :: "(string \<times> string) list \<Rightarrow> string" where
  "print_members [] = []"
| "print_members [(k, s)] = json_quote k @ CHR '':'' # json_quote s"
| "print_members ((k, s) # kv # kvs) = json_quote k @ CHR '':'' # json_quote s @ CHR '','' # print_members (kv # kvs)"

definition json_Encode :: "(string \<times> string) list \<Rightarrow> string" where
  "json_Encode kvs = CHR ''{'' # print_members kvs @ [CHR ''}'', CHR 0x0A]"

definition ascii_pairs :: "(string \<times> string) list \<Rightarrow> bool" where
  "ascii_pairs kvs = list_all (\<lambda>(k, s). is_ascii k \<and> is_ascii s) kvs"

lemma skip_ws_id [simp]: "\<not> json_blank c \<Longrightarrow> skip_ws (c # cs) = c # cs"
  by (simp add: skip_ws_def)

lemma json_blank_simps [simp]:
  "\<not> json_blank (CHR 0x22)" "\<not> json_blank (CHR ''{'')" "\<not> json_blank (CHR ''}'')" "\<not> json_blank (CHR '':'')"
  "\<not> json_blank (CHR '','')"
  by (simp_all add: json_blank_def)

lemma parse_escaped: "is_ascii s \<Longrightarrow> parse_string (json_escape s @ CHR 0x22 # r) = Some (s, r)"
  by (simp add: parse_string_def scan_escape unquote_escape)

lemma parse_quoted [simp]: "is_ascii s \<Longrightarrow> parse_value (Suc n) (json_quote s @ r) = Some (JStr s, r)"
  by (simp add: parse_value_eq value_body_def json_quote_def parse_escaped)

lemma members_body_quoted:
  "is_ascii k \<Longrightarrow> members_body pv pm (json_quote k @ CHR '':'' # r) = items_body (CHR ''}'') (Pair k) pm (pv r)"
  by (simp add: members_body_def json_quote_def parse_escaped after_key_def)

lemma items_body_simps [simp]:
  "items_body close f more (Some (v, CHR '','' # r)) = map_option (\<lambda>(m, r). (f v # m, r)) (more r)"
  "items_body (CHR ''}'') f more (Some (v, CHR ''}'' # r)) = Some ([f v], r)"
  by (simp_all add: items_body_def)

lemma parse_printed_members:
  "kvs \<noteq> [] \<Longrightarrow> ascii_pairs kvs \<Longrightarrow> length kvs < n \<Longrightarrow>
     parse_members n (print_members kvs @ CHR ''}'' # r) = Some (map (\<lambda>(k, s). (k, JStr s)) kvs, r)"
proof (induction kvs arbitrary: n rule: print_members.induct)
  case (2 k s)
  then obtain m where "n = Suc (Suc m)" by (cases n; cases "n - 1") auto
  with 2 show ?case
    by (simp add: parse_members_eq members_body_quoted ascii_pairs_def)
next
  case (3 k s kv kvs)
  then obtain m where n: "n = Suc (Suc m)" by (cases n; cases "n - 1") auto
  with 3 have "parse_members (Suc m) (print_members (kv # kvs) @ CHR ''}'' # r) =
      Some (map (\<lambda>(k, s). (k, JStr s)) (kv # kvs), r)"
    by (simp add: ascii_pairs_def)
  with 3(3) n show ?case
    by (simp add: parse_members_eq [of "Suc m"] members_body_quoted ascii_pairs_def)
qed simp

lemma length_print_members: "kvs \<noteq> [] \<Longrightarrow> length kvs \<le> length (print_members kvs)"
  by (induction kvs rule: print_members.induct) (simp_all add: json_quote_def)

lemma read_json_Encode:
  assumes "ascii_pairs kvs"
  shows "read_json (json_Encode kvs) = Some (JObj (map (\<lambda>(k, s). (k, JStr s)) kvs))"
proof (cases kvs)
  case Nil
  have "parse_value (Suc n) [CHR ''{'', CHR ''}'', CHR 0x0A] = Some (JObj [], [CHR 0x0A])" for n
    by (simp add: parse_value_eq value_body_def)
  from this [of 6] Nil show ?thesis by (simp add: read_json_def json_fuel_def json_Encode_def)
next
  case (Cons kv kvs')
  then have ne: "kvs \<noteq> []" by simp
  define f where "f = 2 * length (json_Encode kvs)"
  have "length kvs < f"
    using length_print_members [OF ne] by (simp add: f_def json_Encode_def)
  from parse_printed_members [OF ne assms this]
  have p: "parse_members f (print_members kvs @ [CHR ''}'', CHR 0x0A]) = Some (map (\<lambda>(k, s). (k, JStr s)) kvs, [CHR 0x0A])"
    by simp
  obtain t where t: "print_members kvs = CHR 0x22 # t"
    using ne by (cases kvs rule: print_members.cases) (simp_all add: json_quote_def)
  have "parse_value (Suc f) (json_Encode kvs) = Some (JObj (map (\<lambda>(k, s). (k, JStr s)) kvs), [CHR 0x0A])"
    using p t by (simp add: json_Encode_def parse_value_eq value_body_def)
  then show ?thesis
    by (simp add: read_json_def json_fuel_def f_def)
qed

end
