(* ===== verification/Wire.thy ===== *)
theory Wire
  imports Go_Json_Parse
begin

text \<open>
  Package \<open>internal/enclaveproto\<close>: the messages between the host and the Nitro enclave, and their form on
  the wire. Each message is one line of JSON, as \<open>json.NewEncoder(conn).Encode\<close> writes it; empty fields
  marked \<open>omitempty\<close> are left out.
\<close>

section \<open>Messages\<close>

definition RequestSign :: string where "RequestSign = ''sign''"
definition RequestSignPoP :: string where "RequestSignPoP = ''sign_pop''"
definition RequestPublicKey :: string where "RequestPublicKey = ''public_key''"

lemmas request_types = RequestSign_def RequestSignPoP_def RequestPublicKey_def

record Request =
  req_Type :: string
  req_Message :: bytes

record Response =
  resp_Result :: bytes
  resp_Error :: string

record InitMessage =
  im_AccessKeyID :: string
  im_SecretAccessKey :: string
  im_SessionToken :: string
  im_Region :: string

record InitResponse =
  ir_PublicKey :: string
  ir_Error :: string

definition VSockPort :: nat where "VSockPort = 5000"
definition VSockInitPort :: nat where "VSockInitPort = 5001"

section \<open>Encoding and decoding\<close>

definition omitempty :: "string \<Rightarrow> string \<Rightarrow> (string \<times> string) list" where
  "omitempty name s = (if s = [] then [] else [(name, s)])"

definition encode_Request :: "Request \<Rightarrow> string" where
  "encode_Request r = json_Encode ((''type'', req_Type r) # omitempty ''message'' (b64_encode (req_Message r)))"

definition encode_Response :: "Response \<Rightarrow> string" where
  "encode_Response r =
     json_Encode (omitempty ''result'' (b64_encode (resp_Result r)) @ omitempty ''error'' (resp_Error r))"

definition encode_InitMessage :: "InitMessage \<Rightarrow> string" where
  "encode_InitMessage m = json_Encode [(''access_key_id'', im_AccessKeyID m),
     (''secret_access_key'', im_SecretAccessKey m), (''session_token'', im_SessionToken m),
     (''region'', im_Region m)]"

definition encode_InitResponse :: "InitResponse \<Rightarrow> string" where
  "encode_InitResponse r =
     json_Encode (omitempty ''public_key'' (ir_PublicKey r) @ omitempty ''error'' (ir_Error r))"

definition set_Request :: "string \<Rightarrow> json \<Rightarrow> Request \<Rightarrow> Request result" where
  "set_Request f v r =
     (if f = ''type'' then and_then (set_string f v (req_Type r)) (\<lambda>s. Inr (r\<lparr>req_Type := s\<rparr>))
      else and_then (set_bytes f v) (\<lambda>b. Inr (r\<lparr>req_Message := b\<rparr>)))"

definition set_Response :: "string \<Rightarrow> json \<Rightarrow> Response \<Rightarrow> Response result" where
  "set_Response f v r =
     (if f = ''result'' then and_then (set_bytes f v) (\<lambda>b. Inr (r\<lparr>resp_Result := b\<rparr>))
      else and_then (set_string f v (resp_Error r)) (\<lambda>s. Inr (r\<lparr>resp_Error := s\<rparr>)))"

definition set_InitMessage :: "string \<Rightarrow> json \<Rightarrow> InitMessage \<Rightarrow> InitMessage result" where
  "set_InitMessage f v m =
     (if f = ''access_key_id'' then and_then (set_string f v (im_AccessKeyID m)) (\<lambda>s. Inr (m\<lparr>im_AccessKeyID := s\<rparr>))
      else if f = ''secret_access_key'' then
        and_then (set_string f v (im_SecretAccessKey m)) (\<lambda>s. Inr (m\<lparr>im_SecretAccessKey := s\<rparr>))
      else if f = ''session_token'' then
        and_then (set_string f v (im_SessionToken m)) (\<lambda>s. Inr (m\<lparr>im_SessionToken := s\<rparr>))
      else and_then (set_string f v (im_Region m)) (\<lambda>s. Inr (m\<lparr>im_Region := s\<rparr>)))"

definition set_InitResponse :: "string \<Rightarrow> json \<Rightarrow> InitResponse \<Rightarrow> InitResponse result" where
  "set_InitResponse f v r =
     (if f = ''public_key'' then and_then (set_string f v (ir_PublicKey r)) (\<lambda>s. Inr (r\<lparr>ir_PublicKey := s\<rparr>))
      else and_then (set_string f v (ir_Error r)) (\<lambda>s. Inr (r\<lparr>ir_Error := s\<rparr>)))"

lemmas set_defs = set_Request_def set_Response_def set_InitMessage_def set_InitResponse_def

definition decode_Request :: "(string \<Rightarrow> goerr) \<Rightarrow> string \<Rightarrow> Request result" where
  "decode_Request jerr text =
     json_Decode jerr [''type'', ''message''] set_Request \<lparr>req_Type = [], req_Message = []\<rparr> text"

definition decode_Response :: "(string \<Rightarrow> goerr) \<Rightarrow> string \<Rightarrow> Response result" where
  "decode_Response jerr text =
     json_Decode jerr [''result'', ''error''] set_Response \<lparr>resp_Result = [], resp_Error = []\<rparr> text"

definition decode_InitMessage :: "(string \<Rightarrow> goerr) \<Rightarrow> string \<Rightarrow> InitMessage result" where
  "decode_InitMessage jerr text =
     json_Decode jerr [''access_key_id'', ''secret_access_key'', ''session_token'', ''region''] set_InitMessage
       \<lparr>im_AccessKeyID = [], im_SecretAccessKey = [], im_SessionToken = [], im_Region = []\<rparr> text"

definition decode_InitResponse :: "(string \<Rightarrow> goerr) \<Rightarrow> string \<Rightarrow> InitResponse result" where
  "decode_InitResponse jerr text =
     json_Decode jerr [''public_key'', ''error''] set_InitResponse \<lparr>ir_PublicKey = [], ir_Error = []\<rparr> text"

section \<open>The messages survive the wire\<close>

lemma is_ascii_b64 [simp]: "is_ascii (b64_encode bs)"
  by (auto simp: is_ascii_def list_all_iff of_char_b64 dest!: b64_encode_chars)

lemma is_ascii_literals [simp]:
  "is_ascii ''type''" "is_ascii ''message''" "is_ascii ''result''" "is_ascii ''error''"
  "is_ascii ''access_key_id''" "is_ascii ''secret_access_key''" "is_ascii ''session_token''"
  "is_ascii ''region''" "is_ascii ''public_key''"
  by (simp_all add: is_ascii_def)

lemma json_Decode_Encode:
  "ascii_pairs kvs \<Longrightarrow> json_Decode jerr names setf m (json_Encode kvs) =
     decode_members names setf (map (\<lambda>(k, s). (k, JStr s)) kvs) m"
  by (simp add: json_Decode_def read_json_Encode decode_struct_def)

lemma field_of_exact [simp]: "key \<in> set names \<Longrightarrow> field_of names key = Some key"
  by (simp add: field_of_def)

lemma set_JStr [simp]: "set_string f (JStr s) old = Inr s" "set_bytes f (JStr (b64_encode bs)) = Inr bs"
  by (simp_all add: set_string_def set_bytes_def)

definition ascii_request :: "Request \<Rightarrow> bool" where
  "ascii_request r \<longleftrightarrow> is_ascii (req_Type r)"

definition ascii_response :: "Response \<Rightarrow> bool" where
  "ascii_response r \<longleftrightarrow> is_ascii (resp_Error r)"

definition ascii_init :: "InitMessage \<Rightarrow> bool" where
  "ascii_init m \<longleftrightarrow> is_ascii (im_AccessKeyID m) \<and> is_ascii (im_SecretAccessKey m)
     \<and> is_ascii (im_SessionToken m) \<and> is_ascii (im_Region m)"

definition ascii_init_response :: "InitResponse \<Rightarrow> bool" where
  "ascii_init_response r \<longleftrightarrow> is_ascii (ir_PublicKey r) \<and> is_ascii (ir_Error r)"

lemmas ascii_defs = ascii_request_def ascii_response_def ascii_init_def ascii_init_response_def ascii_pairs_def

interpretation requestc: codec encode_Request "decode_Request jerr" ascii_request
  for jerr
  by unfold_locales
    (auto simp: encode_Request_def decode_Request_def json_Decode_Encode ascii_defs omitempty_def set_defs)

interpretation responsec: codec encode_Response "decode_Response jerr" ascii_response
  for jerr
  by unfold_locales
    (auto simp: encode_Response_def decode_Response_def json_Decode_Encode ascii_defs omitempty_def set_defs)

interpretation initc: codec encode_InitMessage "decode_InitMessage jerr" ascii_init
  for jerr
  by unfold_locales
    (auto simp: encode_InitMessage_def decode_InitMessage_def json_Decode_Encode ascii_defs set_defs)

interpretation initrespc: codec encode_InitResponse "decode_InitResponse jerr" ascii_init_response
  for jerr
  by unfold_locales
    (auto simp: encode_InitResponse_def decode_InitResponse_def json_Decode_Encode ascii_defs omitempty_def set_defs)

text \<open>
  C34. The four messages of the enclave protocol survive the wire: with ASCII text fields and arbitrary byte
  fields, decoding what the encoder wrote gives back the message, through base64, escaping and the JSON
  parser.
\<close>

theorem messages_roundtrip:
  "is_ascii (req_Type rq) \<Longrightarrow> is_ascii (resp_Error rs) \<Longrightarrow> ascii_init im \<Longrightarrow>
   is_ascii (ir_PublicKey ir) \<Longrightarrow> is_ascii (ir_Error ir) \<Longrightarrow>
     decode_Request jerr (encode_Request rq) = Inr rq
   \<and> decode_Response jerr (encode_Response rs) = Inr rs
   \<and> decode_InitMessage jerr (encode_InitMessage im) = Inr im
   \<and> decode_InitResponse jerr (encode_InitResponse ir) = Inr ir"
  by (simp add: requestc.dec_enc responsec.dec_enc initc.dec_enc initrespc.dec_enc
      ascii_request_def ascii_response_def ascii_init_response_def)

lemma messages_roundtrip_witness:
  "decode_Request Ext (encode_Request \<lparr>req_Type = ''sign'', req_Message = [1, 2, 255]\<rparr>) =
     Inr \<lparr>req_Type = ''sign'', req_Message = [1, 2, 255]\<rparr>"
  using messages_roundtrip [of "\<lparr>req_Type = ''sign'', req_Message = [1, 2, 255]\<rparr>"
      "\<lparr>resp_Result = [], resp_Error = []\<rparr>"
      "\<lparr>im_AccessKeyID = [], im_SecretAccessKey = [], im_SessionToken = [], im_Region = []\<rparr>"
      "\<lparr>ir_PublicKey = [], ir_Error = []\<rparr>" Ext]
  by (simp add: is_ascii_def ascii_init_def)

end
