(* ===== verification/Go_Fmt.thy ===== *)
theory Go_Fmt
  imports Go_Json
begin

text \<open>
  The text of an error, as \<open>%v\<close> prints it: the formats of \<open>fmt.Errorf\<close> with the verbs the program uses.
  \<open>uq\<close> is Go's quoting of strings outside ASCII. The formats of the program have a verb for each argument,
  so what fmt prints for a mismatch is reduced to its marker.
\<close>

fun render :: "(char \<Rightarrow> string) list \<Rightarrow> string \<Rightarrow> string" where
  "render args [] = []"
| "render args (c # cs) =
     (if c \<noteq> CHR ''%'' then c # render args cs
      else case cs of [] \<Rightarrow> ''%!(NOVERB)''
        | v # vs \<Rightarrow> if v = CHR ''%'' then v # render args vs
           else (case args of [] \<Rightarrow> ''%!'' @ [v] @ ''(MISSING)'' @ render [] vs
                 | a # rest \<Rightarrow> a v @ render rest (if v = CHR ''#'' then drop 1 vs else vs)))"

definition quote_char :: "char \<Rightarrow> string" where
  "quote_char c =
     (let n = of_char c :: nat; esc = (\<lambda>e. [CHR 0x5C, e]) in
      if c = CHR 0x22 \<or> c = CHR 0x5C then esc c
      else if n = 7 then esc (CHR ''a'') else if n = 8 then esc (CHR ''b'') else if n = 12 then esc (CHR ''f'')
      else if n = 10 then esc (CHR ''n'') else if n = 13 then esc (CHR ''r'') else if n = 9 then esc (CHR ''t'')
      else if n = 11 then esc (CHR ''v'')
      else if n < 32 \<or> n = 127 then [CHR 0x5C, CHR ''x'', hex_char (n div 16), hex_char (n mod 16)]
      else [c])"

definition go_quote :: "(string \<Rightarrow> string) \<Rightarrow> string \<Rightarrow> string" where
  "go_quote uq s = (if is_ascii s then CHR 0x22 # concat (map quote_char s) @ [CHR 0x22] else uq s)"

text \<open>\<open>%#U\<close> of a byte: its code point, and the character when it is printable.\<close>

definition unicode_text :: "nat \<Rightarrow> string" where
  "unicode_text n = ''U+00'' @ map (\<lambda>c. if 97 \<le> (of_char c :: nat) then char_of (of_char c - 32 :: nat) else c)
       [hex_char (n div 16), hex_char (n mod 16)]
     @ (if 32 \<le> n \<and> n < 127 \<or> 161 \<le> n \<and> n \<noteq> 173 then '' '' @ CHR 0x27 # utf8_encode n @ [CHR 0x27] else [])"

fun err_text :: "(string \<Rightarrow> string) \<Rightarrow> goerr \<Rightarrow> string"
  and arg_text :: "(string \<Rightarrow> string) \<Rightarrow> earg \<Rightarrow> char \<Rightarrow> string" where
  "err_text uq (Errorf f args) = render (map (arg_text uq) args) f"
| "err_text uq (Ext s) = s"
| "arg_text uq (AStr s) v = (if v = CHR ''q'' then go_quote uq s else s)"
| "arg_text uq (AInt i) v = (if v = CHR ''#'' then unicode_text (nat i) else int_dec i)"
| "arg_text uq (AErr e) v = err_text uq e"

text \<open>\<open>fmt.Sprintf(format, args...)\<close>.\<close>

definition sprintf :: "(string \<Rightarrow> string) \<Rightarrow> string \<Rightarrow> earg list \<Rightarrow> string" where
  "sprintf uq f args = err_text uq (Errorf f args)"

lemma render_no_verb: "CHR ''%'' \<notin> set f \<Longrightarrow> render args f = f"
  by (induction f) auto

lemma is_ascii_append [simp]: "is_ascii (xs @ ys) \<longleftrightarrow> is_ascii xs \<and> is_ascii ys"
  and is_ascii_Nil [simp]: "is_ascii []"
  and is_ascii_Cons [simp]: "is_ascii (c # cs) \<longleftrightarrow> of_char c < (128 :: nat) \<and> is_ascii cs"
  by (simp_all add: is_ascii_def)

lemma hex_char_ascii: "n < 16 \<Longrightarrow> of_char (hex_char n) < (128 :: nat)"
  using hex_val_hex_char [of n] by (auto simp: hex_val_def Let_def split: if_splits)

lemma quote_char_ascii: "of_char c < (128 :: nat) \<Longrightarrow> is_ascii (quote_char c)"
  by (auto simp: quote_char_def Let_def hex_char_ascii)

lemma go_quote_ascii: "is_ascii s \<Longrightarrow> is_ascii (go_quote uq s)"
proof -
  assume s: "is_ascii s"
  then have "is_ascii (concat (map quote_char s))"
    by (induction s) (simp_all add: quote_char_ascii)
  with s show ?thesis by (simp add: go_quote_def)
qed

end
