(* ===== verification/Nitro.thy ===== *)
theory Nitro
  imports Wire Go_Fmt Backend_Iface Config
begin

text \<open>
  Package \<open>backend/awsnitro\<close>: the host side of the Nitro enclave. The host starts the enclave with
  \<open>nitro-cli\<close>, sends it credentials, and forwards signing requests over vsock. The machine is the parameter
  record \<open>nitro_env\<close> on a state: running a command, the AWS credential chain, connections and the clock
  (in nanoseconds). Logging is left out.
\<close>

section \<open>The machine\<close>

text \<open>
  A connection on which one message is sent and one is read: it may not open, the write may fail, or the
  peer answers with a text (empty when it closes without an answer).
\<close>

datatype exchange = DialErr goerr | WriteErr goerr | Reply string

record 'w nitro_env =
  ne_cli :: "'w \<Rightarrow> string list \<Rightarrow> 'w \<times> string \<times> goerr option"
  ne_dial :: "'w \<Rightarrow> 32 word \<Rightarrow> nat \<Rightarrow> 'w \<times> goerr option"
  ne_exchange :: "'w \<Rightarrow> 32 word \<Rightarrow> nat \<Rightarrow> string \<Rightarrow> 'w \<times> exchange"
  ne_LoadConfig :: "string \<Rightarrow> goerr option"
  ne_Retrieve :: "string \<Rightarrow> (string \<times> string \<times> string) result"
  ne_now :: "'w \<Rightarrow> int"
  ne_sleep :: "'w \<Rightarrow> int \<Rightarrow> 'w"
  ne_jerr :: "string \<Rightarrow> goerr"

record nitro_Backend =
  nb_enclaveCID :: "32 word"
  nb_pkBytes :: bytes

definition cid_text :: "32 word \<Rightarrow> string" where
  "cid_text cid = nat_dec (unat cid)"

definition enclaveRunning :: "'w nitro_env \<Rightarrow> 'w \<Rightarrow> 32 word \<Rightarrow> 'w \<times> bool" where
  "enclaveRunning N w cid =
     (case ne_cli N w [''describe-enclaves''] of
        (w', out, Some e) \<Rightarrow> (w', False)
      | (w', out, None) \<Rightarrow>
          (w', strings_Contains out (CHR 0x22 # ''EnclaveCID'' @ CHR 0x22 # '': '' @ cid_text cid)))"

definition isEnclaveReady :: "'w nitro_env \<Rightarrow> 'w \<Rightarrow> 32 word \<Rightarrow> 'w \<times> bool" where
  "isEnclaveReady N w cid =
     (case ne_dial N w cid VSockPort of (w', Some e) \<Rightarrow> (w', False) | (w', None) \<Rightarrow> (w', True))"

definition run_enclave_args :: "AWSNitroConfig \<Rightarrow> string list" where
  "run_enclave_args cfg = [''run-enclave'', ''--eif-path'', nitro_EIFPath cfg,
     ''--cpu-count'', int_dec (nitro_CPUCount cfg), ''--memory'', int_dec (nitro_MemoryMiB cfg),
     ''--enclave-cid'', cid_text (nitro_EnclaveCID cfg)]"

section \<open>Talking to the enclave\<close>

fun hexDecode_from :: "nat \<Rightarrow> string \<Rightarrow> bytes result" where
  "hexDecode_from i (c # d # cs) =
     and_then (wrapf (\<lambda>e. Errorf ''invalid hex at position %d: %w'' [AInt (int i), AErr e]) (sscanf_02x [c, d])) (\<lambda>b.
     and_then (hexDecode_from (i + 2) cs) (\<lambda>bs. Inr (b # bs)))"
| "hexDecode_from i _ = Inr []"

definition hexDecode :: "string \<Rightarrow> bytes result" where
  "hexDecode s = (if s = [] then Inl (Errorf ''empty hex string'' []) else hexDecode_from 0 s)"

definition nitro_send :: "'w nitro_env \<Rightarrow> 'w \<Rightarrow> nitro_Backend \<Rightarrow> Request \<Rightarrow> 'w \<times> Response result" where
  "nitro_send N w b req =
     (case ne_exchange N w (nb_enclaveCID b) VSockPort (encode_Request req) of
        (w', DialErr e) \<Rightarrow> (w', Inl (Errorf ''vsock dial: %w'' [AErr e]))
      | (w', WriteErr e) \<Rightarrow> (w', Inl (Errorf ''encoding request: %w'' [AErr e]))
      | (w', Reply t) \<Rightarrow>
          (w', and_then (wrapf (\<lambda>e. Errorf ''decoding response: %w'' [AErr e]) (decode_Response (ne_jerr N) t)) (\<lambda>resp.
               if resp_Error resp \<noteq> [] then Inl (Errorf ''enclave error: %s'' [AStr (resp_Error resp)])
               else Inr resp)))"

definition nitro_fetchPublicKey :: "'w nitro_env \<Rightarrow> 'w \<Rightarrow> nitro_Backend \<Rightarrow> 'w \<times> bytes result" where
  "nitro_fetchPublicKey N w b =
     (let (w', r) = nitro_send N w b \<lparr>req_Type = RequestPublicKey, req_Message = []\<rparr>
      in (w', and_then r (\<lambda>resp. Inr (resp_Result resp))))"

definition sendInit :: "'w nitro_env \<Rightarrow> 'w \<Rightarrow> nitro_Backend \<Rightarrow> InitMessage \<Rightarrow> 'w \<times> bytes result" where
  "sendInit N w b msg =
     (case ne_exchange N w (nb_enclaveCID b) VSockInitPort (encode_InitMessage msg) of
        (w', DialErr e) \<Rightarrow> (w', Inl (Errorf ''vsock dial init port: %w'' [AErr e]))
      | (w', WriteErr e) \<Rightarrow> (w', Inl (Errorf ''sending init message: %w'' [AErr e]))
      | (w', Reply t) \<Rightarrow>
          (w', and_then (wrapf (\<lambda>e. Errorf ''decoding init response: %w'' [AErr e])
                           (decode_InitResponse (ne_jerr N) t)) (\<lambda>resp.
               if ir_Error resp \<noteq> [] then Inl (Errorf ''enclave init error: %s'' [AStr (ir_Error resp)])
               else wrapf (\<lambda>e. Errorf ''decoding public key: %w'' [AErr e]) (hexDecode (ir_PublicKey resp)))))"

text \<open>
  The two polling loops run until the deadline; they return \<open>None\<close> when they never end, which the clock's
  progress excludes. A timeout prints as whole seconds, which is what Go does for one below a minute.
\<close>

definition second :: int where "second = 1000000000"
definition poll_interval :: int where "poll_interval = 500000000"

definition duration_text :: "int \<Rightarrow> string" where
  "duration_text d = int_dec (d div second) @ ''s''"

partial_function (option) send_init_loop ::
  "'w nitro_env \<Rightarrow> nitro_Backend \<Rightarrow> InitMessage \<Rightarrow> int \<Rightarrow> int \<Rightarrow> goerr option \<Rightarrow> 'w \<Rightarrow>
    ('w \<times> bytes result) option" where
  "send_init_loop N b msg timeout deadline lastErr w =
     (if ne_now N w < deadline
      then case sendInit N w b msg of
             (w', Inr pk) \<Rightarrow> Some (w', Inr pk)
           | (w', Inl e) \<Rightarrow> send_init_loop N b msg timeout deadline (Some e) (ne_sleep N w' poll_interval)
      else Some (w, Inl (Errorf ''timed out after %s: %w''
             [AStr (duration_text timeout), case lastErr of Some e \<Rightarrow> AErr e | None \<Rightarrow> AStr ''%!w(<nil>)''])))"

definition sendInitWithRetry ::
  "'w nitro_env \<Rightarrow> 'w \<Rightarrow> nitro_Backend \<Rightarrow> InitMessage \<Rightarrow> int \<Rightarrow> ('w \<times> bytes result) option" where
  "sendInitWithRetry N w b msg timeout = send_init_loop N b msg timeout (ne_now N w + timeout) None w"

partial_function (option) wait_loop ::
  "'w nitro_env \<Rightarrow> nitro_Backend \<Rightarrow> nat \<Rightarrow> int \<Rightarrow> int \<Rightarrow> 'w \<Rightarrow> ('w \<times> goerr option) option" where
  "wait_loop N b port timeout deadline w =
     (if ne_now N w < deadline
      then case ne_dial N w (nb_enclaveCID b) port of
             (w', None) \<Rightarrow> Some (w', None)
           | (w', Some e) \<Rightarrow> wait_loop N b port timeout deadline (ne_sleep N w' poll_interval)
      else Some (w, Some (Errorf ''enclave port %d not ready within %s''
             [AInt (int port), AStr (duration_text timeout)])))"

definition waitForPort ::
  "'w nitro_env \<Rightarrow> 'w \<Rightarrow> nitro_Backend \<Rightarrow> nat \<Rightarrow> int \<Rightarrow> ('w \<times> goerr option) option" where
  "waitForPort N w b port timeout = wait_loop N b port timeout (ne_now N w + timeout) w"

definition buildInitMessage :: "'w nitro_env \<Rightarrow> AWSNitroConfig \<Rightarrow> InitMessage result" where
  "buildInitMessage N cfg =
     (case ne_LoadConfig N (nitro_Region cfg) of
        Some e \<Rightarrow> Inl (Errorf ''loading AWS config: %w'' [AErr e])
      | None \<Rightarrow>
          and_then (wrapf (\<lambda>e. Errorf ''retrieving credentials: %w'' [AErr e]) (ne_Retrieve N (nitro_Region cfg)))
            (\<lambda>(key, secret, token).
          Inr \<lparr>im_AccessKeyID = key, im_SecretAccessKey = secret, im_SessionToken = token,
               im_Region = nitro_Region cfg\<rparr>))"

section \<open>The backend\<close>

text \<open>Launching the enclave when none with the target CID is listed.\<close>

definition start_enclave :: "'w nitro_env \<Rightarrow> 'w \<Rightarrow> AWSNitroConfig \<Rightarrow> 'w \<times> goerr option" where
  "start_enclave N w cfg =
     (let (w1, running) = enclaveRunning N w (nitro_EnclaveCID cfg) in
      if running then (w1, None)
      else case ne_cli N w1 (run_enclave_args cfg) of
             (w2, out, Some e) \<Rightarrow> (w2, Some (Errorf (''nitro-cli run-enclave: %w'' @ [CHR 0x0A] @ ''output: %s'')
                [AErr e, AStr out]))
           | (w2, out, None) \<Rightarrow> (w2, None))"

text \<open>The public key of the enclave: asked for when it is already initialised, else the answer to the init message.\<close>

definition obtain_public_key ::
  "'w nitro_env \<Rightarrow> 'w \<Rightarrow> AWSNitroConfig \<Rightarrow> nitro_Backend \<Rightarrow> ('w \<times> bytes result) option" where
  "obtain_public_key N w cfg b =
     (let (w1, running) = enclaveRunning N w (nitro_EnclaveCID cfg);
          (w2, ready) = (if running then isEnclaveReady N w1 (nitro_EnclaveCID cfg) else (w1, False))
      in if ready then
           (let (w3, r) = nitro_fetchPublicKey N w2 b
            in Some (w3, wrapf (\<lambda>e. Errorf ''fetching public key from running enclave: %w'' [AErr e]) r))
         else case buildInitMessage N cfg of
           Inl e \<Rightarrow> Some (w2, Inl (Errorf ''getting AWS credentials: %w'' [AErr e]))
         | Inr msg \<Rightarrow>
             map_option (\<lambda>(w3, r). (w3, wrapf (\<lambda>e. Errorf ''enclave init: %w'' [AErr e]) r))
               (sendInitWithRetry N w2 b msg (30 * second)))"

definition nitro_New ::
  "'w nitro_env \<Rightarrow> 'w \<Rightarrow> AWSNitroConfig \<Rightarrow> ('w \<times> nitro_Backend result) option" where
  "nitro_New N w cfg =
     (case start_enclave N w cfg of
        (w1, Some e) \<Rightarrow> Some (w1, Inl e)
      | (w1, None) \<Rightarrow>
          (let b = \<lparr>nb_enclaveCID = nitro_EnclaveCID cfg, nb_pkBytes = []\<rparr> in
           map_option (\<lambda>(w2, r). (w2, and_then r (\<lambda>pk.
              if length pk \<noteq> 48 then Inl (Errorf ''expected 48-byte public key, got %d'' [AInt (int (length pk))])
              else Inr (b\<lparr>nb_pkBytes := pk\<rparr>))))
             (obtain_public_key N w1 cfg b)))"

text \<open>
  What \<open>New\<close> logs on its way, at the level of the program's logger, which leaves out debug lines.
\<close>

definition nitro_start_log :: "'w nitro_env \<Rightarrow> 'w \<Rightarrow> AWSNitroConfig \<Rightarrow> log_line list" where
  "nitro_start_log N w cfg =
     (let cid = [(''cid'', AInt (uint (nitro_EnclaveCID cfg)))];
          running = snd (enclaveRunning N w (nitro_EnclaveCID cfg));
          (w1, started) = start_enclave N w cfg;
          (w2, up) = enclaveRunning N w1 (nitro_EnclaveCID cfg);
          ready = (up \<and> snd (isEnclaveReady N w2 (nitro_EnclaveCID cfg)))
      in [LogLine LevelInfo ''starting Nitro Enclave'' [(''eif'', AStr (nitro_EIFPath cfg)),
            (''cpus'', AInt (nitro_CPUCount cfg)), (''memory_mb'', AInt (nitro_MemoryMiB cfg))]]
         @ (if running then [LogLine LevelInfo ''enclave already running, reconnecting'' cid]
            else if started = None then [LogLine LevelInfo ''enclave started'' cid] else [])
         @ (if started = None \<and> ready then [LogLine LevelInfo ''enclave already initialized, fetching public key'' cid] else [])
         @ (case nitro_New N w cfg of Some (_, Inr _) \<Rightarrow> [LogLine LevelInfo ''enclave ready'' []] | _ \<Rightarrow> []))"

definition nitro_PublicKey :: "nitro_Backend \<Rightarrow> bytes result" where
  "nitro_PublicKey b = Inr (nb_pkBytes b)"

definition checked_signature :: "Response \<Rightarrow> bytes result" where
  "checked_signature resp =
     (if length (resp_Result resp) \<noteq> 96
      then Inl (Errorf ''expected 96-byte signature, got %d'' [AInt (int (length (resp_Result resp)))])
      else Inr (resp_Result resp))"

definition nitro_Sign :: "'w nitro_env \<Rightarrow> 'w \<Rightarrow> nitro_Backend \<Rightarrow> bytes \<Rightarrow> 'w \<times> bytes result" where
  "nitro_Sign N w b msg =
     (let (w', r) = nitro_send N w b \<lparr>req_Type = RequestSign, req_Message = msg\<rparr>
      in (w', and_then r checked_signature))"

definition nitro_SignProofOfPossession ::
  "'w nitro_env \<Rightarrow> 'w \<Rightarrow> nitro_Backend \<Rightarrow> bytes \<Rightarrow> 'w \<times> bytes result" where
  "nitro_SignProofOfPossession N w b msg =
     (let (w', r) = nitro_send N w b \<lparr>req_Type = RequestSignPoP, req_Message = msg\<rparr>
      in (w', and_then r checked_signature))"

definition nitro_Close :: "'w nitro_env \<Rightarrow> 'w \<Rightarrow> nitro_Backend \<Rightarrow> 'w \<times> goerr option" where
  "nitro_Close N w b =
     (case ne_cli N w [''terminate-enclave'', ''--enclave-cid'', cid_text (nb_enclaveCID b)] of
        (w', out, Some e) \<Rightarrow> (w', Some (Errorf (''nitro-cli terminate-enclave: %w'' @ [CHR 0x0A] @ ''output: %s'')
           [AErr e, AStr out]))
      | (w', out, None) \<Rightarrow> (w', None))"

definition nitro_ops :: "'w nitro_env \<Rightarrow> 'w \<Rightarrow> nitro_Backend Backend" where
  "nitro_ops N w = \<lparr>be_PublicKey = nitro_PublicKey, be_Sign = (\<lambda>b msg. snd (nitro_Sign N w b msg)),
     be_SignProofOfPossession = (\<lambda>b msg. snd (nitro_SignProofOfPossession N w b msg)),
     be_Close = (\<lambda>b. (b, snd (nitro_Close N w b))),
     be_CloseLog = (\<lambda>_. [LogLine LevelInfo ''terminating enclave'' []])\<rparr>"

lemmas nitro_defs [op_defs] = nitro_PublicKey_def nitro_Sign_def nitro_SignProofOfPossession_def nitro_ops_def

text \<open>The stub that replaces the package on other platforms.\<close>

definition err_unsupported :: goerr where
  "err_unsupported = Errorf ''aws-nitro backend is only supported on Linux'' []"

type_synonym stub_Backend = unit

definition stub_New :: "AWSNitroConfig \<Rightarrow> stub_Backend result" where
  "stub_New cfg = Inl (Errorf ''aws-nitro backend is only supported on Linux (EC2 with Nitro Enclaves enabled)'' [])"

definition stub_ops :: "stub_Backend Backend" where
  "stub_ops = \<lparr>be_PublicKey = (\<lambda>_. Inl err_unsupported), be_Sign = (\<lambda>_ _. Inl err_unsupported),
     be_SignProofOfPossession = (\<lambda>_ _. Inl err_unsupported), be_Close = (\<lambda>b. (b, None)),
     be_CloseLog = (\<lambda>_. [])\<rparr>"

section \<open>The polling loops end\<close>

text \<open>A clock that goes on: sleeping takes at least the time asked for, a connection does not turn it back.\<close>

definition clock_advances :: "'w nitro_env \<Rightarrow> bool" where
  "clock_advances N \<longleftrightarrow> (\<forall>w d. ne_now N w + d \<le> ne_now N (ne_sleep N w d))
     \<and> (\<forall>w cid port t. ne_now N w \<le> ne_now N (fst (ne_exchange N w cid port t)))
     \<and> (\<forall>w cid port. ne_now N w \<le> ne_now N (fst (ne_dial N w cid port)))"

lemma sendInit_clock: "clock_advances N \<Longrightarrow> ne_now N w \<le> ne_now N (fst (sendInit N w b msg))"
proof -
  assume "clock_advances N"
  then have "ne_now N w \<le> ne_now N (fst (ne_exchange N w (nb_enclaveCID b) VSockInitPort (encode_InitMessage msg)))"
    by (simp add: clock_advances_def)
  then show ?thesis
    by (cases "ne_exchange N w (nb_enclaveCID b) VSockInitPort (encode_InitMessage msg)")
      (auto simp: sendInit_def split: exchange.split)
qed

lemma send_init_loop_ends:
  assumes "clock_advances N"
  shows "\<exists>r. send_init_loop N b msg timeout deadline lastErr w = Some r"
proof (induction "nat (deadline - ne_now N w)" arbitrary: lastErr w rule: less_induct)
  case less
  show ?case
  proof (cases "ne_now N w < deadline")
    case False
    then show ?thesis by (simp add: send_init_loop.simps)
  next
    case True
    obtain w' r where s: "sendInit N w b msg = (w', r)" by fastforce
    show ?thesis
    proof (cases r)
      case (Inr pk)
      with True s show ?thesis by (simp add: send_init_loop.simps)
    next
      case (Inl e)
      have "ne_now N w \<le> ne_now N w'" "ne_now N w' + poll_interval \<le> ne_now N (ne_sleep N w' poll_interval)"
        using sendInit_clock [OF assms, of w b msg] s assms by (simp_all add: clock_advances_def)
      with True have "nat (deadline - ne_now N (ne_sleep N w' poll_interval)) < nat (deadline - ne_now N w)"
        by (simp add: poll_interval_def)
      from less [OF this] True s Inl show ?thesis by (subst send_init_loop.simps) simp
    qed
  qed
qed

lemma wait_loop_ends:
  assumes "clock_advances N"
  shows "\<exists>r. wait_loop N b port timeout deadline w = Some r"
proof (induction "nat (deadline - ne_now N w)" arbitrary: w rule: less_induct)
  case less
  show ?case
  proof (cases "ne_now N w < deadline")
    case False
    then show ?thesis by (simp add: wait_loop.simps)
  next
    case True
    obtain w' r where s: "ne_dial N w (nb_enclaveCID b) port = (w', r)" by fastforce
    show ?thesis
    proof (cases r)
      case None
      with True s show ?thesis by (simp add: wait_loop.simps)
    next
      case (Some e)
      have "ne_now N w \<le> ne_now N (fst (ne_dial N w (nb_enclaveCID b) port))"
        "ne_now N w' + poll_interval \<le> ne_now N (ne_sleep N w' poll_interval)"
        using assms by (simp_all add: clock_advances_def)
      with True s have "nat (deadline - ne_now N (ne_sleep N w' poll_interval)) < nat (deadline - ne_now N w)"
        by (simp add: poll_interval_def)
      from less [OF this] True s Some show ?thesis by (subst wait_loop.simps) simp
    qed
  qed
qed

end
