(* ===== verification/Enclave.thy ===== *)
theory Enclave
  imports Wire Go_Fmt Backend_AWS
begin

text \<open>
  The program inside the Nitro enclave (\<open>enclave/main.go\<close>): it waits for the host's credentials, has KMS
  decrypt the key, answers with the public key and then serves signing requests. A connection is the text
  the peer sent and the text that is written back; the log is the text of its lines. AWS is seen through the vsock proxy, as the same
  parameter record as on the host.
\<close>

section \<open>Parameters\<close>

text \<open>
  Go's treatment of strings outside ASCII (quoting and trimming) and the wording of JSON syntax errors;
  the enclave's surroundings: AWS, its files, and which ports cannot be listened on.
\<close>

record go_text =
  gt_quote :: "string \<Rightarrow> string"
  gt_trim :: "string \<Rightarrow> string"
  gt_jerr :: "string \<Rightarrow> goerr"

record enclave_host =
  eh_vsock :: "nat \<Rightarrow> nat \<Rightarrow> aws_cloud"
  eh_os :: os_state
  eh_listen :: "nat \<Rightarrow> goerr option"

definition go_trim :: "go_text \<Rightarrow> string \<Rightarrow> string" where
  "go_trim T s = (if is_ascii s then trim_space s else gt_trim T s)"

section \<open>Starting\<close>

text \<open>
  The way to KMS: every connection of the HTTP client goes to one vsock address, that of the proxy on the host, whatever
  the address asked for. The cloud of the enclave is the one behind that address.
\<close>

definition hostCID :: nat where
  "hostCID = 3"

definition kmsProxyPort :: nat where
  "kmsProxyPort = 8443"

definition vsockHTTPClient :: "enclave_host \<Rightarrow> aws_cloud" where
  "vsockHTTPClient H = eh_vsock H hostCID kmsProxyPort"

definition enclave_dstSign :: bytes where
  "enclave_dstSign = bytes_of ''BLS_SIG_BLS12381G2_XMD:SHA-256_SSWU_RO_POP_''"

definition enclave_dstPopProve :: bytes where
  "enclave_dstPopProve = bytes_of ''BLS_POP_BLS12381G2_XMD:SHA-256_SSWU_RO_POP_''"

lemma enclave_dst [simp]: "enclave_dstSign = DSTSign" "enclave_dstPopProve = DSTPoP"
  by (simp_all add: enclave_dstSign_def enclave_dstPopProve_def DSTSign_def DSTPoP_def)

text \<open>
  \<open>receiveInit\<close> takes connections until one carries a message; a failed accept ends it. \<open>None\<close> means that it
  is still waiting after the given connections.
\<close>

fun receiveInit :: "go_text \<Rightarrow> (goerr + string) list \<Rightarrow> InitMessage result option" where
  "receiveInit T [] = None"
| "receiveInit T (Inl e # conns) = Some (Inl (Errorf ''accept: %w'' [AErr e]))"
| "receiveInit T (Inr text # conns) =
     (case decode_InitMessage (gt_jerr T) text of
        Inl e \<Rightarrow> receiveInit T conns
      | Inr msg \<Rightarrow> Some (Inr msg))"

definition init_reply :: "string \<Rightarrow> string \<Rightarrow> string" where
  "init_reply pkHex errMsg = encode_InitResponse \<lparr>ir_PublicKey = pkHex, ir_Error = errMsg\<rparr>"

definition enclave_client :: "InitMessage \<Rightarrow> aws_client" where
  "enclave_client im = \<lparr>acl_opts = \<lparr>opt_Region = im_Region im,
       opt_Static = Some (im_AccessKeyID im, im_SecretAccessKey im, im_SessionToken im)\<rparr>,
     acl_BaseEndpoint = None\<rparr>"

definition decryptKey :: "go_text \<Rightarrow> enclave_host \<Rightarrow> InitMessage \<Rightarrow> bytes \<Rightarrow> bytes result" where
  "decryptKey T H im ciphertext =
     (let client = enclave_client im in
      case aws_LoadDefaultConfig (vsockHTTPClient H) (acl_opts client) of
        Some e \<Rightarrow> Inl (Errorf ''AWS config: %w'' [AErr e])
      | None \<Rightarrow>
          and_then (wrapf (\<lambda>e. Errorf ''reading KMS key ID: %w'' [AErr e])
                      (os_ReadFile (eh_os H) ''/kms-key-id.txt'')) (\<lambda>k.
          and_then (wrapf (\<lambda>e. Errorf ''KMS Decrypt: %w'' [AErr e])
                      (aws_Decrypt (vsockHTTPClient H) client \<lparr>dec_KeyId = go_trim T (string_of k),
                         dec_CiphertextBlob = ciphertext, dec_EncryptionAlgorithm = SymmetricDefault\<rparr>)) (\<lambda>pt.
          if length pt \<noteq> 32
          then Inl (Errorf ''expected 32-byte BLS scalar, got %d'' [AInt (int (length pt))])
          else Inr pt)))"

datatype enclave_phase = AwaitingInit | Fatal goerr | Serving nat bytes

text \<open>
  \<open>log.Printf\<close> and \<open>log.Fatalf\<close>: a line is its text, without the time stamp. \<open>log.Fatalf\<close> ends the program without running
  what was deferred.
\<close>

definition log_line_of :: "go_text \<Rightarrow> string \<Rightarrow> earg list \<Rightarrow> string" where
  "log_line_of T f args = sprintf (gt_quote T) f args"

definition log_Fatal :: "go_text \<Rightarrow> string list \<Rightarrow> string option \<Rightarrow> goerr \<Rightarrow> enclave_phase \<times> string option \<times> string list" where
  "log_Fatal T ls out e = (Fatal e, out, ls @ [err_text (gt_quote T) e])"

text \<open>
  \<open>main\<close> up to the serving loop, for the arguments after the program name and the connections on the init
  port: the phase it is then in, what it wrote on the init connection, and its log. Every end of the program is a
  \<open>log.Fatal\<close>, so the deferred \<open>zeroize\<close> never runs.
\<close>

definition enclave_main ::
  "('p1, 'p2) blst \<Rightarrow> go_text \<Rightarrow> enclave_host \<Rightarrow> string list \<Rightarrow> (goerr + string) list \<Rightarrow>
    enclave_phase \<times> string option \<times> string list" where
  "enclave_main B T H args conns =
     (case args of [] \<Rightarrow> log_Fatal T [] None (Errorf ''usage: enclave <encrypted-key-path>'' [])
      | encryptedKeyPath # _ \<Rightarrow>
     (case os_ReadFile (eh_os H) encryptedKeyPath of
        Inl e \<Rightarrow> log_Fatal T [] None (Errorf ''reading encrypted key: %v'' [AErr e])
      | Inr ciphertext \<Rightarrow>
     (let waiting = [log_line_of T ''waiting for init message on vsock port %d...'' [AInt (int VSockInitPort)]] in
      case eh_listen H VSockInitPort of
        Some e \<Rightarrow> log_Fatal T waiting None (Errorf ''receiving init: %v''
          [AErr (Errorf ''vsock listen port %d: %w'' [AInt (int VSockInitPort), AErr e])])
      | None \<Rightarrow>
     (case receiveInit T conns of
        None \<Rightarrow> (AwaitingInit, None, waiting)
      | Some (Inl e) \<Rightarrow> log_Fatal T waiting None (Errorf ''receiving init: %v'' [AErr e])
      | Some (Inr im) \<Rightarrow>
     (case decryptKey T H im ciphertext of
        Inl e \<Rightarrow> log_Fatal T waiting (Some (init_reply [] (sprintf (gt_quote T) ''KMS decrypt: %v'' [AErr e])))
                  (Errorf ''KMS decrypt: %v'' [AErr e])
      | Inr skb \<Rightarrow>
     (case Scalar_Deserialize skb of
        None \<Rightarrow> log_Fatal T waiting (Some (init_reply [] ''invalid BLS scalar''))
                 (Errorf ''invalid BLS scalar from KMS decrypt'' [])
      | Some sk \<Rightarrow>
     (case P1Affine_From B sk of
        None \<Rightarrow> (Fatal (Ext ''nil pointer dereference''), None, waiting)
      | Some pk \<Rightarrow>
          (let pkHex = hex_EncodeToString (P1Affine_Compress B pk);
               ready = waiting @ [log_line_of T ''BLS key decrypted successfully, public key: %s'' [AStr pkHex]] in
           case eh_listen H VSockPort of
             Some e \<Rightarrow> log_Fatal T ready (Some (init_reply pkHex [])) (Errorf ''vsock server: %v''
               [AErr (Errorf ''vsock listen port %d: %w'' [AInt (int VSockPort), AErr e])])
           | None \<Rightarrow> (Serving sk (P1Affine_Compress B pk), Some (init_reply pkHex []),
               ready @ [log_line_of T ''listening for signing requests on vsock port %d'' [AInt (int VSockPort)]])))))))))"

section \<open>Serving\<close>

definition write_error :: "string \<Rightarrow> string" where
  "write_error msg = encode_Response \<lparr>resp_Result = [], resp_Error = msg\<rparr>"

definition handleConn :: "('p1, 'p2) blst \<Rightarrow> go_text \<Rightarrow> nat \<Rightarrow> bytes \<Rightarrow> string \<Rightarrow> string" where
  "handleConn B T sk pk text =
     (case decode_Request (gt_jerr T) text of
        Inl e \<Rightarrow> write_error (sprintf (gt_quote T) ''decode: %v'' [AErr e])
      | Inr req \<Rightarrow>
          if req_Type req = RequestPublicKey then encode_Response \<lparr>resp_Result = pk, resp_Error = []\<rparr>
          else if req_Type req = RequestSign then
            (case P2Affine_Sign B sk (req_Message req) enclave_dstSign of
               None \<Rightarrow> write_error ''BLS sign failed''
             | Some sig \<Rightarrow> encode_Response \<lparr>resp_Result = P2Affine_Compress B sig, resp_Error = []\<rparr>)
          else if req_Type req = RequestSignPoP then
            (case P2Affine_Sign B sk (req_Message req) enclave_dstPopProve of
               None \<Rightarrow> write_error ''BLS SignPoP failed''
             | Some sig \<Rightarrow> encode_Response \<lparr>resp_Result = P2Affine_Compress B sig, resp_Error = []\<rparr>)
          else write_error (sprintf (gt_quote T) ''unknown request type: %q'' [AStr (req_Type req)]))"

text \<open>The accept loop: a failed accept is logged and skipped, each connection gets its own answer.\<close>

datatype enclave_event = Answered string | EnclaveLog string

fun enclave_serve ::
  "('p1, 'p2) blst \<Rightarrow> go_text \<Rightarrow> nat \<Rightarrow> bytes \<Rightarrow> (goerr + string) list \<Rightarrow> enclave_event list" where
  "enclave_serve B T sk pk [] = []"
| "enclave_serve B T sk pk (Inl e # conns) =
     EnclaveLog (log_line_of T ''accept error: %v'' [AErr e]) # enclave_serve B T sk pk conns"
| "enclave_serve B T sk pk (Inr text # conns) = Answered (handleConn B T sk pk text) # enclave_serve B T sk pk conns"

section \<open>What the enclave does\<close>

lemma handleConn_request:
  "is_ascii (req_Type rq) \<Longrightarrow> handleConn B T sk (bls_pk B sk) (encode_Request rq) =
     (if req_Type rq = RequestPublicKey then encode_Response \<lparr>resp_Result = bls_pk B sk, resp_Error = []\<rparr>
      else if req_Type rq = RequestSign then
        encode_Response \<lparr>resp_Result = bls_sig B sk (req_Message rq) DSTSign, resp_Error = []\<rparr>
      else if req_Type rq = RequestSignPoP then
        encode_Response \<lparr>resp_Result = bls_sig B sk (req_Message rq) DSTPoP, resp_Error = []\<rparr>
      else write_error (sprintf (gt_quote T) ''unknown request type: %q'' [AStr (req_Type rq)]))"
  by (simp add: handleConn_def requestc.dec_enc ascii_request_def binding_defs bls_sig_def)

lemma decryptKey_Inr:
  "decryptKey T H im ct = Inr pt \<Longrightarrow>
     \<exists>k. contents (eh_os H) ''/kms-key-id.txt'' = Some k \<and> length pt = 32
       \<and> aws_Decrypt (vsockHTTPClient H) (enclave_client im) \<lparr>dec_KeyId = go_trim T (string_of k),
            dec_CiphertextBlob = ct, dec_EncryptionAlgorithm = SymmetricDefault\<rparr> = Inr pt"
  by (auto simp: decryptKey_def Let_def result_simps split: option.splits if_splits dest!: ReadFile_Inr)

lemma receiveInit_skips:
  "list_all (\<lambda>p. isl (decode_InitMessage (gt_jerr T) p)) probes \<Longrightarrow>
     receiveInit T (map Inr probes @ conns) = receiveInit T conns"
  by (induction probes) (auto simp: isl_def)

lemma receiveInit_Inr:
  "receiveInit T conns = Some (Inr im) \<Longrightarrow>
     \<exists>probes t rest. conns = map Inr probes @ Inr t # rest \<and> decode_InitMessage (gt_jerr T) t = Inr im
       \<and> list_all (\<lambda>p. isl (decode_InitMessage (gt_jerr T) p)) probes"
proof (induction T conns rule: receiveInit.induct)
  case (3 T t conns)
  show ?case
  proof (cases "decode_InitMessage (gt_jerr T) t")
    case (Inl e)
    with 3 obtain probes u rest where "conns = map Inr probes @ Inr u # rest"
      "decode_InitMessage (gt_jerr T) u = Inr im" "list_all (\<lambda>p. isl (decode_InitMessage (gt_jerr T) p)) probes"
      by auto
    with Inl show ?thesis
      by (intro exI [of _ "t # probes"] exI [of _ u] exI [of _ rest]) simp
  next
    case (Inr m)
    with 3(2) show ?thesis
      by (intro exI [of _ "[]"] exI [of _ t] exI [of _ conns]) simp
  qed
qed simp_all

text \<open>The log of a start that ends in serving.\<close>

definition enclave_started :: "go_text \<Rightarrow> bytes \<Rightarrow> string list" where
  "enclave_started T pk =
     [log_line_of T ''waiting for init message on vsock port %d...'' [AInt (int VSockInitPort)],
      log_line_of T ''BLS key decrypted successfully, public key: %s'' [AStr (hex_EncodeToString pk)],
      log_line_of T ''listening for signing requests on vsock port %d'' [AInt (int VSockPort)]]"

text \<open>
  The start with a key that KMS decrypts: from the first message on, whatever probes came before it.
\<close>

definition enclave_key_ok :: "go_text \<Rightarrow> enclave_host \<Rightarrow> string \<Rightarrow> InitMessage \<Rightarrow> nat \<Rightarrow> bool" where
  "enclave_key_ok T H path im sk \<longleftrightarrow> scalar_ok sk \<and>
     (\<exists>ct k. os_ReadFile (eh_os H) path = Inr ct \<and> os_ReadFile (eh_os H) ''/kms-key-id.txt'' = Inr k
        \<and> aws_LoadDefaultConfig (vsockHTTPClient H) (acl_opts (enclave_client im)) = None
        \<and> aws_Decrypt (vsockHTTPClient H) (enclave_client im) \<lparr>dec_KeyId = go_trim T (string_of k),
             dec_CiphertextBlob = ct, dec_EncryptionAlgorithm = SymmetricDefault\<rparr> = Inr (Scalar_Serialize sk))
     \<and> eh_listen H VSockInitPort = None \<and> eh_listen H VSockPort = None"

lemma enclave_main_awaits:
  "os_ReadFile (eh_os H) path = Inr ct \<Longrightarrow> eh_listen H VSockInitPort = None \<Longrightarrow>
     list_all (\<lambda>p. isl (decode_InitMessage (gt_jerr T) p)) probes \<Longrightarrow>
     enclave_main B T H (path # args) (map Inr probes) =
       (AwaitingInit, None, [log_line_of T ''waiting for init message on vsock port %d...'' [AInt (int VSockInitPort)]])"
  using receiveInit_skips [of T probes "[]"] by (simp add: enclave_main_def)

lemma enclave_main_serves:
  assumes "enclave_key_ok T H path im sk" "decode_InitMessage (gt_jerr T) t = Inr im"
    and "list_all (\<lambda>p. isl (decode_InitMessage (gt_jerr T) p)) probes"
  shows "enclave_main B T H (path # args) (map Inr probes @ Inr t # rest) =
    (Serving sk (bls_pk B sk), Some (init_reply (hex_EncodeToString (bls_pk B sk)) []), enclave_started T (bls_pk B sk))"
  using assms
  by (auto simp: enclave_main_def enclave_started_def receiveInit_skips decryptKey_def enclave_key_ok_def Let_def
      Deserialize_Serialize binding_defs bls_pk_def)

section \<open>Properties\<close>

text \<open>
  C20. The enclave serves valid keys only: whenever it reaches the serving phase, on any connections and with
  any answers from AWS, the key in use is a scalar in range that KMS returned for the encrypted file under
  the key id baked into the image, and what the host was told, and what the log shows, is that scalar's public key.
\<close>

theorem enclave_serves_decrypted_key:
  assumes "enclave_main B T H args conns = (Serving sk pk, out, ls)"
  shows "\<exists>path rest ct k im. args = path # rest \<and> contents (eh_os H) path = Some ct
    \<and> contents (eh_os H) ''/kms-key-id.txt'' = Some k \<and> receiveInit T conns = Some (Inr im)
    \<and> aws_Decrypt (vsockHTTPClient H) (enclave_client im) \<lparr>dec_KeyId = go_trim T (string_of k),
        dec_CiphertextBlob = ct, dec_EncryptionAlgorithm = SymmetricDefault\<rparr> = Inr (Scalar_Serialize sk)
    \<and> scalar_ok sk \<and> pk = bls_pk B sk \<and> out = Some (init_reply (hex_EncodeToString pk) [])
    \<and> ls = enclave_started T pk"
proof -
  from assms obtain path rest where a: "args = path # rest"
    by (cases args) (auto simp: enclave_main_def log_Fatal_def)
  with assms obtain ct where ct: "os_ReadFile (eh_os H) path = Inr ct"
    by (auto simp: enclave_main_def log_Fatal_def split: sum.splits)
  with a assms obtain im where im: "receiveInit T conns = Some (Inr im)"
    by (auto simp: enclave_main_def log_Fatal_def Let_def split: option.splits sum.splits)
  with a ct assms obtain pt where pt: "decryptKey T H im ct = Inr pt"
    by (auto simp: enclave_main_def log_Fatal_def Let_def split: option.splits sum.splits)
  with a ct im assms have "Scalar_Deserialize pt = Some sk" "pk = bls_pk B sk"
    "out = Some (init_reply (hex_EncodeToString pk) [])" "ls = enclave_started T pk"
    by (auto simp: enclave_main_def log_Fatal_def enclave_started_def Let_def binding_defs bls_pk_def split: option.splits)
  with a ct im decryptKey_Inr [OF pt] ReadFile_Inr [OF ct] show ?thesis
    by (auto simp: Deserialize_Some_iff)
qed

definition test_text :: go_text where
  "test_text = \<lparr>gt_quote = (\<lambda>s. s), gt_trim = (\<lambda>s. s), gt_jerr = Ext\<rparr>"

definition test_host :: enclave_host where
  "test_host = \<lparr>eh_vsock = (\<lambda>cid port. if cid = 3 \<and> port = 8443 then mock_aws mock_key
       else (mock_aws mock_key)\<lparr>aws_Decrypt := (\<lambda>_ _. Inl (Ext ''connection refused''))\<rparr>),
     eh_os = quiet_os [''/key.enc'' \<mapsto> \<lparr>f_data = mockKMS_xor mock_key (Scalar_Serialize 5), f_mode = 0\<rparr>,
       ''/kms-key-id.txt'' \<mapsto> \<lparr>f_data = bytes_of ''key'', f_mode = 0\<rparr>],
     eh_listen = (\<lambda>_. None)\<rparr>"

definition test_init :: InitMessage where
  "test_init = \<lparr>im_AccessKeyID = ''AKIA'', im_SecretAccessKey = ''secret'', im_SessionToken = ''token'',
     im_Region = ''eu-west-1''\<rparr>"

lemma scalar_5 [simp]: "scalar_ok 5"
  by (simp add: scalar_ok_def curve_r_def)

lemma test_key_ok: "enclave_key_ok test_text test_host ''/key.enc'' test_init 5"
  by (simp add: enclave_key_ok_def test_host_def vsockHTTPClient_def hostCID_def kmsProxyPort_def os_ReadFile_def quiet_os_def mock_aws_def mockKMS_xor_involution)

lemma ascii_test_init: "ascii_init test_init"
  by (simp add: ascii_init_def test_init_def is_ascii_def)

lemma enclave_serves_decrypted_key_witness:
  "\<exists>out ls. enclave_main toy_blst test_text test_host [''/key.enc''] [Inr (encode_InitMessage test_init)]
     = (Serving 5 (bls_pk toy_blst 5), out, ls) \<and> out = Some (init_reply (hex_EncodeToString (bls_pk toy_blst 5)) [])"
proof -
  have "enclave_main toy_blst test_text test_host [''/key.enc''] [Inr (encode_InitMessage test_init)]
     = (Serving 5 (bls_pk toy_blst 5), Some (init_reply (hex_EncodeToString (bls_pk toy_blst 5)) []),
        enclave_started test_text (bls_pk toy_blst 5))"
    using enclave_main_serves [OF test_key_ok initc.dec_enc [OF ascii_test_init], of "[]" toy_blst "[]" "[]"] by simp
  from this enclave_serves_decrypted_key [OF this] show ?thesis by blast
qed

lemma unknown_type_ascii:
  "is_ascii s \<Longrightarrow> is_ascii (sprintf uq ''unknown request type: %q'' [AStr s])"
  by (simp add: sprintf_def go_quote_ascii)

text \<open>
  C21. The enclave answers requests over the wire: for a request of each type the reply decodes to the
  reference public key or signature without an error, and for an unknown type to an error that names it.
\<close>

theorem enclave_answers:
  "is_ascii (req_Type rq) \<Longrightarrow>
     decode_Response jerr (handleConn B T sk (bls_pk B sk) (encode_Request rq)) = Inr
       (if req_Type rq = RequestPublicKey then \<lparr>resp_Result = bls_pk B sk, resp_Error = []\<rparr>
        else if req_Type rq = RequestSign then \<lparr>resp_Result = bls_sig B sk (req_Message rq) DSTSign, resp_Error = []\<rparr>
        else if req_Type rq = RequestSignPoP then \<lparr>resp_Result = bls_sig B sk (req_Message rq) DSTPoP, resp_Error = []\<rparr>
        else \<lparr>resp_Result = [], resp_Error = sprintf (gt_quote T) ''unknown request type: %q'' [AStr (req_Type rq)]\<rparr>)"
  by (simp add: handleConn_request responsec.dec_enc ascii_response_def write_error_def unknown_type_ascii)

lemma enclave_answers_witness:
  "decode_Response Ext (handleConn toy_blst test_text 5 (bls_pk toy_blst 5)
     (encode_Request \<lparr>req_Type = ''sign'', req_Message = [1, 2]\<rparr>)) =
   Inr \<lparr>resp_Result = bls_sig toy_blst 5 [1, 2] DSTSign, resp_Error = []\<rparr>"
proof -
  let ?rq = "\<lparr>req_Type = ''sign'', req_Message = [1, 2]\<rparr>"
  have "is_ascii (req_Type ?rq)"
    by (simp add: is_ascii_def)
  from enclave_answers [OF this, of Ext toy_blst test_text 5] show ?thesis
    by (simp add: request_types)
qed

end
