(* ===== verification/Nitro_Enclave.thy ===== *)
theory Nitro_Enclave
  imports Nitro Enclave
begin

text \<open>
  Host and enclave together: a machine on which \<open>nitro-cli\<close> starts the program of theory Enclave and vsock
  connections reach it, as an instance of the machine parameter. Over it the Nitro backend keeps the
  contract of a signing backend, through the JSON on the wire.
\<close>

section \<open>Decoding the public key\<close>

lemma hexDecode_from_Encode: "hexDecode_from i (hex_EncodeToString bs) = Inr bs"
proof (induction bs arbitrary: i)
  case (Cons b bs)
  then show ?case
    using nibbles_byte [of b] by (simp add: byte_hex_def sscanf_02x_pair)
qed simp

lemma hexDecode_from_tail:
  "length cs < 2 \<Longrightarrow> hexDecode_from i (hex_EncodeToString bs @ cs) = Inr bs"
proof (induction bs arbitrary: i)
  case Nil
  then show ?case by (cases cs) (auto simp: neq_Nil_conv)
next
  case (Cons b bs)
  then show ?case
    using nibbles_byte [of b] by (simp add: byte_hex_def sscanf_02x_pair)
qed

lemma hexDecode_from_length: "hexDecode_from i s = Inr cs \<Longrightarrow> length cs = length s div 2"
  by (induction i s arbitrary: cs rule: hexDecode_from.induct) (auto simp: result_simps)

lemma sscanf_1g: "sscanf_02x ''1g'' = Inr 1"
  by code_simp

lemma hexDecode_Encode [simp]: "bs \<noteq> [] \<Longrightarrow> hexDecode (hex_EncodeToString bs) = Inr bs"
proof -
  assume "bs \<noteq> []"
  then have "length (hex_EncodeToString bs) \<noteq> 0" by simp
  then have "hex_EncodeToString bs \<noteq> []" by (metis list.size(3))
  then show ?thesis by (simp add: hexDecode_def hexDecode_from_Encode)
qed

text \<open>
  Decoding the enclave's hex public key: the encoding of any bytes is read back, a single trailing
  character is dropped without an error, and a successful decoding has half the length of its text. What is
  not checked is that a pair holds two digits: the pair \<open>1g\<close> is read as the byte 1.
\<close>

lemma hexDecode_spec:
  "(bs \<noteq> [] \<longrightarrow> hexDecode (hex_EncodeToString bs @ take n [c]) = Inr bs)
   \<and> (hexDecode s = Inr cs \<longrightarrow> s \<noteq> [] \<and> length cs = length s div 2)
   \<and> hexDecode ''1g'' = Inr [1]"
proof -
  have "hexDecode_from i (hex_EncodeToString bs @ take n [c]) = Inr bs" for i
    using hexDecode_from_tail [of "take n [c]" i bs] by (cases n) simp_all
  moreover have "hexDecode ''1g'' = Inr [1]"
    by (simp add: hexDecode_def sscanf_1g)
  ultimately show ?thesis
    by (auto simp: hexDecode_def hexDecode_from_length split: if_splits)
qed

lemma is_ascii_hex [simp]: "is_ascii (hex_EncodeToString bs)"
  by (induction bs) (simp_all add: byte_hex_def hex_char_ascii)

section \<open>A machine with an enclave\<close>

text \<open>
  At most one enclave runs, launched by \<open>run-enclave\<close> (whose last argument is the CID) and listed by
  \<open>describe-enclaves\<close> with its CID in a JSON field. Its program is \<open>enclave_main\<close> started with the arguments
  \<open>eargs\<close> of the image; a connection reaches the port the program listens on in its phase.
\<close>

record nitro_world =
  nw_cid :: "string option"
  nw_phase :: enclave_phase
  nw_time :: int

definition describe_text :: "nitro_world \<Rightarrow> string" where
  "describe_text w =
     (case nw_cid w of None \<Rightarrow> ''[]''
      | Some c \<Rightarrow> ''[{'' @ CHR 0x22 # ''EnclaveCID'' @ CHR 0x22 # '': '' @ c @ ''}]'')"

definition err_cli :: goerr where "err_cli = Ext ''exit status 1''"
definition err_refused :: goerr where "err_refused = Ext ''connection refused''"

definition enclave_cli ::
  "('p1, 'p2) blst \<Rightarrow> go_text \<Rightarrow> enclave_host \<Rightarrow> string list \<Rightarrow> nitro_world \<Rightarrow> string list \<Rightarrow>
    nitro_world \<times> string \<times> goerr option" where
  "enclave_cli B T H eargs w args =
     (if args = [''describe-enclaves''] then (w, describe_text w, None)
      else if args \<noteq> [] \<and> hd args = ''run-enclave'' then
        (if nw_cid w \<noteq> None then (w, [], Some err_cli)
         else (w\<lparr>nw_cid := Some (last args), nw_phase := fst (enclave_main B T H eargs [])\<rparr>, [], None))
      else if args \<noteq> [] \<and> hd args = ''terminate-enclave'' \<and> nw_cid w = Some (last args)
      then (w\<lparr>nw_cid := None\<rparr>, [], None)
      else (w, [], Some err_cli))"

definition enclave_dial :: "nitro_world \<Rightarrow> 32 word \<Rightarrow> nat \<Rightarrow> nitro_world \<times> goerr option" where
  "enclave_dial w cid port =
     (w, if nw_cid w = Some (cid_text cid) \<and>
           (case nw_phase w of AwaitingInit \<Rightarrow> port = VSockInitPort | Serving _ _ \<Rightarrow> port = VSockPort | Fatal _ \<Rightarrow> False)
         then None else Some err_refused)"

definition enclave_exchange ::
  "('p1, 'p2) blst \<Rightarrow> go_text \<Rightarrow> enclave_host \<Rightarrow> string list \<Rightarrow> nitro_world \<Rightarrow> 32 word \<Rightarrow> nat \<Rightarrow> string \<Rightarrow>
    nitro_world \<times> exchange" where
  "enclave_exchange B T H eargs w cid port t =
     (if snd (enclave_dial w cid port) \<noteq> None then (w, DialErr err_refused)
      else case nw_phase w of
        AwaitingInit \<Rightarrow>
          (let (ph, reply, _) = enclave_main B T H eargs [Inr t]
           in (w\<lparr>nw_phase := ph\<rparr>, Reply (case reply of Some r \<Rightarrow> r | None \<Rightarrow> [])))
      | Serving sk pk \<Rightarrow> (w, Reply (handleConn B T sk pk t))
      | Fatal e \<Rightarrow> (w, DialErr err_refused))"

definition enclave_env ::
  "('p1, 'p2) blst \<Rightarrow> go_text \<Rightarrow> enclave_host \<Rightarrow> string list \<Rightarrow> string \<times> string \<times> string \<Rightarrow> nitro_world nitro_env" where
  "enclave_env B T H eargs creds = \<lparr>
     ne_cli = enclave_cli B T H eargs, ne_dial = enclave_dial, ne_exchange = enclave_exchange B T H eargs,
     ne_LoadConfig = (\<lambda>_. None), ne_Retrieve = (\<lambda>_. Inr creds), ne_now = nw_time,
     ne_sleep = (\<lambda>w d. w\<lparr>nw_time := nw_time w + max 0 d\<rparr>), ne_jerr = gt_jerr T\<rparr>"

lemma env_sels [simp]:
  "ne_cli (enclave_env B T H eargs creds) = enclave_cli B T H eargs"
  "ne_dial (enclave_env B T H eargs creds) = enclave_dial"
  "ne_exchange (enclave_env B T H eargs creds) = enclave_exchange B T H eargs"
  "ne_LoadConfig (enclave_env B T H eargs creds) = (\<lambda>_. None)"
  "ne_Retrieve (enclave_env B T H eargs creds) = (\<lambda>_. Inr creds)"
  "ne_now (enclave_env B T H eargs creds) = nw_time"
  "ne_sleep (enclave_env B T H eargs creds) = (\<lambda>w d. w\<lparr>nw_time := nw_time w + max 0 d\<rparr>)"
  "ne_jerr (enclave_env B T H eargs creds) = gt_jerr T"
  by (simp_all add: enclave_env_def)

lemma enclave_clock: "clock_advances (enclave_env B T H eargs creds)"
  by (simp add: clock_advances_def enclave_dial_def enclave_exchange_def Let_def split: enclave_phase.split prod.split)

section \<open>A signing backend\<close>

definition nitro_holds :: "('p1, 'p2) blst \<Rightarrow> nitro_world \<Rightarrow> nitro_Backend \<Rightarrow> nat \<Rightarrow> bool" where
  "nitro_holds B w b sk \<longleftrightarrow> nw_cid w = Some (cid_text (nb_enclaveCID b))
     \<and> nw_phase w = Serving sk (bls_pk B sk) \<and> nb_pkBytes b = bls_pk B sk"

lemma is_ascii_types [simp]:
  "is_ascii RequestSign" "is_ascii RequestSignPoP" "is_ascii RequestPublicKey"
  by (simp_all add: request_types)

lemma type_distinct [simp]:
  "RequestSign \<noteq> RequestPublicKey" "RequestSignPoP \<noteq> RequestPublicKey" "RequestSignPoP \<noteq> RequestSign"
  by (simp_all add: request_types)

lemma decode_ok_response: "decode_Response jerr (encode_Response \<lparr>resp_Result = bs, resp_Error = []\<rparr>) =
    Inr \<lparr>resp_Result = bs, resp_Error = []\<rparr>"
  by (rule responsec.dec_enc) (simp add: ascii_response_def)

lemma nitro_send_serving:
  assumes "nw_cid w = Some (cid_text (nb_enclaveCID b))" "nw_phase w = Serving sk (bls_pk B sk)"
    and "(ty, bs) \<in> {(RequestPublicKey, bls_pk B sk), (RequestSign, bls_sig B sk msg DSTSign),
           (RequestSignPoP, bls_sig B sk msg DSTPoP)}"
  shows "nitro_send (enclave_env B T H eargs creds) w b \<lparr>req_Type = ty, req_Message = msg\<rparr> =
    (w, Inr \<lparr>resp_Result = bs, resp_Error = []\<rparr>)"
  using assms
  by (auto simp: nitro_send_def enclave_exchange_def enclave_dial_def handleConn_request decode_ok_response)

lemma sign_serving:
  assumes "nw_cid w = Some (cid_text (nb_enclaveCID b))" "nw_phase w = Serving sk (bls_pk B sk)"
  shows "nitro_Sign (enclave_env B T H eargs creds) w b msg = (w, Inr (bls_sig B sk msg DSTSign))"
    and "nitro_SignProofOfPossession (enclave_env B T H eargs creds) w b msg = (w, Inr (bls_sig B sk msg DSTPoP))"
    and "nitro_fetchPublicKey (enclave_env B T H eargs creds) w b = (w, Inr (bls_pk B sk))"
  by (simp_all add: nitro_Sign_def nitro_SignProofOfPossession_def nitro_fetchPublicKey_def checked_signature_def
      nitro_send_serving [OF assms, where ty = RequestSign and bs = "bls_sig B sk msg DSTSign"]
      nitro_send_serving [OF assms, where ty = RequestSignPoP and bs = "bls_sig B sk msg DSTPoP"]
      nitro_send_serving [OF assms, where ty = RequestPublicKey and bs = "bls_pk B sk"])

interpretation nitrob:
  signing_backend B "nitro_ops (enclave_env B T H eargs creds) w" "nitro_holds B w"
  for B :: "('p1, 'p2) blst" and T H eargs creds w
  by unfold_locales
    (simp_all add: nitro_ops_def nitro_holds_def nitro_PublicKey_def sign_serving)

section \<open>Starting\<close>

lemma not_running: "nw_cid w = None \<Longrightarrow> enclaveRunning (enclave_env B T H eargs creds) w cid = (w, False)"
  by (auto simp: enclaveRunning_def enclave_cli_def describe_text_def strings_Contains_def dest!: set_mono_sublist)

lemma listed: "nw_cid w = Some (cid_text cid @ rest) \<Longrightarrow>
    enclaveRunning (enclave_env B T H eargs creds) w cid = (w, True)"
proof -
  assume "nw_cid w = Some (cid_text cid @ rest)"
  then have "describe_text w = ''[{'' @ (CHR 0x22 # ''EnclaveCID'' @ CHR 0x22 # '': '' @ cid_text cid) @ rest @ ''}]''"
    by (simp add: describe_text_def)
  then have "strings_Contains (describe_text w) (CHR 0x22 # ''EnclaveCID'' @ CHR 0x22 # '': '' @ cid_text cid)"
    unfolding strings_Contains_def sublist_def by blast
  then show ?thesis
    by (simp add: enclaveRunning_def enclave_cli_def)
qed

definition host_init :: "AWSNitroConfig \<Rightarrow> string \<times> string \<times> string \<Rightarrow> InitMessage" where
  "host_init cfg creds = \<lparr>im_AccessKeyID = fst creds, im_SecretAccessKey = fst (snd creds),
     im_SessionToken = snd (snd creds), im_Region = nitro_Region cfg\<rparr>"

lemma init_reply_decodes:
  "decode_InitResponse jerr (init_reply (hex_EncodeToString pk) []) =
     Inr \<lparr>ir_PublicKey = hex_EncodeToString pk, ir_Error = []\<rparr>"
  unfolding init_reply_def by (rule initrespc.dec_enc) (simp add: ascii_init_response_def)

lemma sendInit_fresh:
  assumes "enclave_key_ok T H path im sk" "ascii_init im"
    and "nw_cid w = Some (cid_text (nb_enclaveCID b))" "nw_phase w = AwaitingInit"
  shows "sendInit (enclave_env B T H (path # eargs) creds) w b im =
    (w\<lparr>nw_phase := Serving sk (bls_pk B sk)\<rparr>, Inr (bls_pk B sk))"
proof -
  have "bls_pk B sk \<noteq> []"
    using length_bls_pk [of B sk] by fastforce
  with assms(3,4) enclave_main_serves [OF assms(1) initc.dec_enc [OF assms(2)], of "[]" B eargs "[]"]
  show ?thesis
    by (simp add: sendInit_def enclave_exchange_def enclave_dial_def init_reply_decodes)
qed

lemma key_ok_awaits:
  "enclave_key_ok T H path im sk \<Longrightarrow> fst (enclave_main B T H (path # eargs) []) = AwaitingInit"
  using enclave_main_awaits [of H path _ T "[]" B eargs] by (auto simp: enclave_key_ok_def)

text \<open>
  A fresh start end to end: with no enclave running and a key that KMS decrypts for the host's credentials, \<open>New\<close>
  launches the enclave, passes the credentials on and comes back with a backend that holds this key.
\<close>

definition nitro_built :: "('p1, 'p2) blst \<Rightarrow> AWSNitroConfig \<Rightarrow> nat \<Rightarrow> nitro_Backend" where
  "nitro_built B cfg sk = \<lparr>nb_enclaveCID = nitro_EnclaveCID cfg, nb_pkBytes = bls_pk B sk\<rparr>"

definition enclave_up :: "('p1, 'p2) blst \<Rightarrow> AWSNitroConfig \<Rightarrow> nat \<Rightarrow> nitro_world \<Rightarrow> bool" where
  "enclave_up B cfg sk w \<longleftrightarrow> nw_cid w = Some (cid_text (nitro_EnclaveCID cfg)) \<and> nw_phase w = Serving sk (bls_pk B sk)"

lemma enclave_up_holds: "enclave_up B cfg sk w \<Longrightarrow> nitro_holds B w (nitro_built B cfg sk) sk"
  by (simp add: enclave_up_def nitro_holds_def nitro_built_def)

lemma nitro_fresh_start:
  assumes "nw_cid w = None" "ascii_init (host_init cfg creds)"
    and "enclave_key_ok T H path (host_init cfg creds) sk"
  shows "\<exists>w'. nitro_New (enclave_env B T H (path # eargs) creds) w cfg = Some (w', Inr (nitro_built B cfg sk))
    \<and> enclave_up B cfg sk w'"
proof -
  let ?N = "enclave_env B T H (path # eargs) creds"
  let ?cid = "nitro_EnclaveCID cfg"
  let ?w1 = "w\<lparr>nw_cid := Some (cid_text ?cid), nw_phase := AwaitingInit\<rparr>"
  let ?w2 = "?w1\<lparr>nw_phase := Serving sk (bls_pk B sk)\<rparr>"
  let ?b = "\<lparr>nb_enclaveCID = ?cid, nb_pkBytes = []\<rparr>"
  have start: "start_enclave ?N w cfg = (?w1, None)"
    using assms(1) key_ok_awaits [OF assms(3), of B eargs]
    by (simp add: start_enclave_def not_running enclave_cli_def run_enclave_args_def)
  have running: "enclaveRunning ?N ?w1 ?cid = (?w1, True)"
    by (rule listed [where rest = "[]"]) simp
  have "sendInitWithRetry ?N ?w1 ?b (host_init cfg creds) (30 * second) = Some (?w2, Inr (bls_pk B sk))"
    using sendInit_fresh [OF assms(3,2), of ?w1 ?b B eargs creds]
    by (simp add: sendInitWithRetry_def send_init_loop.simps second_def)
  then have "obtain_public_key ?N ?w1 cfg ?b = Some (?w2, Inr (bls_pk B sk))"
    using running
    by (simp add: obtain_public_key_def isEnclaveReady_def enclave_dial_def VSockPort_def VSockInitPort_def
        buildInitMessage_def host_init_def split_beta Let_def)
  with start have new: "nitro_New ?N w cfg = Some (?w2, Inr (?b\<lparr>nb_pkBytes := bls_pk B sk\<rparr>))"
    by (simp add: nitro_New_def Let_def)
  then show ?thesis
    by (intro exI [of _ ?w2]) (simp add: nitro_built_def enclave_up_def)
qed

text \<open>
  A restart of the host: with the enclave already serving under the configured CID, \<open>New\<close> launches
  nothing and sends no credentials; it fetches the public key and has the same backend as before.
\<close>

lemma nitro_reconnect:
  assumes "enclave_up B cfg sk w"
  shows "nitro_New (enclave_env B T H eargs creds) w cfg = Some (w, Inr (nitro_built B cfg sk))"
proof -
  note up = assms [unfolded enclave_up_def]
  let ?N = "enclave_env B T H eargs creds"
  let ?b = "\<lparr>nb_enclaveCID = nitro_EnclaveCID cfg, nb_pkBytes = []\<rparr>"
  have running: "enclaveRunning ?N w (nitro_EnclaveCID cfg) = (w, True)"
    by (rule listed [where rest = "[]"]) (simp add: up)
  have "nitro_fetchPublicKey ?N w ?b = (w, Inr (bls_pk B sk))"
    by (rule sign_serving) (simp_all add: up)
  then show ?thesis
    using running up
    by (simp add: nitro_New_def start_enclave_def obtain_public_key_def isEnclaveReady_def enclave_dial_def
        nitro_built_def Let_def)
qed

definition nitro_cfg :: AWSNitroConfig where
  "nitro_cfg = zero_Nitro\<lparr>nitro_Region := ''eu-west-1'', nitro_EIFPath := ''/enclave.eif'', nitro_CPUCount := 2,
     nitro_MemoryMiB := 512, nitro_EnclaveCID := 16\<rparr>"

definition test_creds :: "string \<times> string \<times> string" where
  "test_creds = (''AKIA'', ''secret'', ''token'')"

lemma test_host_init: "host_init nitro_cfg test_creds = test_init"
  by (simp add: host_init_def nitro_cfg_def test_creds_def test_init_def zero_Nitro_def)

definition idle_world :: nitro_world where
  "idle_world = \<lparr>nw_cid = None, nw_phase = AwaitingInit, nw_time = 0\<rparr>"

section \<open>Waiting for the enclave\<close>

lemma nitro_New_total: "clock_advances N \<Longrightarrow> \<exists>r. nitro_New N w cfg = Some r"
proof -
  assume c: "clock_advances N"
  have "\<exists>r. obtain_public_key N v cfg b = Some r" for v b
    using send_init_loop_ends [OF c]
    by (auto simp: obtain_public_key_def sendInitWithRetry_def Let_def split: prod.split sum.split if_splits)
  then show ?thesis
    by (auto simp: nitro_New_def Let_def split: prod.split option.split)
qed



lemma send_init_loop_fails:
  assumes "clock_advances N"
    and step: "\<And>v. P v \<Longrightarrow> \<not> is_ok (snd (sendInit N v b msg)) \<and> P (fst (sendInit N v b msg))"
    and sleep: "\<And>v d. P v \<Longrightarrow> P (ne_sleep N v d)"
  shows "P w \<Longrightarrow> \<exists>w' e. send_init_loop N b msg timeout deadline lastErr w = Some (w', Inl e) \<and> P w'"
proof (induction "nat (deadline - ne_now N w)" arbitrary: lastErr w rule: less_induct)
  case less
  show ?case
  proof (cases "ne_now N w < deadline")
    case False
    with less.prems show ?thesis by (simp add: send_init_loop.simps)
  next
    case True
    obtain w' e where s: "sendInit N w b msg = (w', Inl e)" "P w'"
      using step [OF less.prems] by (metis isl_def prod.collapse)
    have "ne_now N w \<le> ne_now N w'" "ne_now N w' + poll_interval \<le> ne_now N (ne_sleep N w' poll_interval)"
      using sendInit_clock [OF assms(1), of w b msg] s assms(1) by (simp_all add: clock_advances_def)
    with True have "nat (deadline - ne_now N (ne_sleep N w' poll_interval)) < nat (deadline - ne_now N w)"
      by (simp add: poll_interval_def)
    from less.hyps [OF this sleep [OF s(2)]] True s show ?thesis
      by (subst send_init_loop.simps) simp
  qed
qed



end
