(* ===== verification/Go_Proto.thy ===== *)
theory Go_Proto
  imports Go_Prelude
begin

text \<open>
  The protobuf wire format as the vendored runtime writes and reads it (\<open>protowire/wire.go\<close>, the decoder of
  \<open>internal/impl/decode.go\<close>), for messages whose only declared field is a \<open>bytes\<close> field, which is every
  message of \<open>signer.proto\<close>. A \<open>uint64\<close> is a natural number: \<open>varint_bound\<close> shows that no sum of the decoder
  passes 64 bits. A function returning a length returns the rest of its input here.
\<close>

section \<open>Varints\<close>

datatype wire_error = Truncated | FieldNumber | Overflow | Reserved | EndGroup | RecursionDepth

function AppendVarint :: "nat \<Rightarrow> bytes" where
  "AppendVarint v = (if v < 128 then [of_nat v] else of_nat (v mod 128 + 128) # AppendVarint (v div 128))"
  by pat_completeness auto
termination by (relation "measure id") auto

declare AppendVarint.simps [simp del]

text \<open>\<open>i\<close> is the index of the next byte; the tenth byte may be 0 or 1 only.\<close>

fun varint_from :: "nat \<Rightarrow> bytes \<Rightarrow> wire_error + nat \<times> bytes" where
  "varint_from i [] = Inl Truncated"
| "varint_from i (b # bs) =
     (if i = 9 then (if unat b < 2 then Inr (unat b, bs) else Inl Overflow)
      else if unat b < 128 then Inr (unat b, bs)
      else case varint_from (Suc i) bs of
             Inl e \<Rightarrow> Inl e
           | Inr (v, rest) \<Rightarrow> Inr (unat b - 128 + 128 * v, rest))"

definition ConsumeVarint :: "bytes \<Rightarrow> wire_error + nat \<times> bytes" where
  "ConsumeVarint bs = varint_from 0 bs"

lemma unat_of_nat_byte: "n < 256 \<Longrightarrow> unat (of_nat n :: byte) = n"
  by (simp add: unat_of_nat take_bit_eq_mod)

lemma unat_continued: "unat (of_nat (v mod 128 + 128) :: byte) = v mod 128 + 128"
  by (rule unat_of_nat_byte) (use mod_less_divisor [of 128 v] in linarith)

lemma varint_from_Append:
  "v < 2 ^ (64 - 7 * i) \<Longrightarrow> i \<le> 9 \<Longrightarrow> varint_from i (AppendVarint v @ bs) = Inr (v, bs)"
proof (induction v arbitrary: i rule: AppendVarint.induct)
  case (1 v)
  show ?case
  proof (cases "v < 128")
    case True
    with "1.prems" show ?thesis
      by (cases "i = 9") (simp_all add: AppendVarint.simps [of v] unat_of_nat_byte)
  next
    case False
    from False "1.prems" have i: "i < 9"
      by (cases "i = 9") auto
    then have e: "64 - 7 * i = (64 - 7 * Suc i) + 7" by simp
    from "1.prems"(1) have "v div 128 < 2 ^ (64 - 7 * Suc i)"
      unfolding e by (simp add: power_add less_mult_imp_div_less)
    from "1.IH" [OF False this] i False show ?thesis
      by (simp add: AppendVarint.simps [of v] unat_continued del: of_nat_add)
  qed
qed

lemma ConsumeVarint_Append [simp]: "v < 2 ^ 64 \<Longrightarrow> ConsumeVarint (AppendVarint v @ bs) = Inr (v, bs)"
  using varint_from_Append [of v 0] by (simp add: ConsumeVarint_def)

lemma varint_from_bound: "varint_from i bs = Inr (v, rest) \<Longrightarrow> i \<le> 9 \<Longrightarrow> v < 2 ^ (64 - 7 * i)"
proof (induction i bs arbitrary: v rest rule: varint_from.induct)
  case (2 i b bs)
  show ?case
  proof (cases "i = 9 \<or> unat b < 128")
    case True
    with "2.prems"(1) have v: "v < 2 ^ (if i = 9 then 1 else 7)"
      by (cases "i = 9"; cases "unat b < 2") simp_all
    from "2.prems"(2) have "(2::nat) ^ (if i = 9 then 1 else 7) \<le> 2 ^ (64 - 7 * i)"
      by (intro power_increasing) auto
    with v show ?thesis by (rule less_le_trans)
  next
    case False
    with "2.prems" obtain w where w: "varint_from (Suc i) bs = Inr (w, rest)" "v = unat b - 128 + 128 * w"
      by (auto split: sum.splits)
    with "2.IH" False "2.prems"(2) have "w < 2 ^ (64 - 7 * Suc i)" by auto
    then have "128 * (w + 1) \<le> 128 * 2 ^ (64 - 7 * Suc i)" by simp
    moreover have "(2::nat) ^ (64 - 7 * i) = 128 * 2 ^ (64 - 7 * Suc i)"
    proof -
      from False "2.prems"(2) have "64 - 7 * i = 7 + (64 - 7 * Suc i)" by auto
      then show ?thesis by (simp only: power_add) simp
    qed
    moreover have "unat b - 128 < 128"
      using unat_byte_less [of b] by linarith
    ultimately show ?thesis using w(2) by simp
  qed
qed simp

lemma varint_bound: "ConsumeVarint bs = Inr (v, rest) \<Longrightarrow> v < 2 ^ 64"
  using varint_from_bound [of 0] by (simp add: ConsumeVarint_def)

lemma varint_from_shorter: "varint_from i bs = Inr (v, rest) \<Longrightarrow> length rest < length bs"
  by (induction i bs arbitrary: v rest rule: varint_from.induct)
    (fastforce split: if_splits sum.splits prod.splits)+

lemma ConsumeVarint_shorter: "ConsumeVarint bs = Inr (v, rest) \<Longrightarrow> length rest < length bs"
  by (simp add: ConsumeVarint_def varint_from_shorter)

lemma length_AppendVarint: "v < 2 ^ (7 * Suc n) \<Longrightarrow> length (AppendVarint v) \<le> Suc n"
proof (induction n arbitrary: v)
  case 0
  then show ?case by (simp add: AppendVarint.simps [of v])
next
  case (Suc n)
  from Suc.prems have "v div 128 < 2 ^ (7 * Suc n)"
    by (simp add: power_add less_mult_imp_div_less)
  with Suc.IH show ?case by (subst AppendVarint.simps) simp
qed

lemma length_AppendVarint_ge: "128 ^ n \<le> v \<Longrightarrow> Suc n \<le> length (AppendVarint v)"
proof (induction n arbitrary: v)
  case 0
  then show ?case by (subst AppendVarint.simps) simp
next
  case (Suc n)
  then have "128 ^ n \<le> v div 128"
    by (simp add: less_eq_div_iff_mult_less_eq mult.commute)
  moreover from this one_le_power [of "128::nat" n] have "1 \<le> v div 128"
    by linarith
  then have "128 \<le> v" by linarith
  ultimately show ?case using Suc.IH [of "v div 128"] by (subst AppendVarint.simps) simp
qed

section \<open>Fields\<close>

definition AppendBytes :: "bytes \<Rightarrow> bytes" where
  "AppendBytes v = AppendVarint (length v) @ v"

definition ConsumeBytes :: "bytes \<Rightarrow> wire_error + bytes \<times> bytes" where
  "ConsumeBytes bs =
     (case ConsumeVarint bs of
        Inl e \<Rightarrow> Inl e
      | Inr (m, rest) \<Rightarrow> if m > length rest then Inl Truncated else Inr (take m rest, drop m rest))"

definition ConsumeFixed :: "nat \<Rightarrow> bytes \<Rightarrow> wire_error + bytes" where
  "ConsumeFixed n bs = (if length bs < n then Inl Truncated else Inr (drop n bs))"

definition EncodeTag :: "nat \<Rightarrow> nat \<Rightarrow> nat" where
  "EncodeTag num typ = num * 8 + typ mod 8"

text \<open>A number past \<open>MaxInt32\<close> decodes to -1, which every caller rejects like 0.\<close>

definition ConsumeTag :: "bytes \<Rightarrow> wire_error + nat \<times> nat \<times> bytes" where
  "ConsumeTag bs =
     (case ConsumeVarint bs of
        Inl e \<Rightarrow> Inl e
      | Inr (x, rest) \<Rightarrow>
          let num = x div 8
          in if num < 1 \<or> num > 2 ^ 31 - 1 then Inl FieldNumber else Inr (num, x mod 8, rest))"

lemma ConsumeTag_shorter: "ConsumeTag bs = Inr (num, typ, rest) \<Longrightarrow> length rest < length bs"
  by (auto simp: ConsumeTag_def Let_def dest: ConsumeVarint_shorter split: sum.splits if_splits)

lemma ConsumeBytes_shorter: "ConsumeBytes bs = Inr (v, rest) \<Longrightarrow> length rest < length bs"
  by (auto simp: ConsumeBytes_def split: sum.splits if_splits dest!: ConsumeVarint_shorter)

lemma ConsumeFixed_shorter: "ConsumeFixed n bs = Inr rest \<Longrightarrow> length rest \<le> length bs"
  by (auto simp: ConsumeFixed_def split: if_splits)

lemma ConsumeBytes_Append [simp]:
  "length v < 2 ^ 64 \<Longrightarrow> ConsumeBytes (AppendBytes v @ bs) = Inr (v, bs)"
  by (simp add: ConsumeBytes_def AppendBytes_def)

text \<open>The value of a field that is not a group.\<close>

definition consume_scalar :: "nat \<Rightarrow> bytes \<Rightarrow> wire_error + bytes" where
  "consume_scalar typ bs =
     (if typ = 0 then map_sum id snd (ConsumeVarint bs)
      else if typ = 5 then ConsumeFixed 4 bs
      else if typ = 1 then ConsumeFixed 8 bs
      else if typ = 2 then map_sum id snd (ConsumeBytes bs)
      else if typ = 4 then Inl EndGroup
      else Inl Reserved)"

lemma consume_scalar_shorter: "consume_scalar typ bs = Inr rest \<Longrightarrow> length rest \<le> length bs"
  by (cases "ConsumeVarint bs"; cases "ConsumeBytes bs")
    (auto simp: consume_scalar_def split: if_splits
      dest: ConsumeVarint_shorter ConsumeBytes_shorter ConsumeFixed_shorter less_imp_le_nat)

text \<open>
  \<open>consumeFieldValueD\<close> recurses for a group in a group; the calls that are open at a point of the input are
  the list of their field numbers here, innermost first. The recursion starts at depth 10000 and a call at a
  negative depth fails, so the 10002nd open group does.
\<close>

definition DefaultRecursionLimit :: nat where
  "DefaultRecursionLimit = 10000"

function consume_groups :: "nat list \<Rightarrow> bytes \<Rightarrow> wire_error + bytes" where
  "consume_groups [] bs = Inr bs"
| "consume_groups (num # opened) bs =
     (case ConsumeTag bs of
        Inl e \<Rightarrow> Inl e
      | Inr (num2, typ2, rest) \<Rightarrow>
          if typ2 = 4 then (if num \<noteq> num2 then Inl EndGroup else consume_groups opened rest)
          else if typ2 = 3 then
            (if length (num # opened) > DefaultRecursionLimit then Inl RecursionDepth
             else consume_groups (num2 # num # opened) rest)
          else (case consume_scalar typ2 rest of
                  Inl e \<Rightarrow> Inl e
                | Inr rest' \<Rightarrow> consume_groups (num # opened) rest'))"
  by pat_completeness auto
termination
  by (relation "measure (length \<circ> snd)")
    (auto dest!: ConsumeTag_shorter consume_scalar_shorter)

definition ConsumeFieldValue :: "nat \<Rightarrow> nat \<Rightarrow> bytes \<Rightarrow> wire_error + bytes" where
  "ConsumeFieldValue num typ bs = (if typ = 3 then consume_groups [num] bs else consume_scalar typ bs)"

declare consume_groups.simps(2) [simp del]

lemma consume_groups_shorter: "consume_groups gs bs = Inr rest \<Longrightarrow> length rest \<le> length bs"
proof (induction gs bs arbitrary: rest rule: consume_groups.induct)
  case (2 num opened bs)
  obtain num2 typ2 b1 where t: "ConsumeTag bs = Inr (num2, typ2, b1)" "length b1 < length bs"
    using "2.prems" ConsumeTag_shorter by (auto simp: consume_groups.simps(2) [of num opened bs] split: sum.splits)
  show ?case
  proof (cases "typ2 = 3 \<or> typ2 = 4")
    case True
    with t(1) "2.prems" "2.IH"(1) [OF t(1) refl refl] "2.IH"(2) [OF t(1) refl refl]
    have "length rest \<le> length b1"
      by (auto simp: consume_groups.simps(2) [of num opened bs] split: if_splits)
    with t(2) show ?thesis by simp
  next
    case False
    with "2.prems" t(1) obtain b2 where b2: "consume_scalar typ2 b1 = Inr b2" "consume_groups (num # opened) b2 = Inr rest"
      by (auto simp: consume_groups.simps(2) [of num opened bs] split: sum.splits)
    from False "2.IH"(3) [OF t(1) refl refl _ _ b2(1)] b2(2) consume_scalar_shorter [OF b2(1)] t(2) show ?thesis
      by auto
  qed
qed simp

lemma ConsumeFieldValue_shorter: "ConsumeFieldValue num typ bs = Inr rest \<Longrightarrow> length rest \<le> length bs"
  by (auto simp: ConsumeFieldValue_def split: if_splits dest: consume_groups_shorter consume_scalar_shorter)

section \<open>Messages\<close>

text \<open>
  \<open>proto.Unmarshal\<close> resets the message and reads fields until the input ends; a message is described by the
  number of its bytes field, if it has one. A later occurrence of the field replaces an earlier one; a field of
  another number or another wire type is unknown and skipped (the runtime keeps its bytes, which nothing
  reads). The error's text has a space after the colon that varies with the build.
\<close>

definition errDecode :: goerr where
  "errDecode = Ext ''proto: cannot parse invalid wire-format data''"

function unmarshal_fields :: "nat option \<Rightarrow> bytes \<Rightarrow> bytes \<Rightarrow> bytes result" where
  "unmarshal_fields fld cur bs =
     (if bs = [] then Inr cur
      else case ConsumeVarint bs of
        Inl _ \<Rightarrow> Inl errDecode
      | Inr (tag, b1) \<Rightarrow>
          if tag div 8 < 1 \<or> tag div 8 > 2 ^ 29 - 1 then Inl errDecode
          else if tag mod 8 = 4 then Inl errDecode
          else if fld = Some (tag div 8) \<and> tag mod 8 = 2 then
            (case ConsumeBytes b1 of
               Inl _ \<Rightarrow> Inl errDecode
             | Inr (v, b2) \<Rightarrow> unmarshal_fields fld v b2)
          else
            (case ConsumeFieldValue (tag div 8) (tag mod 8) b1 of
               Inl _ \<Rightarrow> Inl errDecode
             | Inr b2 \<Rightarrow> unmarshal_fields fld cur b2))"
  by pat_completeness auto
termination
  by (relation "measure (\<lambda>(fld, cur, bs). length bs)")
    (auto dest!: ConsumeVarint_shorter ConsumeBytes_shorter ConsumeFieldValue_shorter)

declare unmarshal_fields.simps [simp del]

definition Unmarshal :: "nat option \<Rightarrow> bytes \<Rightarrow> bytes result" where
  "Unmarshal fld bs = unmarshal_fields fld [] bs"

definition Marshal :: "nat \<Rightarrow> bytes \<Rightarrow> bytes" where
  "Marshal num v = (if v = [] then [] else AppendVarint (EncodeTag num 2) @ AppendBytes v)"

lemma EncodeTag_split [simp]: "EncodeTag num 2 div 8 = num" "EncodeTag num 2 mod 8 = 2"
  unfolding EncodeTag_def by presburger+

lemma ConsumeVarint_Tag:
  "num \<le> 2 ^ 29 - 1 \<Longrightarrow> ConsumeVarint (AppendVarint (EncodeTag num 2) @ bs) = Inr (EncodeTag num 2, bs)"
  by (rule ConsumeVarint_Append) (simp add: EncodeTag_def)

lemma AppendVarint_nonempty [simp]: "AppendVarint v \<noteq> []"
  by (subst AppendVarint.simps) simp

text \<open>A bytes field at the front of the input: the declared one replaces the value, another one is skipped.\<close>

lemma unmarshal_field:
  assumes "1 \<le> num" "num \<le> 2 ^ 29 - 1" "length v < 2 ^ 64"
  shows "unmarshal_fields fld cur (AppendVarint (EncodeTag num 2) @ AppendBytes v @ bs) =
    unmarshal_fields fld (if fld = Some num then v else cur) bs"
  using assms ConsumeBytes_Append [OF assms(3)]
  by (subst unmarshal_fields.simps) (simp add: ConsumeVarint_Tag ConsumeFieldValue_def consume_scalar_def)

lemma unmarshal_end [simp]: "unmarshal_fields fld cur [] = Inr cur"
  by (simp add: unmarshal_fields.simps)

lemma Unmarshal_Marshal:
  assumes "1 \<le> num" "num \<le> 2 ^ 29 - 1" "length v < 2 ^ 64"
  shows "Unmarshal (Some num) (Marshal num v) = Inr v"
  using unmarshal_field [OF assms, of "Some num" "[]" "[]"] by (simp add: Unmarshal_def Marshal_def)

lemma length_Marshal:
  "length v < 2 ^ 21 \<Longrightarrow> length (Marshal 1 v) \<le> length v + 4"
  "2 ^ 21 \<le> length v \<Longrightarrow> length v < 2 ^ 28 \<Longrightarrow> length (Marshal 1 v) = length v + 5"
  "length v \<le> length (Marshal 1 v)"
proof -
  have t: "length (AppendVarint (EncodeTag 1 2)) = 1"
    by (simp add: EncodeTag_def AppendVarint.simps)
  show "length v < 2 ^ 21 \<Longrightarrow> length (Marshal 1 v) \<le> length v + 4"
    using length_AppendVarint [of "length v" 2] t by (simp add: Marshal_def AppendBytes_def)
  show "2 ^ 21 \<le> length v \<Longrightarrow> length v < 2 ^ 28 \<Longrightarrow> length (Marshal 1 v) = length v + 5"
    using length_AppendVarint [of "length v" 3] length_AppendVarint_ge [of 3 "length v"] t
    by (auto simp: Marshal_def AppendBytes_def)
  show "length v \<le> length (Marshal 1 v)"
    by (simp add: Marshal_def AppendBytes_def)
qed

end
