(* ===== verification/Signer_Grpc.thy ===== *)
theory Signer_Grpc
  imports Backend_Iface
begin

text \<open>
  Package \<open>proto/pb/signer\<close>, the gRPC binding of \<open>signer.proto\<close>: the service interface, the handlers that
  decode a request and call it, the service description, the client stubs, and the routing of a full
  method name to a handler as the gRPC server does it. How a message is decoded is the argument \<open>dec\<close> of a
  handler, as in the source; theory \<open>Signer_Wire\<close> gives it the protobuf decoder.
\<close>

datatype code = Unknown | ResourceExhausted | Unimplemented | Internal

datatype rpc_error = Status code goerr

text \<open>The messages of \<open>signer.proto\<close>; \<open>PublicKeyRequest\<close> has no field.\<close>

type_synonym PublicKeyRequest = unit
record PublicKeyResponse =
  pkresp_PublicKey :: bytes
record SignRequest =
  sreq_Message :: bytes
record SignResponse =
  sresp_Signature :: bytes
record SignProofOfPossessionRequest =
  preq_Message :: bytes
record SignProofOfPossessionResponse =
  presp_Signature :: bytes

record SignerServer =
  ss_PublicKey :: "PublicKeyRequest \<Rightarrow> rpc_error + PublicKeyResponse"
  ss_Sign :: "SignRequest \<Rightarrow> rpc_error + SignResponse"
  ss_SignProofOfPossession :: "SignProofOfPossessionRequest \<Rightarrow> rpc_error + SignProofOfPossessionResponse"

definition UnimplementedSignerServer :: SignerServer where
  "UnimplementedSignerServer = \<lparr>
     ss_PublicKey = (\<lambda>_. Inl (Status Unimplemented (Errorf ''method PublicKey not implemented'' []))),
     ss_Sign = (\<lambda>_. Inl (Status Unimplemented (Errorf ''method Sign not implemented'' []))),
     ss_SignProofOfPossession =
       (\<lambda>_. Inl (Status Unimplemented (Errorf ''method SignProofOfPossession not implemented'' [])))\<rparr>"

definition Signer_PublicKey_FullMethodName :: string where
  "Signer_PublicKey_FullMethodName = ''/signer.Signer/PublicKey''"
definition Signer_Sign_FullMethodName :: string where
  "Signer_Sign_FullMethodName = ''/signer.Signer/Sign''"
definition Signer_SignProofOfPossession_FullMethodName :: string where
  "Signer_SignProofOfPossession_FullMethodName = ''/signer.Signer/SignProofOfPossession''"

lemmas method_names = Signer_PublicKey_FullMethodName_def Signer_Sign_FullMethodName_def
  Signer_SignProofOfPossession_FullMethodName_def

section \<open>Handlers\<close>

datatype rpc_request = PublicKeyReq PublicKeyRequest | SignReq SignRequest
  | SignPoPReq SignProofOfPossessionRequest

datatype rpc_reply = PublicKeyReply PublicKeyResponse | SignReply SignResponse
  | SignPoPReply SignProofOfPossessionResponse

type_synonym interceptor =
  "rpc_request \<Rightarrow> string \<Rightarrow> (rpc_request \<Rightarrow> rpc_error + rpc_reply) \<Rightarrow> rpc_error + rpc_reply"

text \<open>
  \<open>srv.(SignerServer).M(ctx, req)\<close> for the method of the request's type, which is how every handler ends,
  directly or inside an interceptor.
\<close>

fun call_server :: "SignerServer \<Rightarrow> rpc_request \<Rightarrow> rpc_error + rpc_reply" where
  "call_server srv (PublicKeyReq r) = map_sum id PublicKeyReply (ss_PublicKey srv r)"
| "call_server srv (SignReq r) = map_sum id SignReply (ss_Sign srv r)"
| "call_server srv (SignPoPReq r) = map_sum id SignPoPReply (ss_SignProofOfPossession srv r)"

text \<open>
  \<open>dec(in)\<close> fills the new message \<open>in\<close> or returns an error. It keeps the type of \<open>in\<close>, so that \<open>call_server\<close>
  calls the handler's own method.
\<close>

type_synonym decoder = "rpc_request \<Rightarrow> rpc_error + rpc_request"

definition Signer_PublicKey_Handler ::
  "SignerServer \<Rightarrow> decoder \<Rightarrow> interceptor option \<Rightarrow> rpc_error + rpc_reply" where
  "Signer_PublicKey_Handler srv dec interceptor =
     (case dec (PublicKeyReq ()) of
        Inl e \<Rightarrow> Inl e
      | Inr inp \<Rightarrow>
         (case interceptor of
            None \<Rightarrow> call_server srv inp
          | Some i \<Rightarrow> i inp Signer_PublicKey_FullMethodName (call_server srv)))"

definition Signer_Sign_Handler ::
  "SignerServer \<Rightarrow> decoder \<Rightarrow> interceptor option \<Rightarrow> rpc_error + rpc_reply" where
  "Signer_Sign_Handler srv dec interceptor =
     (case dec (SignReq \<lparr>sreq_Message = []\<rparr>) of
        Inl e \<Rightarrow> Inl e
      | Inr inp \<Rightarrow>
         (case interceptor of
            None \<Rightarrow> call_server srv inp
          | Some i \<Rightarrow> i inp Signer_Sign_FullMethodName (call_server srv)))"

definition Signer_SignProofOfPossession_Handler ::
  "SignerServer \<Rightarrow> decoder \<Rightarrow> interceptor option \<Rightarrow> rpc_error + rpc_reply" where
  "Signer_SignProofOfPossession_Handler srv dec interceptor =
     (case dec (SignPoPReq \<lparr>preq_Message = []\<rparr>) of
        Inl e \<Rightarrow> Inl e
      | Inr inp \<Rightarrow>
         (case interceptor of
            None \<Rightarrow> call_server srv inp
          | Some i \<Rightarrow> i inp Signer_SignProofOfPossession_FullMethodName (call_server srv)))"

lemmas handler_defs = Signer_PublicKey_Handler_def Signer_Sign_Handler_def
  Signer_SignProofOfPossession_Handler_def

record ServiceDesc =
  sd_ServiceName :: string
  sd_Methods :: "(string \<times> (SignerServer \<Rightarrow> decoder \<Rightarrow> interceptor option \<Rightarrow> rpc_error + rpc_reply)) list"

definition Signer_ServiceDesc :: ServiceDesc where
  "Signer_ServiceDesc = \<lparr>sd_ServiceName = ''signer.Signer'',
     sd_Methods = [(''PublicKey'', Signer_PublicKey_Handler),
                   (''Sign'', Signer_Sign_Handler),
                   (''SignProofOfPossession'', Signer_SignProofOfPossession_Handler)]\<rparr>"

section \<open>Routing\<close>

text \<open>
  The split of \<open>/service/method\<close> at the last slash in the gRPC server's \<open>handleStream\<close>, and the call of
  the registered method; \<open>NewServer\<close> is called without options, so there is no interceptor.
\<close>

definition drop_slash :: "string \<Rightarrow> string" where
  "drop_slash sm = (case sm of c # cs \<Rightarrow> if c = CHR 0x2F then cs else sm | [] \<Rightarrow> sm)"

definition last_slash :: "string \<Rightarrow> (string \<times> string) option" where
  "last_slash sm =
     (let r = rev sm; m = takeWhile (\<lambda>c. c \<noteq> CHR 0x2F) r
      in case dropWhile (\<lambda>c. c \<noteq> CHR 0x2F) r of
           [] \<Rightarrow> None
         | _ # srv \<Rightarrow> Some (rev srv, rev m))"

definition handleStream :: "SignerServer \<Rightarrow> string \<Rightarrow> decoder \<Rightarrow> rpc_error + rpc_reply" where
  "handleStream srv fullMethod dec =
     (case last_slash (drop_slash fullMethod) of
        None \<Rightarrow> Inl (Status Unimplemented (Errorf ''malformed method name: %q'' [AStr fullMethod]))
      | Some (service, method) \<Rightarrow>
         (if service = sd_ServiceName Signer_ServiceDesc
          then case map_of (sd_Methods Signer_ServiceDesc) method of
                 Some h \<Rightarrow> h srv dec None
               | None \<Rightarrow> Inl (Status Unimplemented
                   (Errorf ''unknown method %v for service %v'' [AStr method, AStr service]))
          else Inl (Status Unimplemented (Errorf ''unknown service %v'' [AStr service]))))"

section \<open>Client stubs\<close>

text \<open>
  A client connection is its \<open>Invoke(method, in, out)\<close>: it sends the message \<open>in\<close> under a full method name and
  fills the new message \<open>out\<close>. The stubs choose the method name and make \<open>out\<close>.
\<close>

type_synonym conn = "string \<Rightarrow> rpc_request \<Rightarrow> rpc_reply \<Rightarrow> rpc_error + rpc_reply"

definition client_PublicKey :: "conn \<Rightarrow> PublicKeyRequest \<Rightarrow> rpc_error + rpc_reply" where
  "client_PublicKey cc inp =
     cc Signer_PublicKey_FullMethodName (PublicKeyReq inp) (PublicKeyReply \<lparr>pkresp_PublicKey = []\<rparr>)"

definition client_Sign :: "conn \<Rightarrow> SignRequest \<Rightarrow> rpc_error + rpc_reply" where
  "client_Sign cc inp =
     cc Signer_Sign_FullMethodName (SignReq inp) (SignReply \<lparr>sresp_Signature = []\<rparr>)"

definition client_SignProofOfPossession ::
  "conn \<Rightarrow> SignProofOfPossessionRequest \<Rightarrow> rpc_error + rpc_reply" where
  "client_SignProofOfPossession cc inp =
     cc Signer_SignProofOfPossession_FullMethodName (SignPoPReq inp) (SignPoPReply \<lparr>presp_Signature = []\<rparr>)"

lemmas client_defs = client_PublicKey_def client_Sign_def client_SignProofOfPossession_def

text \<open>A call through the stub of the request's type, and that stub's method name.\<close>

fun client_call :: "conn \<Rightarrow> rpc_request \<Rightarrow> rpc_error + rpc_reply" where
  "client_call cc (PublicKeyReq r) = client_PublicKey cc r"
| "client_call cc (SignReq r) = client_Sign cc r"
| "client_call cc (SignPoPReq r) = client_SignProofOfPossession cc r"

fun method_of :: "rpc_request \<Rightarrow> string" where
  "method_of (PublicKeyReq _) = Signer_PublicKey_FullMethodName"
| "method_of (SignReq _) = Signer_Sign_FullMethodName"
| "method_of (SignPoPReq _) = Signer_SignProofOfPossession_FullMethodName"

lemma drop_slash_Cons: "drop_slash (CHR 0x2F # cs) = cs"
  by (simp add: drop_slash_def)

lemma route_PublicKey: "handleStream srv Signer_PublicKey_FullMethodName dec = Signer_PublicKey_Handler srv dec None"
  by (simp add: handleStream_def method_names drop_slash_def last_slash_def Signer_ServiceDesc_def Let_def)

lemma route_Sign: "handleStream srv Signer_Sign_FullMethodName dec = Signer_Sign_Handler srv dec None"
  by (simp add: handleStream_def method_names drop_slash_def last_slash_def Signer_ServiceDesc_def Let_def)

lemma route_SignPoP: "handleStream srv Signer_SignProofOfPossession_FullMethodName dec =
    Signer_SignProofOfPossession_Handler srv dec None"
  by (simp add: handleStream_def method_names drop_slash_def last_slash_def Signer_ServiceDesc_def Let_def)

lemmas routes = route_PublicKey route_Sign route_SignPoP

fun new_request :: "rpc_request \<Rightarrow> rpc_request" where
  "new_request (PublicKeyReq _) = PublicKeyReq ()"
| "new_request (SignReq _) = SignReq \<lparr>sreq_Message = []\<rparr>"
| "new_request (SignPoPReq _) = SignPoPReq \<lparr>preq_Message = []\<rparr>"

text \<open>
  The stubs and the service agree on their names: the method name of a stub is routed to the method of the
  same name, which is called with whatever the decoder makes of a new message of its type.
\<close>

lemma handleStream_method:
  "handleStream srv (method_of req) dec =
     (case dec (new_request req) of Inl e \<Rightarrow> Inl e | Inr inp \<Rightarrow> call_server srv inp)"
  by (cases req) (simp_all add: routes handler_defs split: sum.split)

lemma handleStream_unknown:
  assumes "last_slash (drop_slash m) = Some (s, n)"
    and "s \<noteq> ''signer.Signer'' \<or> n \<notin> {''PublicKey'', ''Sign'', ''SignProofOfPossession''}"
  shows "\<exists>e. handleStream srv m dec = Inl (Status Unimplemented e)"
  using assms by (auto simp: handleStream_def Signer_ServiceDesc_def)

end
