(* ===== verification/Signer_Server.thy ===== *)
theory Signer_Server
  imports Signer_Grpc Go_Log "HOL-Library.Multiset"
begin

text \<open>
  Package \<open>signerserver\<close>: the gRPC service over a backend, and the life of the server from
  \<open>ListenAndServe\<close> to the deferred \<open>Close\<close> of the \<open>serve\<close> command. The handlers are functions of the
  backend's state; the life cycle is a step relation in which requests arrive, are answered in any
  order, the context is cancelled, the listener fails, and the backend is closed.
\<close>

section \<open>The service\<close>

record 's Server =
  srv_ops :: "'s Backend"
  srv_backend :: 's

definition Server_New :: "'s Backend \<Rightarrow> 's \<Rightarrow> 's Server" where
  "Server_New M b = \<lparr>srv_ops = M, srv_backend = b\<rparr>"

definition Server_PublicKey :: "'s Server \<Rightarrow> PublicKeyRequest \<Rightarrow> rpc_error + PublicKeyResponse" where
  "Server_PublicKey s _ =
     (case be_PublicKey (srv_ops s) (srv_backend s) of
        Inl e \<Rightarrow> Inl (Status Internal (Errorf ''PublicKey: %v'' [AErr e]))
      | Inr pk \<Rightarrow> Inr \<lparr>pkresp_PublicKey = pk\<rparr>)"

definition Server_Sign :: "'s Server \<Rightarrow> SignRequest \<Rightarrow> rpc_error + SignResponse" where
  "Server_Sign s req =
     (case be_Sign (srv_ops s) (srv_backend s) (sreq_Message req) of
        Inl e \<Rightarrow> Inl (Status Internal (Errorf ''Sign: %v'' [AErr e]))
      | Inr sig \<Rightarrow> Inr \<lparr>sresp_Signature = sig\<rparr>)"

definition Server_SignProofOfPossession ::
  "'s Server \<Rightarrow> SignProofOfPossessionRequest \<Rightarrow> rpc_error + SignProofOfPossessionResponse" where
  "Server_SignProofOfPossession s req =
     (case be_SignProofOfPossession (srv_ops s) (srv_backend s) (preq_Message req) of
        Inl e \<Rightarrow> Inl (Status Internal (Errorf ''SignProofOfPossession: %v'' [AErr e]))
      | Inr sig \<Rightarrow> Inr \<lparr>presp_Signature = sig\<rparr>)"

definition Server_methods :: "'s Server \<Rightarrow> SignerServer" where
  "Server_methods s = \<lparr>ss_PublicKey = Server_PublicKey s, ss_Sign = Server_Sign s,
     ss_SignProofOfPossession = Server_SignProofOfPossession s\<rparr>"

lemmas server_defs [op_defs] = Server_New_def Server_PublicKey_def Server_Sign_def
  Server_SignProofOfPossession_def Server_methods_def

definition reply_of :: "'s Backend \<Rightarrow> 's \<Rightarrow> rpc_request \<Rightarrow> rpc_error + rpc_reply" where
  "reply_of M b req = call_server (Server_methods (Server_New M b)) req"

text \<open>What a caller is promised: the reference public key or signature of the validator's key.\<close>

fun expected_reply :: "('p1, 'p2) blst \<Rightarrow> nat \<Rightarrow> rpc_request \<Rightarrow> rpc_reply" where
  "expected_reply B sk (PublicKeyReq _) = PublicKeyReply \<lparr>pkresp_PublicKey = bls_pk B sk\<rparr>"
| "expected_reply B sk (SignReq r) =
     SignReply \<lparr>sresp_Signature = bls_sig B sk (sreq_Message r) DSTSign\<rparr>"
| "expected_reply B sk (SignPoPReq r) =
     SignPoPReply \<lparr>presp_Signature = bls_sig B sk (preq_Message r) DSTPoP\<rparr>"

context signing_backend
begin

lemma reply_expected: "holds b sk \<Longrightarrow> reply_of M b req = Inr (expected_reply B sk req)"
  by (cases req) (simp_all add: reply_of_def server_defs laws)

end

text \<open>
  The errors of a backend reach the caller as status Internal with the method's name in front, and
  nothing else does: a call fails exactly when the backend's operation fails.
\<close>

lemma Server_errors:
  "(Server_Sign s req = Inl st \<longleftrightarrow>
     (\<exists>e. be_Sign (srv_ops s) (srv_backend s) (sreq_Message req) = Inl e
        \<and> st = Status Internal (Errorf ''Sign: %v'' [AErr e])))
   \<and> (Server_SignProofOfPossession s preq = Inl st \<longleftrightarrow>
     (\<exists>e. be_SignProofOfPossession (srv_ops s) (srv_backend s) (preq_Message preq) = Inl e
        \<and> st = Status Internal (Errorf ''SignProofOfPossession: %v'' [AErr e])))
   \<and> (Server_PublicKey s u = Inl st \<longleftrightarrow>
     (\<exists>e. be_PublicKey (srv_ops s) (srv_backend s) = Inl e
        \<and> st = Status Internal (Errorf ''PublicKey: %v'' [AErr e])))"
  by (auto simp: server_defs split: sum.splits)

text \<open>What a handler logs: the error, when there is one.\<close>

fun handler_log :: "'s Server \<Rightarrow> rpc_request \<Rightarrow> log_line list" where
  "handler_log s (PublicKeyReq _) = (case be_PublicKey (srv_ops s) (srv_backend s) of
     Inl e \<Rightarrow> [LogLine LevelError ''PublicKey failed'' [(''err'', AErr e)]] | Inr _ \<Rightarrow> [])"
| "handler_log s (SignReq req) = (case be_Sign (srv_ops s) (srv_backend s) (sreq_Message req) of
     Inl e \<Rightarrow> [LogLine LevelError ''Sign failed'' [(''err'', AErr e)]] | Inr _ \<Rightarrow> [])"
| "handler_log s (SignPoPReq req) = (case be_SignProofOfPossession (srv_ops s) (srv_backend s) (preq_Message req) of
     Inl e \<Rightarrow> [LogLine LevelError ''SignProofOfPossession failed'' [(''err'', AErr e)]] | Inr _ \<Rightarrow> [])"

lemma (*ctx*) dummy: True by simp
context signing_backend
begin

lemma silent: "holds b sk \<Longrightarrow> handler_log (Server_New M b) r = []"
  by (cases r) (simp_all add: server_defs laws)

end

text \<open>The two lines of a backend whose key is gone: neither the key nor a message can influence them.\<close>

definition failure_lines :: "log_line list" where
  "failure_lines = [LogLine LevelError ''Sign failed'' [(''err'', AErr err_bad_scalar)],
     LogLine LevelError ''SignProofOfPossession failed'' [(''err'', AErr err_bad_scalar)]]"

section \<open>The life of the server\<close>

text \<open>
  \<open>ListenAndServe\<close> from the moment it listens: the goroutine that waits for the context runs, \<open>Starting\<close> is before
  the line that says so, \<open>Announced\<close> before \<open>grpcSrv.Serve(lis)\<close>, and \<open>Listening\<close> inside it. \<open>Draining\<close> is
  \<open>GracefulStop\<close> in the goroutine; \<open>Returned\<close> is after \<open>Serve\<close> came back, with \<open>serve_err\<close> its error: accepting a
  connection failed, or the server had been stopped before. \<open>inflight\<close> are the calls whose handler has not answered;
  \<open>answers\<close> pairs each answered call with its reply; \<open>cancelled\<close> is the context, \<open>stopping\<close> that the goroutine saw
  it; \<open>closed\<close> is the deferred \<open>b.Close()\<close> of the \<open>serve\<close> command and \<open>exited\<close> the exit status of the process.
  \<open>Serve\<close> returns from a graceful stop only after the handlers are done and the connections are closed, but a
  failure to accept returns at once: the handlers keep running, and the open connections can bring new calls, until
  the process exits. What the outside sees of a step is its list of events.
\<close>

datatype phase = Starting | Announced | Listening | Draining | Returned

datatype serve_error = ServerStopped | AcceptError

datatype event = Called rpc_request | Replied rpc_request "rpc_error + rpc_reply" | Logged log_line
  | Signalled | AcceptFailed | ExitStatus int

record 's serve_state =
  phase :: phase
  laddr :: string
  serve_err :: "serve_error option"
  inflight :: "rpc_request multiset"
  arrived :: "rpc_request multiset"
  answers :: "(rpc_request \<times> (rpc_error + rpc_reply)) multiset"
  bk :: 's
  cancelled :: bool
  stopping :: bool
  closed :: bool
  exited :: "int option"

definition serve_init :: "string \<Rightarrow> 's \<Rightarrow> 's serve_state" where
  "serve_init addr b = \<lparr>phase = Starting, laddr = addr, serve_err = None, inflight = {#}, arrived = {#},
     answers = {#}, bk = b, cancelled = False, stopping = False, closed = False, exited = None\<rparr>"

definition close_log :: "goerr option \<Rightarrow> log_line list" where
  "close_log r = (case r of Some e \<Rightarrow> [LogLine LevelError ''backend Close failed'' [(''err'', AErr e)]] | None \<Rightarrow> [])"

text \<open>The deferred \<open>Close\<close> of the command: what the backend logs of it, then its error.\<close>

definition closing_log :: "'s Backend \<Rightarrow> 's \<Rightarrow> log_line list" where
  "closing_log M b = be_CloseLog M b @ close_log (snd (be_Close M b))"

definition stop_line :: log_line where
  "stop_line = LogLine LevelInfo ''context cancelled, stopping gRPC server'' []"

definition listen_line :: "string \<Rightarrow> log_line" where
  "listen_line addr = LogLine LevelInfo ''gRPC signer server listening'' [(''addr'', AStr addr)]"

definition exit_status :: "'s serve_state \<Rightarrow> int" where
  "exit_status s = (if serve_err s = None then 0 else 1)"

inductive serve_step :: "'s Backend \<Rightarrow> 's serve_state \<Rightarrow> event list \<Rightarrow> 's serve_state \<Rightarrow> bool"
  for M :: "'s Backend" where
  announce: "exited s = None \<Longrightarrow> phase s = Starting \<Longrightarrow>
     serve_step M s [Logged (listen_line (laddr s))] (s\<lparr>phase := Announced\<rparr>)"
| serve: "exited s = None \<Longrightarrow> phase s = Announced \<Longrightarrow> \<not> stopping s \<Longrightarrow> serve_step M s [] (s\<lparr>phase := Listening\<rparr>)"
| refused: "exited s = None \<Longrightarrow> phase s = Announced \<Longrightarrow> stopping s \<Longrightarrow>
     serve_step M s [] (s\<lparr>phase := Returned, serve_err := Some ServerStopped\<rparr>)"
| arrive: "exited s = None \<Longrightarrow> phase s \<in> {Listening, Draining} \<or> serve_err s = Some AcceptError \<Longrightarrow>
     serve_step M s [Called r] (s\<lparr>inflight := add_mset r (inflight s), arrived := add_mset r (arrived s)\<rparr>)"
| answer: "exited s = None \<Longrightarrow> r \<in># inflight s \<Longrightarrow>
     serve_step M s (map Logged (handler_log (Server_New M (bk s)) r) @ [Replied r (reply_of M (bk s) r)])
       (s\<lparr>inflight := inflight s - {#r#}, answers := add_mset (r, reply_of M (bk s) r) (answers s)\<rparr>)"
| signal: "exited s = None \<Longrightarrow> phase s \<noteq> Returned \<Longrightarrow> \<not> cancelled s \<Longrightarrow>
     serve_step M s [Signalled] (s\<lparr>cancelled := True\<rparr>)"
| stop: "exited s = None \<Longrightarrow> cancelled s \<Longrightarrow> \<not> stopping s \<Longrightarrow>
     serve_step M s [Logged stop_line]
       (s\<lparr>stopping := True, phase := (if phase s = Listening then Draining else phase s)\<rparr>)"
| drained: "exited s = None \<Longrightarrow> phase s = Draining \<Longrightarrow> inflight s = {#} \<Longrightarrow> serve_step M s [] (s\<lparr>phase := Returned\<rparr>)"
| accept_fails: "exited s = None \<Longrightarrow> phase s = Listening \<Longrightarrow>
     serve_step M s [AcceptFailed] (s\<lparr>phase := Returned, serve_err := Some AcceptError\<rparr>)"
| unwind: "exited s = None \<Longrightarrow> phase s = Returned \<Longrightarrow> \<not> cancelled s \<Longrightarrow> serve_step M s [] (s\<lparr>cancelled := True\<rparr>)"
| close: "exited s = None \<Longrightarrow> phase s = Returned \<Longrightarrow> cancelled s \<Longrightarrow> \<not> closed s \<Longrightarrow>
     serve_step M s (map Logged (closing_log M (bk s)))
       (s\<lparr>bk := fst (be_Close M (bk s)), closed := True\<rparr>)"
| exit: "exited s = None \<Longrightarrow> closed s \<Longrightarrow>
     serve_step M s [ExitStatus (exit_status s)] (s\<lparr>exited := Some (exit_status s)\<rparr>)"

text \<open>
  What is behind a backend may change while the server runs: another request reaches the Vault server, the enclave is
  stopped. \<open>E\<close> gives the operations the backend may have at a step, before it is closed and after.
\<close>

inductive serve_reach :: "(bool \<Rightarrow> 's Backend set) \<Rightarrow> 's \<Rightarrow> 's serve_state \<Rightarrow> bool"
  for E :: "bool \<Rightarrow> 's Backend set" and b :: 's where
  start: "serve_reach E b (serve_init addr b)"
| step: "serve_reach E b s \<Longrightarrow> M \<in> E (closed s) \<Longrightarrow> serve_step M s evs t \<Longrightarrow> serve_reach E b t"

inductive_cases serve_step_cases: "serve_step M s evs t"

text \<open>
  The bookkeeping invariant: every arrived call is in flight or answered once; before \<open>Close\<close> the
  backend is the one the server started with; after a graceful return nothing is in flight.
\<close>

definition calls_inv :: "(bool \<Rightarrow> 's Backend set) \<Rightarrow> 's \<Rightarrow> 's serve_state \<Rightarrow> bool" where
  "calls_inv E b s \<longleftrightarrow> arrived s = inflight s + image_mset fst (answers s)
     \<and> (if closed s then \<exists>M \<in> E False. bk s = fst (be_Close M b) else bk s = b)"

definition phase_inv :: "'s serve_state \<Rightarrow> bool" where
  "phase_inv s \<longleftrightarrow> (closed s \<longrightarrow> phase s = Returned \<and> cancelled s)
   \<and> (phase s = Returned \<longrightarrow> serve_err s = Some AcceptError \<or> inflight s = {#} \<and> stopping s)
   \<and> (serve_err s \<noteq> None \<longrightarrow> phase s = Returned)
   \<and> (phase s \<in> {Starting, Announced} \<or> serve_err s = Some ServerStopped \<longrightarrow> inflight s = {#} \<and> answers s = {#})
   \<and> (phase s = Draining \<longrightarrow> stopping s) \<and> (stopping s \<longrightarrow> cancelled s \<and> phase s \<noteq> Listening)
   \<and> (exited s \<noteq> None \<longrightarrow> closed s \<and> exited s = Some (exit_status s))"

definition serve_inv :: "(bool \<Rightarrow> 's Backend set) \<Rightarrow> 's \<Rightarrow> 's serve_state \<Rightarrow> bool" where
  "serve_inv E b s \<longleftrightarrow> calls_inv E b s \<and> phase_inv s"

lemma calls_step: "serve_step M s evs t \<Longrightarrow> M \<in> E (closed s) \<Longrightarrow> calls_inv E b s \<Longrightarrow> calls_inv E b t"
  by (erule serve_step_cases) (auto simp: calls_inv_def)

lemma phase_step: "serve_step M s evs t \<Longrightarrow> phase_inv s \<Longrightarrow> phase_inv t"
  by (erule serve_step_cases; cases "phase s"; simp add: phase_inv_def exit_status_def; force?)

lemma serve_inv_init: "serve_inv E b (serve_init addr b)"
  by (simp add: serve_inv_def calls_inv_def phase_inv_def serve_init_def)

lemma serve_step_inv: "serve_step M s evs t \<Longrightarrow> M \<in> E (closed s) \<Longrightarrow> serve_inv E b s \<Longrightarrow> serve_inv E b t"
  by (simp add: serve_inv_def calls_step phase_step)

lemmas inv_defs = serve_inv_def calls_inv_def phase_inv_def

lemma serve_reach_inv: "serve_reach E b s \<Longrightarrow> serve_inv E b s"
  by (induction rule: serve_reach.induct) (auto intro: serve_inv_init serve_step_inv)

text \<open>The answer of a closed backend: the cached public key, and one error for every signature.\<close>

fun wiped_reply :: "('p1, 'p2) blst \<Rightarrow> nat \<Rightarrow> rpc_request \<Rightarrow> rpc_error + rpc_reply" where
  "wiped_reply B sk (PublicKeyReq r) = Inr (expected_reply B sk (PublicKeyReq r))"
| "wiped_reply B sk (SignReq _) = Inl (Status Internal (Errorf ''Sign: %v'' [AErr err_bad_scalar]))"
| "wiped_reply B sk (SignPoPReq _) =
     Inl (Status Internal (Errorf ''SignProofOfPossession: %v'' [AErr err_bad_scalar]))"

context local_backend
begin

lemma reply_after_Close:
  assumes "holds b sk"
  shows "reply_of M (fst (be_Close M b)) r = wiped_reply B sk r"
  using Sign_after_Close [OF assms] by (cases r) (simp_all add: reply_of_def server_defs)

lemma logs_after_Close:
  assumes "holds b sk"
  shows "list_all (\<lambda>l. l \<in> set failure_lines) (handler_log (Server_New M (fst (be_Close M b))) r)"
  using Sign_after_Close [OF assms] by (cases r) (simp_all add: Server_New_def failure_lines_def)

end

end
