(* ===== verification/Signer_Wire.thy ===== *)
theory Signer_Wire
  imports Go_Proto Signer_Server
begin

text \<open>
  A call on the wire: the messages of \<open>signer.pb.go\<close> as protobuf, each in one gRPC frame (a flag byte, the length as
  four big-endian bytes, the message), between a client connection and a server that both have the default
  limits of the vendored gRPC library, since the service calls \<open>grpc.NewServer()\<close> without options. HTTP/2, which
  carries the frames and the status, is not modelled.
\<close>

section \<open>The messages\<close>

text \<open>Every message but \<open>PublicKeyRequest\<close> has one field, a \<open>bytes\<close> field with number 1.\<close>

definition field_number :: nat where
  "field_number = 1"

fun marshal_request :: "rpc_request \<Rightarrow> bytes" where
  "marshal_request (PublicKeyReq r) = []"
| "marshal_request (SignReq r) = Marshal field_number (sreq_Message r)"
| "marshal_request (SignPoPReq r) = Marshal field_number (preq_Message r)"

fun marshal_reply :: "rpc_reply \<Rightarrow> bytes" where
  "marshal_reply (PublicKeyReply r) = Marshal field_number (pkresp_PublicKey r)"
| "marshal_reply (SignReply r) = Marshal field_number (sresp_Signature r)"
| "marshal_reply (SignPoPReply r) = Marshal field_number (presp_Signature r)"

fun unmarshal_request :: "bytes \<Rightarrow> rpc_request \<Rightarrow> rpc_request result" where
  "unmarshal_request d (PublicKeyReq r) = map_sum id (\<lambda>_. PublicKeyReq r) (Unmarshal None d)"
| "unmarshal_request d (SignReq r) = map_sum id (\<lambda>v. SignReq (r\<lparr>sreq_Message := v\<rparr>)) (Unmarshal (Some field_number) d)"
| "unmarshal_request d (SignPoPReq r) = map_sum id (\<lambda>v. SignPoPReq (r\<lparr>preq_Message := v\<rparr>)) (Unmarshal (Some field_number) d)"

fun unmarshal_reply :: "bytes \<Rightarrow> rpc_reply \<Rightarrow> rpc_reply result" where
  "unmarshal_reply d (PublicKeyReply r) =
     map_sum id (\<lambda>v. PublicKeyReply (r\<lparr>pkresp_PublicKey := v\<rparr>)) (Unmarshal (Some field_number) d)"
| "unmarshal_reply d (SignReply r) = map_sum id (\<lambda>v. SignReply (r\<lparr>sresp_Signature := v\<rparr>)) (Unmarshal (Some field_number) d)"
| "unmarshal_reply d (SignPoPReply r) =
     map_sum id (\<lambda>v. SignPoPReply (r\<lparr>presp_Signature := v\<rparr>)) (Unmarshal (Some field_number) d)"

section \<open>Frames\<close>

definition PutUint32 :: "nat \<Rightarrow> bytes" where
  "PutUint32 n = [of_nat (n div 2 ^ 24), of_nat (n div 2 ^ 16), of_nat (n div 2 ^ 8), of_nat n]"

definition Uint32 :: "bytes \<Rightarrow> nat" where
  "Uint32 bs = foldl (\<lambda>n b. n * 256 + unat b) 0 bs"

definition headerLen :: nat where
  "headerLen = 5"

definition frame :: "bytes \<Rightarrow> bytes" where
  "frame data = 0 # PutUint32 (length data) @ data"

definition defaultMaxReceiveMessageSize :: nat where
  "defaultMaxReceiveMessageSize = 1024 * 1024 * 4"

definition defaultMaxSendMessageSize :: nat where
  "defaultMaxSendMessageSize = 2 ^ 31 - 1"

datatype recv_error = EOF | ErrUnexpectedEOF | RecvStatus rpc_error

text \<open>The flag byte and the first message of a stream, which \<open>r\<close> is the whole rest of.\<close>

definition recvMsg :: "nat \<Rightarrow> bytes \<Rightarrow> recv_error + byte \<times> bytes" where
  "recvMsg maxReceiveMessageSize r =
     (if r = [] then Inl EOF
      else if length r < headerLen then Inl ErrUnexpectedEOF
      else let len = Uint32 (take 4 (drop 1 r))
        in if len = 0 then Inr (hd r, [])
           else if len > maxReceiveMessageSize
             then Inl (RecvStatus (Status ResourceExhausted (Errorf
               ''grpc: received message larger than max (%d vs. %d)''
               [AInt (int len), AInt (int maxReceiveMessageSize)])))
           else if length (drop headerLen r) < len then Inl ErrUnexpectedEOF
           else Inr (hd r, take len (drop headerLen r)))"

text \<open>No encoding is negotiated, so that a compressed message is refused like an unknown flag.\<close>

definition checkRecvPayload :: "byte \<Rightarrow> rpc_error option" where
  "checkRecvPayload pf =
     (if pf = 0 then None
      else if pf = 1 then Some (Status Internal (Errorf ''grpc: compressed flag set with identity or empty encoding'' []))
      else Some (Status Internal (Errorf ''grpc: received unexpected payload format %d'' [AInt (uint pf)])))"

definition recvAndDecompress :: "bytes \<Rightarrow> recv_error + bytes" where
  "recvAndDecompress r =
     (case recvMsg defaultMaxReceiveMessageSize r of
        Inl e \<Rightarrow> Inl e
      | Inr (pf, d) \<Rightarrow> (case checkRecvPayload pf of Some st \<Rightarrow> Inl (RecvStatus st) | None \<Rightarrow> Inr d))"

definition send_frame :: "string \<Rightarrow> bytes \<Rightarrow> rpc_error + bytes" where
  "send_frame msg data =
     (if length data > 2 ^ 32 - 1
      then Inl (Status ResourceExhausted (Errorf ''grpc: message too large (%d bytes)'' [AInt (int (length data))]))
      else if length data > defaultMaxSendMessageSize
      then Inl (Status ResourceExhausted (Errorf msg [AInt (int (length data)), AInt (int defaultMaxSendMessageSize)]))
      else Inr (frame data))"

section \<open>Both ends\<close>

text \<open>
  The server: an error that is not a status goes out with code Unknown. The client: the end of the stream
  without a message is \<open>io.EOF\<close>, of which the caller's \<open>status.Convert\<close> makes Unknown as well.
\<close>

fun server_status :: "recv_error \<Rightarrow> rpc_error" where
  "server_status EOF = Status Unknown (Ext ''EOF'')"
| "server_status ErrUnexpectedEOF = Status Unknown (Ext ''unexpected EOF'')"
| "server_status (RecvStatus st) = st"

fun client_status :: "recv_error \<Rightarrow> rpc_error" where
  "client_status EOF = Status Unknown (Ext ''EOF'')"
| "client_status ErrUnexpectedEOF = Status Internal (Ext ''unexpected EOF'')"
| "client_status (RecvStatus st) = st"

definition server_decoder :: "bytes \<Rightarrow> decoder" where
  "server_decoder r v =
     (case recvAndDecompress r of
        Inl e \<Rightarrow> Inl (server_status e)
      | Inr d \<Rightarrow> map_sum (\<lambda>e. Status Internal (Errorf ''grpc: error unmarshalling request: %v'' [AErr e])) id
          (unmarshal_request d v))"

definition processUnaryRPC :: "SignerServer \<Rightarrow> string \<Rightarrow> bytes \<Rightarrow> rpc_error + bytes" where
  "processUnaryRPC srv fullMethod r =
     (case handleStream srv fullMethod (server_decoder r) of
        Inl st \<Rightarrow> Inl st
      | Inr reply \<Rightarrow> send_frame ''grpc: trying to send message larger than max (%d vs. %d)'' (marshal_reply reply))"

definition recv :: "bytes \<Rightarrow> rpc_reply \<Rightarrow> rpc_error + rpc_reply" where
  "recv r out =
     (case recvAndDecompress r of
        Inl e \<Rightarrow> Inl (client_status e)
      | Inr d \<Rightarrow> map_sum (\<lambda>e. Status Internal (Errorf ''grpc: failed to unmarshal the received message: %v'' [AErr e])) id
          (unmarshal_reply d out))"

definition Invoke :: "(string \<Rightarrow> bytes \<Rightarrow> rpc_error + bytes) \<Rightarrow> conn" where
  "Invoke peer fullMethod inp out =
     (case send_frame ''trying to send message larger than max (%d vs. %d)'' (marshal_request inp) of
        Inl st \<Rightarrow> Inl st
      | Inr f \<Rightarrow> (case peer fullMethod f of Inl st \<Rightarrow> Inl st | Inr r \<Rightarrow> recv r out))"

definition wire_connect :: "SignerServer \<Rightarrow> conn" where
  "wire_connect srv = Invoke (processUnaryRPC srv)"

section \<open>Frames are read back\<close>

lemma Uint32_PutUint32: "n < 2 ^ 32 \<Longrightarrow> Uint32 (PutUint32 n) = n"
proof -
  assume n: "n < 2 ^ 32"
  have b: "unat (of_nat m :: byte) = m mod 256" for m
    by (simp add: unat_of_nat take_bit_eq_mod)
  define q1 q2 q3 where "q1 = n div 256" "q2 = q1 div 256" "q3 = q2 div 256"
  then have q: "n div 2 ^ 8 = q1" "n div 2 ^ 16 = q2" "n div 2 ^ 24 = q3"
    by (simp_all add: div_mult2_eq [symmetric])
  have "q3 < 256"
    using n unfolding q(3) [symmetric] by (simp add: less_mult_imp_div_less)
  then have "((q3 mod 256 * 256 + q2 mod 256) * 256 + q1 mod 256) * 256 + n mod 256 = n"
    by (simp add: q1_q2_q3_def)
  then show ?thesis
    by (simp add: Uint32_def PutUint32_def b q [simplified])
qed

definition too_large :: "nat \<Rightarrow> rpc_error" where
  "too_large n = Status ResourceExhausted
     (Errorf ''grpc: received message larger than max (%d vs. %d)'' [AInt (int n), AInt 4194304])"

lemma recv_frame:
  assumes "length d < 2 ^ 32"
  shows "recvAndDecompress (frame d) =
    (if length d \<le> 4194304 then Inr d else Inl (RecvStatus (too_large (length d))))"
proof -
  have "take 4 (PutUint32 n @ d) = PutUint32 n" "drop 4 (PutUint32 n @ d) = d" "length (PutUint32 n) = 4" for n
    by (simp_all add: PutUint32_def)
  with Uint32_PutUint32 [OF assms] show ?thesis
    by (auto simp: recvAndDecompress_def recvMsg_def frame_def headerLen_def defaultMaxReceiveMessageSize_def
        checkRecvPayload_def too_large_def Let_def)
qed

section \<open>What a call over the wire returns\<close>

text \<open>How the end that sends, or else the one that receives, refuses a message that is too large.\<close>

definition refused :: "string \<Rightarrow> nat \<Rightarrow> rpc_error" where
  "refused msg n =
     (if n > 2 ^ 32 - 1 then Status ResourceExhausted (Errorf ''grpc: message too large (%d bytes)'' [AInt (int n)])
      else if n > defaultMaxSendMessageSize
      then Status ResourceExhausted (Errorf msg [AInt (int n), AInt (int defaultMaxSendMessageSize)])
      else too_large n)"

lemma refused_code: "\<exists>e. refused msg n = Status ResourceExhausted e"
  by (simp add: refused_def too_large_def)

lemma send_frame_cases:
  "send_frame msg d = (if length d > defaultMaxSendMessageSize then Inl (refused msg (length d)) else Inr (frame d))"
  by (simp add: send_frame_def refused_def defaultMaxSendMessageSize_def)

lemma refused_received: "n \<le> defaultMaxSendMessageSize \<Longrightarrow> refused msg n = too_large n"
  by (simp add: refused_def defaultMaxSendMessageSize_def)

fun new_reply :: "rpc_request \<Rightarrow> rpc_reply" where
  "new_reply (PublicKeyReq _) = PublicKeyReply \<lparr>pkresp_PublicKey = []\<rparr>"
| "new_reply (SignReq _) = SignReply \<lparr>sresp_Signature = []\<rparr>"
| "new_reply (SignPoPReq _) = SignPoPReply \<lparr>presp_Signature = []\<rparr>"

lemma client_call_Invoke: "client_call cc req = cc (method_of req) req (new_reply req)"
  by (cases req) (simp_all add: client_defs)

lemma Unmarshal_message [simp]:
  "length (Marshal field_number v) < 2 ^ 64 \<Longrightarrow> Unmarshal (Some field_number) (Marshal field_number v) = Inr v"
  by (rule Unmarshal_Marshal) (simp_all add: field_number_def Marshal_def AppendBytes_def split: if_splits)

lemma Unmarshal_empty [simp]: "Unmarshal fld [] = Inr []"
  by (simp add: Unmarshal_def)

lemma request_decoded:
  "length (marshal_request req) < 2 ^ 64 \<Longrightarrow> unmarshal_request (marshal_request req) (new_request req) = Inr req"
  by (cases req) simp_all

lemma reply_decoded:
  assumes "call_server srv req = Inr reply" "length (marshal_reply reply) < 2 ^ 64"
  shows "unmarshal_reply (marshal_reply reply) (new_reply req) = Inr reply"
proof (cases req)
  case (PublicKeyReq r)
  with assms show ?thesis by (cases "ss_PublicKey srv r") auto
next
  case (SignReq r)
  with assms show ?thesis by (cases "ss_Sign srv r") auto
next
  case (SignPoPReq r)
  with assms show ?thesis by (cases "ss_SignProofOfPossession srv r") auto
qed

lemma wire_call:
  "client_call (wire_connect srv) req =
    (if length (marshal_request req) > 4194304
     then Inl (refused ''trying to send message larger than max (%d vs. %d)'' (length (marshal_request req)))
     else case call_server srv req of
       Inl st \<Rightarrow> Inl st
     | Inr reply \<Rightarrow>
         if length (marshal_reply reply) > 4194304
         then Inl (refused ''grpc: trying to send message larger than max (%d vs. %d)'' (length (marshal_reply reply)))
         else Inr reply)"
proof -
  let ?d = "marshal_request req"
  have dec: "server_decoder (frame ?d) (new_request req) =
      (if length ?d \<le> 4194304 then Inr req else Inl (too_large (length ?d)))"
    if "length ?d \<le> defaultMaxSendMessageSize"
    using that request_decoded [of req]
    by (simp add: server_decoder_def recv_frame defaultMaxSendMessageSize_def)
  have reply: "recv (frame (marshal_reply reply)) (new_reply req) =
      (if length (marshal_reply reply) \<le> 4194304 then Inr reply else Inl (too_large (length (marshal_reply reply))))"
    if "call_server srv req = Inr reply" "length (marshal_reply reply) \<le> defaultMaxSendMessageSize" for reply
    using that reply_decoded [OF that(1)]
    by (simp add: recv_def recv_frame defaultMaxSendMessageSize_def)
  have lim: "(4194304::nat) \<le> defaultMaxSendMessageSize"
    by (simp add: defaultMaxSendMessageSize_def)
  show ?thesis
  proof (cases "length ?d > defaultMaxSendMessageSize")
    case True
    with lim show ?thesis
      by (simp add: client_call_Invoke wire_connect_def Invoke_def send_frame_cases)
  next
    case False
    with lim dec reply show ?thesis
      by (auto simp: client_call_Invoke wire_connect_def Invoke_def send_frame_cases processUnaryRPC_def
          handleStream_method refused_received split: sum.split)
  qed
qed

text \<open>
  C37. The wire is transparent up to the size limit: a call through a client stub reaches the method of the same
  name on the server with the message it was given and returns what that method returned, when the encoded
  request and reply have at most 4 MiB each; a larger request never reaches the server's method, a larger reply
  never reaches the caller, and either way the caller gets code ResourceExhausted.
\<close>

theorem wire_transparent:
  "client_call (wire_connect srv) req =
    (if length (marshal_request req) > 4194304
     then Inl (refused ''trying to send message larger than max (%d vs. %d)'' (length (marshal_request req)))
     else case call_server srv req of
       Inl st \<Rightarrow> Inl st
     | Inr reply \<Rightarrow>
         if length (marshal_reply reply) > 4194304
         then Inl (refused ''grpc: trying to send message larger than max (%d vs. %d)'' (length (marshal_reply reply)))
         else Inr reply)"
  by (rule wire_call)

section \<open>Other clients\<close>

text \<open>
  A client built from another version of \<open>signer.proto\<close> may send further fields, and fields repeatedly: the server
  takes the last value of field 1 and ignores what it does not know.
\<close>

definition encode_fields :: "(nat \<times> bytes) list \<Rightarrow> bytes" where
  "encode_fields fs = concat (map (\<lambda>(num, v). AppendVarint (EncodeTag num 2) @ AppendBytes v) fs)"

definition last_value :: "nat \<Rightarrow> bytes \<Rightarrow> (nat \<times> bytes) list \<Rightarrow> bytes" where
  "last_value num cur fs = foldl (\<lambda>c (n, v). if n = num then v else c) cur fs"

lemma unmarshal_encode_fields:
  "\<forall>(n, v) \<in> set fs. 1 \<le> n \<and> n \<le> 2 ^ 29 - 1 \<and> length v < 2 ^ 64 \<Longrightarrow>
     unmarshal_fields (Some num) cur (encode_fields fs) = Inr (last_value num cur fs)"
proof (induction fs arbitrary: cur)
  case (Cons f fs)
  obtain n v where f: "f = (n, v)" by fastforce
  with Cons show ?case
    using unmarshal_field [of n v "Some num" cur "encode_fields fs"]
    by (simp add: encode_fields_def last_value_def)
qed (simp add: encode_fields_def last_value_def)

text \<open>
  What is signed for a request from any protobuf client: when the request's fields are byte strings under
  valid numbers and the encoding fits, the server calls the method with the last value of field 1, the empty
  message when there is none.
\<close>

lemma last_message_signed:
  assumes "\<forall>(n, v) \<in> set fs. 1 \<le> n \<and> n \<le> 2 ^ 29 - 1" "length (encode_fields fs) \<le> 4194304"
  shows "handleStream srv Signer_Sign_FullMethodName (server_decoder (frame (encode_fields fs))) =
    call_server srv (SignReq \<lparr>sreq_Message = last_value field_number [] fs\<rparr>)"
proof -
  have "length v \<le> length (encode_fields fs)" if "(n, v) \<in> set fs" for n v
    using that by (induction fs) (auto simp: encode_fields_def AppendBytes_def)
  with assms have fs: "\<forall>(n, v) \<in> set fs. 1 \<le> n \<and> n \<le> 2 ^ 29 - 1 \<and> length v < 2 ^ 64"
    by fastforce
  have "Unmarshal (Some field_number) (encode_fields fs) = Inr (last_value field_number [] fs)"
    using unmarshal_encode_fields [OF fs] by (simp add: Unmarshal_def)
  with assms(2) show ?thesis
    by (simp add: routes handler_defs server_decoder_def recv_frame)
qed

section \<open>A backend behind the wire\<close>

fun message_of :: "rpc_request \<Rightarrow> bytes" where
  "message_of (PublicKeyReq _) = []"
| "message_of (SignReq r) = sreq_Message r"
| "message_of (SignPoPReq r) = preq_Message r"

lemma Marshal_fits: "length (Marshal field_number v) \<le> 4194304 \<longleftrightarrow> length v \<le> 4194299"
proof (cases "length v < 2 ^ 21")
  case True
  with length_Marshal(1) [of v] show ?thesis by (simp add: field_number_def)
next
  case False
  with length_Marshal(2,3) [of v] show ?thesis
    by (cases "length v < 2 ^ 28") (auto simp: field_number_def)
qed

lemma request_fits: "length (marshal_request req) \<le> 4194304 \<longleftrightarrow> length (message_of req) \<le> 4194299"
  by (cases req) (simp_all add: Marshal_fits)

lemma expected_reply_fits: "length (marshal_reply (expected_reply B sk req)) \<le> 4194304"
  by (cases req) (simp_all add: Marshal_fits)

context signing_backend
begin

lemma wire_expected:
  assumes "holds b sk"
  shows "client_call (wire_connect (Server_methods (Server_New M b))) req =
    (if length (message_of req) \<le> 4194299 then Inr (expected_reply B sk req)
     else Inl (refused ''trying to send message larger than max (%d vs. %d)'' (length (marshal_request req))))"
  using reply_expected [OF assms, of req] request_fits [of req] expected_reply_fits [of B sk req]
  by (auto simp: wire_call reply_of_def not_le)

end

end
