(* ===== verification/Main_Cmd.thy ===== *)
theory Main_Cmd
  imports Backend_Memory Keytool_Roundtrip Nitro_Enclave Signer_Wire
begin

text \<open>
  Package \<open>main\<close>: the commands. The command-line library is a parameter of the model as its result: the flags
  given on the command line, as a map from names to values, and the zero value or the registered default for
  the others. What the commands use from outside is collected in \<open>deps\<close>, and the machine they act on has
  the files, the Vault server and the enclave host.
\<close>

section \<open>What the commands run on\<close>

record ('p1, 'p2, 'v, 'n) deps =
  dp_blst :: "('p1, 'p2) blst"
  dp_rnd :: "bytes result"
  dp_clouds :: kms_clouds
  dp_vault :: "'v vault_api"
  dp_nitro :: "'n nitro_env"
  dp_uni :: "string \<Rightarrow> string"
  dp_unmarshal :: "bytes \<Rightarrow> Config \<Rightarrow> Config result"
  dp_env :: "string \<Rightarrow> string"

record ('v, 'n) machine =
  mc_os :: os_state
  mc_vault :: 'v
  mc_nitro :: 'n

definition load_config :: "('p1, 'p2, 'v, 'n) deps \<Rightarrow> os_state \<Rightarrow> string \<Rightarrow> Config result" where
  "load_config D S path = Load (dp_uni D) (dp_unmarshal D) (dp_env D) S path"

section \<open>The backend factory\<close>

datatype built =
    BMemory memory_Backend
  | BAWSKMS awskms_Backend
  | BGCPKMS gcpkms_Backend
  | BAzureKV azurekv_Backend
  | BVault vault_Backend
  | BNitro nitro_Backend

fun built_name :: "built \<Rightarrow> string" where
  "built_name (BMemory _) = BackendMemory"
| "built_name (BAWSKMS _) = BackendAWSKMS"
| "built_name (BGCPKMS _) = BackendGCPKMS"
| "built_name (BAzureKV _) = BackendAzureKV"
| "built_name (BVault _) = BackendVault"
| "built_name (BNitro _) = BackendAWSNitro"

text \<open>A \<open>*Backend\<close> of one package with its error, returned as the interface type.\<close>

definition as_built :: "('b \<Rightarrow> built) \<Rightarrow> 'b result \<Rightarrow> built result" where
  "as_built K r = and_then r (\<lambda>b. Inr (K b))"

text \<open>\<open>None\<close> when the backend never finishes starting (only the enclave's polling could do so).\<close>

definition buildBackend ::
  "('p1, 'p2, 'v, 'n) deps \<Rightarrow> ('v, 'n) machine \<Rightarrow> Config \<Rightarrow> (('v, 'n) machine \<times> built result) option" where
  "buildBackend D m cfg =
     (let B = dp_blst D; C = dp_clouds D; S = mc_os m in
      if cfg_Backend cfg = BackendMemory then Some (m, as_built BMemory (memory_New B (dp_rnd D)))
      else if cfg_Backend cfg = BackendAWSKMS then Some (m, as_built BAWSKMS (awskms_New B (cl_AWS C) S (cfg_AWS cfg)))
      else if cfg_Backend cfg = BackendGCPKMS then Some (m, as_built BGCPKMS (gcpkms_New B (cl_GCP C) S (cfg_GCP cfg)))
      else if cfg_Backend cfg = BackendAzureKV then Some (m, as_built BAzureKV (azurekv_New B (cl_Azure C) S (cfg_Azure cfg)))
      else if cfg_Backend cfg = BackendVault then
        (let (v, r) = vault_New (dp_vault D) S (mc_vault m) (cfg_Vault cfg)
         in Some (m\<lparr>mc_vault := v\<rparr>, as_built BVault r))
      else if cfg_Backend cfg = BackendAWSNitro then
        map_option (\<lambda>(n, r). (m\<lparr>mc_nitro := n\<rparr>, as_built BNitro r)) (nitro_New (dp_nitro D) (mc_nitro m) (cfg_Nitro cfg))
      else Some (m, Inl (Errorf (''unknown backend %q '' @ dash @ '' valid options: memory, aws-kms, gcp-kms, azure-kv'')
             [AStr (cfg_Backend cfg)])))"

text \<open>
  The backend interface of a value of the factory: each method of the interface is the method of the
  backend inside. As for the Vault and Nitro backends, the operations are taken at a state of their server.
\<close>

definition built_ops :: "('p1, 'p2) blst \<Rightarrow> 'v vault_api \<Rightarrow> 'v \<Rightarrow> 'n nitro_env \<Rightarrow> 'n \<Rightarrow> built Backend" where
  "built_ops B api v N n = \<lparr>
     be_PublicKey = (\<lambda>b. case b of BMemory k \<Rightarrow> be_PublicKey (memory_ops B) k
        | BAWSKMS k \<Rightarrow> be_PublicKey (awskms_ops B) k | BGCPKMS k \<Rightarrow> be_PublicKey (gcpkms_ops B) k
        | BAzureKV k \<Rightarrow> be_PublicKey (azurekv_ops B) k | BVault k \<Rightarrow> be_PublicKey (vault_ops api v) k
        | BNitro k \<Rightarrow> be_PublicKey (nitro_ops N n) k),
     be_Sign = (\<lambda>b. case b of BMemory k \<Rightarrow> be_Sign (memory_ops B) k
        | BAWSKMS k \<Rightarrow> be_Sign (awskms_ops B) k | BGCPKMS k \<Rightarrow> be_Sign (gcpkms_ops B) k
        | BAzureKV k \<Rightarrow> be_Sign (azurekv_ops B) k | BVault k \<Rightarrow> be_Sign (vault_ops api v) k
        | BNitro k \<Rightarrow> be_Sign (nitro_ops N n) k),
     be_SignProofOfPossession = (\<lambda>b. case b of BMemory k \<Rightarrow> be_SignProofOfPossession (memory_ops B) k
        | BAWSKMS k \<Rightarrow> be_SignProofOfPossession (awskms_ops B) k
        | BGCPKMS k \<Rightarrow> be_SignProofOfPossession (gcpkms_ops B) k
        | BAzureKV k \<Rightarrow> be_SignProofOfPossession (azurekv_ops B) k
        | BVault k \<Rightarrow> be_SignProofOfPossession (vault_ops api v) k
        | BNitro k \<Rightarrow> be_SignProofOfPossession (nitro_ops N n) k),
     be_Close = (\<lambda>b. case b of BMemory k \<Rightarrow> map_prod BMemory id (be_Close (memory_ops B) k)
        | BAWSKMS k \<Rightarrow> map_prod BAWSKMS id (be_Close (awskms_ops B) k)
        | BGCPKMS k \<Rightarrow> map_prod BGCPKMS id (be_Close (gcpkms_ops B) k)
        | BAzureKV k \<Rightarrow> map_prod BAzureKV id (be_Close (azurekv_ops B) k)
        | BVault k \<Rightarrow> map_prod BVault id (be_Close (vault_ops api v) k)
        | BNitro k \<Rightarrow> map_prod BNitro id (be_Close (nitro_ops N n) k)),
     be_CloseLog = (\<lambda>b. case b of BMemory k \<Rightarrow> be_CloseLog (memory_ops B) k
        | BAWSKMS k \<Rightarrow> be_CloseLog (awskms_ops B) k | BGCPKMS k \<Rightarrow> be_CloseLog (gcpkms_ops B) k
        | BAzureKV k \<Rightarrow> be_CloseLog (azurekv_ops B) k | BVault k \<Rightarrow> be_CloseLog (vault_ops api v) k
        | BNitro k \<Rightarrow> be_CloseLog (nitro_ops N n) k)\<rparr>"

section \<open>serve\<close>

record serve_flags =
  sf_config_file :: string
  sf_backend :: string
  sf_port :: int
  sf_listen :: string
  sf_aws_endpoint_url :: string

definition serve_config ::
  "('p1, 'p2, 'v, 'n) deps \<Rightarrow> os_state \<Rightarrow> serve_flags \<Rightarrow> Config result" where
  "serve_config D S fl =
     and_then (wrapf (\<lambda>e. Errorf ''loading config: %w'' [AErr e]) (load_config D S (sf_config_file fl))) (\<lambda>cfg.
     let cfg = override (sf_backend fl) cfg_Backend_update cfg;
         cfg = (if sf_port fl \<noteq> 0 then cfg\<lparr>cfg_Port := sf_port fl\<rparr> else cfg);
         cfg = override (sf_listen fl) cfg_Listen_update cfg
     in Inr (cfg\<lparr>cfg_AWS := override (sf_aws_endpoint_url fl) aws_EndpointURL_update (cfg_AWS cfg)\<rparr>))"

text \<open>
  The command up to the running server: the address it listens on and the backend behind the service. What
  follows is \<open>ListenAndServe\<close> and the deferred \<open>Close\<close>, the step relation of theory \<open>Signer_Server\<close>.
\<close>

definition serve_start ::
  "('p1, 'p2, 'v, 'n) deps \<Rightarrow> ('v, 'n) machine \<Rightarrow> serve_flags \<Rightarrow>
    (('v, 'n) machine \<times> (string \<times> built) result) option" where
  "serve_start D m fl =
     (case serve_config D (mc_os m) fl of
        Inl e \<Rightarrow> Some (m, Inl e)
      | Inr cfg \<Rightarrow>
          map_option (\<lambda>(m', r). (m',
              and_then (wrapf (\<lambda>e. Errorf ''building backend %q: %w'' [AStr (cfg_Backend cfg), AErr e]) r)
                (\<lambda>b. Inr (Addr cfg, b))))
            (buildBackend D m cfg))"

section \<open>keytool\<close>

text \<open>The flags of \<open>commonKMSFlags\<close> with their registered defaults.\<close>

definition commonKMSFlags :: "(string \<times> string) list" where
  "commonKMSFlags =
    [(''config-file'', []), (''backend'', []),
     (''aws-region'', []), (''aws-kms-key-id'', []), (''aws-endpoint-url'', []),
     (''gcp-project'', []), (''gcp-location'', []), (''gcp-key-ring'', []), (''gcp-key-name'', []),
     (''azure-vault-url'', []), (''azure-key-name'', []),
     (''vault-addr'', []), (''vault-token'', []), (''vault-mount-path'', ''bls''), (''vault-key-name'', [])]"

definition GetString :: "(string \<rightharpoonup> string) \<Rightarrow> string \<Rightarrow> string" where
  "GetString given name =
     (case given name of Some v \<Rightarrow> v
      | None \<Rightarrow> (case map_of commonKMSFlags name of Some dflt \<Rightarrow> dflt | None \<Rightarrow> []))"

definition override_AWS :: "(string \<rightharpoonup> string) \<Rightarrow> AWSConfig \<Rightarrow> AWSConfig" where
  "override_AWS given a =
     (let a = override (GetString given ''aws-region'') aws_Region_update a;
          a = override (GetString given ''aws-kms-key-id'') aws_KMSKeyID_update a
      in override (GetString given ''aws-endpoint-url'') aws_EndpointURL_update a)"

definition override_GCP :: "(string \<rightharpoonup> string) \<Rightarrow> GCPConfig \<Rightarrow> GCPConfig" where
  "override_GCP given g =
     (let g = override (GetString given ''gcp-project'') gcp_Project_update g;
          g = override (GetString given ''gcp-location'') gcp_Location_update g;
          g = override (GetString given ''gcp-key-ring'') gcp_KeyRing_update g
      in override (GetString given ''gcp-key-name'') gcp_KeyName_update g)"

definition override_Azure :: "(string \<rightharpoonup> string) \<Rightarrow> AzureConfig \<Rightarrow> AzureConfig" where
  "override_Azure given a =
     (let a = override (GetString given ''azure-vault-url'') azure_VaultURL_update a
      in override (GetString given ''azure-key-name'') azure_KeyName_update a)"

definition override_Vault :: "(string \<rightharpoonup> string) \<Rightarrow> VaultConfig \<Rightarrow> VaultConfig" where
  "override_Vault given w =
     (let w = override (GetString given ''vault-addr'') vault_Address_update w;
          w = override (GetString given ''vault-token'') vault_Token_update w;
          w = override (GetString given ''vault-mount-path'') vault_MountPath_update w
      in override (GetString given ''vault-key-name'') vault_KeyName_update w)"

definition resolveKMSConfig ::
  "('p1, 'p2, 'v, 'n) deps \<Rightarrow> os_state \<Rightarrow> (string \<rightharpoonup> string) \<Rightarrow> Config result" where
  "resolveKMSConfig D S given =
     and_then (wrapf (\<lambda>e. Errorf ''loading config file: %w'' [AErr e])
                 (load_config D S (GetString given ''config-file''))) (\<lambda>cfg.
     let cfg = override (GetString given ''backend'') cfg_Backend_update cfg;
         cfg = cfg\<lparr>cfg_AWS := override_AWS given (cfg_AWS cfg)\<rparr>;
         cfg = cfg\<lparr>cfg_GCP := override_GCP given (cfg_GCP cfg)\<rparr>;
         cfg = cfg\<lparr>cfg_Azure := override_Azure given (cfg_Azure cfg)\<rparr>
     in Inr (cfg\<lparr>cfg_Vault := override_Vault given (cfg_Vault cfg)\<rparr>))"

definition err_output_required :: "string \<Rightarrow> goerr" where
  "err_output_required backend = Errorf ''--output is required for backend %q'' [AStr backend]"

definition propagate_output :: "Config \<Rightarrow> string \<Rightarrow> Config" where
  "propagate_output cfg output =
     (if cfg_Backend cfg = BackendAWSKMS then cfg\<lparr>cfg_AWS := (cfg_AWS cfg)\<lparr>aws_EncryptedBLSKeyPath := output\<rparr>\<rparr>
      else if cfg_Backend cfg = BackendGCPKMS then cfg\<lparr>cfg_GCP := (cfg_GCP cfg)\<lparr>gcp_EncryptedBLSKeyPath := output\<rparr>\<rparr>
      else if cfg_Backend cfg = BackendAzureKV then cfg\<lparr>cfg_Azure := (cfg_Azure cfg)\<lparr>azure_EncryptedBLSKeyPath := output\<rparr>\<rparr>
      else cfg)"

text \<open>
  What a command prints of the operation: where the key is, its public key and, for a migration, that the
  plaintext was deleted. The fixed lines of advice are left out.
\<close>

datatype printed = InVault string string | WrittenTo string | PublicKeyHex string | Deleted string

definition keytoolGenerateCmd ::
  "('p1, 'p2, 'v, 'n) deps \<Rightarrow> ('v, 'n) machine \<Rightarrow> (string \<rightharpoonup> string) \<Rightarrow> ('v, 'n) machine \<times> printed list result" where
  "keytoolGenerateCmd D m given =
     (case resolveKMSConfig D (mc_os m) given of
        Inl e \<Rightarrow> (m, Inl e)
      | Inr cfg \<Rightarrow>
         (let isVault = (cfg_Backend cfg = BackendVault); output = GetString given ''output'' in
          if \<not> isVault \<and> output = [] then (m, Inl (err_output_required (cfg_Backend cfg)))
          else
           (let cfg = propagate_output cfg output;
                (S', v', r) = keytool_Generate (dp_blst D) (dp_rnd D) (dp_clouds D) (dp_vault D) (mc_os m) (mc_vault m)
                  \<lparr>go_Backend = cfg_Backend cfg, go_OutputPath = output, go_AWS = cfg_AWS cfg, go_GCP = cfg_GCP cfg,
                   go_Azure = cfg_Azure cfg, go_Vault = cfg_Vault cfg\<rparr>
            in (m\<lparr>mc_os := S', mc_vault := v'\<rparr>,
                and_then r (\<lambda>pkHex.
                Inr [if isVault then InVault (vault_MountPath (cfg_Vault cfg)) (vault_KeyName (cfg_Vault cfg))
                     else WrittenTo output,
                     PublicKeyHex pkHex])))))"

definition keytoolMigrateCmd ::
  "('p1, 'p2, 'v, 'n) deps \<Rightarrow> ('v, 'n) machine \<Rightarrow> (string \<rightharpoonup> string) \<Rightarrow> bool \<Rightarrow>
    ('v, 'n) machine \<times> printed list result" where
  "keytoolMigrateCmd D m given deleteInput =
     (case resolveKMSConfig D (mc_os m) given of
        Inl e \<Rightarrow> (m, Inl e)
      | Inr cfg \<Rightarrow>
         (let input = GetString given ''input''; output = GetString given ''output'';
              isVault = (cfg_Backend cfg = BackendVault) in
          if \<not> isVault \<and> output = [] then (m, Inl (err_output_required (cfg_Backend cfg)))
          else
           (let (S', v', r) = keytool_Migrate (dp_blst D) (dp_clouds D) (dp_vault D) (mc_os m) (mc_vault m)
                  \<lparr>mo_Backend = cfg_Backend cfg, mo_InputPath = input, mo_OutputPath = output,
                   mo_DeleteInput = deleteInput, mo_AWS = cfg_AWS cfg, mo_GCP = cfg_GCP cfg,
                   mo_Azure = cfg_Azure cfg, mo_Vault = cfg_Vault cfg\<rparr>
            in (m\<lparr>mc_os := S', mc_vault := v'\<rparr>,
                and_then r (\<lambda>pkHex.
                Inr ([if isVault then InVault (vault_MountPath (cfg_Vault cfg)) (vault_KeyName (cfg_Vault cfg))
                      else WrittenTo output,
                      PublicKeyHex pkHex] @ (if deleteInput then [Deleted input] else [])))))))"

section \<open>The command line\<close>

text \<open>
  \<open>MarkFlagRequired\<close>: the library refuses to run a command with a required flag missing; the names it reports
  come in alphabetical order. Given with an empty value a flag counts as set. \<open>main\<close> turns any error into
  exit status 1.
\<close>

fun strings_Join :: "string list \<Rightarrow> string \<Rightarrow> string" where
  "strings_Join [] sep = []"
| "strings_Join [x] sep = x"
| "strings_Join (x # xs) sep = x @ sep @ strings_Join xs sep"

definition required_flags :: "string list \<Rightarrow> (string \<rightharpoonup> string) \<Rightarrow> goerr option" where
  "required_flags names given =
     (let missing = [n \<leftarrow> names. given n = None]; q = [CHR 0x22] in
      if missing = [] then None
      else Some (Errorf (''required flag(s) '' @ q @ ''%s'' @ q @ '' not set'') [AStr (strings_Join missing (q @ '', '' @ q))]))"

datatype keytool_command = KGenerate | KMigrate bool

definition keytool_run ::
  "('p1, 'p2, 'v, 'n) deps \<Rightarrow> ('v, 'n) machine \<Rightarrow> keytool_command \<Rightarrow> (string \<rightharpoonup> string) \<Rightarrow>
    ('v, 'n) machine \<times> printed list result" where
  "keytool_run D m cmd given =
     (case required_flags (case cmd of KGenerate \<Rightarrow> [''backend''] | KMigrate _ \<Rightarrow> [''backend'', ''input'']) given of
        Some e \<Rightarrow> (m, Inl e)
      | None \<Rightarrow> (case cmd of KGenerate \<Rightarrow> keytoolGenerateCmd D m given
                  | KMigrate deleteInput \<Rightarrow> keytoolMigrateCmd D m given deleteInput))"

definition main_exit :: "'a result \<Rightarrow> int" where
  "main_exit r = (if is_ok r then 0 else 1)"

end
