(* ===== verification/Signer_Spec.thy ===== *)
theory Signer_Spec
  imports Signer_Server
begin

text \<open>
  What the server promises to the outside, as an automaton over the events of a run, and the proof that every run of
  the server over a backend with its key in memory is one of the automaton's: a refinement, by a simulation between
  the two states. Then the end of a run: once the context is cancelled the server cannot go on for ever by itself.
\<close>

section \<open>Runs\<close>

inductive serve_trace :: "(bool \<Rightarrow> 's Backend set) \<Rightarrow> string \<Rightarrow> 's \<Rightarrow> event list \<Rightarrow> 's serve_state \<Rightarrow> bool"
  for E :: "bool \<Rightarrow> 's Backend set" and addr :: string and b :: 's where
  begin_run: "serve_trace E addr b [] (serve_init addr b)"
| more: "serve_trace E addr b tr s \<Longrightarrow> M \<in> E (closed s) \<Longrightarrow> serve_step M s evs t \<Longrightarrow> serve_trace E addr b (tr @ evs) t"

lemma serve_trace_reach: "serve_trace E addr b tr s \<Longrightarrow> serve_reach E b s"
  by (induction rule: serve_trace.induct) (auto intro: serve_reach.intros)

lemma serve_reach_trace: "serve_reach E b s \<Longrightarrow> \<exists>tr addr. serve_trace E addr b tr s"
  by (induction rule: serve_reach.induct) (auto intro: serve_trace.intros)

section \<open>What a trace says of the calls\<close>

fun called :: "event list \<Rightarrow> rpc_request multiset" where
  "called [] = {#}"
| "called (e # es) = (case e of Called r \<Rightarrow> add_mset r (called es) | _ \<Rightarrow> called es)"

fun replied :: "event list \<Rightarrow> rpc_request multiset" where
  "replied [] = {#}"
| "replied (e # es) = (case e of Replied r x \<Rightarrow> add_mset r (replied es) | _ \<Rightarrow> replied es)"

lemma called_append [simp]: "called (es @ fs) = called es + called fs"
  by (induction es) (auto split: event.split)

lemma replied_append [simp]: "replied (es @ fs) = replied es + replied fs"
  by (induction es) (auto split: event.split)

lemma logs_no_calls [simp]: "called (map Logged ls) = {#}" "replied (map Logged ls) = {#}"
  by (induction ls) simp_all

lemma step_calls:
  "serve_step M s evs t \<Longrightarrow> arrived t = arrived s + called evs
     \<and> image_mset fst (answers t) = image_mset fst (answers s) + replied evs"
  by (erule serve_step_cases) simp_all

lemma trace_calls:
  "serve_trace E addr b tr s \<Longrightarrow> called tr = arrived s \<and> replied tr = image_mset fst (answers s)"
proof (induction rule: serve_trace.induct)
  case begin_run
  show ?case by (simp add: serve_init_def)
next
  case (more tr s M evs t)
  from step_calls [OF more.hyps(3)] more.IH show ?case by simp
qed

lemma trace_exit: "serve_trace E addr b tr s \<Longrightarrow> ExitStatus n \<in> set tr \<longleftrightarrow> exited s = Some n"
proof (induction rule: serve_trace.induct)
  case begin_run
  show ?case by (simp add: serve_init_def)
next
  case (more tr s M evs t)
  from more.hyps(3) have "exited s = None" "ExitStatus n \<in> set evs \<longleftrightarrow> exited t = Some n"
    by (auto elim!: serve_step_cases)
  with more.IH show ?case by auto
qed

lemma trace_bookkeeping:
  assumes "serve_trace E addr b tr s"
  shows "called tr = replied tr + inflight s \<and> (ExitStatus 0 \<in> set tr \<longrightarrow> called tr = replied tr)"
proof -
  note inv = serve_reach_inv [OF serve_trace_reach [OF assms]] and c = trace_calls [OF assms]
  from inv c have *: "called tr = replied tr + inflight s" by (simp add: inv_defs)
  have "inflight s = {#}" if "ExitStatus 0 \<in> set tr"
    using that trace_exit [OF assms] inv by (auto simp: inv_defs exit_status_def split: if_splits)
  with * show ?thesis by auto
qed

text \<open>An ordinary run: the server is told to stop after the calls \<open>rs\<close> have been answered one by one.\<close>

definition answered :: "'s Backend \<Rightarrow> 's \<Rightarrow> rpc_request \<Rightarrow> event list" where
  "answered M b r = Called r # map Logged (handler_log (Server_New M b) r) @ [Replied r (reply_of M b r)]"

definition served_run :: "'s Backend \<Rightarrow> string \<Rightarrow> 's \<Rightarrow> rpc_request list \<Rightarrow> event list" where
  "served_run M addr b rs =
     Logged (listen_line addr) # concat (map (answered M b) rs)
       @ Signalled # Logged stop_line # map Logged (closing_log M b) @ [ExitStatus 0]"

lemma calls_trace:
  assumes "serve_trace E addr b tr s" "M \<in> E False"
    and "phase s = Listening" "exited s = None" "bk s = b" "inflight s = {#}" "\<not> closed s"
  shows "\<exists>t. serve_trace E addr b (tr @ concat (map (answered M b) rs)) t
    \<and> phase t = Listening \<and> exited t = None \<and> bk t = b \<and> inflight t = {#} \<and> \<not> closed t
    \<and> (cancelled t, stopping t, serve_err t) = (cancelled s, stopping s, serve_err s)"
  using assms
proof (induction rs arbitrary: tr s)
  case Nil
  then show ?case by auto
next
  case (Cons r rs)
  let ?u = "s\<lparr>inflight := add_mset r (inflight s), arrived := add_mset r (arrived s)\<rparr>"
  have 1: "serve_trace E addr b (tr @ [Called r]) ?u"
    using Cons.prems by (intro serve_trace.more [OF Cons.prems(1) _ serve_step.arrive [where M = M]]) simp_all
  from serve_trace.more [OF 1 _ serve_step.answer [of ?u r M]] Cons.prems
  have "serve_trace E addr b (tr @ answered M b r)
      (?u\<lparr>inflight := inflight ?u - {#r#}, answers := add_mset (r, reply_of M b r) (answers ?u)\<rparr>)"
    by (simp add: answered_def)
  from Cons.IH [OF this] Cons.prems(2-7) show ?case by auto
qed

lemma listening_trace:
  assumes "M \<in> E False"
  shows "serve_trace E addr b [Logged (listen_line addr)] ((serve_init addr b)\<lparr>phase := Announced\<rparr>)"
  using assms serve_trace.more [OF serve_trace.begin_run _ serve_step.announce [of "serve_init addr b" M]]
  by (simp add: serve_init_def)

lemma ending_trace:
  assumes "serve_trace E addr b tr s" "M \<in> E False" "M' \<in> E True"
    and "phase s = Returned" "cancelled s" "\<not> closed s" "exited s = None" "bk s = b"
  shows "\<exists>t. serve_trace E addr b (tr @ map Logged (closing_log M b) @ [ExitStatus (exit_status s)]) t
    \<and> exited t = Some (exit_status s)"
proof -
  note 1 = serve_trace.more [OF assms(1) _ serve_step.close [where M = M]]
  note 2 = serve_trace.more [OF 1 _ serve_step.exit [where M = M']]
  from 2 assms(2-8) show ?thesis
    by (fastforce simp: exit_status_def)
qed

lemma served_run_trace:
  assumes "M \<in> E False" "M' \<in> E True"
  shows "\<exists>s. serve_trace E addr b (served_run M addr b rs) s \<and> exited s = Some 0"
proof -
  let ?s = "(serve_init addr b)\<lparr>phase := Announced\<rparr>"
  have 2: "serve_trace E addr b ([Logged (listen_line addr)] @ []) (?s\<lparr>phase := Listening\<rparr>)"
    by (rule serve_trace.more [OF listening_trace [of M E addr b] _ serve_step.serve [where M = M]])
      (simp_all add: serve_init_def assms)
  from calls_trace [OF 2 assms(1), of rs] obtain t where t:
    "serve_trace E addr b (Logged (listen_line addr) # concat (map (answered M b) rs)) t"
    "phase t = Listening" "exited t = None" "bk t = b" "inflight t = {#}" "\<not> closed t" "\<not> cancelled t" "\<not> stopping t"
    "serve_err t = None"
    by (auto simp: serve_init_def)
  note 3 = serve_trace.more [OF t(1) _ serve_step.signal [where M = M]]
  note 4 = serve_trace.more [OF 3 _ serve_step.stop [where M = M]]
  note 5 = serve_trace.more [OF 4 _ serve_step.drained [where M = M]]
  note 6 = ending_trace [OF 5 assms]
  from 6 t(2-9) assms(1) show ?thesis
    by (auto simp: served_run_def exit_status_def)
qed

text \<open>
  A run in which the signal comes between \<open>net.Listen\<close> and \<open>Serve\<close>: the library refuses to serve on a server that
  has been stopped, so the process that was asked to stop reports a failure.
\<close>

lemma early_stop_trace:
  assumes "M \<in> E False" "M' \<in> E True"
  shows "\<exists>s. serve_trace E addr b ([Logged (listen_line addr), Signalled, Logged stop_line]
     @ map Logged (closing_log M b) @ [ExitStatus 1]) s"
proof -
  note 1 = listening_trace [of M E addr b, OF assms(1)]
  note 2 = serve_trace.more [OF 1 _ serve_step.signal [where M = M]]
  note 3 = serve_trace.more [OF 2 _ serve_step.stop [where M = M]]
  note 4 = serve_trace.more [OF 3 _ serve_step.refused [where M = M]]
  note 5 = ending_trace [OF 4 assms]
  from 5 assms(1) show ?thesis by (auto simp: serve_init_def exit_status_def)
qed

section \<open>The automaton\<close>

text \<open>
  What an abstract signer is: its address, what it answers, and what it may answer and log once accepting connections
  has failed and its backend may have been closed under the calls, and when it closes the backend.
\<close>

record signer_spec =
  sp_addr :: string
  sp_reply :: "rpc_request \<Rightarrow> rpc_reply"
  sp_late :: "rpc_request \<Rightarrow> rpc_error + rpc_reply \<Rightarrow> bool"
  sp_late_line :: "log_line \<Rightarrow> bool"
  sp_closing :: "log_line \<Rightarrow> bool"

text \<open>
  \<open>sg_pending\<close> are the calls without an answer, \<open>sg_taken\<close> that there has been a call at all. The exit status is 1 when
  accepting failed; otherwise the process was told to stop and every call has its answer, and the status is 0, or 1
  if there has been no call.
\<close>

record signer =
  sg_pending :: "rpc_request multiset"
  sg_taken :: bool
  sg_stop :: bool
  sg_failed :: bool
  sg_exit :: "int option"

definition signer_init :: signer where
  "signer_init = \<lparr>sg_pending = {#}, sg_taken = False, sg_stop = False, sg_failed = False, sg_exit = None\<rparr>"

definition may_log :: "signer_spec \<Rightarrow> signer \<Rightarrow> log_line \<Rightarrow> bool" where
  "may_log P a l \<longleftrightarrow> l = listen_line (sp_addr P) \<and> \<not> sg_taken a
     \<or> (l = stop_line \<or> sp_closing P l) \<and> (sg_stop a \<or> sg_failed a)
     \<or> sp_late_line P l \<and> sg_failed a"

definition may_reply :: "signer_spec \<Rightarrow> signer \<Rightarrow> rpc_request \<Rightarrow> rpc_error + rpc_reply \<Rightarrow> bool" where
  "may_reply P a r x \<longleftrightarrow> r \<in># sg_pending a \<and> (x = Inr (sp_reply P r) \<or> sg_failed a \<and> sp_late P r x)"

definition may_exit :: "signer \<Rightarrow> int \<Rightarrow> bool" where
  "may_exit a n \<longleftrightarrow> (if sg_failed a then n = 1
     else sg_stop a \<and> sg_pending a = {#} \<and> (n = 0 \<or> n = 1 \<and> \<not> sg_taken a))"

fun signer_step :: "signer_spec \<Rightarrow> signer \<Rightarrow> event \<Rightarrow> signer option" where
  "signer_step P a (Called r) = Some (a\<lparr>sg_pending := add_mset r (sg_pending a), sg_taken := True\<rparr>)"
| "signer_step P a (Replied r x) =
     (if may_reply P a r x then Some (a\<lparr>sg_pending := sg_pending a - {#r#}\<rparr>) else None)"
| "signer_step P a (Logged l) = (if may_log P a l then Some a else None)"
| "signer_step P a Signalled = (if sg_stop a then None else Some (a\<lparr>sg_stop := True\<rparr>))"
| "signer_step P a AcceptFailed = (if sg_failed a then None else Some (a\<lparr>sg_failed := True\<rparr>))"
| "signer_step P a (ExitStatus n) = (if may_exit a n then Some (a\<lparr>sg_exit := Some n\<rparr>) else None)"

text \<open>Nothing happens after the exit.\<close>

fun signer_run :: "signer_spec \<Rightarrow> signer \<Rightarrow> event list \<Rightarrow> signer option" where
  "signer_run P a [] = Some a"
| "signer_run P a (e # es) =
     (if sg_exit a \<noteq> None then None
      else case signer_step P a e of None \<Rightarrow> None | Some a' \<Rightarrow> signer_run P a' es)"

lemma signer_run_append:
  "signer_run P a (es @ fs) = (case signer_run P a es of None \<Rightarrow> None | Some a' \<Rightarrow> signer_run P a' fs)"
  by (induction es arbitrary: a) (auto split: option.split)

lemma signer_run_logs:
  "sg_exit a = None \<Longrightarrow> list_all (may_log P a) ls \<Longrightarrow> signer_run P a (map Logged ls) = Some a"
  by (induction ls) auto

section \<open>The simulation\<close>

definition sim :: "signer \<Rightarrow> 's serve_state \<Rightarrow> bool" where
  "sim a s \<longleftrightarrow> sg_pending a = inflight s \<and> (sg_taken a \<longleftrightarrow> arrived s \<noteq> {#}) \<and> sg_exit a = exited s
     \<and> (sg_failed a \<longleftrightarrow> serve_err s = Some AcceptError)
     \<and> (sg_stop a \<longrightarrow> cancelled s) \<and> (cancelled s \<longrightarrow> sg_stop a \<or> serve_err s = Some AcceptError)"

lemma step_laddr: "serve_step M s evs t \<Longrightarrow> laddr t = laddr s"
  by (erule serve_step_cases) simp_all

text \<open>
  What a backend has to promise for that: as long as it is open it answers as it should and logs nothing; the answers and
  lines of the calls that outlive it, and the lines of closing it, are those of its specification.
\<close>

locale served_backend =
  fixes E :: "bool \<Rightarrow> 's Backend set"
    and holds :: "'s \<Rightarrow> nat \<Rightarrow> bool"
    and spec :: "string \<Rightarrow> 's \<Rightarrow> nat \<Rightarrow> signer_spec"
  assumes spec_addr: "sp_addr (spec addr b sk) = addr"
    and reply_open: "holds b sk \<Longrightarrow> M \<in> E False \<Longrightarrow> reply_of M b r = Inr (sp_reply (spec addr b sk) r)"
    and silent_open: "holds b sk \<Longrightarrow> M \<in> E False \<Longrightarrow> handler_log (Server_New M b) r = []"
    and reply_late: "holds b sk \<Longrightarrow> M \<in> E False \<Longrightarrow> M' \<in> E True \<Longrightarrow>
      sp_late (spec addr b sk) r (reply_of M' (fst (be_Close M b)) r)"
    and log_late: "holds b sk \<Longrightarrow> M \<in> E False \<Longrightarrow> M' \<in> E True \<Longrightarrow>
      list_all (sp_late_line (spec addr b sk)) (handler_log (Server_New M' (fst (be_Close M b))) r)"
    and log_closing: "holds b sk \<Longrightarrow> M \<in> E False \<Longrightarrow> list_all (sp_closing (spec addr b sk)) (closing_log M b)"
begin

lemma simulates:
  assumes "serve_step M s evs t" "M \<in> E (closed s)" "holds b sk" "serve_inv E b s" "sim a s" "laddr s = addr"
  shows "\<exists>a'. signer_run (spec addr b sk) a evs = Some a' \<and> sim a' t"
  using assms(1)
proof (cases rule: serve_step.cases)
  case (answer r)
  show ?thesis
  proof (cases "closed s")
    case False
    with assms(2-4) have "reply_of M (bk s) r = Inr (sp_reply (spec addr b sk) r)" "handler_log (Server_New M (bk s)) r = []"
      by (simp_all add: inv_defs reply_open silent_open)
    with answer assms(5) show ?thesis by (auto simp: sim_def may_reply_def)
  next
    case True
    with assms(4) answer obtain M0 where M0: "M0 \<in> E False" "bk s = fst (be_Close M0 b)" "serve_err s = Some AcceptError"
      by (auto simp: inv_defs)
    from True assms(2) have M: "M \<in> E True" by simp
    from reply_late [OF assms(3) M0(1) M] log_late [OF assms(3) M0(1) M] M0 assms(5)
    have late: "sp_late (spec addr b sk) r (reply_of M (bk s) r)" "sg_failed a"
      "list_all (may_log (spec addr b sk) a) (handler_log (Server_New M (bk s)) r)"
      by (auto simp: list_all_iff may_log_def sim_def)
    from signer_run_logs [OF _ late(3)] late(1,2) answer assms(5) show ?thesis
      by (auto simp: sim_def signer_run_append may_reply_def)
  qed
next
  case close
  with assms(2,4) have "bk s = b" "M \<in> E False" by (simp_all add: inv_defs)
  with log_closing [OF assms(3) this(2)] close assms(5)
  have "list_all (may_log (spec addr b sk) a) (closing_log M (bk s))"
    by (auto simp: list_all_iff may_log_def sim_def)
  from signer_run_logs [OF _ this] close assms(5) show ?thesis
    by (auto simp: sim_def)
next
  case exit
  with assms(4,5) show ?thesis by (auto simp: sim_def may_exit_def inv_defs exit_status_def intro: serve_error.exhaust)
next
  case announce
  with assms(4-6) show ?thesis by (auto simp: sim_def may_log_def inv_defs spec_addr)
next
  case refused
  with assms(4,5) show ?thesis by (auto simp: sim_def inv_defs)
next
  case stop
  with assms(4,5) show ?thesis by (auto simp: sim_def may_log_def)
next
  case unwind
  with assms(4,5) show ?thesis by (auto simp: sim_def inv_defs)
next
  case accept_fails
  with assms(4,5) show ?thesis by (auto simp: sim_def inv_defs)
next
  case signal
  with assms(4,5) show ?thesis by (auto simp: sim_def)
qed (use assms(5) in \<open>auto simp: sim_def\<close>)

lemma trace_refines:
  assumes "serve_trace E addr b tr s" "holds b sk"
  shows "(\<exists>a. signer_run (spec addr b sk) signer_init tr = Some a \<and> sim a s) \<and> laddr s = addr"
  using assms(1)
proof (induction rule: serve_trace.induct)
  case begin_run
  show ?case by (simp add: sim_def signer_init_def serve_init_def)
next
  case (more tr s M evs t)
  from more.IH obtain a where a: "signer_run (spec addr b sk) signer_init tr = Some a" "sim a s" "laddr s = addr" by blast
  from simulates [OF more.hyps(3,2) assms(2) serve_reach_inv [OF serve_trace_reach [OF more.hyps(1)]] a(2,3)]
    a(1,3) step_laddr [OF more.hyps(3)]
  show ?case by (auto simp: signer_run_append)
qed

end

section \<open>The end of a run\<close>

text \<open>A step without a new call.\<close>

definition quiet :: "(bool \<Rightarrow> 's Backend set) \<Rightarrow> 's serve_state \<Rightarrow> 's serve_state \<Rightarrow> bool" where
  "quiet E s t \<longleftrightarrow> (\<exists>M \<in> E (closed s). \<exists>evs. serve_step M s evs t \<and> (\<forall>r. Called r \<notin> set evs))"

fun phase_left :: "phase \<Rightarrow> nat" where
  "phase_left Starting = 4" | "phase_left Announced = 3" | "phase_left Listening = 2" | "phase_left Draining = 1" | "phase_left Returned = 0"

definition left :: "'s serve_state \<Rightarrow> nat" where
  "left s = size (inflight s) + phase_left (phase s) + of_bool (\<not> cancelled s) + of_bool (\<not> stopping s)
     + of_bool (\<not> closed s) + of_bool (exited s = None)"

lemma quiet_left: "quiet E s t \<Longrightarrow> left t < left s \<and> arrived t = arrived s \<and> (cancelled s \<longrightarrow> cancelled t)"
  unfolding quiet_def
  by (elim exE conjE bexE, erule serve_step_cases) (auto simp: left_def size_Diff1_less split: phase.splits)

lemma quiet_reach: "quiet E s t \<Longrightarrow> serve_reach E b s \<Longrightarrow> serve_reach E b t"
  by (auto simp: quiet_def intro: serve_reach.step)

lemma quiet_steps:
  "(quiet E ^^ n) s t \<Longrightarrow> serve_reach E b s \<Longrightarrow> cancelled s \<Longrightarrow>
     n + left t \<le> left s \<and> arrived t = arrived s \<and> cancelled t \<and> serve_reach E b t"
proof (induction n arbitrary: t)
  case (Suc n)
  from Suc.prems(1) obtain u where u: "(quiet E ^^ n) s u" "quiet E u t" by auto
  from Suc.IH [OF u(1) Suc.prems(2,3)] quiet_left [OF u(2)] quiet_reach [OF u(2), of b] show ?case by auto
qed simp

lemma quiet_progress:
  assumes "serve_reach E b s" "cancelled s" "M \<in> E (closed s)"
  shows "(\<exists>t. quiet E s t) \<longleftrightarrow> exited s = None"
proof
  assume "\<exists>t. quiet E s t"
  then show "exited s = None"
    unfolding quiet_def by (elim exE conjE bexE, erule_tac serve_step_cases) simp_all
next
  assume ex: "exited s = None"
  consider r where "r \<in># inflight s" | "inflight s = {#}" "\<not> stopping s" | "inflight s = {#}" "phase s = Draining"
    | "phase s = Returned" "\<not> closed s" | "closed s" | "phase s = Starting" | "phase s = Announced" "stopping s"
    using serve_reach_inv [OF assms(1)] by (cases "phase s") (auto simp: inv_defs)
  then obtain evs t where "serve_step M s evs t" "\<forall>r. Called r \<notin> set evs"
  proof cases
    case (1 r)
    from that [OF serve_step.answer [OF ex 1]] show ?thesis by auto
  next
    case 2
    from that [OF serve_step.stop [OF ex assms(2) 2(2)]] show ?thesis by simp
  next
    case 3
    from that [OF serve_step.drained [OF ex 3(2,1)]] show ?thesis by simp
  next
    case 4
    from that [OF serve_step.close [OF ex 4(1) assms(2) 4(2)]] show ?thesis by auto
  next
    case 5
    from that [OF serve_step.exit [OF ex 5]] show ?thesis by simp
  next
    case 6
    from that [OF serve_step.announce [OF ex 6]] show ?thesis by simp
  next
    case 7
    from that [OF serve_step.refused [OF ex 7]] show ?thesis by simp
  qed
  with assms(3) show "\<exists>t. quiet E s t" by (auto simp: quiet_def)
qed

lemma cancelled_ends:
  assumes "serve_reach E b s" "cancelled s" "(quiet E ^^ n) s t" "\<forall>c. E c \<noteq> {}"
  shows "n \<le> size (inflight s) + 7 \<and> ((\<exists>u. quiet E t u) \<longleftrightarrow> exited t = None)
    \<and> (exited t \<noteq> None \<longrightarrow> (\<exists>M \<in> E False. bk t = fst (be_Close M b)) \<and> exited t = Some (exit_status t))
    \<and> (exited t = Some 0 \<longrightarrow> image_mset fst (answers t) = arrived s)"
proof -
  note q = quiet_steps [OF assms(3,1,2)]
  have "left s \<le> size (inflight s) + 7"
    using assms(2) by (cases "phase s") (simp_all add: left_def)
  with q have "n \<le> size (inflight s) + 7" by simp
  moreover from q have t: "serve_reach E b t" "cancelled t" "arrived t = arrived s" by auto
  obtain M where "M \<in> E (closed t)" using assms(4) by auto
  from quiet_progress [OF t(1,2) this] serve_reach_inv [OF t(1)] t(3) calculation show ?thesis
    by (auto simp: inv_defs exit_status_def split: if_splits)
qed

end
