(* ===== verification/Main_Props.thy ===== *)
theory Main_Props
  imports Main_Cmd Signer_Spec
begin

text \<open>
  The commands end to end: every backend the factory builds is a signing backend, flags win over the
  environment and the file, and what \<open>keytool\<close> reports is what \<open>serve\<close> answers with.
\<close>

section \<open>Every backend the factory builds\<close>

fun built_holds ::
  "('p1, 'p2) blst \<Rightarrow> (string \<Rightarrow> bool) \<Rightarrow> string \<Rightarrow> vault_world \<Rightarrow> nitro_world \<Rightarrow> built \<Rightarrow> nat \<Rightarrow> bool" where
  "built_holds B gn mount v n (BMemory k) sk = keypair_holds B k sk"
| "built_holds B gn mount v n (BAWSKMS k) sk = keypair_holds B k sk"
| "built_holds B gn mount v n (BGCPKMS k) sk = keypair_holds B k sk"
| "built_holds B gn mount v n (BAzureKV k) sk = keypair_holds B k sk"
| "built_holds B gn mount v n (BVault k) sk = vault_holds B gn mount v k sk"
| "built_holds B gn mount v n (BNitro k) sk = nitro_holds B n k sk"

interpretation builtb:
  signing_backend B "built_ops B (plugin_api B gn mount rnd) v (enclave_env B T H eargs creds) n"
    "built_holds B gn mount v n"
  for B :: "('p1, 'p2) blst" and gn mount rnd v T H eargs creds n
proof (unfold_locales, goal_cases)
  case (1 b sk)
  then show ?case
    by (cases b) (simp_all add: built_ops_def memb.PublicKey_law awsb.PublicKey_law gcpb.PublicKey_law
        azb.PublicKey_law vaultb.PublicKey_law nitrob.PublicKey_law)
next
  case (2 b sk msg)
  then show ?case
    by (cases b) (simp_all add: built_ops_def memb.Sign_law awsb.Sign_law gcpb.Sign_law azb.Sign_law
        vaultb.Sign_law nitrob.Sign_law)
next
  case (3 b sk msg)
  then show ?case
    by (cases b) (simp_all add: built_ops_def memb.SignPoP_law awsb.SignPoP_law gcpb.SignPoP_law
        azb.SignPoP_law vaultb.SignPoP_law nitrob.SignPoP_law)
qed

text \<open>A key held in memory is served whatever the Vault server and the enclave host are.\<close>

definition local_built :: "('p1, 'p2) blst \<Rightarrow> built \<Rightarrow> nat \<Rightarrow> bool" where
  "local_built B b sk = (case b of BMemory k \<Rightarrow> keypair_holds B k sk | BAWSKMS k \<Rightarrow> keypair_holds B k sk
     | BGCPKMS k \<Rightarrow> keypair_holds B k sk | BAzureKV k \<Rightarrow> keypair_holds B k sk | _ \<Rightarrow> False)"

fun has_local_key :: "built \<Rightarrow> bool" where
  "has_local_key (BVault _) = False"
| "has_local_key (BNitro _) = False"
| "has_local_key _ = True"

fun built_key_bytes :: "built \<Rightarrow> bytes" where
  "built_key_bytes (BMemory k) = skBytes k"
| "built_key_bytes (BAWSKMS k) = skBytes k"
| "built_key_bytes (BGCPKMS k) = skBytes k"
| "built_key_bytes (BAzureKV k) = skBytes k"
| "built_key_bytes _ = []"

interpretation localb:
  local_backend B "built_ops B api v N n" "local_built B" has_local_key built_key_bytes
  for B :: "('p1, 'p2) blst" and api v N n
proof (unfold_locales, goal_cases)
  case (5 b) then show ?case
    by (cases b) (simp_all add: built_ops_def memb.Close_local awsb.Close_local gcpb.Close_local azb.Close_local)
next
  case (6 b) then show ?case
    by (cases b) (simp_all add: built_ops_def memb.Sign_key awsb.Sign_key gcpb.Sign_key azb.Sign_key)
next
  case (7 b) then show ?case
    by (cases b) (simp_all add: built_ops_def memb.SignPoP_key awsb.SignPoP_key gcpb.SignPoP_key azb.SignPoP_key)
next
  case (8 b) then show ?case
    by (cases b) (simp_all add: built_ops_def memb.Close_wipes awsb.Close_wipes gcpb.Close_wipes azb.Close_wipes)
next
  case (9 b) then show ?case
    by (cases b) (simp_all add: built_ops_def memb.Close_PublicKey awsb.Close_PublicKey gcpb.Close_PublicKey azb.Close_PublicKey)
qed (auto simp: built_ops_def local_built_def memb.laws awsb.laws gcpb.laws azb.laws split: built.splits)

section \<open>serve\<close>

lemma as_built_eq_Inr [simp]: "as_built K r = Inr b \<longleftrightarrow> (\<exists>k. r = Inr k \<and> b = K k)"
  by (auto simp: as_built_def result_simps)

lemma Load_file_error:
  "path \<noteq> [] \<Longrightarrow> os_ReadFile S path = Inl e \<Longrightarrow>
    Load uni unmarshal env S path = Inl (Errorf ''reading config file %q: %w'' [AStr path, AErr e])"
  by (simp add: Load_def)

text \<open>
  C26. What \<open>serve\<close> runs with: the four settings that have a flag are the flag's value when it is given and the
  loaded one otherwise, everything else is as loaded, and a started server listens on that address with a
  backend of the kind that was asked for.
\<close>

theorem serve_settings:
  assumes "load_config D (mc_os m) (sf_config_file fl) = Inr c"
  shows "\<exists>cfg. serve_config D (mc_os m) fl = Inr cfg
    \<and> cfg_Backend cfg = (if sf_backend fl = [] then cfg_Backend c else sf_backend fl)
    \<and> cfg_Port cfg = (if sf_port fl = 0 then cfg_Port c else sf_port fl)
    \<and> cfg_Listen cfg = (if sf_listen fl = [] then cfg_Listen c else sf_listen fl)
    \<and> aws_EndpointURL (cfg_AWS cfg) = (if sf_aws_endpoint_url fl = [] then aws_EndpointURL (cfg_AWS c)
         else sf_aws_endpoint_url fl)
    \<and> aws_KMSKeyID (cfg_AWS cfg) = aws_KMSKeyID (cfg_AWS c)
    \<and> (cfg_Nitro cfg, cfg_GCP cfg, cfg_Azure cfg, cfg_Vault cfg) = (cfg_Nitro c, cfg_GCP c, cfg_Azure c, cfg_Vault c)
    \<and> (\<forall>m' addr b. serve_start D m fl = Some (m', Inr (addr, b)) \<longrightarrow>
         built_name b = cfg_Backend cfg \<and> addr = cfg_Listen cfg @ '':'' @ int_dec (cfg_Port cfg))"
proof -
  obtain cfg where cfg: "serve_config D (mc_os m) fl = Inr cfg"
    by (simp add: serve_config_def assms Let_def)
  have "built_name b = cfg_Backend cfg \<and> addr = Addr cfg"
    if "serve_start D m fl = Some (m', Inr (addr, b))" for m' addr b
    using that cfg
    by (auto simp: serve_start_def buildBackend_def Let_def result_simps split: if_splits prod.splits)
  with cfg show ?thesis
    by (auto simp: serve_config_def assms override_update Let_def Addr_def)
qed

definition test_deps :: "(nat, bytes, vault_world, nitro_world) deps" where
  "test_deps = \<lparr>dp_blst = toy_blst, dp_rnd = Inr [7], dp_clouds = test_clouds, dp_vault = test_api,
     dp_nitro = enclave_env toy_blst test_text test_host [''/key.enc''] test_creds,
     dp_uni = (\<lambda>s. s), dp_unmarshal = (\<lambda>_ c. Inr c), dp_env = (\<lambda>_. [])\<rparr>"

definition test_machine :: "(vault_world, nitro_world) machine" where
  "test_machine = \<lparr>mc_os = quiet_os Map.empty, mc_vault = test_world, mc_nitro = idle_world\<rparr>"

lemma test_deps_sel [simp]:
  "dp_blst test_deps = toy_blst" "dp_rnd test_deps = Inr [7]" "dp_clouds test_deps = test_clouds"
  "dp_vault test_deps = test_api" "mc_os test_machine = quiet_os Map.empty"
  by (simp_all add: test_deps_def test_machine_def)

lemma test_load: "load_config test_deps S [] = Inr Defaults"
  by (simp add: load_config_def Load_def test_deps_def applyEnv_def applyEnv_core_def applyEnv_AWS_def
      applyEnv_GCP_def applyEnv_Azure_def applyEnv_Vault_def Let_def)

definition test_flags :: serve_flags where
  "test_flags = \<lparr>sf_config_file = [], sf_backend = ''memory'', sf_port = 9000, sf_listen = [],
     sf_aws_endpoint_url = []\<rparr>"

lemma serve_settings_witness:
  "\<exists>cfg. serve_config test_deps (quiet_os Map.empty) test_flags = Inr cfg \<and> cfg_Port cfg = 9000
     \<and> cfg_Listen cfg = ''127.0.0.1''"
proof -
  have "load_config test_deps (mc_os test_machine) (sf_config_file test_flags) = Inr Defaults"
    by (simp add: test_load test_flags_def)
  from serve_settings [OF this] show ?thesis
    by (auto simp: test_flags_def Defaults_def)
qed

section \<open>keytool\<close>

lemma resolve_mount:
  assumes "resolveKMSConfig D S given = Inr cfg" "given ''vault-mount-path'' = None"
  shows "vault_MountPath (cfg_Vault cfg) = ''bls''"
  using assms
  by (auto simp: resolveKMSConfig_def result_simps override_Vault_def GetString_def commonKMSFlags_def
      override_update Let_def)

lemma route_other_mount:
  assumes "CHR ''/'' \<notin> set mount" "CHR ''/'' \<notin> set mount'" "mount \<noteq> mount'"
  shows "route_path gn mount (key_path mount' name ep) = None"
proof -
  have "take (length (mount @ ''/keys/'')) (key_path mount' name ep) \<noteq> mount @ ''/keys/''"
  proof
    assume "take (length (mount @ ''/keys/'')) (key_path mount' name ep) = mount @ ''/keys/''"
    then have "key_path mount' name ep = mount @ CHR ''/'' # ''keys/'' @ drop (length (mount @ ''/keys/'')) (key_path mount' name ep)"
      by (metis append_take_drop_id append.assoc append_Cons)
    then have "takeWhile (\<lambda>c. c \<noteq> CHR ''/'') (key_path mount' name ep) = mount"
      using takeWhile_name [OF assms(1)] by metis
    then show False
      using assms(2,3) by (simp add: key_path_def takeWhile_name)
  qed
  then show ?thesis
    by (simp add: route_path_def Let_def)
qed

lemma plugin_other_mount:
  assumes "CHR ''/'' \<notin> set mount" "mount \<noteq> ''bls''" "vault_MountPath c = ''bls''"
  shows "\<exists>e. vaultGenerate (plugin_api B gn mount rnd) w c = (w, Inl e)"
  using assms route_other_mount [OF assms(1), of "''bls''"]
  by (simp add: vaultGenerate_def vault_write_key_def vaultClient_def plugin_api_def Let_def)

text \<open>
  C23. The configured mount path never reaches \<open>keytool\<close>: the flag's default \<open>bls\<close> counts as given, so without
  the flag the resolved mount path is \<open>bls\<close> whatever the file and the environment say, and on a Vault server
  with the plugin mounted elsewhere \<open>keytool generate\<close> fails and stores nothing.
\<close>

theorem keytool_mount_path:
  assumes "resolveKMSConfig D (mc_os m) given = Inr cfg" "given ''vault-mount-path'' = None"
    and "cfg_Backend cfg = BackendVault" "dp_vault D = plugin_api B gn mount rnd"
    and "CHR ''/'' \<notin> set mount" "mount \<noteq> ''bls''"
  shows "vault_MountPath (cfg_Vault cfg) = ''bls''
    \<and> (\<exists>e. keytoolGenerateCmd D m given = (m, Inl e))"
proof -
  have mount: "vault_MountPath (cfg_Vault cfg) = ''bls''"
    using assms(1,2) by (rule resolve_mount)
  then obtain e where "vaultGenerate (dp_vault D) (mc_vault m) (cfg_Vault cfg) = (mc_vault m, Inl e)"
    using plugin_other_mount [OF assms(5,6)] assms(4) by metis
  moreover have "propagate_output cfg p = cfg" for p
    using assms(3) by (simp add: propagate_output_def backend_names)
  ultimately show ?thesis
    using assms(1,3) mount by (simp add: keytoolGenerateCmd_def keytool_Generate_def Let_def)
qed

definition mounted_deps :: "(nat, bytes, vault_world, nitro_world) deps" where
  "mounted_deps = test_deps\<lparr>dp_vault := plugin_api toy_blst (\<lambda>_. True) ''signers'' (Inr []),
     dp_env := (\<lambda>n. if n = ''VAULT_MOUNT_PATH'' then ''signers'' else [])\<rparr>"

definition vault_given :: "string \<rightharpoonup> string" where
  "vault_given = [''backend'' \<mapsto> ''vault'', ''vault-token'' \<mapsto> ''root'', ''vault-key-name'' \<mapsto> ''validator'']"

lemma keytool_mount_path_witness:
  "\<exists>cfg e. resolveKMSConfig mounted_deps (quiet_os Map.empty) vault_given = Inr cfg
     \<and> vault_MountPath (cfg_Vault cfg) = ''bls'' \<and> keytoolGenerateCmd mounted_deps test_machine vault_given = (test_machine, Inl e)"
proof -
  obtain cfg where cfg: "resolveKMSConfig mounted_deps (mc_os test_machine) vault_given = Inr cfg"
    "cfg_Backend cfg = BackendVault"
    by (simp add: resolveKMSConfig_def load_config_def Load_def GetString_def commonKMSFlags_def vault_given_def
        backend_names override_def Let_def)
  have "dp_vault mounted_deps = plugin_api toy_blst (\<lambda>_. True) ''signers'' (Inr [])"
    "vault_given ''vault-mount-path'' = None"
    by (simp_all add: mounted_deps_def vault_given_def)
  from keytool_mount_path [OF cfg(1) this(2) cfg(2) this(1)] cfg(1) show ?thesis
    by auto
qed

text \<open>A command for a cloud backend without an output path stops before it touches anything.\<close>

lemma output_required:
  assumes "resolveKMSConfig D (mc_os m) given = Inr cfg" "cfg_Backend cfg \<noteq> BackendVault" "GetString given ''output'' = []"
  shows "keytoolGenerateCmd D m given = (m, Inl (err_output_required (cfg_Backend cfg)))"
    and "keytoolMigrateCmd D m given del = (m, Inl (err_output_required (cfg_Backend cfg)))"
  using assms by (simp_all add: keytoolGenerateCmd_def keytoolMigrateCmd_def Let_def)

text \<open>Without \<open>--backend\<close> no command of \<open>keytool\<close> runs, and a migration needs \<open>--input\<close> as well.\<close>

lemma missing_flag:
  assumes "given ''backend'' = None \<or> (cmd = KMigrate del \<and> given ''input'' = None)"
  shows "fst (keytool_run D m cmd given) = m \<and> main_exit (snd (keytool_run D m cmd given)) = 1"
  using assms by (auto simp: keytool_run_def required_flags_def main_exit_def Let_def split: keytool_command.split)

text \<open>The settings with which \<open>serve\<close> finds a key that a command with the settings \<open>cfg\<close> wrote to a file.\<close>

definition serves_file :: "Config \<Rightarrow> string \<Rightarrow> Config \<Rightarrow> bool" where
  "serves_file cfg p cfg' \<longleftrightarrow> cfg_Backend cfg' = cfg_Backend cfg
     \<and> (cfg_Backend cfg = BackendAWSKMS \<longrightarrow> cfg_AWS cfg' = (cfg_AWS cfg)\<lparr>aws_EncryptedBLSKeyPath := p\<rparr>)
     \<and> (cfg_Backend cfg = BackendGCPKMS \<longrightarrow> cfg_GCP cfg' = (cfg_GCP cfg)\<lparr>gcp_EncryptedBLSKeyPath := p\<rparr>)
     \<and> (cfg_Backend cfg = BackendAzureKV \<longrightarrow> cfg_Azure cfg' = (cfg_Azure cfg)\<lparr>azure_EncryptedBLSKeyPath := p\<rparr>)"

abbreviation starts ::
  "('p1, 'p2, 'v, 'n) deps \<Rightarrow> ('v, 'n) machine \<Rightarrow> Config \<Rightarrow> string \<Rightarrow> nat \<Rightarrow> bool" where
  "starts D m cfg p sk \<equiv>
     starts_with (dp_blst D) (dp_clouds D) (mc_os m) (cfg_Backend cfg) p (cfg_AWS cfg) (cfg_GCP cfg) (cfg_Azure cfg) sk"

lemma starts_builds:
  assumes "starts D m cfg p sk" "serves_file cfg p cfg'"
  shows "\<exists>b. buildBackend D m cfg' = Some (m, Inr b) \<and> local_built (dp_blst D) b sk"
  using assms
  by (auto simp: starts_with_def serves_file_def buildBackend_def as_built_def local_built_def backend_names Let_def)

text \<open>
  What the two commands print for a cloud backend: the file, from which the backend now starts with the key that has
  the printed public key.
\<close>

lemma generate_command_starts:
  assumes "keytoolGenerateCmd D m given = (m', Inr out)" "resolveKMSConfig D (mc_os m) given = Inr cfg"
    and "cfg_Backend cfg \<noteq> BackendVault" "keygen_valid (dp_blst D)" "clouds_invert (dp_clouds D)"
    and "readable (mc_os m) (GetString given ''output'')"
  shows "\<exists>sk. out = [WrittenTo (GetString given ''output''), PublicKeyHex (hex_EncodeToString (bls_pk (dp_blst D) sk))]
    \<and> starts D m' cfg (GetString given ''output'') sk"
proof -
  let ?p = "GetString given ''output''"
  let ?c = "propagate_output cfg ?p"
  obtain S' v' r where gen: "keytool_Generate (dp_blst D) (dp_rnd D) (dp_clouds D) (dp_vault D) (mc_os m) (mc_vault m)
      \<lparr>go_Backend = cfg_Backend cfg, go_OutputPath = ?p, go_AWS = cfg_AWS ?c, go_GCP = cfg_GCP ?c,
       go_Azure = cfg_Azure ?c, go_Vault = cfg_Vault ?c\<rparr> = (S', v', r)"
    by (metis prod.exhaust)
  moreover have "cfg_Backend ?c = cfg_Backend cfg"
    by (simp add: propagate_output_def)
  ultimately obtain pkHex where r: "r = Inr pkHex" "out = [WrittenTo ?p, PublicKeyHex pkHex]" "mc_os m' = S'"
    using assms(1-3) by (auto simp: keytoolGenerateCmd_def Let_def result_simps split: if_splits)
  from Generate_then_serve [OF gen [unfolded r(1)] _ assms(4,5)] assms(3,6) r show ?thesis
    by (auto simp: starts_with_def propagate_output_def backend_names split: if_splits)
qed

lemma migrate_command_starts:
  assumes "keytoolMigrateCmd D m given del = (m', Inr out)" "resolveKMSConfig D (mc_os m) given = Inr cfg"
    and "cfg_Backend cfg \<noteq> BackendVault" "clouds_invert (dp_clouds D)"
    and "GetString given ''output'' \<noteq> GetString given ''input''" "readable (mc_os m) (GetString given ''output'')"
  shows "\<exists>sk. contents (mc_os m) (GetString given ''input'') = Some (Scalar_Serialize sk)
    \<and> out = [WrittenTo (GetString given ''output''), PublicKeyHex (hex_EncodeToString (bls_pk (dp_blst D) sk))]
        @ (if del then [Deleted (GetString given ''input'')] else [])
    \<and> starts D m' cfg (GetString given ''output'') sk"
proof -
  let ?opts = "\<lparr>mo_Backend = cfg_Backend cfg, mo_InputPath = GetString given ''input'',
    mo_OutputPath = GetString given ''output'', mo_DeleteInput = del, mo_AWS = cfg_AWS cfg,
    mo_GCP = cfg_GCP cfg, mo_Azure = cfg_Azure cfg, mo_Vault = cfg_Vault cfg\<rparr>"
  obtain S' v' r where run: "keytool_Migrate (dp_blst D) (dp_clouds D) (dp_vault D) (mc_os m) (mc_vault m) ?opts = (S', v', r)"
    by (metis prod.exhaust)
  with assms(1-3) obtain pkHex where r: "r = Inr pkHex" "mc_os m' = S'" "out = [WrittenTo (GetString given ''output''), PublicKeyHex pkHex]
      @ (if del then [Deleted (GetString given ''input'')] else [])"
    by (auto simp: keytoolMigrateCmd_def Let_def result_simps split: if_splits)
  from Migrate_then_serve [OF run [unfolded r(1)] _ _ assms(4)] assms(3,5,6) r show ?thesis
    by (auto split: if_splits)
qed

lemma delete_input_deletes:
  "delete_input S opts pk = (S', Inr x) \<Longrightarrow> mo_DeleteInput opts \<Longrightarrow> contents S' (mo_InputPath opts) = None"
  by (auto simp: delete_input_def secureDelete_def Let_def contents_Remove split: prod.splits option.splits)

lemma Migrate_deletes:
  assumes "keytool_Migrate B C api S w opts = (S', w', Inr pkHex)" "mo_DeleteInput opts"
  shows "contents S' (mo_InputPath opts) = None"
  using assms
  by (auto simp: keytool_Migrate_def Let_def split: sum.splits prod.splits if_splits option.splits
      dest: delete_input_deletes)

text \<open>
  The report of a deletion is true: when \<open>keytool migrate\<close> prints that a file was deleted, it was asked to
  delete it and there is no such file any more.
\<close>

lemma migrate_reports_deletion:
  assumes "keytoolMigrateCmd D m given deleteInput = (m', Inr out)" "Deleted p \<in> set out"
  shows "deleteInput \<and> p = GetString given ''input'' \<and> contents (mc_os m') p = None"
proof -
  obtain cfg where cfg: "resolveKMSConfig D (mc_os m) given = Inr cfg"
    using assms(1) by (cases "resolveKMSConfig D (mc_os m) given") (simp_all add: keytoolMigrateCmd_def)
  let ?opts = "\<lparr>mo_Backend = cfg_Backend cfg, mo_InputPath = GetString given ''input'',
    mo_OutputPath = GetString given ''output'', mo_DeleteInput = deleteInput, mo_AWS = cfg_AWS cfg,
    mo_GCP = cfg_GCP cfg, mo_Azure = cfg_Azure cfg, mo_Vault = cfg_Vault cfg\<rparr>"
  obtain S' v' r where run: "keytool_Migrate (dp_blst D) (dp_clouds D) (dp_vault D) (mc_os m) (mc_vault m) ?opts = (S', v', r)"
    by (metis prod.exhaust)
  with assms cfg obtain pkHex where "r = Inr pkHex" "mc_os m' = S'" "deleteInput" "p = GetString given ''input''"
    by (auto simp: keytoolMigrateCmd_def Let_def result_simps split: if_splits)
  with Migrate_deletes [OF run [unfolded this(1)]] show ?thesis by simp
qed

definition migrate_given :: "string \<rightharpoonup> string" where
  "migrate_given = [''backend'' \<mapsto> ''azure-kv'', ''input'' \<mapsto> ''signer.key'', ''output'' \<mapsto> ''bls.key.enc'']"

end
