(* ===== verification/Main_CLI.thy ===== *)
theory Main_CLI
  imports Go_Flags Main_Props
begin

text \<open>
  The program from its argument list to its end: the command tree of \<open>main.go\<close> over the libraries of theory
  \<open>Go_Flags\<close>, and \<open>main\<close> itself. The commands the library adds, for help and shell completion, are names only.
\<close>

section \<open>The command tree\<close>

datatype run = RunServe | RunGenerate | RunMigrate | RunLibrary

definition string_flag :: "string \<Rightarrow> flag" where
  "string_flag n = \<lparr>fl_Name = n, fl_Shorthand = None, fl_Kind = StringFlag\<rparr>"

definition serveCmd :: "run command" where
  "serveCmd = Command ''serve''
     [string_flag ''config-file'', string_flag ''backend'',
      \<lparr>fl_Name = ''port'', fl_Shorthand = None, fl_Kind = IntFlag\<rparr>,
      string_flag ''listen'', string_flag ''aws-endpoint-url'']
     (Some RunServe) []"

definition common_flags :: "flag list" where
  "common_flags = map (string_flag \<circ> fst) commonKMSFlags"

definition generateCmd :: "run command" where
  "generateCmd = Command ''generate'' (common_flags @ [string_flag ''output'']) (Some RunGenerate) []"

definition migrateCmd :: "run command" where
  "migrateCmd = Command ''migrate''
     (common_flags @ [string_flag ''input'', string_flag ''output'',
        \<lparr>fl_Name = ''delete-input'', fl_Shorthand = None, fl_Kind = BoolFlag\<rparr>])
     (Some RunMigrate) []"

definition keytoolCmd :: "run command" where
  "keytoolCmd = Command ''keytool'' [] None [generateCmd, migrateCmd]"

definition library_commands :: "string list" where
  "library_commands = [''help'', ''completion'', ''__complete'', ''__completeNoDesc'']"

definition rootCmd :: "run command" where
  "rootCmd = Command ''avalanche-kms-signer'' [] None
     ([serveCmd, keytoolCmd] @ map (\<lambda>n. Command n [] (Some RunLibrary) []) library_commands)"

definition main_action :: "string list \<Rightarrow> run execution" where
  "main_action args =
     (case Find rootCmd args of
        Inl e \<Rightarrow> Refuse e
      | Inr (c, a) \<Rightarrow> if cmd_RunE c = Some RunLibrary then Run RunLibrary Map.empty a else execute c a)"

section \<open>The program\<close>

text \<open>
  A run ends with its exit status and what it printed of a key, or goes on as the server at an address with a
  backend; \<open>None\<close> is a server that never finishes starting.
\<close>

datatype outcome = Exit int "printed list" | Serve string built | Library "string list"

definition serve_flags_of :: "(string \<rightharpoonup> string) \<Rightarrow> serve_flags" where
  "serve_flags_of given =
     (let str = (\<lambda>n. case given n of Some v \<Rightarrow> v | None \<Rightarrow> []) in
      \<lparr>sf_config_file = str ''config-file'', sf_backend = str ''backend'',
       sf_port = (case given ''port'' of None \<Rightarrow> 0 | Some v \<Rightarrow> (case ParseInt v of Inr i \<Rightarrow> i | Inl _ \<Rightarrow> 0)),
       sf_listen = str ''listen'', sf_aws_endpoint_url = str ''aws-endpoint-url''\<rparr>)"

definition delete_input_of :: "(string \<rightharpoonup> string) \<Rightarrow> bool" where
  "delete_input_of given = (Option.bind (given ''delete-input'') ParseBool = Some True)"

definition keytool_outcome :: "('v, 'n) machine \<times> printed list result \<Rightarrow> ('v, 'n) machine \<times> outcome" where
  "keytool_outcome r = (case r of (m, q) \<Rightarrow> (m, Exit (main_exit q) (case q of Inr ps \<Rightarrow> ps | Inl _ \<Rightarrow> [])))"

fun run_command ::
  "('p1, 'p2, 'v, 'n) deps \<Rightarrow> ('v, 'n) machine \<Rightarrow> run \<Rightarrow> (string \<rightharpoonup> string) \<Rightarrow> string list \<Rightarrow>
    (('v, 'n) machine \<times> outcome) option" where
  "run_command D m RunServe given args =
     map_option (\<lambda>(m', r). (m', case r of Inl e \<Rightarrow> Exit 1 [] | Inr (addr, b) \<Rightarrow> Serve addr b))
       (serve_start D m (serve_flags_of given))"
| "run_command D m RunGenerate given args = Some (keytool_outcome (keytool_run D m KGenerate given))"
| "run_command D m RunMigrate given args =
     Some (keytool_outcome (keytool_run D m (KMigrate (delete_input_of given)) given))"
| "run_command D m RunLibrary given args = Some (m, Library args)"

definition main_run ::
  "('p1, 'p2, 'v, 'n) deps \<Rightarrow> ('v, 'n) machine \<Rightarrow> string list \<Rightarrow> (('v, 'n) machine \<times> outcome) option" where
  "main_run D m args =
     (case main_action args of
        ShowHelp \<Rightarrow> Some (m, Exit 0 [])
      | Refuse e \<Rightarrow> Some (m, Exit 1 [])
      | Run r given rest \<Rightarrow> run_command D m r given rest)"

lemmas tree_defs = serveCmd_def generateCmd_def migrateCmd_def keytoolCmd_def rootCmd_def library_commands_def

section \<open>Finding a command\<close>

definition plain_word :: "string \<Rightarrow> bool" where
  "plain_word w \<longleftrightarrow> w \<noteq> [] \<and> hd w \<noteq> CHR ''-''"

lemma takes_next_plain: "plain_word w \<Longrightarrow> \<not> takes_next fs w"
  by (cases w) (auto simp: plain_word_def takes_next_def)

lemma strip_plain: "plain_word w \<Longrightarrow> stripFlags fs (w # args) = w # stripFlags fs args"
  using takes_next_plain [of w fs] by (auto simp: plain_word_def)

lemma minus_plain: "plain_word w \<Longrightarrow> argsMinusFirstX fs (w # args) w = args"
  using takes_next_plain [of w fs] by (auto simp: plain_word_def)

lemma innerfind_word:
  "plain_word w \<Longrightarrow> innerfind c root (w # args) =
     (case findNext c w of Some d \<Rightarrow> innerfind d False args | None \<Rightarrow> (c, root, w # args))"
  by (subst innerfind.simps) (simp add: strip_plain minus_plain del: stripFlags.simps argsMinusFirstX.simps split: option.split)

lemma innerfind_leaf: "cmd_Commands c = [] \<Longrightarrow> innerfind c root args = (c, root, args)"
  by (subst innerfind.simps) (simp add: findNext_def split: list.split)

definition commands :: "(string list \<times> run command) list" where
  "commands = [([''serve''], serveCmd), ([''keytool'', ''generate''], generateCmd), ([''keytool'', ''migrate''], migrateCmd)]"

lemma in_commands:
  "([''serve''], serveCmd) \<in> set commands" "cmd_RunE serveCmd = Some RunServe"
  "([''keytool'', ''generate''], generateCmd) \<in> set commands" "cmd_RunE generateCmd = Some RunGenerate"
  "([''keytool'', ''migrate''], migrateCmd) \<in> set commands" "cmd_RunE migrateCmd = Some RunMigrate"
  by (simp_all add: commands_def) (simp_all add: serveCmd_def generateCmd_def migrateCmd_def)

lemma Find_command:
  assumes "(path, c) \<in> set commands"
  shows "Find rootCmd (path @ args) = Inr (c, args)"
proof -
  have "innerfind rootCmd True (path @ args) = (c, False, args)" "cmd_Commands c = []"
    using assms
    by (auto simp: commands_def innerfind_word plain_word_def findNext_def tree_defs innerfind_leaf)
  then show ?thesis by (simp add: Find_def)
qed

lemma command_flags_plain:
  "(path, c) \<in> set commands \<Longrightarrow> \<forall>f \<in> set (cmd_Flags c @ [help_flag]). plain_name (fl_Name f)"
  by (auto simp: commands_def tree_defs common_flags_def commonKMSFlags_def string_flag_def help_flag_def plain_name_def)

section \<open>What a command line does\<close>

lemma values_of_None: "list_all (writable fs) ws \<Longrightarrow> Lookup fs n = None \<Longrightarrow> values_of ws n = None"
  by (auto simp: values_of_def map_of_eq_None_iff list_all_iff writable_def)

lemma writable_append: "writable fs w \<Longrightarrow> writable (fs @ gs) w"
  by (auto simp: writable_def Lookup_append split: option.splits)

lemma command_flags_no_help: "(path, c) \<in> set commands \<Longrightarrow> Lookup (cmd_Flags c) ''help'' = None"
  by (auto simp: commands_def tree_defs common_flags_def commonKMSFlags_def string_flag_def Lookup_def)

lemma execute_written:
  assumes "(path, c) \<in> set commands" "cmd_RunE c = Some r" "list_all (writable (cmd_Flags c)) ws"
    "parseArgs (cmd_Flags c @ [help_flag]) rest \<lparr>pa_given = values_of ws, pa_args = []\<rparr> = Inr p"
    "pa_given p ''help'' = None"
  shows "execute c (render_flags ws @ rest) = Run r (pa_given p) (pa_args p)"
proof -
  have "list_all (writable (cmd_Flags c @ [help_flag])) ws"
    using assms(3) by (auto simp: list_all_iff intro: writable_append)
  from parse_flags [OF command_flags_plain [OF assms(1)] this, of rest "\<lparr>pa_given = Map.empty, pa_args = []\<rparr>"]
  show ?thesis using assms(2,4,5) by (simp add: execute_def flags_Parse_def)
qed

lemma main_action_command:
  assumes "(path, c) \<in> set commands"
  shows "main_action (path @ args) = execute c args"
  using assms by (subst main_action_def) (auto simp: Find_command [OF assms], auto simp: commands_def tree_defs)

lemma main_action_written:
  assumes "(path, c) \<in> set commands" "cmd_RunE c = Some r" "list_all (writable (cmd_Flags c)) ws"
  shows "main_action (path @ render_flags ws) = Run r (values_of ws) []"
  using execute_written [OF assms, of "[]"] values_of_None [OF assms(3) command_flags_no_help [OF assms(1)]]
  by (simp add: main_action_command [OF assms(1)])

lemmas run_flags = main_action_written [OF in_commands(1,2)] main_action_written [OF in_commands(3,4)]
  main_action_written [OF in_commands(5,6)]

lemma root_findNext:
  "w \<notin> set ([''serve'', ''keytool''] @ library_commands) \<Longrightarrow> findNext rootCmd w = None"
  by (auto simp: findNext_def rootCmd_def find_None_iff library_commands_def serveCmd_def keytoolCmd_def)

lemma unknown_command:
  "plain_word w \<Longrightarrow> w \<notin> set ([''serve'', ''keytool''] @ library_commands) \<Longrightarrow>
    main_run D m (w # args) = Some (m, Exit 1 [])"
  using root_findNext [of w]
  by (simp add: main_run_def main_action_def Find_def innerfind_word strip_plain del: stripFlags.simps)
    (simp add: rootCmd_def)

lemma keytool_not_runnable: "cmd_RunE keytoolCmd = None" "cmd_Flags keytoolCmd = []"
  by (simp_all add: keytoolCmd_def)

lemma Find_keytool:
  assumes "ws = [] \<or> ws = [w] \<and> plain_word w \<and> w \<notin> {''generate'', ''migrate''}"
  shows "Find rootCmd (''keytool'' # ws) = Inr (keytoolCmd, ws)"
proof -
  have "findNext rootCmd ''keytool'' = Some keytoolCmd"
    by (simp add: findNext_def tree_defs)
  moreover have "innerfind keytoolCmd False ws = (keytoolCmd, False, ws)"
    using assms
    by (auto simp: innerfind_word innerfind.simps [of _ _ "[]"] findNext_def keytoolCmd_def generateCmd_def migrateCmd_def)
  ultimately have "innerfind rootCmd True (''keytool'' # ws) = (keytoolCmd, False, ws)"
    by (simp add: innerfind_word plain_word_def)
  then show ?thesis by (simp add: Find_def)
qed

lemma keytool_word:
  assumes "ws = [] \<or> ws = [w] \<and> plain_word w \<and> w \<notin> {''generate'', ''migrate''}"
  shows "main_run D m (''keytool'' # ws) = Some (m, Exit 0 [])"
proof -
  have "flags_Parse [help_flag] ws = Inr \<lparr>pa_given = Map.empty, pa_args = ws\<rparr>"
    using assms by (auto simp: flags_Parse_def parseArgs.simps(2) plain_word_def add_arg_def)
  then show ?thesis
    by (simp add: main_run_def main_action_def Find_keytool [OF assms] keytool_not_runnable execute_def)
qed

lemma no_command: "main_run D m [] = Some (m, Exit 0 [])"
  by (simp add: main_run_def main_action_def Find_def innerfind.simps execute_def flags_Parse_def rootCmd_def)

text \<open>
  C24. The command line is read back as it was written. After \<open>serve\<close>, \<open>keytool generate\<close> or
  \<open>keytool migrate\<close>, any list of the command's own flags, each written \<open>--name value\<close> or
  \<open>--name=value\<close> (boolean flags only the second way) with a value of the flag's type, runs that command with
  exactly those values, the last one where a flag is repeated, whatever the values look like: a value that starts
  with a dash, contains an equals sign or is another flag's name is never taken for anything else.
\<close>

theorem command_line_read_back:
  assumes "(path, c) \<in> set commands" "cmd_RunE c = Some r" "list_all (writable (cmd_Flags c)) ws"
  shows "main_run D m (path @ render_flags ws) = run_command D m r (values_of ws) []"
  by (simp add: main_run_def main_action_written [OF assms])

lemma command_line_read_back_witness:
  "\<forall>D m. main_run D m [''serve'', ''--listen'', ''--port=1'', ''--port=9000'', ''--backend'', ''memory''] =
     run_command D m RunServe [''listen'' \<mapsto> ''--port=1'', ''port'' \<mapsto> ''9000'', ''backend'' \<mapsto> ''memory''] []"
proof -
  let ?ws = "[(''listen'', ''--port=1'', False), (''port'', ''9000'', True), (''backend'', ''memory'', False)]"
  have ParseInt_9000: "ParseInt ''9000'' = Inr 9000"
    by (simp add: ParseInt_def ParseUint_def base_prefix_def digit_val_def ascii_lower_def)
  have "list_all (writable (cmd_Flags serveCmd)) ?ws"
    by (simp add: writable_def serveCmd_def Lookup_def string_flag_def value_error_def ParseInt_9000)
  note written = command_line_read_back [OF _ _ this, of "[''serve'']" RunServe]
  show ?thesis
  proof (intro allI)
    fix D m
    from written [where D = D and m = m]
    show "main_run D m [''serve'', ''--listen'', ''--port=1'', ''--port=9000'', ''--backend'', ''memory''] =
      run_command D m RunServe [''listen'' \<mapsto> ''--port=1'', ''port'' \<mapsto> ''9000'', ''backend'' \<mapsto> ''memory''] []"
      by (simp add: commands_def serveCmd_def render_flags_def values_of_def fun_upd_def)
  qed
qed

text \<open>
  C25. A missing command is a success and a mistyped one is only sometimes an error: without a command, and with
  \<open>keytool\<close> alone or followed by a word that is neither \<open>generate\<close> nor \<open>migrate\<close>, the program prints
  a help text, changes nothing and exits with status 0, while any other unknown first word exits with status 1.
\<close>

theorem missing_or_unknown_command:
  assumes "plain_word w"
  shows "main_run D m [] = Some (m, Exit 0 [])
    \<and> main_run D m [''keytool''] = Some (m, Exit 0 [])
    \<and> (w \<notin> {''generate'', ''migrate''} \<longrightarrow> main_run D m [''keytool'', w] = Some (m, Exit 0 []))
    \<and> (w \<notin> set ([''serve'', ''keytool''] @ library_commands) \<longrightarrow> main_run D m (w # args) = Some (m, Exit 1 []))"
  using assms keytool_word [of "[w]" w] by (auto simp: no_command keytool_word unknown_command)

lemma missing_or_unknown_command_witness:
  "\<forall>D m. main_run D m [''keytool'', ''generat''] = Some (m, Exit 0 [])
     \<and> main_run D m [''generate'', ''--backend'', ''vault''] = Some (m, Exit 1 [])"
proof -
  have "plain_word ''generat''" "plain_word ''generate''"
    by (simp_all add: plain_word_def)
  note missing = missing_or_unknown_command [OF this(1)] missing_or_unknown_command [OF this(2)]
  show ?thesis
  proof (intro allI)
    fix D m
    show "main_run D m [''keytool'', ''generat''] = Some (m, Exit 0 [])
        \<and> main_run D m [''generate'', ''--backend'', ''vault''] = Some (m, Exit 1 [])"
      using missing(1) [of D m] missing(2) [of D m "[''--backend'', ''vault'']"]
      by (simp add: library_commands_def)
  qed
qed

text \<open>
  C35. A boolean flag takes no separate value: \<open>--delete-input false\<close> sets the flag and leaves an argument that
  nobody reads, so after any flags of \<open>keytool migrate\<close> it runs the migration that deletes the plaintext key.
\<close>

theorem delete_input_false_deletes:
  assumes "list_all (writable (cmd_Flags migrateCmd)) ws"
  shows "main_run D m ([''keytool'', ''migrate''] @ render_flags ws @ [''--delete-input'', ''false'']) =
    Some (keytool_outcome (keytool_run D m (KMigrate True) ((values_of ws)(''delete-input'' \<mapsto> ''true''))))"
proof -
  note c = in_commands(5)
  have n: "values_of ws ''help'' = None"
    using values_of_None [OF assms command_flags_no_help [OF c]] .
  have "parseArgs (cmd_Flags migrateCmd @ [help_flag]) [''--delete-input'', ''false''] \<lparr>pa_given = values_of ws, pa_args = []\<rparr>
      = Inr \<lparr>pa_given = (values_of ws)(''delete-input'' \<mapsto> ''true''), pa_args = [''false'']\<rparr>"
    by (simp add: parseArgs.simps(2) parseLongArg_def split_eq_def Lookup_def migrateCmd_def common_flags_def
        commonKMSFlags_def string_flag_def NoOptDefVal_def flag_Set_def value_error_def ParseBool_def add_arg_def)
  from execute_written [OF c in_commands(6) assms this] n
  have "execute migrateCmd (render_flags ws @ [''--delete-input'', ''false'']) =
      Run RunMigrate ((values_of ws)(''delete-input'' \<mapsto> ''true'')) [''false'']"
    by simp
  then have "main_action ([''keytool'', ''migrate''] @ render_flags ws @ [''--delete-input'', ''false'']) =
      Run RunMigrate ((values_of ws)(''delete-input'' \<mapsto> ''true'')) [''false'']"
    by (simp only: main_action_command [OF c])
  then show ?thesis
    by (simp add: main_run_def delete_input_of_def ParseBool_def)
qed

lemma delete_input_false_deletes_witness:
  "\<forall>D m. main_run D m [''keytool'', ''migrate'', ''--input'', ''signer.key'', ''--delete-input'', ''false''] =
     Some (keytool_outcome (keytool_run D m (KMigrate True) [''input'' \<mapsto> ''signer.key'', ''delete-input'' \<mapsto> ''true'']))"
proof (intro allI)
  fix D m
  have "list_all (writable (cmd_Flags migrateCmd)) [(''input'', ''signer.key'', False)]"
    by (simp add: writable_def migrateCmd_def Lookup_def common_flags_def commonKMSFlags_def string_flag_def value_error_def)
  from delete_input_false_deletes [OF this, of D m]
  show "main_run D m [''keytool'', ''migrate'', ''--input'', ''signer.key'', ''--delete-input'', ''false''] =
      Some (keytool_outcome (keytool_run D m (KMigrate True) [''input'' \<mapsto> ''signer.key'', ''delete-input'' \<mapsto> ''true'']))"
    by (simp add: render_flags_def values_of_def fun_upd_def)
qed

end
