(* ===== verification/Main_Runs.thy ===== *)
theory Main_Runs
  imports Main_CLI
begin

text \<open>
  Two runs of the program and a client: a key made or migrated by one command line is the key that the server of the
  next command line signs with, over the wire.
\<close>

lemma keytool_run_Inr:
  "keytool_run D m KGenerate given = (m', Inr out) \<Longrightarrow> keytoolGenerateCmd D m given = (m', Inr out)"
  "keytool_run D m (KMigrate del) given = (m', Inr out) \<Longrightarrow> keytoolMigrateCmd D m given del = (m', Inr out)"
  by (auto simp: keytool_run_def split: option.splits)

lemma keytool_outcome_Exit_0:
  "keytool_outcome r = (m', Exit 0 out) \<Longrightarrow> r = (m', Inr out)"
  by (auto simp: keytool_outcome_def main_exit_def split: prod.splits sum.splits if_splits)

lemma prints_path:
  assumes "resolveKMSConfig D (mc_os m) given = Inr cfg"
    and "keytoolGenerateCmd D m given = (m', Inr (WrittenTo p # out))
      \<or> keytoolMigrateCmd D m given del = (m', Inr (WrittenTo p # out))"
  shows "cfg_Backend cfg \<noteq> BackendVault" "GetString given ''output'' = p"
  using assms
  by (auto simp: keytoolGenerateCmd_def keytoolMigrateCmd_def Let_def result_simps split: if_splits prod.splits)

text \<open>The second run: the server starts and a client has the key.\<close>

lemma serve_run:
  assumes "starts D m cfg p sk" "list_all (writable (cmd_Flags serveCmd)) ws"
    and "serve_config D (mc_os m) (serve_flags_of (values_of ws)) = Inr cfg'" "serves_file cfg p cfg'"
  shows "\<exists>b. main_run D m ([''serve''] @ render_flags ws) = Some (m, Serve (Addr cfg') b)
    \<and> client_call (wire_connect (Server_methods (Server_New (built_ops (dp_blst D) api v N n) b))) req =
       (if length (message_of req) \<le> 4194299 then Inr (expected_reply (dp_blst D) sk req)
        else Inl (refused ''trying to send message larger than max (%d vs. %d)'' (length (marshal_request req))))"
proof -
  from starts_builds [OF assms(1,4)] obtain b where b: "buildBackend D m cfg' = Some (m, Inr b)" "local_built (dp_blst D) b sk"
    by blast
  have "main_run D m ([''serve''] @ render_flags ws) = Some (m, Serve (Addr cfg') b)"
    by (simp add: main_run_def run_flags(1) [OF assms(2)] serve_start_def assms(3) b(1) del: append.simps)
  with localb.wire_expected [OF b(2), of api v N n req] show ?thesis by blast
qed

text \<open>
  C1. The whole way of a new key, from one command line to the next and out to a client: when
  \<open>keytool generate\<close>, run with any of its flags, exits with status 0 and prints a file and a public key, then
  \<open>serve\<close>, run with any of its own flags on the machine that command left behind, with the same backend settings
  and that file, starts on its configured address and changes nothing, and a client over the wire gets the printed
  public key, and the signatures and proofs of possession of its secret key, for every message within the limit.
\<close>

theorem generated_key_served:
  assumes "list_all (writable (cmd_Flags generateCmd)) ws" "list_all (writable (cmd_Flags serveCmd)) ws'"
    and "main_run D m ([''keytool'', ''generate''] @ render_flags ws) = Some (m1, Exit 0 [WrittenTo p, PublicKeyHex pkHex])"
    and "resolveKMSConfig D (mc_os m) (values_of ws) = Inr cfg"
    and "serve_config D (mc_os m1) (serve_flags_of (values_of ws')) = Inr cfg'" "serves_file cfg p cfg'"
    and "keygen_valid (dp_blst D)" "clouds_invert (dp_clouds D)" "readable (mc_os m) p"
  shows "\<exists>sk b. pkHex = hex_EncodeToString (bls_pk (dp_blst D) sk)
    \<and> main_run D m1 ([''serve''] @ render_flags ws') = Some (m1, Serve (Addr cfg') b)
    \<and> client_call (wire_connect (Server_methods (Server_New (built_ops (dp_blst D) api v N n) b))) req =
       (if length (message_of req) \<le> 4194299 then Inr (expected_reply (dp_blst D) sk req)
        else Inl (refused ''trying to send message larger than max (%d vs. %d)'' (length (marshal_request req))))"
proof -
  have gen: "keytoolGenerateCmd D m (values_of ws) = (m1, Inr [WrittenTo p, PublicKeyHex pkHex])"
    using assms(3) by (intro keytool_run_Inr keytool_outcome_Exit_0)
      (simp add: main_run_def run_flags(2) [OF assms(1)] del: append.simps)
  then have out: "cfg_Backend cfg \<noteq> BackendVault" "GetString (values_of ws) ''output'' = p"
    using prints_path [OF assms(4)] by blast+
  from generate_command_starts [OF gen assms(4) out(1) assms(7,8)] assms(9) out(2) obtain sk where
    "pkHex = hex_EncodeToString (bls_pk (dp_blst D) sk)" "starts D m1 cfg p sk"
    by auto
  with serve_run [OF this(2) assms(2,5,6), of api v N n req] show ?thesis by blast
qed

text \<open>
  C2. The same for a key that exists already: when \<open>keytool migrate\<close>, run with any of its flags and an input file
  other than the output, exits with status 0 and prints a file and a public key, then the input file held a valid
  scalar with that public key, its deletion is reported exactly when it was asked for, and \<open>serve\<close>, run as above,
  signs with that very scalar.
\<close>

theorem migrated_key_served:
  assumes "list_all (writable (cmd_Flags migrateCmd)) ws" "list_all (writable (cmd_Flags serveCmd)) ws'"
    and "main_run D m ([''keytool'', ''migrate''] @ render_flags ws) =
      Some (m1, Exit 0 (WrittenTo p # PublicKeyHex pkHex # rest))"
    and "resolveKMSConfig D (mc_os m) (values_of ws) = Inr cfg"
    and "serve_config D (mc_os m1) (serve_flags_of (values_of ws')) = Inr cfg'" "serves_file cfg p cfg'"
    and "clouds_invert (dp_clouds D)" "readable (mc_os m) p" "GetString (values_of ws) ''input'' \<noteq> p"
  shows "\<exists>sk b. contents (mc_os m) (GetString (values_of ws) ''input'') = Some (Scalar_Serialize sk)
    \<and> pkHex = hex_EncodeToString (bls_pk (dp_blst D) sk)
    \<and> rest = (if delete_input_of (values_of ws) then [Deleted (GetString (values_of ws) ''input'')] else [])
    \<and> main_run D m1 ([''serve''] @ render_flags ws') = Some (m1, Serve (Addr cfg') b)
    \<and> client_call (wire_connect (Server_methods (Server_New (built_ops (dp_blst D) api v N n) b))) req =
       (if length (message_of req) \<le> 4194299 then Inr (expected_reply (dp_blst D) sk req)
        else Inl (refused ''trying to send message larger than max (%d vs. %d)'' (length (marshal_request req))))"
proof -
  let ?del = "delete_input_of (values_of ws)"
  have mig: "keytoolMigrateCmd D m (values_of ws) ?del = (m1, Inr (WrittenTo p # PublicKeyHex pkHex # rest))"
    using assms(3) by (intro keytool_run_Inr keytool_outcome_Exit_0)
      (simp add: main_run_def run_flags(3) [OF assms(1)] del: append.simps)
  then have out: "cfg_Backend cfg \<noteq> BackendVault" "GetString (values_of ws) ''output'' = p"
    using prints_path [OF assms(4)] by blast+
  from migrate_command_starts [OF mig assms(4) out(1) assms(7)] assms(8,9) out(2) obtain sk where
    "contents (mc_os m) (GetString (values_of ws) ''input'') = Some (Scalar_Serialize sk)"
    "pkHex = hex_EncodeToString (bls_pk (dp_blst D) sk)" "starts D m1 cfg p sk"
    "rest = (if ?del then [Deleted (GetString (values_of ws) ''input'')] else [])"
    by auto
  with serve_run [OF this(3) assms(2,5,6), of api v N n req] show ?thesis by blast
qed

section \<open>An example\<close>

text \<open>A host that configures the Azure backend in its environment.\<close>

definition azure_env :: "string \<Rightarrow> string" where
  "azure_env n = (if n = ''AZURE_VAULT_URL'' then ''https://v'' else if n = ''AZURE_KEY_NAME'' then ''k''
     else if n = ''AZURE_ENCRYPTED_BLS_KEY_PATH'' then ''bls.key.enc'' else [])"

definition azure_deps :: "(nat, bytes, vault_world, nitro_world) deps" where
  "azure_deps = test_deps\<lparr>dp_env := azure_env\<rparr>"

definition azure_cfg :: Config where
  "azure_cfg = Defaults\<lparr>cfg_Azure := \<lparr>azure_VaultURL = ''https://v'', azure_KeyName = ''k'',
     azure_EncryptedBLSKeyPath = ''bls.key.enc''\<rparr>\<rparr>"

lemma azure_load: "load_config azure_deps S [] = Inr azure_cfg"
  by (simp add: load_config_def Load_def azure_deps_def test_deps_def applyEnv_def applyEnv_core_def applyEnv_AWS_def
      applyEnv_GCP_def applyEnv_Azure_def applyEnv_Vault_def Let_def azure_env_def azure_cfg_def Defaults_def zero_Azure_def
      override_def)

lemma azure_deps_sel:
  "dp_blst azure_deps = toy_blst" "dp_rnd azure_deps = Inr [7]" "dp_clouds azure_deps = test_clouds"
  "dp_vault azure_deps = test_api"
  by (simp_all add: azure_deps_def)

definition azure_keytool_cfg :: Config where
  "azure_keytool_cfg = azure_cfg\<lparr>cfg_Backend := ''azure-kv'', cfg_Vault := zero_Vault\<lparr>vault_MountPath := ''bls''\<rparr>\<rparr>"

lemma azure_resolves:
  assumes "given ''backend'' = Some ''azure-kv''"
    "\<forall>n \<in> set (map fst commonKMSFlags). n \<noteq> ''backend'' \<longrightarrow> given n = None"
  shows "resolveKMSConfig azure_deps S given = Inr azure_keytool_cfg"
  using assms
  by (simp add: resolveKMSConfig_def azure_load GetString_def commonKMSFlags_def override_AWS_def
      override_GCP_def override_Azure_def override_Vault_def override_def azure_cfg_def azure_keytool_cfg_def
      Defaults_def Let_def)

lemma azure_serve:
  "list_all (writable (cmd_Flags serveCmd)) [(''backend'', ''azure-kv'', True)]"
  "serve_config azure_deps S (serve_flags_of (values_of [(''backend'', ''azure-kv'', True)])) =
     Inr (azure_cfg\<lparr>cfg_Backend := ''azure-kv''\<rparr>)"
  "serves_file azure_keytool_cfg ''bls.key.enc'' (azure_cfg\<lparr>cfg_Backend := ''azure-kv''\<rparr>)"
  by (simp_all add: serveCmd_def writable_def Lookup_def string_flag_def value_error_def serve_config_def
      serve_flags_of_def azure_load values_of_def override_def serves_file_def azure_keytool_cfg_def azure_cfg_def
      backend_names Let_def)

lemma azure_generate:
  "\<exists>m1 pkHex. main_run azure_deps test_machine ([''keytool'', ''generate''] @
      render_flags [(''backend'', ''azure-kv'', True), (''output'', ''bls.key.enc'', False)]) =
    Some (m1, Exit 0 [WrittenTo ''bls.key.enc'', PublicKeyHex pkHex])"
proof -
  let ?ws = "[(''backend'', ''azure-kv'', True), (''output'', ''bls.key.enc'', False)]"
  have ok: "scalar_ok (c_keygen toy_blst (fill_buffer 32 [7]))"
    using keygen_valid_toy by (simp add: keygen_valid_def)
  have "list_all (writable (cmd_Flags generateCmd)) ?ws"
    by (simp add: generateCmd_def writable_def Lookup_def common_flags_def commonKMSFlags_def string_flag_def value_error_def)
  note act = run_flags(2) [OF this]
  have "\<exists>m1 pkHex. keytool_run azure_deps test_machine KGenerate (values_of ?ws) =
      (m1, Inr [WrittenTo ''bls.key.enc'', PublicKeyHex pkHex])"
    using ok by (simp add: keytool_run_def required_flags_def keytoolGenerateCmd_def resolveKMSConfig_def azure_load
        values_of_def GetString_def commonKMSFlags_def override_AWS_def override_GCP_def override_Azure_def
        override_Vault_def override_def azure_cfg_def propagate_output_def azure_deps_sel
        keytool_Generate_def backend_names generateBLSKey_def encryptForBackend_def test_clouds_def
        azure_test_cloud_def azurekv_NewKVClient_def azurekv_Encrypt_def keytool_writeFile_def os_WriteFile_def
        quiet_os_def Let_def)
  then show ?thesis
    by (auto simp: main_run_def act keytool_outcome_def main_exit_def simp del: append.simps)
qed

lemma generated_key_served_witness:
  "\<exists>m1 sk b. main_run azure_deps test_machine [''keytool'', ''generate'', ''--backend=azure-kv'', ''--output'', ''bls.key.enc''] =
       Some (m1, Exit 0 [WrittenTo ''bls.key.enc'', PublicKeyHex (hex_EncodeToString (bls_pk toy_blst sk))])
     \<and> main_run azure_deps m1 [''serve'', ''--backend=azure-kv''] = Some (m1, Serve (Addr azure_cfg) b)
     \<and> client_call (wire_connect (Server_methods (Server_New (built_ops toy_blst test_api test_world
           (dp_nitro test_deps) idle_world) b))) (PublicKeyReq ()) =
         Inr (PublicKeyReply \<lparr>pkresp_PublicKey = bls_pk toy_blst sk\<rparr>)"
proof -
  let ?ws = "[(''backend'', ''azure-kv'', True), (''output'', ''bls.key.enc'', False)]"
  obtain m1 pkHex where run: "main_run azure_deps test_machine ([''keytool'', ''generate''] @ render_flags ?ws) =
      Some (m1, Exit 0 [WrittenTo ''bls.key.enc'', PublicKeyHex pkHex])"
    using azure_generate by blast
  have w: "list_all (writable (cmd_Flags generateCmd)) ?ws"
    by (simp add: generateCmd_def writable_def Lookup_def common_flags_def commonKMSFlags_def
        string_flag_def value_error_def)
  have g: "resolveKMSConfig azure_deps (mc_os test_machine) (values_of ?ws) = Inr azure_keytool_cfg"
    by (rule azure_resolves) (simp_all add: values_of_def commonKMSFlags_def)
  have k: "keygen_valid (dp_blst azure_deps)" "clouds_invert (dp_clouds azure_deps)"
    "readable (mc_os test_machine) ''bls.key.enc''"
    using keygen_valid_toy test_clouds_invert by (simp_all add: azure_deps_sel)
  from generated_key_served [OF w azure_serve(1) run g azure_serve(2,3) k, where api = test_api and v = test_world
      and N = "dp_nitro test_deps" and n = idle_world and req = "PublicKeyReq ()"] run
  show ?thesis
    by (auto simp: azure_deps_sel render_flags_def Addr_def)
qed

abbreviation migrate_ws :: "(string \<times> string \<times> bool) list" where
  "migrate_ws \<equiv> [(''backend'', ''azure-kv'', True), (''input'', ''signer.key'', False),
     (''output'', ''bls.key.enc'', False), (''delete-input'', ''true'', True)]"

lemma azure_migrate:
  "\<exists>m1. main_run azure_deps (test_machine\<lparr>mc_os := migrate_os\<rparr>) ([''keytool'', ''migrate''] @ render_flags migrate_ws) =
    Some (m1, Exit 0 [WrittenTo ''bls.key.enc'', PublicKeyHex (hex_EncodeToString (bls_pk toy_blst 5)), Deleted ''signer.key''])"
proof -
  have "list_all (writable (cmd_Flags migrateCmd)) migrate_ws"
    by (simp add: migrateCmd_def writable_def Lookup_def common_flags_def commonKMSFlags_def string_flag_def
        value_error_def ParseBool_def)
  note act = run_flags(3) [OF this]
  have "\<exists>m1. keytool_run azure_deps (test_machine\<lparr>mc_os := migrate_os\<rparr>) (KMigrate True) (values_of migrate_ws) =
      (m1, Inr [WrittenTo ''bls.key.enc'', PublicKeyHex (hex_EncodeToString (bls_pk toy_blst 5)), Deleted ''signer.key''])"
    by (simp add: keytool_run_def required_flags_def keytoolMigrateCmd_def resolveKMSConfig_def azure_load
        values_of_def GetString_def commonKMSFlags_def override_AWS_def override_GCP_def override_Azure_def
        override_Vault_def override_def azure_cfg_def azure_deps_sel
        keytool_Migrate_def os_ReadFile_def migrate_env key_file_def ValidateSecretKey_iff backend_names
        encryptForBackend_def test_clouds_def azure_test_cloud_def azurekv_NewKVClient_def azurekv_Encrypt_def
        keytool_writeFile_def os_WriteFile_def delete_input_def secureDelete_def os_Overwrite_def os_Remove_def
        set_file_def exI [of _ 5] Let_def)
  moreover have "delete_input_of (values_of migrate_ws)"
    by (simp add: delete_input_of_def values_of_def ParseBool_def)
  ultimately show ?thesis
    by (auto simp: main_run_def act keytool_outcome_def main_exit_def simp del: append.simps)
qed

lemma migrated_key_served_witness:
  "\<exists>m1 b. main_run azure_deps (test_machine\<lparr>mc_os := migrate_os\<rparr>)
       [''keytool'', ''migrate'', ''--backend=azure-kv'', ''--input'', ''signer.key'', ''--output'', ''bls.key.enc'',
        ''--delete-input=true''] =
       Some (m1, Exit 0 [WrittenTo ''bls.key.enc'', PublicKeyHex (hex_EncodeToString (bls_pk toy_blst 5)), Deleted ''signer.key''])
     \<and> main_run azure_deps m1 [''serve'', ''--backend=azure-kv''] = Some (m1, Serve (Addr azure_cfg) b)"
proof -
  obtain m1 where run: "main_run azure_deps (test_machine\<lparr>mc_os := migrate_os\<rparr>) ([''keytool'', ''migrate''] @ render_flags migrate_ws) =
    Some (m1, Exit 0 [WrittenTo ''bls.key.enc'', PublicKeyHex (hex_EncodeToString (bls_pk toy_blst 5)), Deleted ''signer.key''])"
    using azure_migrate by blast
  have w: "list_all (writable (cmd_Flags migrateCmd)) migrate_ws"
    by (simp add: migrateCmd_def writable_def Lookup_def common_flags_def commonKMSFlags_def string_flag_def
        value_error_def ParseBool_def)
  have g: "resolveKMSConfig azure_deps (mc_os (test_machine\<lparr>mc_os := migrate_os\<rparr>)) (values_of migrate_ws) = Inr azure_keytool_cfg"
    by (rule azure_resolves) (simp_all add: values_of_def commonKMSFlags_def)
  have k: "readable (mc_os (test_machine\<lparr>mc_os := migrate_os\<rparr>)) ''bls.key.enc''"
    "GetString (values_of migrate_ws) ''input'' \<noteq> ''bls.key.enc''" "clouds_invert (dp_clouds azure_deps)"
    using test_clouds_invert by (simp_all add: migrate_os_def values_of_def GetString_def azure_deps_sel)
  from migrated_key_served [OF w azure_serve(1) run g azure_serve(2,3) k(3,1,2), where api = test_api and v = test_world
      and N = "dp_nitro test_deps" and n = idle_world and req = "PublicKeyReq ()"] run
  show ?thesis
    by (auto simp: render_flags_def Addr_def)
qed

end
