(* ===== verification/Main_Vault.thy ===== *)
theory Main_Vault
  imports Main_Runs
begin

text \<open>
  The two runs of theory \<open>Main_Runs\<close> for a key that lives in Vault: \<open>keytool\<close> has the plugin make or import the key,
  and \<open>serve\<close>, with any token the server accepts, signs with it, every signature being made by the plugin.
\<close>

section \<open>A factory value over the plugin\<close>

definition vault_or_local ::
  "('p1, 'p2) blst \<Rightarrow> (string \<Rightarrow> bool) \<Rightarrow> string \<Rightarrow> vault_world \<Rightarrow> built \<Rightarrow> nat \<Rightarrow> bool" where
  "vault_or_local B gn mount v b sk =
     (case b of BVault k \<Rightarrow> vault_holds B gn mount v k sk | _ \<Rightarrow> local_built B b sk)"

interpretation pluginb:
  signing_backend B "built_ops B (plugin_api B gn mount rnd) v N n" "vault_or_local B gn mount v"
  for B :: "('p1, 'p2) blst" and gn mount rnd v N n
proof (unfold_locales, goal_cases)
  case (1 b sk)
  then show ?case
    by (cases b) (auto simp: vault_or_local_def localb.PublicKey_law built_ops_def vaultb.PublicKey_law local_built_def
        memb.laws awsb.laws gcpb.laws azb.laws)
next
  case (2 b sk msg)
  then show ?case
    by (cases b) (auto simp: vault_or_local_def built_ops_def vaultb.Sign_law local_built_def
        memb.laws awsb.laws gcpb.laws azb.laws)
next
  case (3 b sk msg)
  then show ?case
    by (cases b) (auto simp: vault_or_local_def built_ops_def vaultb.SignPoP_law local_built_def
        memb.laws awsb.laws gcpb.laws azb.laws)
qed

text \<open>The settings with which \<open>serve\<close> finds the key that \<open>keytool\<close> made with the settings \<open>c\<close>; the token may be another.\<close>

definition serves_vault :: "(string \<Rightarrow> bool) \<Rightarrow> VaultConfig \<Rightarrow> Config \<Rightarrow> bool" where
  "serves_vault accepts c cfg \<longleftrightarrow> cfg_Backend cfg = BackendVault \<and> vault_mount (cfg_Vault cfg) = vault_mount c
     \<and> vault_KeyName (cfg_Vault cfg) = vault_KeyName c \<and> vault_AuthMethod (cfg_Vault cfg) = ''token''
     \<and> vault_Token (cfg_Vault cfg) \<noteq> [] \<and> accepts (vault_Token (cfg_Vault cfg))"

lemma serve_vault_starts:
  assumes "dp_vault D = plugin_api (dp_blst D) gn (vault_mount c) rnd" "good_name gn (vault_KeyName c)"
    and "vault_has (dp_blst D) (vault_KeyName c) sk pkHex w (mc_vault m)"
    and "list_all (writable (cmd_Flags serveCmd)) ws"
    and "serve_config D (mc_os m) (serve_flags_of (values_of ws)) = Inr cfg" "serves_vault (vw_accepts w) c cfg"
  shows "\<exists>k. main_run D m ([''serve''] @ render_flags ws) = Some (m, Serve (Addr cfg) (BVault k))
    \<and> vault_holds (dp_blst D) gn (vault_mount c) (mc_vault m) k sk"
proof -
  from assms(2,3,6) vault_New_holds_plugin [of "mc_vault m" "cfg_Vault cfg" sk gn "dp_blst D" rnd "mc_os m"]
  obtain k where k: "vault_New (dp_vault D) (mc_os m) (mc_vault m) (cfg_Vault cfg) = (mc_vault m, Inr k)"
    "vault_holds (dp_blst D) gn (vault_mount c) (mc_vault m) k sk"
    unfolding assms(1) by (auto simp: serves_vault_def vault_has_def)
  have "buildBackend D m cfg = Some (m, Inr (BVault k))"
    using assms(6) k(1) by (simp add: buildBackend_def serves_vault_def backend_names as_built_def Let_def)
  then have "main_run D m ([''serve''] @ render_flags ws) = Some (m, Serve (Addr cfg) (BVault k))"
    by (simp add: main_run_def run_flags(1) [OF assms(4)] serve_start_def assms(5) del: append.simps)
  with k(2) show ?thesis by blast
qed

lemma serve_vault_run:
  assumes "dp_vault D = plugin_api (dp_blst D) gn (vault_mount c) rnd" "good_name gn (vault_KeyName c)"
    and "vault_has (dp_blst D) (vault_KeyName c) sk pkHex w (mc_vault m)"
    and "list_all (writable (cmd_Flags serveCmd)) ws"
    and "serve_config D (mc_os m) (serve_flags_of (values_of ws)) = Inr cfg" "serves_vault (vw_accepts w) c cfg"
  shows "\<exists>b. main_run D m ([''serve''] @ render_flags ws) = Some (m, Serve (Addr cfg) b)
    \<and> client_call (wire_connect (Server_methods (Server_New (built_ops (dp_blst D) (dp_vault D) (mc_vault m) N n) b))) req =
       (if length (message_of req) \<le> 4194299 then Inr (expected_reply (dp_blst D) sk req)
        else Inl (refused ''trying to send message larger than max (%d vs. %d)'' (length (marshal_request req))))"
proof -
  from serve_vault_starts [OF assms] obtain k where k:
    "main_run D m ([''serve''] @ render_flags ws) = Some (m, Serve (Addr cfg) (BVault k))"
    "vault_or_local (dp_blst D) gn (vault_mount c) (mc_vault m) (BVault k) sk"
    by (auto simp: vault_or_local_def)
  from k(1) pluginb.wire_expected [OF k(2), of rnd N n req] show ?thesis
    unfolding assms(1) by blast
qed

section \<open>The commands\<close>

lemma generate_into_vault:
  assumes "keytoolGenerateCmd D m given = (m', Inr (InVault mp name # out))" "resolveKMSConfig D (mc_os m) given = Inr cfg"
    and "dp_vault D = plugin_api (dp_blst D) gn (vault_mount (cfg_Vault cfg)) rnd" "good_name gn (vault_KeyName (cfg_Vault cfg))"
    and "keygen_valid (dp_blst D)"
  shows "\<exists>r pkHex. rnd = Inr r \<and> mp = vault_MountPath (cfg_Vault cfg) \<and> name = vault_KeyName (cfg_Vault cfg)
    \<and> out = [PublicKeyHex pkHex] \<and> mc_os m' = mc_os m
    \<and> vault_has (dp_blst D) name (c_keygen (dp_blst D) (fill_buffer 32 r)) pkHex (mc_vault m) (mc_vault m')"
proof -
  from assms(1,2) have v: "cfg_Backend cfg = BackendVault"
    by (auto simp: keytoolGenerateCmd_def Let_def result_simps split: if_splits prod.splits)
  then have c: "propagate_output cfg p = cfg" for p
    by (simp add: propagate_output_def backend_names)
  obtain v' r where g: "vaultGenerate (dp_vault D) (mc_vault m) (cfg_Vault cfg) = (v', r)" by fastforce
  with assms(1,2) v c obtain pkHex where r: "r = Inr pkHex" "mc_os m' = mc_os m" "mc_vault m' = v'"
    "mp = vault_MountPath (cfg_Vault cfg)" "name = vault_KeyName (cfg_Vault cfg)" "out = [PublicKeyHex pkHex]"
    by (auto simp: keytoolGenerateCmd_def keytool_Generate_def Let_def result_simps)
  from vaultGenerate_plugin [OF g [unfolded r(1) assms(3)] assms(4,5)] r show ?thesis by auto
qed

lemma migrate_into_vault:
  assumes "keytoolMigrateCmd D m given del = (m', Inr (InVault mp name # out))" "resolveKMSConfig D (mc_os m) given = Inr cfg"
    and "dp_vault D = plugin_api (dp_blst D) gn (vault_mount (cfg_Vault cfg)) rnd" "good_name gn (vault_KeyName (cfg_Vault cfg))"
  shows "\<exists>sk pkHex. contents (mc_os m) (GetString given ''input'') = Some (Scalar_Serialize sk)
    \<and> mp = vault_MountPath (cfg_Vault cfg) \<and> name = vault_KeyName (cfg_Vault cfg)
    \<and> out = PublicKeyHex pkHex # (if del then [Deleted (GetString given ''input'')] else [])
    \<and> vault_has (dp_blst D) name sk pkHex (mc_vault m) (mc_vault m')"
proof -
  from assms(1,2) have v: "cfg_Backend cfg = BackendVault"
    by (auto simp: keytoolMigrateCmd_def Let_def result_simps split: if_splits prod.splits)
  let ?opts = "\<lparr>mo_Backend = cfg_Backend cfg, mo_InputPath = GetString given ''input'',
    mo_OutputPath = GetString given ''output'', mo_DeleteInput = del, mo_AWS = cfg_AWS cfg,
    mo_GCP = cfg_GCP cfg, mo_Azure = cfg_Azure cfg, mo_Vault = cfg_Vault cfg\<rparr>"
  obtain S' v' r where run: "keytool_Migrate (dp_blst D) (dp_clouds D) (dp_vault D) (mc_os m) (mc_vault m) ?opts = (S', v', r)"
    by (metis prod.exhaust)
  with assms(1,2) v obtain pkHex where r: "r = Inr pkHex" "mc_vault m' = v'"
    "mp = vault_MountPath (cfg_Vault cfg)" "name = vault_KeyName (cfg_Vault cfg)"
    "out = PublicKeyHex pkHex # (if del then [Deleted (GetString given ''input'')] else [])"
    by (auto simp: keytoolMigrateCmd_def Let_def result_simps)
  from Migrate_into_Vault [of "dp_blst D" "dp_clouds D" gn ?opts rnd "mc_os m" "mc_vault m" S' v' pkHex] run assms(3,4) v r
  show ?thesis by auto
qed

section \<open>Properties\<close>

text \<open>
  C14. A key made in Vault, from one command line to the next and out to a client: when \<open>keytool generate\<close>, with
  any of its flags and over a server with the plugin under the configured mount, exits with status 0 and reports a key in
  Vault, then the plugin made that key from its own random bytes, \<open>serve\<close>, run with any of its flags, the same mount and
  key name and a token that the server accepts, starts and changes nothing, and a client over the wire gets the
  printed public key, and the signatures and proofs of possession of that key, for every message within the limit.
\<close>

theorem vault_generated_key_served:
  assumes "list_all (writable (cmd_Flags generateCmd)) ws" "list_all (writable (cmd_Flags serveCmd)) ws'"
    and "main_run D m ([''keytool'', ''generate''] @ render_flags ws) = Some (m1, Exit 0 [InVault mp name, PublicKeyHex pkHex])"
    and "resolveKMSConfig D (mc_os m) (values_of ws) = Inr cfg"
    and "dp_vault D = plugin_api (dp_blst D) gn (vault_mount (cfg_Vault cfg)) rnd" "good_name gn (vault_KeyName (cfg_Vault cfg))"
    and "serve_config D (mc_os m1) (serve_flags_of (values_of ws')) = Inr cfg'"
    and "serves_vault (vw_accepts (mc_vault m)) (cfg_Vault cfg) cfg'" "keygen_valid (dp_blst D)"
  shows "\<exists>r sk b. rnd = Inr r \<and> sk = c_keygen (dp_blst D) (fill_buffer 32 r)
    \<and> pkHex = hex_EncodeToString (bls_pk (dp_blst D) sk)
    \<and> main_run D m1 ([''serve''] @ render_flags ws') = Some (m1, Serve (Addr cfg') b)
    \<and> client_call (wire_connect (Server_methods (Server_New (built_ops (dp_blst D) (dp_vault D) (mc_vault m1) N n) b))) req =
       (if length (message_of req) \<le> 4194299 then Inr (expected_reply (dp_blst D) sk req)
        else Inl (refused ''trying to send message larger than max (%d vs. %d)'' (length (marshal_request req))))"
proof -
  have "keytoolGenerateCmd D m (values_of ws) = (m1, Inr [InVault mp name, PublicKeyHex pkHex])"
    using assms(3) by (intro keytool_run_Inr keytool_outcome_Exit_0)
      (simp add: main_run_def run_flags(2) [OF assms(1)] del: append.simps)
  from generate_into_vault [OF this assms(4-6,9)] obtain r where r: "rnd = Inr r"
    "vault_has (dp_blst D) (vault_KeyName (cfg_Vault cfg)) (c_keygen (dp_blst D) (fill_buffer 32 r)) pkHex (mc_vault m) (mc_vault m1)"
    by auto
  from serve_vault_run [OF assms(5,6) r(2) assms(2,7,8), of N n req] r show ?thesis
    by (auto simp: vault_has_def)
qed

text \<open>
  C15. The same for a key that exists already: when \<open>keytool migrate\<close> exits with status 0 and reports a key in Vault,
  then the input file held a valid scalar with the printed public key, its deletion is reported exactly when it was asked
  for, and \<open>serve\<close>, run as above, signs with that very scalar through the plugin.
\<close>

theorem vault_migrated_key_served:
  assumes "list_all (writable (cmd_Flags migrateCmd)) ws" "list_all (writable (cmd_Flags serveCmd)) ws'"
    and "main_run D m ([''keytool'', ''migrate''] @ render_flags ws) =
      Some (m1, Exit 0 (InVault mp name # PublicKeyHex pkHex # rest))"
    and "resolveKMSConfig D (mc_os m) (values_of ws) = Inr cfg"
    and "dp_vault D = plugin_api (dp_blst D) gn (vault_mount (cfg_Vault cfg)) rnd" "good_name gn (vault_KeyName (cfg_Vault cfg))"
    and "serve_config D (mc_os m1) (serve_flags_of (values_of ws')) = Inr cfg'"
    and "serves_vault (vw_accepts (mc_vault m)) (cfg_Vault cfg) cfg'"
  shows "\<exists>sk b. contents (mc_os m) (GetString (values_of ws) ''input'') = Some (Scalar_Serialize sk)
    \<and> pkHex = hex_EncodeToString (bls_pk (dp_blst D) sk)
    \<and> rest = (if delete_input_of (values_of ws) then [Deleted (GetString (values_of ws) ''input'')] else [])
    \<and> main_run D m1 ([''serve''] @ render_flags ws') = Some (m1, Serve (Addr cfg') b)
    \<and> client_call (wire_connect (Server_methods (Server_New (built_ops (dp_blst D) (dp_vault D) (mc_vault m1) N n) b))) req =
       (if length (message_of req) \<le> 4194299 then Inr (expected_reply (dp_blst D) sk req)
        else Inl (refused ''trying to send message larger than max (%d vs. %d)'' (length (marshal_request req))))"
proof -
  let ?del = "delete_input_of (values_of ws)"
  have "keytoolMigrateCmd D m (values_of ws) ?del = (m1, Inr (InVault mp name # PublicKeyHex pkHex # rest))"
    using assms(3) by (intro keytool_run_Inr keytool_outcome_Exit_0)
      (simp add: main_run_def run_flags(3) [OF assms(1)] del: append.simps)
  from migrate_into_vault [OF this assms(4-6)] obtain sk where sk:
    "contents (mc_os m) (GetString (values_of ws) ''input'') = Some (Scalar_Serialize sk)"
    "vault_has (dp_blst D) (vault_KeyName (cfg_Vault cfg)) sk pkHex (mc_vault m) (mc_vault m1)"
    "rest = (if ?del then [Deleted (GetString (values_of ws) ''input'')] else [])" by auto
  from serve_vault_run [OF assms(5,6) sk(2) assms(2,7,8), of N n req] sk show ?thesis
    by (auto simp: vault_has_def)
qed

section \<open>An example\<close>

text \<open>A host that configures the Vault backend in its environment, and a Vault server with the plugin and no key.\<close>

definition vault_env :: "string \<Rightarrow> string" where
  "vault_env n = (if n = ''VAULT_KEY_NAME'' then ''validator'' else if n = ''VAULT_TOKEN'' then ''root''
     else if n = ''VAULT_AUTH_METHOD'' then ''token'' else [])"

definition vault_deps :: "(nat, bytes, vault_world, nitro_world) deps" where
  "vault_deps = test_deps\<lparr>dp_env := vault_env\<rparr>"

definition vault_cfg :: Config where
  "vault_cfg = Defaults\<lparr>cfg_Vault := zero_Vault\<lparr>vault_KeyName := ''validator'', vault_AuthMethod := ''token'',
     vault_Token := ''root''\<rparr>\<rparr>"

definition vault_keytool_cfg :: Config where
  "vault_keytool_cfg = vault_cfg\<lparr>cfg_Backend := ''vault'', cfg_Vault := (cfg_Vault vault_cfg)\<lparr>vault_MountPath := ''bls''\<rparr>\<rparr>"

lemma vault_deps_sel:
  "dp_blst vault_deps = toy_blst" "dp_vault vault_deps = test_api" "dp_nitro vault_deps = dp_nitro test_deps"
  by (simp_all add: vault_deps_def)

lemma vault_load: "load_config vault_deps S [] = Inr vault_cfg"
  by (simp add: load_config_def Load_def vault_deps_def test_deps_def applyEnv_def applyEnv_core_def applyEnv_AWS_def
      applyEnv_GCP_def applyEnv_Azure_def applyEnv_Vault_def Let_def vault_env_def vault_cfg_def Defaults_def
      zero_Vault_def override_def)

lemma vault_resolves:
  assumes "given ''backend'' = Some ''vault''"
    "\<forall>n \<in> set (map fst commonKMSFlags). n \<noteq> ''backend'' \<longrightarrow> given n = None"
  shows "resolveKMSConfig vault_deps S given = Inr vault_keytool_cfg"
  using assms
  by (simp add: resolveKMSConfig_def vault_load GetString_def commonKMSFlags_def override_AWS_def
      override_GCP_def override_Azure_def override_Vault_def override_def vault_cfg_def vault_keytool_cfg_def
      Defaults_def Let_def)

lemma vault_test_key: "at_test_key (cfg_Vault vault_keytool_cfg)"
  by (simp add: at_test_key_def vault_keytool_cfg_def vault_cfg_def vault_mount_def)

lemma vault_serve:
  "list_all (writable (cmd_Flags serveCmd)) [(''backend'', ''vault'', True)]"
  "serve_config vault_deps S (serve_flags_of (values_of [(''backend'', ''vault'', True)])) =
     Inr (vault_cfg\<lparr>cfg_Backend := ''vault''\<rparr>)"
  "serves_vault (vw_accepts empty_world) (cfg_Vault vault_keytool_cfg) (vault_cfg\<lparr>cfg_Backend := ''vault''\<rparr>)"
  by (simp_all add: serveCmd_def writable_def Lookup_def string_flag_def value_error_def serve_config_def
      serve_flags_of_def vault_load values_of_def override_def serves_vault_def vault_keytool_cfg_def vault_cfg_def
      backend_names vault_mount_def defaultMountPath_def zero_Vault_def empty_world_def Let_def)

lemma vault_api_at:
  "dp_vault vault_deps = plugin_api (dp_blst vault_deps) (\<lambda>_. True) (vault_mount (cfg_Vault vault_keytool_cfg)) (Inr [])"
  "good_name (\<lambda>_. True) (vault_KeyName (cfg_Vault vault_keytool_cfg))"
  using vault_test_key by (simp_all add: vault_deps_sel at_test_key_def good_name_def)

abbreviation empty_machine :: "(vault_world, nitro_world) machine" where
  "empty_machine \<equiv> test_machine\<lparr>mc_vault := empty_world\<rparr>"

lemma vault_generate:
  "\<exists>m1. main_run vault_deps empty_machine ([''keytool'', ''generate''] @ render_flags [(''backend'', ''vault'', True)]) =
    Some (m1, Exit 0 [InVault ''bls'' ''validator'', PublicKeyHex (hex_EncodeToString (bls_pk toy_blst generated_test_key))])"
proof -
  let ?ws = "[(''backend'', ''vault'', True)]"
  have "list_all (writable (cmd_Flags generateCmd)) ?ws"
    by (simp add: generateCmd_def writable_def Lookup_def common_flags_def commonKMSFlags_def string_flag_def value_error_def)
  note act = run_flags(2) [OF this]
  have r: "resolveKMSConfig vault_deps S [''backend'' \<mapsto> ''vault''] = Inr vault_keytool_cfg" for S
    by (rule vault_resolves) (simp_all add: commonKMSFlags_def)
  have c: "cfg_Backend vault_keytool_cfg = BackendVault" "propagate_output vault_keytool_cfg p = vault_keytool_cfg"
    "vault_MountPath (cfg_Vault vault_keytool_cfg) = ''bls''" "vault_KeyName (cfg_Vault vault_keytool_cfg) = ''validator''" for p
    by (simp_all add: vault_keytool_cfg_def backend_names propagate_output_def vault_cfg_def)
  obtain w where "vaultGenerate test_api empty_world (cfg_Vault vault_keytool_cfg) =
      (w, Inr (hex_EncodeToString (bls_pk toy_blst generated_test_key)))"
    using test_generate [OF vault_test_key] by blast
  then have "\<exists>m1. keytool_run vault_deps empty_machine KGenerate (values_of ?ws) =
      (m1, Inr [InVault ''bls'' ''validator'', PublicKeyHex (hex_EncodeToString (bls_pk toy_blst generated_test_key))])"
    by (simp add: keytool_run_def required_flags_def keytoolGenerateCmd_def r c values_of_def
        vault_deps_sel keytool_Generate_def Let_def)
  then show ?thesis
    by (auto simp: main_run_def act keytool_outcome_def main_exit_def simp del: append.simps)
qed

lemma vault_generated_key_served_witness:
  "\<exists>m1 b. main_run vault_deps empty_machine [''keytool'', ''generate'', ''--backend=vault''] =
       Some (m1, Exit 0 [InVault ''bls'' ''validator'', PublicKeyHex (hex_EncodeToString (bls_pk toy_blst generated_test_key))])
     \<and> main_run vault_deps m1 [''serve'', ''--backend=vault''] = Some (m1, Serve (Addr vault_cfg) b)"
proof -
  obtain m1 where run: "main_run vault_deps empty_machine ([''keytool'', ''generate''] @ render_flags [(''backend'', ''vault'', True)]) =
    Some (m1, Exit 0 [InVault ''bls'' ''validator'', PublicKeyHex (hex_EncodeToString (bls_pk toy_blst generated_test_key))])"
    using vault_generate by blast
  have w: "list_all (writable (cmd_Flags generateCmd)) [(''backend'', ''vault'', True)]"
    by (simp add: generateCmd_def writable_def Lookup_def common_flags_def commonKMSFlags_def
        string_flag_def value_error_def)
  have g: "resolveKMSConfig vault_deps (mc_os empty_machine) (values_of [(''backend'', ''vault'', True)]) = Inr vault_keytool_cfg"
    by (rule vault_resolves) (simp_all add: values_of_def commonKMSFlags_def)
  have s: "serves_vault (vw_accepts (mc_vault empty_machine)) (cfg_Vault vault_keytool_cfg) (vault_cfg\<lparr>cfg_Backend := ''vault''\<rparr>)"
    "keygen_valid (dp_blst vault_deps)"
    using vault_serve(3) keygen_valid_toy by (simp_all add: vault_deps_sel)
  from vault_generated_key_served [OF w vault_serve(1) run g vault_api_at vault_serve(2) s, where N = "dp_nitro test_deps"
      and n = idle_world and req = "PublicKeyReq ()"] run
  show ?thesis
    by (auto simp: render_flags_def Addr_def)
qed

abbreviation vault_migrate_ws :: "(string \<times> string \<times> bool) list" where
  "vault_migrate_ws \<equiv> [(''backend'', ''vault'', True), (''input'', ''signer.key'', False), (''delete-input'', ''true'', True)]"

abbreviation key_machine :: "(vault_world, nitro_world) machine" where
  "key_machine \<equiv> test_machine\<lparr>mc_os := migrate_os, mc_vault := empty_world\<rparr>"

lemma vault_migrate:
  "\<exists>m1. main_run vault_deps key_machine ([''keytool'', ''migrate''] @ render_flags vault_migrate_ws) =
    Some (m1, Exit 0 [InVault ''bls'' ''validator'', PublicKeyHex (hex_EncodeToString (bls_pk toy_blst 5)), Deleted ''signer.key''])"
proof -
  have "list_all (writable (cmd_Flags migrateCmd)) vault_migrate_ws"
    by (simp add: migrateCmd_def writable_def Lookup_def common_flags_def commonKMSFlags_def string_flag_def
        value_error_def ParseBool_def)
  note act = run_flags(3) [OF this]
  have r: "resolveKMSConfig vault_deps S
      [''backend'' \<mapsto> ''vault'', ''input'' \<mapsto> ''signer.key'', ''delete-input'' \<mapsto> ''true''] = Inr vault_keytool_cfg" for S
    by (rule vault_resolves) (simp_all add: commonKMSFlags_def)
  have c: "cfg_Backend vault_keytool_cfg = BackendVault" "vault_MountPath (cfg_Vault vault_keytool_cfg) = ''bls''"
    "vault_KeyName (cfg_Vault vault_keytool_cfg) = ''validator''"
    by (simp_all add: vault_keytool_cfg_def backend_names vault_cfg_def)
  have "\<exists>m1. keytool_run vault_deps key_machine (KMigrate True) (values_of vault_migrate_ws) =
      (m1, Inr [InVault ''bls'' ''validator'', PublicKeyHex (hex_EncodeToString (bls_pk toy_blst 5)), Deleted ''signer.key''])"
    by (simp add: keytool_run_def required_flags_def keytoolMigrateCmd_def r c values_of_def GetString_def
        vault_deps_sel keytool_Migrate_def os_ReadFile_def migrate_env key_file_def ValidateSecretKey_iff
        test_import [OF vault_test_key] delete_input_def secureDelete_def os_Overwrite_def os_Remove_def
        set_file_def exI [of _ 5] Let_def)
  moreover have "delete_input_of (values_of vault_migrate_ws)"
    by (simp add: delete_input_of_def values_of_def ParseBool_def)
  ultimately show ?thesis
    by (auto simp: main_run_def act keytool_outcome_def main_exit_def simp del: append.simps)
qed

lemma vault_migrated_key_served_witness:
  "\<exists>m1 b. main_run vault_deps key_machine
       [''keytool'', ''migrate'', ''--backend=vault'', ''--input'', ''signer.key'', ''--delete-input=true''] =
       Some (m1, Exit 0 [InVault ''bls'' ''validator'', PublicKeyHex (hex_EncodeToString (bls_pk toy_blst 5)), Deleted ''signer.key''])
     \<and> main_run vault_deps m1 [''serve'', ''--backend=vault''] = Some (m1, Serve (Addr vault_cfg) b)"
proof -
  obtain m1 where run: "main_run vault_deps key_machine ([''keytool'', ''migrate''] @ render_flags vault_migrate_ws) =
    Some (m1, Exit 0 [InVault ''bls'' ''validator'', PublicKeyHex (hex_EncodeToString (bls_pk toy_blst 5)), Deleted ''signer.key''])"
    using vault_migrate by blast
  have w: "list_all (writable (cmd_Flags migrateCmd)) vault_migrate_ws"
    by (simp add: migrateCmd_def writable_def Lookup_def common_flags_def commonKMSFlags_def string_flag_def
        value_error_def ParseBool_def)
  have g: "resolveKMSConfig vault_deps (mc_os key_machine) (values_of vault_migrate_ws) = Inr vault_keytool_cfg"
    by (rule vault_resolves) (simp_all add: values_of_def commonKMSFlags_def)
  have s: "serves_vault (vw_accepts (mc_vault key_machine)) (cfg_Vault vault_keytool_cfg) (vault_cfg\<lparr>cfg_Backend := ''vault''\<rparr>)"
    using vault_serve(3) by simp
  from vault_migrated_key_served [OF w vault_serve(1) run g vault_api_at vault_serve(2) s, where N = "dp_nitro test_deps"
      and n = idle_world and req = "PublicKeyReq ()"] run
  show ?thesis
    by (auto simp: render_flags_def Addr_def)
qed

end
