(* ===== verification/Built_Backends.thy ===== *)
theory Built_Backends
  imports Main_Props
begin

text \<open>
  What holds of every backend that \<open>buildBackend\<close> returns, whatever the cloud, the Vault server or the enclave
  answered: where its key comes from, and that it and everything the server sends has the sizes of the protocol.
\<close>

section \<open>Where the key comes from\<close>

lemma nitro_New_size: "nitro_New N w cfg = Some (w', Inr b) \<Longrightarrow> length (nb_pkBytes b) = 48 \<and> nb_enclaveCID b = nitro_EnclaveCID cfg"
  by (auto simp: nitro_New_def Let_def result_simps split: prod.splits option.splits if_splits)

definition key_origin ::
  "('p1, 'p2, 'v, 'n) deps \<Rightarrow> os_state \<Rightarrow> 'v \<Rightarrow> Config \<Rightarrow> built \<Rightarrow> bool" where
  "key_origin D S v cfg b = (case b of
     BMemory k \<Rightarrow> (\<exists>r. dp_rnd D = Inr r \<and> keypair_holds (dp_blst D) k (c_keygen (dp_blst D) (fill_buffer 32 r)))
   | BAWSKMS k \<Rightarrow> (\<exists>client ct sk. awskms_NewKMSClient (cl_AWS (dp_clouds D)) (cfg_AWS cfg) = Inr client
       \<and> contents S (aws_EncryptedBLSKeyPath (cfg_AWS cfg)) = Some ct
       \<and> aws_Decrypt (cl_AWS (dp_clouds D)) client \<lparr>dec_KeyId = aws_KMSKeyID (cfg_AWS cfg), dec_CiphertextBlob = ct,
            dec_EncryptionAlgorithm = SymmetricDefault\<rparr> = Inr (Scalar_Serialize sk)
       \<and> keypair_holds (dp_blst D) k sk)
   | BGCPKMS k \<Rightarrow> (\<exists>ct sk. contents S (gcp_EncryptedBLSKeyPath (cfg_GCP cfg)) = Some ct
       \<and> gcp_Decrypt (cl_GCP (dp_clouds D)) (resourceName (cfg_GCP cfg)) ct = Inr (Scalar_Serialize sk)
       \<and> keypair_holds (dp_blst D) k sk \<and> gcp_client k = Some (cl_GCP (dp_clouds D)))
   | BAzureKV k \<Rightarrow> (\<exists>ct sk. contents S (azure_EncryptedBLSKeyPath (cfg_Azure cfg)) = Some ct
       \<and> az_Decrypt (cl_Azure (dp_clouds D)) (azure_VaultURL (cfg_Azure cfg)) (azure_KeyName (cfg_Azure cfg)) []
            ''RSA-OAEP-256'' ct = Inr (Scalar_Serialize sk)
       \<and> keypair_holds (dp_blst D) k sk)
   | BVault k \<Rightarrow> (\<exists>s dat pkHex.
         va_Read (dp_vault D) v (vb_client k) (key_path (vault_mount (cfg_Vault cfg)) (vault_KeyName (cfg_Vault cfg)) ''public-key'')
           = Inr (Some s) \<and> sec_Data s = Some dat \<and> dat ''public_key'' = Some (VString pkHex)
       \<and> hex_DecodeString pkHex = Inr (vb_pkBytes k) \<and> length (vb_pkBytes k) = 48)
   | BNitro k \<Rightarrow> length (nb_pkBytes k) = 48 \<and> nb_enclaveCID k = nitro_EnclaveCID (cfg_Nitro cfg))"

lemma backend_distinct: "distinct [BackendMemory, BackendAWSKMS, BackendGCPKMS, BackendAzureKV, BackendVault, BackendAWSNitro]"
  by (simp add: backend_names)

lemma built_key_origin:
  assumes "keygen_valid (dp_blst D)" "buildBackend D m cfg = Some (m', Inr b)"
  shows "key_origin D (mc_os m) (mc_vault m') cfg b"
proof -
  have mem: "memory_New (dp_blst D) (dp_rnd D) = Inr k \<Longrightarrow> key_origin D S v cfg (BMemory k)" for k S v
    using memory_New_spec [OF assms(1), of "dp_rnd D"] by (auto simp: key_origin_def split: sum.splits)
  show ?thesis
    using assms(2) mem awskms_New_holds [of "dp_blst D" "cl_AWS (dp_clouds D)" "mc_os m" "cfg_AWS cfg"]
      gcpkms_New_holds [of "dp_blst D" "cl_GCP (dp_clouds D)" "mc_os m" "cfg_GCP cfg"]
      azurekv_New_holds [of "dp_blst D" "cl_Azure (dp_clouds D)" "mc_os m" "cfg_Azure cfg"]
      vault_New_Inr [of "dp_vault D" "mc_os m" "mc_vault m" "cfg_Vault cfg"]
      nitro_New_size [of "dp_nitro D" "mc_nitro m" "cfg_Nitro cfg"]
    by (auto simp: buildBackend_def Let_def split: if_splits prod.splits) (auto simp: key_origin_def)
qed

section \<open>Sizes\<close>

text \<open>
  A typed backend: as long as it is well formed, which closing it does not change, its public key has 48 bytes and
  a signature it returns has 96, whoever made it.
\<close>

locale typed_backend =
  fixes E :: "'s Backend set"
    and ok :: "'s \<Rightarrow> bool"
  assumes PublicKey_typed: "M \<in> E \<Longrightarrow> ok b \<Longrightarrow> \<exists>pk. be_PublicKey M b = Inr pk \<and> length pk = 48"
    and Sign_typed: "M \<in> E \<Longrightarrow> ok b \<Longrightarrow> be_Sign M b msg = Inr sig \<Longrightarrow> length sig = 96"
    and SignPoP_typed: "M \<in> E \<Longrightarrow> ok b \<Longrightarrow> be_SignProofOfPossession M b msg = Inr sig \<Longrightarrow> length sig = 96"
    and Close_typed: "M \<in> E \<Longrightarrow> ok b \<Longrightarrow> ok (fst (be_Close M b))"

fun reply_typed :: "rpc_request \<Rightarrow> rpc_error + rpc_reply \<Rightarrow> bool" where
  "reply_typed (PublicKeyReq _) (Inr (PublicKeyReply r)) \<longleftrightarrow> length (pkresp_PublicKey r) = 48"
| "reply_typed (SignReq _) (Inr (SignReply r)) \<longleftrightarrow> length (sresp_Signature r) = 96"
| "reply_typed (SignPoPReq _) (Inr (SignPoPReply r)) \<longleftrightarrow> length (presp_Signature r) = 96"
| "reply_typed (SignReq _) (Inl (Status Internal _)) \<longleftrightarrow> True"
| "reply_typed (SignPoPReq _) (Inl (Status Internal _)) \<longleftrightarrow> True"
| "reply_typed _ _ \<longleftrightarrow> False"

text \<open>The lines of the log that report a failed signature.\<close>

definition signing_failure :: "log_line \<Rightarrow> bool" where
  "signing_failure l \<longleftrightarrow> log_level l = LevelError \<and> log_msg l \<in> {''Sign failed'', ''SignProofOfPossession failed''}
     \<and> (\<exists>e. log_attrs l = [(''err'', AErr e)])"

context typed_backend
begin

lemma reply_of_typed: "M \<in> E \<Longrightarrow> ok b \<Longrightarrow> reply_typed req (reply_of M b req)"
proof (cases req)
  case (PublicKeyReq r)
  assume "M \<in> E" "ok b"
  with PublicKeyReq PublicKey_typed [of M b] show ?thesis
    by (auto simp: reply_of_def server_defs)
next
  case (SignReq r)
  assume "M \<in> E" "ok b"
  with SignReq Sign_typed [of M b "sreq_Message r"] show ?thesis
    by (cases "be_Sign M b (sreq_Message r)") (simp_all add: reply_of_def server_defs)
next
  case (SignPoPReq r)
  assume "M \<in> E" "ok b"
  with SignPoPReq SignPoP_typed [of M b "preq_Message r"] show ?thesis
    by (cases "be_SignProofOfPossession M b (preq_Message r)") (simp_all add: reply_of_def server_defs)
qed

lemma logs_typed: "M \<in> E \<Longrightarrow> ok b \<Longrightarrow> list_all signing_failure (handler_log (Server_New M b) req)"
  using PublicKey_typed [of M b] by (cases req) (auto simp: Server_New_def signing_failure_def split: sum.split)

lemma reach_typed:
  assumes "ok b" "serve_reach (\<lambda>_. E) b s"
  shows "ok (bk s) \<and> (\<forall>a \<in># answers s. reply_typed (fst a) (snd a))"
  using assms(2)
proof (induction rule: serve_reach.induct)
  case (start addr)
  with assms(1) show ?case by (simp add: serve_init_def)
next
  case (step s M evs t)
  from step.hyps(3,2) step.IH show ?case
    by (cases rule: serve_step.cases) (auto simp: reply_of_typed Close_typed)
qed

end

text \<open>
  The backends of the factory. The key bytes of a backend that keeps its key are a scalar with its public key, or
  zeros once it is closed.
\<close>

definition keypair_ok :: "('p1, 'p2) blst \<Rightarrow> ('x) keypair_scheme \<Rightarrow> bool" where
  "keypair_ok B k \<longleftrightarrow> length (pkBytes k) = 48
     \<and> ((\<exists>sk. keypair_holds B k sk) \<or> skBytes k = replicate 32 0)"

fun built_ok :: "('p1, 'p2) blst \<Rightarrow> built \<Rightarrow> bool" where
  "built_ok B (BMemory k) = keypair_ok B k"
| "built_ok B (BAWSKMS k) = keypair_ok B k"
| "built_ok B (BGCPKMS k) = keypair_ok B k"
| "built_ok B (BAzureKV k) = keypair_ok B k"
| "built_ok B (BVault k) = (length (vb_pkBytes k) = 48)"
| "built_ok B (BNitro k) = (length (nb_pkBytes k) = 48)"

lemma keypair_holds_ok: "keypair_holds B k sk \<Longrightarrow> keypair_ok B k"
  by (auto simp: keypair_ok_def keypair_holds_def)

lemma keypair_ok_wiped: "keypair_ok B k \<Longrightarrow> keypair_ok B (wipe_key k)"
  by (auto simp: keypair_ok_def keypair_holds_def)

lemma blstutil_Sign_size: "blstutil_Sign B bs msg dst = Inr sig \<Longrightarrow> length sig = 96"
  by (cases "blstutil_deserialize bs") (auto simp: Sign_eq)

lemma vault_Sign_size:
  "snd (vault_Sign api w b msg) = Inr sig \<Longrightarrow> length sig = 96"
  "snd (vault_SignProofOfPossession api w b msg) = Inr sig \<Longrightarrow> length sig = 96"
  by (metis requestSign_Inr prod.collapse vault_Sign_def vault_SignProofOfPossession_def)+

lemma nitro_Sign_size:
  "snd (nitro_Sign N w b msg) = Inr sig \<Longrightarrow> length sig = 96"
  "snd (nitro_SignProofOfPossession N w b msg) = Inr sig \<Longrightarrow> length sig = 96"
  by (auto simp: nitro_Sign_def nitro_SignProofOfPossession_def checked_signature_def result_simps Let_def
      split: prod.splits if_splits)

text \<open>The operations of a value of the factory at any state of the Vault server and the enclave.\<close>

definition built_at :: "('p1, 'p2) blst \<Rightarrow> 'v vault_api \<Rightarrow> 'n nitro_env \<Rightarrow> ('v \<times> 'n) set \<Rightarrow> built Backend set" where
  "built_at B api N env = {built_ops B api v N n | v n. (v, n) \<in> env}"

interpretation builtt: typed_backend "built_at B api N env" "built_ok B"
  for B :: "('p1, 'p2) blst" and api N env
proof (unfold_locales, goal_cases)
  case (1 M b)
  then show ?case
    by (cases b) (auto simp: built_at_def built_ops_def keypair_ok_def memory_defs awskms_defs gcpkms_defs azurekv_defs
        vault_ops_def vault_PublicKey_def nitro_ops_def nitro_PublicKey_def)
next
  case (2 M b msg sig)
  then show ?case
    by (cases b) (auto simp: built_at_def built_ops_def memory_defs awskms_defs gcpkms_defs azurekv_defs vault_ops_def nitro_ops_def
        dest: blstutil_Sign_size vault_Sign_size nitro_Sign_size)
next
  case (3 M b msg sig)
  then show ?case
    by (cases b) (auto simp: built_at_def built_ops_def memory_defs awskms_defs gcpkms_defs azurekv_defs vault_ops_def nitro_ops_def
        dest: blstutil_Sign_size vault_Sign_size nitro_Sign_size)
next
  case (4 M b)
  then show ?case
    by (cases b) (auto simp: built_at_def built_ops_def memory_defs awskms_defs gcpkms_defs azurekv_defs vault_ops_def
        vault_Close_def nitro_ops_def keypair_ok_wiped Let_def split: option.split)
qed

lemma key_origin_ok: "key_origin D S v cfg b \<Longrightarrow> built_ok (dp_blst D) b"
  by (cases b) (auto simp: key_origin_def keypair_holds_ok)

section \<open>Properties\<close>

text \<open>
  No backend comes into being without its key: whenever the factory returns one, the memory backend holds the
  scalar derived from the random seed; a cloud backend read its configured file, the cloud decrypted it under the
  configured key to the 32-byte form of a scalar in range, and the backend holds that scalar; the Vault backend
  caches the 48 bytes the server gave for the configured key, and the Nitro backend 48 bytes from the enclave.
\<close>

lemma factory_key_origin:
  assumes "keygen_valid (dp_blst D)" "buildBackend D m cfg = Some (m', Inr b)"
  shows "key_origin D (mc_os m) (mc_vault m') cfg b"
  using assms by (rule built_key_origin)

definition memory_cfg :: Config where
  "memory_cfg = Defaults\<lparr>cfg_Backend := BackendMemory\<rparr>"

definition memory_built :: built where
  "memory_built = BMemory \<lparr>skBytes = Scalar_Serialize (c_keygen toy_blst (fill_buffer 32 [7])),
     pkBytes = bls_pk toy_blst (c_keygen toy_blst (fill_buffer 32 [7]))\<rparr>"

lemma memory_built: "buildBackend test_deps test_machine memory_cfg = Some (test_machine, Inr memory_built)"
proof -
  have "scalar_ok (c_keygen toy_blst (fill_buffer 32 [7]))"
    using keygen_valid_toy by (simp add: keygen_valid_def)
  then show ?thesis
    by (simp add: buildBackend_def memory_cfg_def memory_New_def as_built_def memory_built_def Let_def)
qed

text \<open>
  C16. Well-typed answers: a server over any backend of the factory, with any Vault server and any enclave behind it, in
  whatever states from step to step, only ever has a well-formed backend and only ever answers a call with a reply of the call's own type and of the
  protocol's size, a 48-byte public key or a 96-byte signature, or, for the two signing calls, with an Internal
  error; so in every reachable state, from the first call to after the backend is closed.
\<close>

theorem served_well_typed:
  assumes "keygen_valid (dp_blst D)" "buildBackend D m cfg = Some (m', Inr b)"
    and "serve_reach (\<lambda>_. built_at (dp_blst D) (dp_vault D) (dp_nitro D) UNIV) b s"
  shows "built_ok (dp_blst D) (bk s) \<and> (\<forall>a \<in># answers s. reply_typed (fst a) (snd a))"
  using builtt.reach_typed [OF key_origin_ok [OF built_key_origin [OF assms(1,2)]] assms(3)] .

lemma served_well_typed_witness: "built_ok toy_blst (bk (serve_init [] memory_built))"
  using served_well_typed [OF _ memory_built serve_reach.start [of _ memory_built "[]"]] keygen_valid_toy by simp

text \<open>
  C7. The signer as its client sees it: over the wire, whichever of the six backends holds the key, a call with a
  message of up to 4194299 bytes returns the reference public key or the reference signature under the
  separation tag of the call; a longer message is refused with code ResourceExhausted.
\<close>

theorem signer_over_wire:
  assumes "built_holds B gn mount v n b sk"
    and "srv = Server_New (built_ops B (plugin_api B gn mount rnd) v (enclave_env B T H eargs creds) n) b"
  shows "client_call (wire_connect (Server_methods srv)) req =
    (if length (message_of req) \<le> 4194299 then Inr (expected_reply B sk req)
     else Inl (refused ''trying to send message larger than max (%d vs. %d)'' (length (marshal_request req))))"
  unfolding assms(2) by (rule builtb.wire_expected [OF assms(1)])

lemma signer_over_wire_witness:
  "client_call (wire_connect (Server_methods (Server_New (built_ops toy_blst (plugin_api toy_blst (\<lambda>_. True) ''bls'' (Inr []))
      test_world (enclave_env toy_blst test_text test_host [''/key.enc''] test_creds) idle_world)
      (BMemory \<lparr>skBytes = Scalar_Serialize 5, pkBytes = bls_pk toy_blst 5\<rparr>)))) (SignReq \<lparr>sreq_Message = [1, 2]\<rparr>) =
    Inr (SignReply \<lparr>sresp_Signature = bls_sig toy_blst 5 [1, 2] DSTSign\<rparr>)"
  using signer_over_wire [where B = toy_blst and sk = 5 and rnd = "Inr []" and T = test_text and H = test_host
      and eargs = "[''/key.enc'']" and creds = test_creds and req = "SignReq \<lparr>sreq_Message = [1, 2]\<rparr>", OF _ refl,
      of "\<lambda>_. True" "''bls''" test_world idle_world "BMemory \<lparr>skBytes = Scalar_Serialize 5, pkBytes = bls_pk toy_blst 5\<rparr>"]
  by (simp add: keypair_holds_def)

end
