(* ===== verification/Main_Process.thy ===== *)
theory Main_Process
  imports Main_Vault Built_Backends
begin

text \<open>
  The process of \<open>serve\<close> as the outside sees it, from the first line of its log to its exit status: the command's own
  log lines, the three ways in which it ends before it serves, and the server's run. What it promises is the
  automaton of theory \<open>Signer_Spec\<close>.
\<close>

section \<open>The process\<close>

text \<open>
  What \<open>serve\<close> logs before it listens: its settings, then what the backend says while it is built, which is a warning
  for the memory backend and the progress of the Nitro backend.
\<close>

definition starting_line :: "Config \<Rightarrow> log_line" where
  "starting_line cfg =
     LogLine LevelInfo ''starting avalanche-kms-signer'' [(''backend'', AStr (cfg_Backend cfg)), (''addr'', AStr (Addr cfg))]"

definition build_log :: "('p1, 'p2, 'v, 'n) deps \<Rightarrow> ('v, 'n) machine \<Rightarrow> Config \<Rightarrow> log_line list" where
  "build_log D m cfg =
     (if cfg_Backend cfg = BackendMemory
      then [LogLine LevelWarn (''using in-memory backend '' @ dash @ '' DO NOT use in production'') []]
      else if cfg_Backend cfg = BackendAWSNitro then nitro_start_log (dp_nitro D) (mc_nitro m) (cfg_Nitro cfg) else [])"

definition starting_log :: "('p1, 'p2, 'v, 'n) deps \<Rightarrow> ('v, 'n) machine \<Rightarrow> Config \<Rightarrow> log_line list" where
  "starting_log D m cfg = starting_line cfg # build_log D m cfg"

definition serve_log :: "('p1, 'p2, 'v, 'n) deps \<Rightarrow> ('v, 'n) machine \<Rightarrow> serve_flags \<Rightarrow> log_line list" where
  "serve_log D m fl = (case serve_config D (mc_os m) fl of Inl e \<Rightarrow> [] | Inr cfg \<Rightarrow> starting_log D m cfg)"

text \<open>
  A process of the program: \<open>tr\<close> is what it has done so far. The configuration or the backend fails; or
  \<open>net.Listen\<close> does, and the deferred \<open>Close\<close> runs before the exit; or the server runs. A command that does not
  serve ends with its exit status. At every step the Vault server and the enclave are in one of the states that \<open>env\<close>
  allows, before the backend is closed and after.
\<close>

inductive main_process ::
  "('p1, 'p2, 'v, 'n) deps \<Rightarrow> (bool \<Rightarrow> ('v \<times> 'n) set) \<Rightarrow> ('v, 'n) machine \<Rightarrow> string list \<Rightarrow> event list \<Rightarrow> bool"
  for D :: "('p1, 'p2, 'v, 'n) deps" and env :: "bool \<Rightarrow> ('v \<times> 'n) set" and m :: "('v, 'n) machine"
    and args :: "string list" where
  command: "main_run D m args = Some (m', Exit n out) \<Longrightarrow> (\<nexists>given rest. main_action args = Run RunServe given rest) \<Longrightarrow>
     main_process D env m args [ExitStatus n]"
| not_built: "main_action args = Run RunServe given rest \<Longrightarrow> serve_start D m (serve_flags_of given) = Some (m', Inl e) \<Longrightarrow>
     main_process D env m args (map Logged (serve_log D m (serve_flags_of given)) @ [ExitStatus 1])"
| not_listening: "main_action args = Run RunServe given rest \<Longrightarrow>
     serve_start D m (serve_flags_of given) = Some (m', Inr (addr, b)) \<Longrightarrow>
     M \<in> built_at (dp_blst D) (dp_vault D) (dp_nitro D) (env False) \<Longrightarrow>
     main_process D env m args
       (map Logged (serve_log D m (serve_flags_of given)) @ map Logged (closing_log M b) @ [ExitStatus 1])"
| serving: "main_action args = Run RunServe given rest \<Longrightarrow>
     serve_start D m (serve_flags_of given) = Some (m', Inr (addr, b)) \<Longrightarrow>
     serve_trace (\<lambda>c. built_at (dp_blst D) (dp_vault D) (dp_nitro D) (env c)) addr b tr s \<Longrightarrow>
     main_process D env m args (map Logged (serve_log D m (serve_flags_of given)) @ tr)"

lemma serving_process:
  assumes "main_process D env m args tr" "main_action args = Run RunServe given rest"
    and "serve_start D m (serve_flags_of given) = Some (m', Inr (addr, b))"
  shows "\<exists>tr'. tr = map Logged (serve_log D m (serve_flags_of given)) @ tr'
    \<and> ((\<exists>M \<in> built_at (dp_blst D) (dp_vault D) (dp_nitro D) (env False).
           tr' = map Logged (closing_log M b) @ [ExitStatus 1])
      \<or> (\<exists>s. serve_trace (\<lambda>c. built_at (dp_blst D) (dp_vault D) (dp_nitro D) (env c)) addr b tr' s))"
  using assms(1)
proof (cases rule: main_process.cases)
  case (not_listening given' rest' m'' addr' b' M)
  with assms(2,3) show ?thesis by fastforce
next
  case (serving given' rest' m'' addr' b' tr' s)
  with assms(2,3) have "tr = map Logged (serve_log D m (serve_flags_of given)) @ tr'"
    "serve_trace (\<lambda>c. built_at (dp_blst D) (dp_vault D) (dp_nitro D) (env c)) addr b tr' s" by auto
  then show ?thesis by blast
qed (use assms(2,3) in auto)

lemma run_command_Serve:
  assumes "run_command D m r given rest = Some (m', Serve addr b)"
  shows "r = RunServe \<and> serve_start D m (serve_flags_of given) = Some (m', Inr (addr, b))"
proof (cases r)
  case RunServe
  with assms obtain q where q: "serve_start D m (serve_flags_of given) = Some (m', q)"
    "(case q of Inl e \<Rightarrow> Exit 1 [] | Inr (addr, b) \<Rightarrow> Serve addr b) = Serve addr b" by auto
  then show ?thesis using RunServe by (cases q) auto
qed (use assms in \<open>auto simp: keytool_outcome_def split: prod.splits\<close>)

lemma main_run_Serve:
  assumes "main_run D m args = Some (m', Serve addr b)"
  obtains given rest cfg where "main_action args = Run RunServe given rest"
    "serve_start D m (serve_flags_of given) = Some (m', Inr (addr, b))"
    "serve_config D (mc_os m) (serve_flags_of given) = Inr cfg" "buildBackend D m cfg = Some (m', Inr b)" "addr = Addr cfg"
proof -
  from assms obtain r given rest where r: "main_action args = Run r given rest"
    "run_command D m r given rest = Some (m', Serve addr b)"
    by (auto simp: main_run_def split: execution.splits)
  note s = run_command_Serve [OF r(2)]
  then obtain cfg where "serve_config D (mc_os m) (serve_flags_of given) = Inr cfg"
    "buildBackend D m cfg = Some (m', Inr b)" "addr = Addr cfg"
    by (auto simp: serve_start_def result_simps split: sum.splits)
  with r(1) s show thesis by (intro that) auto
qed

lemma origin_local: "key_origin D S v cfg b \<Longrightarrow> has_local_key b \<Longrightarrow> \<exists>sk. local_built (dp_blst D) b sk"
  by (cases b) (auto simp: key_origin_def local_built_def)

section \<open>What the backends promise to the server\<close>

text \<open>
  A backend with the key in its memory: once closed it answers with the cached public key and one error, and its lines
  are a fixed list that neither the key nor a message can influence.
\<close>

definition close_err :: "built \<Rightarrow> goerr option" where
  "close_err b = (case b of BGCPKMS k \<Rightarrow> snd (gcpkms_Close k) | _ \<Rightarrow> None)"

definition local_spec :: "('p1, 'p2) blst \<Rightarrow> string \<Rightarrow> built \<Rightarrow> nat \<Rightarrow> signer_spec" where
  "local_spec B addr b sk = \<lparr>sp_addr = addr, sp_reply = expected_reply B sk, sp_late = (\<lambda>r x. x = wiped_reply B sk r),
     sp_late_line = (\<lambda>l. l \<in> set failure_lines), sp_closing = (\<lambda>l. l \<in> set (close_log (close_err b)))\<rparr>"

lemma local_built_key: "local_built B b sk \<Longrightarrow> has_local_key b"
  by (cases b) (simp_all add: local_built_def)

lemma close_local:
  "has_local_key b \<Longrightarrow> be_Close (built_ops B api v N n) b = be_Close (built_ops B api v' N n') b"
  "has_local_key b \<Longrightarrow> closing_log (built_ops B api v N n) b = close_log (close_err b)"
  by (cases b; auto simp: built_ops_def closing_log_def close_err_def memory_defs awskms_defs gcpkms_defs azurekv_defs)+

interpretation localp: served_backend "\<lambda>c. built_at B api N (env c)" "local_built B" "local_spec B"
  for B :: "('p1, 'p2) blst" and api N env
proof (unfold_locales, goal_cases)
  case (2 b sk M r addr)
  then show ?case by (auto simp: built_at_def local_spec_def localb.reply_expected)
next
  case (3 b sk M r)
  then show ?case by (auto simp: built_at_def localb.silent)
next
  case (4 b sk M M' addr r)
  then obtain v n v' n' where M: "M = built_ops B api v N n" "M' = built_ops B api v' N n'" by (auto simp: built_at_def)
  from close_local(1) [OF local_built_key [OF 4(1)], of B api v N n v' n'] have "be_Close M b = be_Close M' b"
    by (simp add: M)
  with localb.reply_after_Close [OF 4(1)] show ?case by (simp add: M local_spec_def)
next
  case (5 b sk M M' addr r)
  then obtain v n v' n' where M: "M = built_ops B api v N n" "M' = built_ops B api v' N n'" by (auto simp: built_at_def)
  from close_local(1) [OF local_built_key [OF 5(1)], of B api v N n v' n'] have "be_Close M b = be_Close M' b"
    by (simp add: M)
  with localb.logs_after_Close [OF 5(1)] show ?case by (simp add: M local_spec_def)
next
  case (6 b sk M addr)
  then show ?case by (auto simp: built_at_def local_spec_def list_all_iff close_local(2) [OF local_built_key])
qed (simp add: local_spec_def)

text \<open>
  Any of the six backends, over the plugin and the enclave, as long as these keep its key until it is closed. What is
  asked of the calls that outlive it is their type, and that only failures are logged.
\<close>

definition closing_line :: "log_line \<Rightarrow> bool" where
  "closing_line l \<longleftrightarrow> l = LogLine LevelInfo ''terminating enclave'' []
     \<or> (\<exists>e. l = LogLine LevelError ''backend Close failed'' [(''err'', AErr e)])"

lemma closing_lines: "list_all closing_line (closing_log (built_ops B api v N n) b)"
  by (cases b) (auto simp: closing_log_def close_log_def closing_line_def built_ops_def memory_defs awskms_defs gcpkms_defs
      azurekv_defs vault_ops_def nitro_ops_def split: option.split)

definition remote_spec :: "('p1, 'p2) blst \<Rightarrow> string \<Rightarrow> built \<Rightarrow> nat \<Rightarrow> signer_spec" where
  "remote_spec B addr b sk = \<lparr>sp_addr = addr, sp_reply = expected_reply B sk, sp_late = reply_typed,
     sp_late_line = signing_failure, sp_closing = closing_line\<rparr>"

lemma built_holds_ok: "built_holds B gn mount v n b sk \<Longrightarrow> built_ok B b"
  by (cases b) (auto simp: keypair_holds_ok vault_holds_def nitro_holds_def)

interpretation remotep:
  served_backend "\<lambda>c. built_at B (plugin_api B gn mount rnd) (enclave_env B T H eargs creds) (env c)"
    "\<lambda>b sk. \<forall>(v, n) \<in> env False. built_holds B gn mount v n b sk" "remote_spec B"
  for B :: "('p1, 'p2) blst" and gn mount rnd T H eargs creds env
proof (unfold_locales, goal_cases)
  case (2 b sk M r addr)
  then show ?case by (auto simp: built_at_def remote_spec_def builtb.reply_expected)
next
  case (3 b sk M r)
  then show ?case by (auto simp: built_at_def builtb.silent)
next
  case (4 b sk M M' addr r)
  then have "built_ok B b" by (auto simp: built_at_def intro: built_holds_ok)
  with builtt.Close_typed [OF 4(2)] builtt.reply_of_typed [OF 4(3)] show ?case by (simp add: remote_spec_def)
next
  case (5 b sk M M' addr r)
  then have "built_ok B b" by (auto simp: built_at_def intro: built_holds_ok)
  with builtt.Close_typed [OF 5(2)] builtt.logs_typed [OF 5(3)] show ?case by (simp add: remote_spec_def)
next
  case (6 b sk M addr)
  then show ?case using closing_lines by (auto simp: remote_spec_def built_at_def)
qed (simp add: remote_spec_def)

lemma served_process:
  assumes "main_process D env m args tr" "main_run D m args = Some (m', Serve addr b)"
  obtains cfg tr' where "buildBackend D m cfg = Some (m', Inr b)" "addr = Addr cfg"
    "tr = map Logged (starting_log D m cfg) @ tr'"
    "(\<exists>M \<in> built_at (dp_blst D) (dp_vault D) (dp_nitro D) (env False). tr' = map Logged (closing_log M b) @ [ExitStatus 1])
     \<or> (\<exists>s. serve_trace (\<lambda>c. built_at (dp_blst D) (dp_vault D) (dp_nitro D) (env c)) addr b tr' s)"
proof -
  obtain given rest cfg where g: "main_action args = Run RunServe given rest"
    "serve_start D m (serve_flags_of given) = Some (m', Inr (addr, b))"
    "serve_config D (mc_os m) (serve_flags_of given) = Inr cfg" "buildBackend D m cfg = Some (m', Inr b)" "addr = Addr cfg"
    using assms(2) by (rule main_run_Serve)
  then have "serve_log D m (serve_flags_of given) = starting_log D m cfg"
    by (simp add: serve_log_def)
  with serving_process [OF assms(1) g(1,2)] g(4,5) that show thesis by auto
qed

text \<open>A process ends before it serves, with what a specification lets it log, or is a run of the automaton.\<close>

definition signs_as :: "signer_spec \<Rightarrow> event list \<Rightarrow> bool" where
  "signs_as P tr \<longleftrightarrow> signer_run P signer_init tr \<noteq> None
     \<or> (\<exists>ls. tr = map Logged ls @ [ExitStatus 1] \<and> list_all (sp_closing P) ls)"

context served_backend
begin

lemma signs_as_spec:
  assumes "(\<exists>M \<in> E False. tr = map Logged (closing_log M b) @ [ExitStatus 1]) \<or> (\<exists>s. serve_trace E addr b tr s)"
    and "holds b sk"
  shows "signs_as (spec addr b sk) tr"
  using assms log_closing [OF assms(2)] trace_refines [OF _ assms(2)] by (fastforce simp: signs_as_def)

end

section \<open>Properties\<close>


text \<open>
  C5. So is one whose key is elsewhere: over a Vault server with the plugin and an enclave that may change from step to
  step, with any of the six backends, as long as the key that \<open>b\<close> stands for stays where it is until the backend is
  closed. Then every answer before that is the reference value of this key, and nothing is logged of it; the calls that
  outlive the backend, after a failure to accept, still get well-typed replies or Internal errors.
\<close>

theorem remote_process_refines_signer:
  assumes "main_process D env m args tr" "main_run D m args = Some (m', Serve addr b)"
    and "dp_vault D = plugin_api (dp_blst D) gn mount rnd" "dp_nitro D = enclave_env (dp_blst D) T H eargs creds"
    and "\<forall>(v, n) \<in> env False. built_holds (dp_blst D) gn mount v n b sk"
  shows "\<exists>cfg tr'. addr = Addr cfg \<and> tr = map Logged (starting_log D m cfg) @ tr'
    \<and> signs_as (remote_spec (dp_blst D) addr b sk) tr'"
proof -
  obtain cfg tr' where p: "buildBackend D m cfg = Some (m', Inr b)" "addr = Addr cfg"
    "tr = map Logged (starting_log D m cfg) @ tr'"
    "(\<exists>M \<in> built_at (dp_blst D) (dp_vault D) (dp_nitro D) (env False). tr' = map Logged (closing_log M b) @ [ExitStatus 1])
     \<or> (\<exists>s. serve_trace (\<lambda>c. built_at (dp_blst D) (dp_vault D) (dp_nitro D) (env c)) addr b tr' s)"
    using assms(1,2) by (rule served_process)
  from p(2,3) remotep.signs_as_spec [OF p(4) [unfolded assms(3,4)] assms(5)] show ?thesis by blast
qed

text \<open>
  C17. No call is lost and none is answered twice: whatever the backend, and at any moment of a process of the
  program, the calls that were answered are among those that came in, each as often as it came at most, and a process
  that has exited with status 0 has answered every one.
\<close>

theorem process_answers_calls:
  assumes "main_process D env m args tr" "main_run D m args = Some (m', Serve addr b)"
  shows "replied tr \<subseteq># called tr \<and> (ExitStatus 0 \<in> set tr \<longrightarrow> called tr = replied tr)"
proof -
  obtain cfg tr' where "tr = map Logged (starting_log D m cfg) @ tr'"
    "(\<exists>M \<in> built_at (dp_blst D) (dp_vault D) (dp_nitro D) (env False). tr' = map Logged (closing_log M b) @ [ExitStatus 1])
     \<or> (\<exists>s. serve_trace (\<lambda>c. built_at (dp_blst D) (dp_vault D) (dp_nitro D) (env c)) addr b tr' s)"
    using assms by (rule served_process)
  then consider ls where "tr = map Logged ls @ [ExitStatus 1]"
    | ls E s where "tr = map Logged ls @ tr'" "serve_trace E addr b tr' s"
    by (metis append_assoc map_append)
  then show ?thesis
  proof cases
    case 1
    then show ?thesis by auto
  next
    case 2
    from trace_bookkeeping [OF 2(2)] 2(1) show ?thesis by auto
  qed
qed

text \<open>
  C18. A server that was told to stop ends: from any reachable state with the context cancelled, and whatever else
  happens as long as no new call comes in, there are at most seven more steps than calls in flight, the process can always go
  on until it has exited, and then the backend is closed, and every call has its answer if the status is 0.
\<close>

theorem cancelled_server_ends:
  assumes "serve_reach E b s" "cancelled s" "(quiet E ^^ n) s t" "\<forall>c. E c \<noteq> {}"
  shows "n \<le> size (inflight s) + 7 \<and> ((\<exists>u. quiet E t u) \<longleftrightarrow> exited t = None)
    \<and> (exited t \<noteq> None \<longrightarrow> (\<exists>M \<in> E False. bk t = fst (be_Close M b)) \<and> exited t = Some (exit_status t))
    \<and> (exited t = Some 0 \<longrightarrow> image_mset fst (answers t) = arrived s)"
  using assms by (rule cancelled_ends)


section \<open>Examples\<close>

text \<open>A run of the memory backend that answers one call and is then told to stop.\<close>

abbreviation memory_args :: "string list" where
  "memory_args \<equiv> [''serve'', ''--backend=memory'']"

abbreviation test_ops :: "built Backend" where
  "test_ops \<equiv> built_ops toy_blst test_api test_world (dp_nitro test_deps) idle_world"

abbreviation test_env :: "bool \<Rightarrow> (vault_world \<times> nitro_world) set" where
  "test_env \<equiv> \<lambda>_. {(test_world, idle_world)}"

definition memory_run :: "event list" where
  "memory_run = served_run test_ops (Addr memory_cfg) memory_built [SignReq \<lparr>sreq_Message = [1, 2]\<rparr>]"

lemma test_ops_at: "test_ops \<in> built_at (dp_blst test_deps) (dp_vault test_deps) (dp_nitro test_deps) (test_env c)"
  by (auto simp: built_at_def)

lemma memory_action: "main_action memory_args = Run RunServe (values_of [(''backend'', ''memory'', True)]) []"
proof -
  have "list_all (writable (cmd_Flags serveCmd)) [(''backend'', ''memory'', True)]"
    by (simp add: serveCmd_def writable_def Lookup_def string_flag_def value_error_def)
  from run_flags(1) [OF this] show ?thesis by (simp add: render_flags_def)
qed

lemma memory_config:
  "serve_config test_deps S (serve_flags_of (values_of [(''backend'', ''memory'', True)])) = Inr memory_cfg"
  by (simp add: serve_config_def serve_flags_of_def test_load values_of_def override_def memory_cfg_def backend_names
      Let_def Defaults_def)

lemma memory_start:
  "serve_start test_deps test_machine (serve_flags_of (values_of [(''backend'', ''memory'', True)])) =
     Some (test_machine, Inr (Addr memory_cfg, memory_built))"
  by (simp add: serve_start_def memory_config memory_built del: test_deps_sel)

lemma memory_main_run: "main_run test_deps test_machine memory_args = Some (test_machine, Serve (Addr memory_cfg) memory_built)"
  by (simp add: main_run_def memory_action memory_start)

lemma memory_process:
  "main_process test_deps test_env test_machine memory_args (map Logged (starting_log test_deps test_machine memory_cfg) @ memory_run)"
proof -
  obtain s where "serve_trace (\<lambda>c. built_at (dp_blst test_deps) (dp_vault test_deps) (dp_nitro test_deps) (test_env c))
      (Addr memory_cfg) memory_built memory_run s"
    unfolding memory_run_def
    using served_run_trace [where E = "\<lambda>c. built_at (dp_blst test_deps) (dp_vault test_deps) (dp_nitro test_deps) (test_env c)",
      OF test_ops_at test_ops_at] by blast
  from serving [OF memory_action memory_start this] show ?thesis
    by (simp add: serve_log_def memory_config)
qed

lemma run_starts: "served_run M addr b rs \<noteq> map Logged ls @ [ExitStatus 1]"
  by (auto simp: served_run_def append_eq_append_conv2 map_eq_append_conv)

lemma starting_log_same:
  assumes "Addr cfg = Addr cfg'" "cfg_Backend cfg \<noteq> BackendAWSNitro"
    and "map Logged (starting_log D m cfg) @ es = map Logged (starting_log D m cfg') @ fs"
  shows "es = fs"
proof -
  from assms(3) have "cfg_Backend cfg = cfg_Backend cfg'"
    by (simp add: starting_log_def starting_line_def)
  with assms(2) have "build_log D m cfg = build_log D m cfg'" by (simp add: build_log_def)
  with assms(3) show ?thesis by (simp add: starting_log_def)
qed


lemma process_answers_calls_witness: "called memory_run = replied memory_run"
  using process_answers_calls [OF memory_process memory_main_run] by (simp add: memory_run_def served_run_def)

lemma cancelled_server_ends_witness:
  "\<exists>u. quiet (\<lambda>_. {test_ops}) ((serve_init [] memory_built)\<lparr>cancelled := True\<rparr>) u"
proof -
  let ?s = "(serve_init [] memory_built)\<lparr>cancelled := True\<rparr>"
  have "serve_reach (\<lambda>_. {test_ops}) memory_built ?s"
    by (rule serve_reach.step [OF serve_reach.start _ serve_step.signal [where M = test_ops]]) (simp_all add: serve_init_def)
  from cancelled_server_ends [OF this, of 0 ?s] show ?thesis by (simp add: serve_init_def)
qed


text \<open>The Vault backend over a server that keeps its key: one call, then a stop.\<close>

lemma process_of_run:
  assumes "main_run D m args = Some (m', Serve addr b)" "(v, n) \<in> env False" "(v', n') \<in> env True"
  shows "\<exists>cfg. addr = Addr cfg \<and> buildBackend D m cfg = Some (m', Inr b) \<and> main_process D env m args (map Logged (starting_log D m cfg)
    @ served_run (built_ops (dp_blst D) (dp_vault D) v (dp_nitro D) n) addr b rs)"
proof -
  obtain given rest cfg where g: "main_action args = Run RunServe given rest"
    "serve_start D m (serve_flags_of given) = Some (m', Inr (addr, b))"
    "serve_config D (mc_os m) (serve_flags_of given) = Inr cfg" "buildBackend D m cfg = Some (m', Inr b)" "addr = Addr cfg"
    using assms(1) by (rule main_run_Serve)
  let ?E = "\<lambda>c. built_at (dp_blst D) (dp_vault D) (dp_nitro D) (env c)"
  have "built_ops (dp_blst D) (dp_vault D) v (dp_nitro D) n \<in> ?E False"
    "built_ops (dp_blst D) (dp_vault D) v' (dp_nitro D) n' \<in> ?E True"
    using assms(2,3) by (auto simp: built_at_def)
  from served_run_trace [of _ ?E, OF this] serving [OF g(1,2)] g(3-5) show ?thesis
    by (fastforce simp: serve_log_def)
qed

lemma remote_process_refines_signer_witness:
  "\<exists>k. main_run vault_deps test_machine [''serve'', ''--backend=vault''] = Some (test_machine, Serve (Addr vault_cfg) (BVault k))
     \<and> signer_run (remote_spec toy_blst (Addr vault_cfg) (BVault k) 5) signer_init
         (served_run test_ops (Addr vault_cfg) (BVault k) [SignReq \<lparr>sreq_Message = [1, 2]\<rparr>]) \<noteq> None"
proof -
  let ?args = "[''serve''] @ render_flags [(''backend'', ''vault'', True)]"
  have has: "vault_has (dp_blst vault_deps) (vault_KeyName (cfg_Vault vault_keytool_cfg)) 5
      (hex_EncodeToString (bls_pk toy_blst 5)) test_world (mc_vault test_machine)"
    using vault_test_key by (simp add: vault_has_def vault_deps_sel at_test_key_def test_machine_def test_world_def)
  have s: "serves_vault (vw_accepts test_world) (cfg_Vault vault_keytool_cfg) (vault_cfg\<lparr>cfg_Backend := ''vault''\<rparr>)"
    using vault_serve(3) by (simp add: test_world_def empty_world_def)
  from serve_vault_starts [OF vault_api_at has vault_serve(1,2) s] obtain k where
    k: "main_run vault_deps test_machine ?args = Some (test_machine, Serve (Addr vault_cfg) (BVault k))"
    "vault_holds toy_blst (\<lambda>_. True) ''bls'' test_world k 5"
    using vault_test_key by (auto simp: Addr_def vault_deps_sel at_test_key_def test_machine_def)
  let ?run = "served_run test_ops (Addr vault_cfg) (BVault k) [SignReq \<lparr>sreq_Message = [1, 2]\<rparr>]"
  have "dp_blst vault_deps = toy_blst" "dp_vault vault_deps = test_api" "dp_nitro vault_deps = dp_nitro test_deps"
    by (rule vault_deps_sel)+
  note process_of_run [OF k(1), of test_world idle_world test_env test_world idle_world "[SignReq \<lparr>sreq_Message = [1, 2]\<rparr>]",
    unfolded this]
  then obtain cfg where p: "Addr vault_cfg = Addr cfg" "buildBackend vault_deps test_machine cfg = Some (test_machine, Inr (BVault k))"
    "main_process vault_deps test_env test_machine ?args (map Logged (starting_log vault_deps test_machine cfg) @ ?run)"
    by blast
  have d: "dp_vault vault_deps = plugin_api (dp_blst vault_deps) (\<lambda>_. True) ''bls'' (Inr [])"
    "dp_nitro vault_deps = enclave_env (dp_blst vault_deps) test_text test_host [''/key.enc''] test_creds"
    by (simp_all add: vault_deps_def test_deps_def)
  have "\<forall>(v, n) \<in> test_env False. built_holds (dp_blst vault_deps) (\<lambda>_. True) ''bls'' v n (BVault k) 5"
    using k(2) by (simp add: vault_deps_sel)
  from remote_process_refines_signer [OF p(3) k(1) d this] obtain cfg' tr' where r: "Addr vault_cfg = Addr cfg'"
    "map Logged (starting_log vault_deps test_machine cfg) @ ?run = map Logged (starting_log vault_deps test_machine cfg') @ tr'"
    "signs_as (remote_spec (dp_blst vault_deps) (Addr vault_cfg) (BVault k) 5) tr'" by blast
  have "cfg_Backend cfg \<noteq> BackendAWSNitro"
    using p(2) by (auto simp: buildBackend_def backend_names Let_def split: if_splits)
  from starting_log_same [OF trans [OF p(1) [symmetric] r(1)] this r(2)] r(3)
  have "signs_as (remote_spec toy_blst (Addr vault_cfg) (BVault k) 5) ?run"
    by (simp only: vault_deps_sel)
  with k(1) show ?thesis
    by (auto simp: signs_as_def run_starts render_flags_def)
qed

end
