(* ===== verification/Vault_Renew.thy ===== *)
theory Vault_Renew
  imports Vault_Backend Go_Log
begin

text \<open>
  \<open>renewTokenLoop\<close> of the Vault backend, the goroutine that keeps the token alive, as a step relation: where
  the loop stands, the client it works on, whether the context is cancelled, and the server it talks to.
  Between two steps the server may change by itself (time passes, tokens expire): \<open>env\<close> is any relation
  that says how. Times are in nanoseconds, as Go's durations.
\<close>

section \<open>The loop\<close>

definition sleep_for :: "int \<Rightarrow> int" where
  "sleep_for ttl = ttl * 3 div 4"

definition vault_tokenTTL :: "'w vault_api \<Rightarrow> 'w \<Rightarrow> vault_client \<Rightarrow> (int \<times> bool) result" where
  "vault_tokenTTL api w client =
     and_then (va_LookupSelf api w client) (\<lambda>secret.
     and_then (ti_TTL secret) (\<lambda>ttl.
     Inr (ttl, (case ti_Renewable secret of Inr r \<Rightarrow> r | Inl _ \<Rightarrow> False))))"

text \<open>
  \<open>LookingUp\<close> is the head of the loop; \<open>Waiting d\<close> is a \<open>select\<close> on the context and a timer of \<open>d\<close> that
  leads back to the head; \<open>Sleeping d\<close> is the one that leads to the renewal.
\<close>

datatype renew_pc = LookingUp | Waiting int | Sleeping int | Renewing | Exited

record 'w renew_state =
  rn_pc :: renew_pc
  rn_client :: vault_client
  rn_cancelled :: bool
  rn_world :: 'w
  rn_logger :: bool
  rn_log :: "log_line list"

text \<open>\<open>logf\<close>: nothing without a logger, and every unknown level is the debug level.\<close>

definition logf :: "bool \<Rightarrow> string \<Rightarrow> string \<Rightarrow> (string \<times> earg) list \<Rightarrow> log_line list" where
  "logf has_log lv msg args =
     (if \<not> has_log then []
      else if lv = ''error'' then [LogLine LevelError msg args]
      else if lv = ''warn'' then [LogLine LevelWarn msg args]
      else if lv = ''info'' then [LogLine LevelInfo msg args]
      else [LogLine LevelDebug msg args])"

definition add_log :: "string \<Rightarrow> string \<Rightarrow> (string \<times> earg) list \<Rightarrow> 'w renew_state \<Rightarrow> 'w renew_state" where
  "add_log lv msg args s = s\<lparr>rn_log := rn_log s @ logf (rn_logger s) lv msg args\<rparr>"

lemma add_log_sel [simp]:
  "rn_pc (add_log lv msg args s) = rn_pc s" "rn_client (add_log lv msg args s) = rn_client s"
  "rn_cancelled (add_log lv msg args s) = rn_cancelled s" "rn_world (add_log lv msg args s) = rn_world s"
  "rn_logger (add_log lv msg args s) = rn_logger s"
  "rn_log (add_log lv msg args s) = rn_log s @ logf (rn_logger s) lv msg args"
  by (simp_all add: add_log_def)

definition seconds :: "int \<Rightarrow> int" where
  "seconds n = n * 1000000000"

fun after_lookup :: "(int \<times> bool) result \<Rightarrow> renew_pc" where
  "after_lookup (Inl e) = Waiting (seconds 30)"
| "after_lookup (Inr (ttl, renewable)) =
     (if \<not> renewable \<or> ttl \<le> 0 then Exited else Sleeping (sleep_for ttl))"

definition log_lookup :: "(int \<times> bool) result \<Rightarrow> 'w renew_state \<Rightarrow> 'w renew_state" where
  "log_lookup r s = (case r of
     Inl e \<Rightarrow> add_log ''warn'' ''could not look up Vault token TTL'' [(''err'', AErr e)] s
   | Inr (ttl, renewable) \<Rightarrow>
       if \<not> renewable \<or> ttl \<le> 0 then add_log ''debug'' ''Vault token does not require renewal'' [] s
       else add_log ''debug'' ''Vault token renewal scheduled'' [(''ttl'', AInt ttl), (''renew_in'', AInt (sleep_for ttl))] s)"

lemma log_lookup_sel [simp]:
  "rn_pc (log_lookup r s) = rn_pc s" "rn_client (log_lookup r s) = rn_client s"
  "rn_cancelled (log_lookup r s) = rn_cancelled s" "rn_world (log_lookup r s) = rn_world s"
  "rn_logger (log_lookup r s) = rn_logger s"
  by (auto simp: log_lookup_def split: sum.split)

text \<open>The renewal, with the fall back to a new login; the JWT is read from the disk as it then is.\<close>

definition renew_or_login ::
  "'w vault_api \<Rightarrow> os_state \<Rightarrow> VaultConfig \<Rightarrow> 'w renew_state \<Rightarrow> 'w renew_state" where
  "renew_or_login api S cfg s =
     (case va_RenewSelf api (rn_world s) (rn_client s) of
        (w, None) \<Rightarrow> (add_log ''debug'' ''Vault token renewed successfully'' [] s)\<lparr>rn_world := w, rn_pc := LookingUp\<rparr>
      | (w, Some e) \<Rightarrow>
         (let s1 = add_log ''warn'' ''Vault token renewal failed, re-authenticating'' [(''err'', AErr e)] s in
          case vault_authenticate api S w (rn_client s) cfg of
            (w', Inl e') \<Rightarrow> (add_log ''error'' ''Vault re-authentication failed'' [(''err'', AErr e')] s1)
              \<lparr>rn_world := w', rn_pc := Waiting (seconds 15)\<rparr>
          | (w', Inr client) \<Rightarrow> (add_log ''info'' ''Vault re-authentication successful'' [] s1)
              \<lparr>rn_world := w', rn_client := client, rn_pc := LookingUp\<rparr>))"

inductive renew_step ::
  "'w vault_api \<Rightarrow> VaultConfig \<Rightarrow> ('w \<Rightarrow> 'w \<Rightarrow> bool) \<Rightarrow> 'w renew_state \<Rightarrow> 'w renew_state \<Rightarrow> bool"
  for api :: "'w vault_api" and cfg :: VaultConfig and env :: "'w \<Rightarrow> 'w \<Rightarrow> bool" where
  lookup: "rn_pc s = LookingUp \<Longrightarrow>
     r = vault_tokenTTL api (rn_world s) (rn_client s) \<Longrightarrow>
     renew_step api cfg env s ((log_lookup r s)\<lparr>rn_pc := after_lookup r\<rparr>)"
| waited: "rn_pc s = Waiting d \<Longrightarrow> renew_step api cfg env s (s\<lparr>rn_pc := LookingUp\<rparr>)"
| slept: "rn_pc s = Sleeping d \<Longrightarrow> renew_step api cfg env s (s\<lparr>rn_pc := Renewing\<rparr>)"
| renew: "rn_pc s = Renewing \<Longrightarrow> renew_step api cfg env s (renew_or_login api S cfg s)"
| stop: "rn_cancelled s \<Longrightarrow> rn_pc s = Waiting d \<or> rn_pc s = Sleeping d \<Longrightarrow>
     renew_step api cfg env s (s\<lparr>rn_pc := Exited\<rparr>)"
| cancelled: "renew_step api cfg env s (s\<lparr>rn_cancelled := True\<rparr>)"
| world: "env (rn_world s) w \<Longrightarrow> renew_step api cfg env s (s\<lparr>rn_world := w\<rparr>)"

inductive renew_reach ::
  "'w vault_api \<Rightarrow> VaultConfig \<Rightarrow> ('w \<Rightarrow> 'w \<Rightarrow> bool) \<Rightarrow> 'w renew_state \<Rightarrow> 'w renew_state \<Rightarrow> bool"
  for api :: "'w vault_api" and cfg :: VaultConfig and env :: "'w \<Rightarrow> 'w \<Rightarrow> bool"
    and s :: "'w renew_state" where
  rn_start: "renew_reach api cfg env s s"
| rn_more: "renew_reach api cfg env s t \<Longrightarrow> renew_step api cfg env t u \<Longrightarrow> renew_reach api cfg env s u"

inductive_cases renew_step_cases: "renew_step api cfg env s t"

section \<open>Renewal ahead of expiry\<close>

lemma sleep_for_bounds: "0 < ttl \<Longrightarrow> 0 \<le> sleep_for ttl \<and> sleep_for ttl < ttl \<and> ttl \<le> 4 * (ttl - sleep_for ttl)"
  by (simp add: sleep_for_def) linarith

text \<open>
  The schedule: after a lookup that reports a renewable token, the loop sleeps for less than the time
  the token has left, and a quarter of it remains for the renewal; on any other report it waits thirty
  seconds or ends.
\<close>

lemma renewal_before_expiry:
  "case after_lookup (vault_tokenTTL api w client) of
     Sleeping d \<Rightarrow> (\<exists>info ttl. va_LookupSelf api w client = Inr info \<and> ti_TTL info = Inr ttl
        \<and> ti_Renewable info = Inr True \<and> 0 < ttl \<and> 0 \<le> d \<and> d < ttl \<and> ttl \<le> 4 * (ttl - d))
   | Waiting d \<Rightarrow> d = seconds 30 \<and> \<not> is_ok (vault_tokenTTL api w client)
   | Exited \<Rightarrow> (\<exists>ttl r. vault_tokenTTL api w client = Inr (ttl, r) \<and> (if r then ttl \<le> 0 else True))
   | _ \<Rightarrow> False"
proof (cases "vault_tokenTTL api w client")
  case (Inr p)
  obtain ttl r where p: "p = (ttl, r)" by (cases p)
  from Inr p obtain info where i: "va_LookupSelf api w client = Inr info" "ti_TTL info = Inr ttl"
    "r = (case ti_Renewable info of Inr x \<Rightarrow> x | Inl _ \<Rightarrow> False)"
    by (auto simp: vault_tokenTTL_def result_simps)
  show ?thesis
  proof (cases "\<not> r \<or> ttl \<le> 0")
    case True
    with Inr p show ?thesis by auto
  next
    case False
    with i(3) have "ti_Renewable info = Inr True" by (cases "ti_Renewable info") auto
    with False Inr p i sleep_for_bounds [of ttl] show ?thesis by auto
  qed
qed simp

section \<open>Losing the token\<close>

text \<open>
  A token is dead in a set of server states when looking it up fails in all of them and the server
  never leaves the set by itself.
\<close>

definition dead_token :: "'w vault_api \<Rightarrow> ('w \<Rightarrow> 'w \<Rightarrow> bool) \<Rightarrow> vault_client \<Rightarrow> ('w \<Rightarrow> bool) \<Rightarrow> bool" where
  "dead_token api env client D \<longleftrightarrow>
     (\<forall>w. D w \<longrightarrow> \<not> is_ok (va_LookupSelf api w client)) \<and> (\<forall>w w'. D w \<longrightarrow> env w w' \<longrightarrow> D w')"

definition stuck :: "('w \<Rightarrow> bool) \<Rightarrow> vault_client \<Rightarrow> 'w renew_state \<Rightarrow> bool" where
  "stuck D client s \<longleftrightarrow> D (rn_world s) \<and> rn_client s = client
     \<and> rn_pc s \<in> {LookingUp, Waiting (seconds 30), Exited}"

lemma stuck_step:
  assumes "renew_step api cfg env s t" "dead_token api env client D" "stuck D client s"
  shows "stuck D client t"
  using assms(1)
proof (cases rule: renew_step.cases)
  case lookup
  with assms(2,3) have "\<not> is_ok (va_LookupSelf api (rn_world s) (rn_client s))"
    by (auto simp: dead_token_def stuck_def)
  then obtain e where "vault_tokenTTL api (rn_world s) (rn_client s) = Inl e"
    by (auto simp: vault_tokenTTL_def isl_def)
  with lookup assms(3) show ?thesis
    by (simp add: stuck_def)
next
  case (world w)
  with assms(2,3) show ?thesis
    by (auto simp: stuck_def dead_token_def)
qed (use assms(3) in \<open>auto simp: stuck_def\<close>)


text \<open>
  A server whose state is the set of live tokens with their time to live and that issues the token
  \<open>fresh\<close> at every login: the instance for the witnesses.
\<close>

definition token_api :: "string \<Rightarrow> (string \<rightharpoonup> int) vault_api" where
  "token_api fresh = \<lparr>
     va_NewClient = (\<lambda>addr. Inr \<lparr>vc_Address = addr, vc_Token = []\<rparr>),
     va_NewAuth = (\<lambda>_. None),
     va_Login = (\<lambda>w _ _. (w(fresh \<mapsto> seconds 3600), Inr (Some \<lparr>sec_Data = None, sec_Auth = Some fresh\<rparr>))),
     va_Read = (\<lambda>_ _ _. Inr None),
     va_Write = (\<lambda>w _ _ _. (w, Inr None)),
     va_LookupSelf = (\<lambda>w client. case w (vc_Token client) of
        None \<Rightarrow> Inl (Ext ''permission denied'')
      | Some ttl \<Rightarrow> Inr \<lparr>ti_TTL = Inr ttl, ti_Renewable = Inr True\<rparr>),
     va_RenewSelf = (\<lambda>w client. case w (vc_Token client) of
        None \<Rightarrow> (w, Some (Ext ''permission denied''))
      | Some ttl \<Rightarrow> (w(vc_Token client \<mapsto> seconds 3600), None))\<rparr>"

definition old_client :: vault_client where
  "old_client = \<lparr>vc_Address = ''http://vault:8200'', vc_Token = ''old''\<rparr>"

definition k8s_cfg :: VaultConfig where
  "k8s_cfg = zero_Vault\<lparr>vault_AuthMethod := ''kubernetes'', vault_KubernetesRole := ''signer''\<rparr>"

definition dead_state :: "(string \<rightharpoonup> int) renew_state" where
  "dead_state = \<lparr>rn_pc = LookingUp, rn_client = old_client, rn_cancelled = False, rn_world = Map.empty,
     rn_logger = True, rn_log = []\<rparr>"


section \<open>Logins and cancellation\<close>

lemma renew_or_login_client:
  "rn_client (renew_or_login api S cfg s) \<noteq> rn_client s \<Longrightarrow>
     \<exists>w e w'. va_RenewSelf api (rn_world s) (rn_client s) = (w, Some e)
       \<and> vault_authenticate api S w (rn_client s) cfg = (w', Inr (rn_client (renew_or_login api S cfg s)))"
  by (simp add: renew_or_login_def Let_def split: prod.splits option.splits sum.splits)

lemma renew_or_login_pc:
  "rn_pc (renew_or_login api S cfg s) \<in> {LookingUp, Waiting (seconds 15)}"
  "rn_cancelled (renew_or_login api S cfg s) = rn_cancelled s"
  by (simp_all add: renew_or_login_def Let_def split: prod.splits option.splits sum.splits)

text \<open>
  The client's token changes in one way only: the renewal of the current token failed, and the login
  by the configured method that follows at once succeeded with the new token.
\<close>

lemma token_changes_by_login:
  assumes "renew_step api cfg env s t" "rn_client t \<noteq> rn_client s"
  shows "rn_pc s = Renewing \<and> (\<exists>S w e w'. va_RenewSelf api (rn_world s) (rn_client s) = (w, Some e)
    \<and> vault_authenticate api S w (rn_client s) cfg = (w', Inr (rn_client t)))"
  using assms(1)
proof (cases rule: renew_step.cases)
  case (renew S)
  with assms(2) renew_or_login_client [of api S cfg s] show ?thesis by blast
qed (use assms(2) in auto)

lemma stop_reach:
  assumes "rn_cancelled s" "rn_pc s \<in> {Waiting d, Sleeping d}"
  shows "\<exists>t. renew_reach api cfg env s t \<and> rn_pc t = Exited"
proof (intro exI conjI)
  show "renew_reach api cfg env s (s\<lparr>rn_pc := Exited\<rparr>)"
    using assms by (intro rn_more [OF rn_start] renew_step.stop) auto
qed simp

lemma rn_trans: "renew_reach api cfg env s t \<Longrightarrow> renew_step api cfg env u s \<Longrightarrow> renew_reach api cfg env u t"
  by (induction rule: renew_reach.induct) (blast intro: rn_start rn_more)+

lemma lookup_reach:
  assumes "rn_cancelled s" "rn_pc s = LookingUp"
  shows "\<exists>t. renew_reach api cfg env s t \<and> rn_pc t = Exited"
proof -
  let ?r = "vault_tokenTTL api (rn_world s) (rn_client s)"
  let ?pc = "after_lookup ?r" and ?s = "log_lookup (vault_tokenTTL api (rn_world s) (rn_client s)) s"
  have st: "renew_step api cfg env s (?s\<lparr>rn_pc := ?pc\<rparr>)"
    by (rule renew_step.lookup [OF assms(2) refl])
  have "(\<exists>d. ?pc \<in> {Waiting d, Sleeping d}) \<or> ?pc = Exited"
    by (cases "vault_tokenTTL api (rn_world s) (rn_client s)") (auto split: if_splits)
  then show ?thesis
  proof
    assume "\<exists>d. ?pc \<in> {Waiting d, Sleeping d}"
    then obtain d where "?pc \<in> {Waiting d, Sleeping d}" ..
    with stop_reach [of "?s\<lparr>rn_pc := ?pc\<rparr>" d api cfg env] assms(1) rn_trans [OF _ st] show ?thesis
      by auto
  next
    assume "?pc = Exited"
    with st show ?thesis
      by (intro exI [of _ "?s\<lparr>rn_pc := ?pc\<rparr>"] conjI rn_more [OF rn_start]) simp_all
  qed
qed

text \<open>
  Closing the backend ends the loop: from every state in which the context is cancelled, the loop has
  a run of its own, without any change of the server or of the outside, that ends in its return.
\<close>

lemma cancelled_loop_can_end:
  assumes "rn_cancelled s"
  shows "\<exists>t. renew_reach api cfg (\<lambda>_ _. False) s t \<and> rn_pc t = Exited"
proof (cases "rn_pc s")
  case LookingUp
  with assms lookup_reach show ?thesis by blast
next
  case (Waiting d)
  with assms stop_reach [of s d] show ?thesis by blast
next
  case (Sleeping d)
  with assms stop_reach [of s d] show ?thesis by blast
next
  case Renewing
  let ?t = "renew_or_login api (quiet_os Map.empty) cfg s"
  have st: "renew_step api cfg (\<lambda>_ _. False) s ?t"
    by (rule renew_step.renew [OF Renewing])
  have "\<exists>t. renew_reach api cfg (\<lambda>_ _. False) ?t t \<and> rn_pc t = Exited"
    using renew_or_login_pc [of api "quiet_os Map.empty" cfg s] assms lookup_reach [of ?t]
      stop_reach [of ?t "seconds 15"] by auto
  with rn_trans [OF _ st] show ?thesis by blast
next
  case Exited
  then show ?thesis by (blast intro: rn_start)
qed

end
