(* ===== verification/Vault_Live.thy ===== *)
theory Vault_Live
  imports Vault_Server Vault_Renew
begin

text \<open>
  The Vault backend over time: a server with a clock, whose tokens expire and can be renewed, with the plugin
  mounted; the renewal loop of the backend against that clock; and other clients of the same server. As long as
  the server answers and the loop is scheduled in time, the token never expires and the backend signs.
\<close>

section \<open>A server with a clock\<close>

text \<open>
  \<open>tw_expiry\<close> is when a token ends, in nanoseconds like \<open>tw_now\<close>. The server reports a time to live in whole
  seconds, rounded down, and a renewal extends the token to its period \<open>T\<close>.
\<close>

record timed_world =
  tw_plugin :: vault_world
  tw_now :: int
  tw_expiry :: "string \<rightharpoonup> int"

definition token_live :: "timed_world \<Rightarrow> string \<Rightarrow> bool" where
  "token_live w tok = (case tw_expiry w tok of None \<Rightarrow> False | Some e \<Rightarrow> tw_now w < e)"

definition plugin_now :: "timed_world \<Rightarrow> vault_world" where
  "plugin_now w = (tw_plugin w)\<lparr>vw_accepts := token_live w\<rparr>"

definition live_api ::
  "('p1, 'p2) blst \<Rightarrow> (string \<Rightarrow> bool) \<Rightarrow> string \<Rightarrow> bytes result \<Rightarrow> int \<Rightarrow> timed_world vault_api" where
  "live_api B gn mount rnd T = (let P = plugin_api B gn mount rnd in \<lparr>
     va_NewClient = va_NewClient P,
     va_NewAuth = va_NewAuth P,
     va_Login = (\<lambda>w _ _. (w, Inl err_denied)),
     va_Read = (\<lambda>w client path. va_Read P (plugin_now w) client path),
     va_Write = (\<lambda>w client path dat.
        let (v, r) = va_Write P (plugin_now w) client path dat
        in (w\<lparr>tw_plugin := (tw_plugin w)\<lparr>vw_storage := vw_storage v\<rparr>\<rparr>, r)),
     va_LookupSelf = (\<lambda>w client.
        if token_live w (vc_Token client)
        then Inr \<lparr>ti_TTL = Inr (seconds ((the (tw_expiry w (vc_Token client)) - tw_now w) div seconds 1)),
                  ti_Renewable = Inr True\<rparr>
        else Inl err_denied),
     va_RenewSelf = (\<lambda>w client.
        if token_live w (vc_Token client)
        then (w\<lparr>tw_expiry := (tw_expiry w)(vc_Token client \<mapsto> tw_now w + T)\<rparr>, None)
        else (w, Some err_denied))\<rparr>)"

section \<open>The loop against the clock\<close>

text \<open>
  \<open>ls_since\<close> is when the loop came to where it stands. \<open>slack\<close> bounds how long the loop takes for a call and how
  late a timer or the scheduler wakes it; a timer is never early.
\<close>

record live_state =
  ls_loop :: "timed_world renew_state"
  ls_since :: int

abbreviation ls_now :: "live_state \<Rightarrow> int" where
  "ls_now s \<equiv> tw_now (rn_world (ls_loop s))"

fun due_by :: "int \<Rightarrow> renew_pc \<Rightarrow> int \<Rightarrow> int \<Rightarrow> bool" where
  "due_by slack (Waiting d) since t = (t \<le> since + d + slack)"
| "due_by slack (Sleeping d) since t = (t \<le> since + d + slack)"
| "due_by slack Exited since t = True"
| "due_by slack _ since t = (t \<le> since + slack)"

fun timer_done :: "renew_pc \<Rightarrow> renew_pc \<Rightarrow> int \<Rightarrow> int \<Rightarrow> bool" where
  "timer_done (Waiting d) LookingUp since t = (since + d \<le> t)"
| "timer_done (Sleeping d) Renewing since t = (since + d \<le> t)"
| "timer_done _ _ since t = True"

definition advance :: "int \<Rightarrow> live_state \<Rightarrow> live_state" where
  "advance d s = s\<lparr>ls_loop := (ls_loop s)\<lparr>rn_world := (rn_world (ls_loop s))\<lparr>tw_now := ls_now s + d\<rparr>\<rparr>\<rparr>"

definition set_storage :: "vstorage \<Rightarrow> live_state \<Rightarrow> live_state" where
  "set_storage st s = s\<lparr>ls_loop := (ls_loop s)\<lparr>rn_world := (rn_world (ls_loop s))\<lparr>tw_plugin :=
     (tw_plugin (rn_world (ls_loop s)))\<lparr>vw_storage := st\<rparr>\<rparr>\<rparr>\<rparr>"

abbreviation ls_storage :: "live_state \<Rightarrow> vstorage" where
  "ls_storage s \<equiv> vw_storage (tw_plugin (rn_world (ls_loop s)))"

inductive live_step ::
  "('p1, 'p2) blst \<Rightarrow> timed_world vault_api \<Rightarrow> VaultConfig \<Rightarrow> int \<Rightarrow> live_state \<Rightarrow> live_state \<Rightarrow> bool"
  for B :: "('p1, 'p2) blst" and api :: "timed_world vault_api" and cfg :: VaultConfig and slack :: int where
  time: "0 \<le> d \<Longrightarrow> due_by slack (rn_pc (ls_loop s)) (ls_since s) (ls_now s + d) \<Longrightarrow>
     live_step B api cfg slack s (advance d s)"
| loop: "renew_step api cfg (\<lambda>_ _. False) (ls_loop s) r \<Longrightarrow>
     timer_done (rn_pc (ls_loop s)) (rn_pc r) (ls_since s) (ls_now s) \<Longrightarrow>
     live_step B api cfg slack s
       \<lparr>ls_loop = r, ls_since = (if rn_pc r = rn_pc (ls_loop s) then ls_since s else ls_now s)\<rparr>"
| request: "plugin_write B rnd (ls_storage s) ep d = (st, r) \<Longrightarrow>
     live_step B api cfg slack s (set_storage st s)"

inductive live_reach ::
  "('p1, 'p2) blst \<Rightarrow> timed_world vault_api \<Rightarrow> VaultConfig \<Rightarrow> int \<Rightarrow> live_state \<Rightarrow> live_state \<Rightarrow> bool"
  for B :: "('p1, 'p2) blst" and api :: "timed_world vault_api" and cfg :: VaultConfig and slack :: int
    and s :: live_state where
  live_start: "live_reach B api cfg slack s s"
| live_more: "live_reach B api cfg slack s t \<Longrightarrow> live_step B api cfg slack t u \<Longrightarrow> live_reach B api cfg slack s u"

inductive_cases live_step_cases: "live_step B api cfg slack s t"

section \<open>The token is renewed in time\<close>

text \<open>How far ahead the expiry \<open>e\<close> of the token is, by where the loop stands and since when.\<close>

fun margin :: "int \<Rightarrow> int \<Rightarrow> renew_pc \<Rightarrow> int \<Rightarrow> int \<Rightarrow> bool" where
  "margin T slack LookingUp since e = (since + T \<le> e)"
| "margin T slack (Sleeping d) since e = (T - slack \<le> e - since \<and> 4 * d \<le> 3 * (e - since))"
| "margin T slack Renewing since e = (T - 5 * slack \<le> 4 * (e - since))"
| "margin T slack (Waiting d) since e = False"
| "margin T slack Exited since e = False"

definition debug_only :: "'w renew_state \<Rightarrow> bool" where
  "debug_only s \<longleftrightarrow> list_all (\<lambda>l. log_level l = LevelDebug) (rn_log s)"

lemma debug_only_lookup: "after_lookup r = Sleeping d \<Longrightarrow> debug_only s \<Longrightarrow> debug_only (log_lookup r s)"
  by (cases r) (auto simp: log_lookup_def debug_only_def logf_def split: if_splits)

lemma debug_only_add: "debug_only s \<Longrightarrow> debug_only (add_log ''debug'' msg args s)"
  by (simp add: debug_only_def logf_def)

lemma debug_only_same [simp]:
  "debug_only (s\<lparr>rn_pc := pc\<rparr>) = debug_only s" "debug_only (s\<lparr>rn_world := w\<rparr>) = debug_only s"
  by (simp_all add: debug_only_def)

definition token_kept :: "int \<Rightarrow> int \<Rightarrow> vault_client \<Rightarrow> live_state \<Rightarrow> bool" where
  "token_kept T slack client s \<longleftrightarrow> rn_client (ls_loop s) = client \<and> debug_only (ls_loop s)
     \<and> due_by slack (rn_pc (ls_loop s)) (ls_since s) (ls_now s)
     \<and> (\<exists>e. tw_expiry (rn_world (ls_loop s)) (vc_Token client) = Some e
          \<and> margin T slack (rn_pc (ls_loop s)) (ls_since s) e)"

definition timely :: "int \<Rightarrow> int \<Rightarrow> bool" where
  "timely T slack \<longleftrightarrow> 0 \<le> slack \<and> 9 * slack + seconds 1 \<le> T"

lemma margin_live:
  assumes "timely T slack" "margin T slack pc since e" "due_by slack pc since t"
  shows "t < e"
  using assms by (cases pc) (auto simp: timely_def seconds_def)

lemma token_kept_live: "timely T slack \<Longrightarrow> token_kept T slack client s \<Longrightarrow>
    token_live (rn_world (ls_loop s)) (vc_Token client)"
  by (auto simp: token_kept_def token_live_def dest: margin_live)

lemma lookup_live:
  assumes "timely T slack" "T - slack \<le> e - t"
    and "tw_expiry w (vc_Token client) = Some e" "tw_now w = t"
  shows "\<exists>d. after_lookup (vault_tokenTTL (live_api B gn mount rnd T) w client) = Sleeping d
    \<and> 0 \<le> d \<and> 4 * d \<le> 3 * (e - t)"
proof -
  let ?ttl = "seconds ((e - t) div seconds 1)"
  have "seconds 1 \<le> e - t"
    using assms(1,2) by (simp add: timely_def)
  then have ttl: "0 < ?ttl" "?ttl \<le> e - t"
    by (simp_all add: seconds_def pos_imp_zdiv_pos_iff)
  have "token_live w (vc_Token client)"
    using assms ttl by (simp add: token_live_def)
  with assms(3,4) ttl have "vault_tokenTTL (live_api B gn mount rnd T) w client = Inr (?ttl, True)"
    by (simp add: vault_tokenTTL_def live_api_def Let_def)
  with ttl sleep_for_bounds [OF ttl(1)] show ?thesis
    by (simp add: sleep_for_def)
qed

lemma renew_live:
  assumes "token_live (rn_world s) (vc_Token (rn_client s))"
  shows "renew_or_login (live_api B gn mount rnd T) S cfg s =
    (add_log ''debug'' ''Vault token renewed successfully'' [] s)\<lparr>
      rn_world := (rn_world s)\<lparr>tw_expiry := (tw_expiry (rn_world s))(vc_Token (rn_client s) \<mapsto> tw_now (rn_world s) + T)\<rparr>,
      rn_pc := LookingUp\<rparr>"
  using assms by (simp add: renew_or_login_def live_api_def Let_def)

lemma kept_loop:
  assumes "timely T slack" "token_kept T slack client s"
    and "renew_step (live_api B gn mount rnd T) cfg (\<lambda>_ _. False) (ls_loop s) r" "\<not> rn_cancelled r"
  shows "token_kept T slack client
    \<lparr>ls_loop = r, ls_since = (if rn_pc r = rn_pc (ls_loop s) then ls_since s else ls_now s)\<rparr>"
proof -
  from assms(2) obtain e where e: "rn_client (ls_loop s) = client" "debug_only (ls_loop s)"
    "due_by slack (rn_pc (ls_loop s)) (ls_since s) (ls_now s)"
    "tw_expiry (rn_world (ls_loop s)) (vc_Token client) = Some e"
    "margin T slack (rn_pc (ls_loop s)) (ls_since s) e"
    by (auto simp: token_kept_def)
  note live = token_kept_live [OF assms(1,2)]
  have slack: "0 \<le> slack" using assms(1) by (simp add: timely_def)
  from assms(3) show ?thesis
  proof (cases rule: renew_step.cases)
    case lookup
    with e(3,5) have m: "T - slack \<le> e - ls_now s" by simp
    from lookup_live [OF assms(1) m e(4) refl, of B gn mount rnd] e lookup m slack show ?thesis
      by (auto simp: token_kept_def debug_only_lookup)
  next
    case (slept d)
    with e slack have "T - 5 * slack \<le> 4 * (e - ls_now s)" by simp
    with slept e slack show ?thesis by (simp add: token_kept_def)
  next
    case (renew S)
    with e live slack show ?thesis by (simp add: token_kept_def renew_live debug_only_add)
  next
    case cancelled
    with assms(4) show ?thesis by simp
  next
    case (stop d)
    with assms(4) show ?thesis by simp
  qed (use e in simp_all)
qed

section \<open>The backend signs\<close>

definition backend_key :: "('p1, 'p2) blst \<Rightarrow> (string \<Rightarrow> bool) \<Rightarrow> string \<Rightarrow> vault_Backend \<Rightarrow> nat \<Rightarrow> vstorage \<Rightarrow> bool" where
  "backend_key B gn mount b sk st \<longleftrightarrow> good_name gn (vb_keyName b) \<and> vb_mountPath b = mount
     \<and> vb_pkBytes b = bls_pk B sk \<and> stored_key st (vb_keyName b) sk
     \<and> st_get_err st (entry_key (vb_keyName b)) = None"

lemma backend_key_write:
  assumes "keygen_valid B" "backend_key B gn mount b sk st" "plugin_write B rnd st ep d = (st', r)"
  shows "backend_key B gn mount b sk st'"
proof -
  note w = plugin_write_cases [OF assms(1,3)]
  then have "st_get_err st' = st_get_err st"
    by (auto simp: adds_key_def)
  moreover from w assms(2) have "stored_key st' (vb_keyName b) sk"
    by (auto simp: backend_key_def intro: adds_key_keeps)
  ultimately show ?thesis
    using assms(2) by (simp add: backend_key_def)
qed

lemma storage_loop:
  assumes "renew_step (live_api B gn mount rnd T) cfg (\<lambda>_ _. False) s r"
  shows "vw_storage (tw_plugin (rn_world r)) = vw_storage (tw_plugin (rn_world s))"
  using assms
proof (cases rule: renew_step.cases)
  case (renew S)
  then show ?thesis
    by (auto simp: renew_or_login_def live_api_def vault_authenticate_def vault_login_def Let_def
        split: option.splits sum.splits prod.splits if_splits)
qed simp_all

lemma cancelled_stays: "renew_step api cfg env s r \<Longrightarrow> rn_cancelled s \<Longrightarrow> rn_cancelled r"
  by (erule renew_step.cases) (auto simp: renew_or_login_pc)

lemma live_inv:
  assumes "keygen_valid B" "timely T slack"
    and "live_reach B (live_api B gn mount rnd T) cfg slack s t"
    and "token_kept T slack (vb_client b) s" "backend_key B gn mount b sk (ls_storage s)"
  shows "(rn_cancelled (ls_loop t) \<or> token_kept T slack (vb_client b) t) \<and> backend_key B gn mount b sk (ls_storage t)"
  using assms(3)
proof (induction rule: live_reach.induct)
  case live_start
  from assms(4,5) show ?case by simp
next
  case (live_more t u)
  from live_more.hyps(2) show ?case
  proof (cases rule: live_step.cases)
    case (time d)
    with live_more.IH show ?thesis by (auto simp: token_kept_def advance_def)
  next
    case (loop r)
    have "rn_cancelled r \<or> token_kept T slack (vb_client b) u"
      using live_more.IH kept_loop [OF assms(2) _ loop(2)] cancelled_stays [OF loop(2)] unfolding loop(1) by blast
    with live_more.IH storage_loop [OF loop(2)] show ?thesis
      by (simp add: loop(1) del: if_split)
  next
    case (request rnd' ep d st r)
    from live_more.IH backend_key_write [OF assms(1) _ request(2)] request(1) show ?thesis
      by (auto simp: token_kept_def set_storage_def)
  qed
qed

lemma live_write:
  "snd (va_Write (live_api B gn mount rnd T) w client path dat) =
   snd (va_Write (plugin_api B gn mount rnd) (plugin_now w) client path dat)"
  by (simp add: live_api_def Let_def split: prod.split)

lemma live_sign:
  assumes "token_live w (vc_Token (vb_client b))" "backend_key B gn mount b sk (vw_storage (tw_plugin w))"
  shows "snd (vault_Sign (live_api B gn mount rnd T) w b msg) = Inr (bls_sig B sk msg DSTSign)"
    "snd (vault_SignProofOfPossession (live_api B gn mount rnd T) w b msg) = Inr (bls_sig B sk msg DSTPoP)"
proof -
  have "vault_holds B gn mount (plugin_now w) b sk"
    using assms by (simp add: vault_holds_def backend_key_def plugin_now_def)
  note laws = vaultb.laws [OF this, of rnd, unfolded vault_ops_def, simplified]
  have eq: "snd (vault_requestSign (live_api B gn mount rnd T) w b m d ep) =
      snd (vault_requestSign (plugin_api B gn mount rnd) (plugin_now w) b m d ep)" for m d ep
    by (simp add: vault_requestSign_def live_write Let_def split_beta)
  show "snd (vault_Sign (live_api B gn mount rnd T) w b msg) = Inr (bls_sig B sk msg DSTSign)"
    "snd (vault_SignProofOfPossession (live_api B gn mount rnd T) w b msg) = Inr (bls_sig B sk msg DSTPoP)"
    using laws(2,3) [of msg] by (simp_all add: vault_Sign_def vault_SignProofOfPossession_def eq)
qed

text \<open>
  C8. The Vault backend keeps signing: a server that answers, a token that lives for \<open>T\<close> after each renewal, and a
  loop that is never held up for more than \<open>slack\<close>, with \<open>T\<close> more than nine times \<open>slack\<close> and a second, make a token
  that is alive in every reachable state until the backend is closed; then the loop is looking the token up,
  sleeping or renewing, it has never logged in again nor logged a warning or an error, and a signing request is answered with the stored key's
  reference signature, whatever other clients have asked the plugin for in between.
\<close>

theorem token_kept_alive:
  assumes "keygen_valid B" "timely T slack"
    and "live_reach B (live_api B gn mount rnd T) cfg slack s t" "\<not> rn_cancelled (ls_loop t)"
    and "token_kept T slack (vb_client b) s" "backend_key B gn mount b sk (ls_storage s)"
  shows "token_live (rn_world (ls_loop t)) (vc_Token (vb_client b))
    \<and> (case rn_pc (ls_loop t) of Waiting d \<Rightarrow> False | Exited \<Rightarrow> False | _ \<Rightarrow> True)
    \<and> rn_client (ls_loop t) = vb_client b \<and> debug_only (ls_loop t)
    \<and> snd (vault_Sign (live_api B gn mount rnd T) (rn_world (ls_loop t)) b msg) = Inr (bls_sig B sk msg DSTSign)
    \<and> snd (vault_SignProofOfPossession (live_api B gn mount rnd T) (rn_world (ls_loop t)) b msg)
        = Inr (bls_sig B sk msg DSTPoP)"
proof -
  from live_inv [OF assms(1-3,5,6)] assms(4)
  have t: "token_kept T slack (vb_client b) t" "backend_key B gn mount b sk (ls_storage t)" by auto
  note live = token_kept_live [OF assms(2) t(1)]
  from t(1) have "case rn_pc (ls_loop t) of Waiting d \<Rightarrow> False | Exited \<Rightarrow> False | _ \<Rightarrow> True"
    by (auto simp: token_kept_def split: renew_pc.splits)
  with live t(1) live_sign [OF live t(2)] show ?thesis
    by (simp add: token_kept_def)
qed

text \<open>A token of one minute, calls and wake-ups of five seconds at most, and the first three seconds of a run.\<close>

definition live_backend :: vault_Backend where
  "live_backend = \<lparr>vb_client = \<lparr>vc_Address = ''http://vault:8200'', vc_Token = ''root''\<rparr>, vb_cfg = test_vault_cfg,
     vb_mountPath = ''bls'', vb_keyName = ''validator'', vb_pkBytes = bls_pk toy_blst 5, vb_cancelled = False\<rparr>"

definition live_begin :: live_state where
  "live_begin = \<lparr>ls_loop = \<lparr>rn_pc = LookingUp, rn_client = vb_client live_backend, rn_cancelled = False,
     rn_world = \<lparr>tw_plugin = test_world, tw_now = 0, tw_expiry = [''root'' \<mapsto> seconds 60]\<rparr>,
     rn_logger = True, rn_log = []\<rparr>, ls_since = 0\<rparr>"

lemma token_kept_alive_witness:
  "\<exists>t. live_reach toy_blst (live_api toy_blst (\<lambda>_. True) ''bls'' (Inr []) (seconds 60)) test_vault_cfg (seconds 5)
        live_begin t
     \<and> ls_now t = seconds 3
     \<and> snd (vault_Sign (live_api toy_blst (\<lambda>_. True) ''bls'' (Inr []) (seconds 60)) (rn_world (ls_loop t))
         live_backend [1]) = Inr (bls_sig toy_blst 5 [1] DSTSign)"
proof -
  let ?api = "live_api toy_blst (\<lambda>_. True) ''bls'' (Inr []) (seconds 60)" and ?t = "advance (seconds 3) live_begin"
  have timely: "timely (seconds 60) (seconds 5)"
    by (simp add: timely_def seconds_def)
  have "live_step toy_blst ?api test_vault_cfg (seconds 5) live_begin ?t"
    by (rule live_step.time) (simp_all add: live_begin_def seconds_def)
  then have reach: "live_reach toy_blst ?api test_vault_cfg (seconds 5) live_begin ?t"
    by (blast intro: live_reach.intros)
  have kept: "token_kept (seconds 60) (seconds 5) (vb_client live_backend) live_begin"
    by (simp add: token_kept_def live_begin_def live_backend_def seconds_def debug_only_def)
  have key: "backend_key toy_blst (\<lambda>_. True) ''bls'' live_backend 5 (ls_storage live_begin)"
    by (simp add: backend_key_def live_begin_def live_backend_def test_world_def good_name_def)
  have "\<not> rn_cancelled (ls_loop ?t)" "ls_now ?t = seconds 3"
    by (simp_all add: advance_def live_begin_def)
  with token_kept_alive [OF keygen_valid_toy timely reach _ kept key] reach show ?thesis
    by blast
qed

end
