(* ===== verification/Main_Live.thy ===== *)
theory Main_Live
  imports Main_Process Vault_Live
begin

text \<open>
  The serving process over a Vault server whose tokens expire, with the renewal loop of the backend running beside it:
  as long as the loop is scheduled in time, the process is a signer for the stored key.
\<close>

definition live_or_local ::
  "('p1, 'p2) blst \<Rightarrow> (string \<Rightarrow> bool) \<Rightarrow> string \<Rightarrow> timed_world \<Rightarrow> built \<Rightarrow> nat \<Rightarrow> bool" where
  "live_or_local B gn mount w b sk =
     (case b of BVault k \<Rightarrow> token_live w (vc_Token (vb_client k)) \<and> backend_key B gn mount k sk (vw_storage (tw_plugin w))
      | _ \<Rightarrow> local_built B b sk)"

interpretation liveb: signing_backend B "built_ops B (live_api B gn mount rnd T) w N n" "live_or_local B gn mount w"
  for B :: "('p1, 'p2) blst" and gn mount rnd T w N n
proof (unfold_locales, goal_cases)
  case (1 b sk)
  then show ?case
    by (cases b) (auto simp: live_or_local_def built_ops_def vault_ops_def vault_PublicKey_def backend_key_def
        local_built_def memb.laws awsb.laws gcpb.laws azb.laws)
next
  case (2 b sk msg)
  then show ?case
    by (cases b) (auto simp: live_or_local_def built_ops_def vault_ops_def live_sign local_built_def
        memb.laws awsb.laws gcpb.laws azb.laws)
next
  case (3 b sk msg)
  then show ?case
    by (cases b) (auto simp: live_or_local_def built_ops_def vault_ops_def live_sign local_built_def
        memb.laws awsb.laws gcpb.laws azb.laws)
qed

lemma live_or_local_ok: "live_or_local B gn mount w b sk \<Longrightarrow> built_ok B b"
  by (cases b) (auto simp: live_or_local_def local_built_def keypair_holds_ok backend_key_def)

interpretation livep:
  served_backend "\<lambda>c. built_at B (live_api B gn mount rnd T) N (env c)"
    "\<lambda>b sk. \<forall>(w, n) \<in> env False. live_or_local B gn mount w b sk" "remote_spec B"
  for B :: "('p1, 'p2) blst" and gn mount rnd T N env
proof (unfold_locales, goal_cases)
  case (2 b sk M r addr)
  then show ?case by (auto simp: built_at_def remote_spec_def liveb.reply_expected)
next
  case (3 b sk M r)
  then show ?case by (auto simp: built_at_def liveb.silent)
next
  case (4 b sk M M' addr r)
  then have "built_ok B b" by (auto simp: built_at_def intro: live_or_local_ok)
  with builtt.Close_typed [OF 4(2)] builtt.reply_of_typed [OF 4(3)] show ?case by (simp add: remote_spec_def)
next
  case (5 b sk M M' addr r)
  then have "built_ok B b" by (auto simp: built_at_def intro: live_or_local_ok)
  with builtt.Close_typed [OF 5(2)] builtt.logs_typed [OF 5(3)] show ?case by (simp add: remote_spec_def)
next
  case (6 b sk M addr)
  then show ?case using closing_lines by (auto simp: remote_spec_def built_at_def)
qed (simp add: remote_spec_def)

text \<open>
  C6. The Vault backend as a process, with its renewal loop: over a server with a clock, whose tokens live for \<open>T\<close> after
  each renewal, and a loop that is never held up for more than \<open>slack\<close>, every process of the program that starts with
  a live token and a stored key does what the abstract signer of this key does, whatever other clients ask of the
  plugin meanwhile and however long it runs: until the backend is closed, each call gets the reference public key or
  signature of the key.
\<close>

theorem renewed_process_refines_signer:
  assumes "main_process D env m args tr" "main_run D m args = Some (m', Serve addr (BVault k))"
    and "dp_vault D = live_api (dp_blst D) gn mount rnd T" "keygen_valid (dp_blst D)" "timely T slack"
    and "token_kept T slack (vb_client k) s" "backend_key (dp_blst D) gn mount k sk (ls_storage s)"
    and "\<forall>(w, n) \<in> env False. \<exists>t. live_reach (dp_blst D) (dp_vault D) cfg slack s t
      \<and> \<not> rn_cancelled (ls_loop t) \<and> w = rn_world (ls_loop t)"
  shows "\<exists>c tr'. addr = Addr c \<and> tr = map Logged (starting_log D m c) @ tr'
    \<and> signs_as (remote_spec (dp_blst D) addr (BVault k) sk) tr'"
proof -
  obtain c tr' where p: "addr = Addr c" "tr = map Logged (starting_log D m c) @ tr'"
    "(\<exists>M \<in> built_at (dp_blst D) (dp_vault D) (dp_nitro D) (env False).
        tr' = map Logged (closing_log M (BVault k)) @ [ExitStatus 1])
     \<or> (\<exists>s. serve_trace (\<lambda>c. built_at (dp_blst D) (dp_vault D) (dp_nitro D) (env c)) addr (BVault k) tr' s)"
    using assms(1,2) by (rule served_process)
  have "live_or_local (dp_blst D) gn mount w (BVault k) sk" if "(w, n) \<in> env False" for w n
  proof -
    from assms(8) that obtain t where t: "live_reach (dp_blst D) (dp_vault D) cfg slack s t"
      "\<not> rn_cancelled (ls_loop t)" "w = rn_world (ls_loop t)" by blast
    from live_inv [OF assms(4,5) t(1) [unfolded assms(3)] assms(6,7)] t(2)
    have "token_kept T slack (vb_client k) t" "backend_key (dp_blst D) gn mount k sk (ls_storage t)" by auto
    with token_kept_live [OF assms(5), of "vb_client k" t] t(3) show ?thesis by (simp add: live_or_local_def)
  qed
  then have "\<forall>(w, n) \<in> env False. live_or_local (dp_blst D) gn mount w (BVault k) sk" by blast
  from p(1,2) livep.signs_as_spec [OF p(3) [unfolded assms(3)] this] show ?thesis by blast
qed

section \<open>An example\<close>

text \<open>With a static token, \<open>New\<close> over the clocked server is \<open>New\<close> over the plugin at the current time.\<close>

lemma vault_New_live:
  assumes "vault_AuthMethod cfg = ''token''"
  shows "vault_New (live_api B gn mount rnd T) S w cfg =
    (w, snd (vault_New (plugin_api B gn mount rnd) S (plugin_now w) cfg))"
  using assms
  by (simp add: vault_New_def vault_authenticate_def vault_fetchPublicKey_def live_api_def Let_def plugin_api_def
      split: sum.split)

lemma vault_New_static:
  "vault_New api S w cfg = (w', Inr k) \<Longrightarrow> vault_AuthMethod cfg = ''token'' \<Longrightarrow>
     vc_Token (vb_client k) = vault_Token cfg"
  by (auto simp: vault_New_def vault_authenticate_def Let_def result_simps split: sum.splits if_splits)

text \<open>The host of \<open>vault_deps\<close>, and a Vault server whose tokens live for a minute, at the moment a token is issued.\<close>

definition live_deps :: "(nat, bytes, timed_world, nitro_world) deps" where
  "live_deps = \<lparr>dp_blst = toy_blst, dp_rnd = Inr [7], dp_clouds = test_clouds,
     dp_vault = live_api toy_blst (\<lambda>_. True) ''bls'' (Inr []) (seconds 60),
     dp_nitro = enclave_env toy_blst test_text test_host [''/key.enc''] test_creds,
     dp_uni = (\<lambda>s. s), dp_unmarshal = (\<lambda>_ c. Inr c), dp_env = vault_env\<rparr>"

definition live_machine :: "(timed_world, nitro_world) machine" where
  "live_machine = \<lparr>mc_os = quiet_os Map.empty, mc_vault = rn_world (ls_loop live_begin), mc_nitro = idle_world\<rparr>"

abbreviation live_env :: "bool \<Rightarrow> (timed_world \<times> nitro_world) set" where
  "live_env \<equiv> \<lambda>_. {(rn_world (ls_loop live_begin), idle_world)}"

lemma live_deps_sel:
  "dp_blst live_deps = toy_blst" "dp_nitro live_deps = dp_nitro test_deps"
  "dp_vault live_deps = live_api toy_blst (\<lambda>_. True) ''bls'' (Inr []) (seconds 60)"
  by (simp_all add: live_deps_def test_deps_def)

lemma live_serve_config: "serve_config live_deps S fl = serve_config vault_deps S fl"
  by (simp add: serve_config_def load_config_def live_deps_def vault_deps_def test_deps_def)

abbreviation live_args :: "string list" where
  "live_args \<equiv> [''serve''] @ render_flags [(''backend'', ''vault'', True)]"

lemma live_starts:
  "\<exists>k. main_run live_deps live_machine live_args = Some (live_machine, Serve (Addr vault_cfg) (BVault k))
     \<and> vc_Token (vb_client k) = ''root'' \<and> backend_key toy_blst (\<lambda>_. True) ''bls'' k 5 test_storage"
proof -
  let ?cfg = "vault_cfg\<lparr>cfg_Backend := ''vault''\<rparr>" and ?w = "rn_world (ls_loop live_begin)"
  let ?api = "live_api toy_blst (\<lambda>_. True) ''bls'' (Inr []) (seconds 60)"
  have c: "vault_AuthMethod (cfg_Vault ?cfg) = ''token''" "vault_Token (cfg_Vault ?cfg) = ''root''"
    "vault_KeyName (cfg_Vault ?cfg) = ''validator''" "vault_mount (cfg_Vault ?cfg) = ''bls''"
    by (simp_all add: vault_cfg_def zero_Vault_def vault_mount_def defaultMountPath_def)
  have w: "vw_storage (plugin_now ?w) = test_storage" "vw_accepts (plugin_now ?w) ''root''"
    by (simp_all add: plugin_now_def live_begin_def test_world_def token_live_def seconds_def)
  have "good_name (\<lambda>_. True) ''validator''" by (simp add: good_name_def)
  with vault_New_holds_plugin [of "plugin_now ?w" "cfg_Vault ?cfg" 5 "\<lambda>_. True" toy_blst "Inr []" "quiet_os Map.empty",
      unfolded c] w
  obtain k where k: "vault_New (plugin_api toy_blst (\<lambda>_. True) ''bls'' (Inr [])) (quiet_os Map.empty) (plugin_now ?w)
      (cfg_Vault ?cfg) = (plugin_now ?w, Inr k)" "vault_holds toy_blst (\<lambda>_. True) ''bls'' (plugin_now ?w) k 5"
    by auto
  from k(1) have tok: "vc_Token (vb_client k) = ''root''"
    using vault_New_static [OF _ c(1)] c(2) by metis
  have "vault_New ?api (quiet_os Map.empty) ?w (cfg_Vault ?cfg) = (?w, Inr k)"
    unfolding vault_New_live [OF c(1)] k(1) by simp
  then have "buildBackend live_deps live_machine ?cfg = Some (live_machine, Inr (BVault k))"
    by (simp add: buildBackend_def backend_names as_built_def Let_def live_deps_sel live_machine_def)
  then have "main_run live_deps live_machine live_args = Some (live_machine, Serve (Addr vault_cfg) (BVault k))"
    by (simp add: main_run_def run_flags(1) [OF vault_serve(1)] serve_start_def live_serve_config vault_serve(2)
        Addr_def del: append.simps)
  with tok k(2) w(1) show ?thesis by (simp add: vault_holds_def backend_key_def)
qed

lemma renewed_process_refines_signer_witness:
  "\<exists>k. main_run live_deps live_machine live_args = Some (live_machine, Serve (Addr vault_cfg) (BVault k))
     \<and> signer_run (remote_spec toy_blst (Addr vault_cfg) (BVault k) 5) signer_init
         (served_run (built_ops toy_blst (dp_vault live_deps) (mc_vault live_machine) (dp_nitro live_deps) idle_world)
            (Addr vault_cfg) (BVault k) [SignReq \<lparr>sreq_Message = [1, 2]\<rparr>]) \<noteq> None"
proof -
  obtain k where k: "main_run live_deps live_machine live_args = Some (live_machine, Serve (Addr vault_cfg) (BVault k))"
    "vc_Token (vb_client k) = ''root''" "backend_key toy_blst (\<lambda>_. True) ''bls'' k 5 test_storage"
    using live_starts by blast
  let ?s = "live_begin\<lparr>ls_loop := (ls_loop live_begin)\<lparr>rn_client := vb_client k\<rparr>\<rparr>"
  let ?run = "served_run (built_ops (dp_blst live_deps) (dp_vault live_deps) (mc_vault live_machine) (dp_nitro live_deps)
     idle_world) (Addr vault_cfg) (BVault k) [SignReq \<lparr>sreq_Message = [1, 2]\<rparr>]"
  have e: "(mc_vault live_machine, idle_world) \<in> live_env c" for c by (simp add: live_machine_def)
  from process_of_run [OF k(1) e e] obtain cfg where p: "Addr vault_cfg = Addr cfg"
    "buildBackend live_deps live_machine cfg = Some (live_machine, Inr (BVault k))"
    "main_process live_deps live_env live_machine live_args (map Logged (starting_log live_deps live_machine cfg) @ ?run)"
    by blast
  have api: "dp_vault live_deps = live_api (dp_blst live_deps) (\<lambda>_. True) ''bls'' (Inr []) (seconds 60)"
    by (simp add: live_deps_sel)
  have g: "keygen_valid (dp_blst live_deps)" "timely (seconds 60) (seconds 5)"
    by (simp_all add: live_deps_sel keygen_valid_toy timely_def seconds_def)
  have kept: "token_kept (seconds 60) (seconds 5) (vb_client k) ?s"
    using k(2) by (simp add: token_kept_def live_begin_def seconds_def debug_only_def)
  have key: "backend_key (dp_blst live_deps) (\<lambda>_. True) ''bls'' k 5 (ls_storage ?s)"
    using k(3) by (simp add: live_deps_sel live_begin_def test_world_def)
  have env: "\<forall>(w, n) \<in> live_env False. \<exists>t. live_reach (dp_blst live_deps) (dp_vault live_deps) test_vault_cfg (seconds 5) ?s t
      \<and> \<not> rn_cancelled (ls_loop t) \<and> w = rn_world (ls_loop t)"
    by (auto intro!: exI [of _ ?s] live_reach.live_start simp: live_begin_def)
  from renewed_process_refines_signer [OF p(3) k(1) api g kept key env] obtain cfg' tr' where r: "Addr vault_cfg = Addr cfg'"
    "map Logged (starting_log live_deps live_machine cfg) @ ?run = map Logged (starting_log live_deps live_machine cfg') @ tr'"
    "signs_as (remote_spec (dp_blst live_deps) (Addr vault_cfg) (BVault k) 5) tr'" by blast
  have "cfg_Backend cfg \<noteq> BackendAWSNitro"
    using p(2) by (auto simp: buildBackend_def backend_names Let_def split: if_splits)
  from starting_log_same [OF trans [OF p(1) [symmetric] r(1)] this r(2)] r(3)
  have "signs_as (remote_spec toy_blst (Addr vault_cfg) (BVault k) 5) ?run"
    by (simp only: live_deps_sel)
  with k(1) show ?thesis
    by (auto simp: signs_as_def run_starts live_deps_sel(1))
qed

end
