(* ===== verification/Main_Nitro.thy ===== *)
theory Main_Nitro
  imports Main_Runs
begin

text \<open>
  The Nitro backend from the command line: the first \<open>serve\<close> on a host launches the enclave, hands it the credentials and
  serves the key that KMS decrypted inside; every later one finds it running.
\<close>

definition nitro_or_local :: "('p1, 'p2) blst \<Rightarrow> nitro_world \<Rightarrow> built \<Rightarrow> nat \<Rightarrow> bool" where
  "nitro_or_local B n b sk = (case b of BNitro k \<Rightarrow> nitro_holds B n k sk | _ \<Rightarrow> local_built B b sk)"

interpretation enclaveb:
  signing_backend B "built_ops B api v (enclave_env B T H eargs creds) n" "nitro_or_local B n"
  for B :: "('p1, 'p2) blst" and api v T H eargs creds n
proof (unfold_locales, goal_cases)
  case (1 b sk)
  then show ?case
    by (cases b) (auto simp: nitro_or_local_def built_ops_def nitrob.PublicKey_law local_built_def
        memb.laws awsb.laws gcpb.laws azb.laws)
next
  case (2 b sk msg)
  then show ?case
    by (cases b) (auto simp: nitro_or_local_def built_ops_def nitrob.Sign_law local_built_def
        memb.laws awsb.laws gcpb.laws azb.laws)
next
  case (3 b sk msg)
  then show ?case
    by (cases b) (auto simp: nitro_or_local_def built_ops_def nitrob.SignPoP_law local_built_def
        memb.laws awsb.laws gcpb.laws azb.laws)
qed

lemma serve_nitro:
  assumes "list_all (writable (cmd_Flags serveCmd)) ws" "cfg_Backend cfg = BackendAWSNitro"
    and "serve_config D (mc_os m) (serve_flags_of (values_of ws)) = Inr cfg"
    and "nitro_New (dp_nitro D) (mc_nitro m) (cfg_Nitro cfg) = Some (n', Inr k)"
  shows "main_run D m ([''serve''] @ render_flags ws) = Some (m\<lparr>mc_nitro := n'\<rparr>, Serve (Addr cfg) (BNitro k))"
proof -
  have "buildBackend D m cfg = Some (m\<lparr>mc_nitro := n'\<rparr>, Inr (BNitro k))"
    using assms(2,4) by (simp add: buildBackend_def backend_names as_built_def Let_def)
  then show ?thesis
    by (simp add: main_run_def run_flags(1) [OF assms(1)] serve_start_def assms(3) del: append.simps)
qed

text \<open>
  C13. From an idle host to a client, across restarts: when \<open>serve\<close> is run with settings for the Nitro backend on a host
  with no enclave, and KMS decrypts the key in the image for the host's credentials, then it starts on its configured
  address with the enclave serving exactly this key, a client over the wire gets the key's public key, signatures and
  proofs of possession for every message within the limit, and running \<open>serve\<close> again, on the host it left behind,
  launches nothing, changes nothing and serves the same key.
\<close>

theorem nitro_served_across_restarts:
  assumes "dp_nitro D = enclave_env (dp_blst D) T H (path # eargs) creds"
    and "list_all (writable (cmd_Flags serveCmd)) ws" "cfg_Backend cfg = BackendAWSNitro"
    and "serve_config D (mc_os m) (serve_flags_of (values_of ws)) = Inr cfg"
    and "nw_cid (mc_nitro m) = None" "ascii_init (host_init (cfg_Nitro cfg) creds)"
    and "enclave_key_ok T H path (host_init (cfg_Nitro cfg) creds) sk"
  shows "\<exists>m1 b. main_run D m ([''serve''] @ render_flags ws) = Some (m1, Serve (Addr cfg) b)
    \<and> nw_phase (mc_nitro m1) = Serving sk (bls_pk (dp_blst D) sk)
    \<and> client_call (wire_connect (Server_methods (Server_New (built_ops (dp_blst D) api v (dp_nitro D) (mc_nitro m1)) b))) req =
       (if length (message_of req) \<le> 4194299 then Inr (expected_reply (dp_blst D) sk req)
        else Inl (refused ''trying to send message larger than max (%d vs. %d)'' (length (marshal_request req))))
    \<and> main_run D m1 ([''serve''] @ render_flags ws) = Some (m1, Serve (Addr cfg) b)"
proof -
  let ?k = "nitro_built (dp_blst D) (cfg_Nitro cfg) sk"
  from nitro_fresh_start [OF assms(5-7), of "dp_blst D" eargs] obtain n' where
    n': "nitro_New (dp_nitro D) (mc_nitro m) (cfg_Nitro cfg) = Some (n', Inr ?k)"
    "enclave_up (dp_blst D) (cfg_Nitro cfg) sk n'"
    unfolding assms(1) by blast
  let ?m1 = "m\<lparr>mc_nitro := n'\<rparr>"
  have "nitro_New (dp_nitro D) (mc_nitro ?m1) (cfg_Nitro cfg) = Some (n', Inr ?k)"
    using nitro_reconnect [OF n'(2)] unfolding assms(1) by simp
  note runs = serve_nitro [OF assms(2-4) n'(1)] serve_nitro [OF assms(2,3) _ this]
  have "nitro_or_local (dp_blst D) n' (BNitro ?k) sk"
    using enclave_up_holds [OF n'(2)] by (simp add: nitro_or_local_def)
  from enclaveb.wire_expected [OF this, of api v T H "path # eargs" creds req] n'(2) runs assms(1,4) show ?thesis
    by (intro exI [of _ ?m1] exI [of _ "BNitro ?k"]) (simp add: enclave_up_def)
qed

text \<open>A host whose configuration file asks for the Nitro backend.\<close>

definition nitro_file_cfg :: Config where
  "nitro_file_cfg = Defaults\<lparr>cfg_Backend := BackendAWSNitro, cfg_Nitro := nitro_cfg\<rparr>"

definition nitro_deps :: "(nat, bytes, vault_world, nitro_world) deps" where
  "nitro_deps = test_deps\<lparr>dp_unmarshal := (\<lambda>_ c. Inr nitro_file_cfg)\<rparr>"

definition nitro_machine :: "(vault_world, nitro_world) machine" where
  "nitro_machine = test_machine\<lparr>mc_os := quiet_os [''c.yaml'' \<mapsto> \<lparr>f_data = [], f_mode = 0x180\<rparr>]\<rparr>"

lemma nitro_config:
  "serve_config nitro_deps (mc_os nitro_machine) (serve_flags_of (values_of [(''config-file'', ''c.yaml'', True)])) =
     Inr nitro_file_cfg"
  by (simp add: serve_config_def serve_flags_of_def load_config_def Load_def values_of_def nitro_machine_def quiet_os_def
      os_ReadFile_def nitro_deps_def test_deps_def applyEnv_def applyEnv_core_def applyEnv_AWS_def applyEnv_GCP_def
      applyEnv_Azure_def applyEnv_Vault_def Let_def)

lemma nitro_served_across_restarts_witness:
  "\<exists>m1 b. main_run nitro_deps nitro_machine [''serve'', ''--config-file=c.yaml''] = Some (m1, Serve (Addr nitro_file_cfg) b)
     \<and> nw_phase (mc_nitro m1) = Serving 5 (bls_pk toy_blst 5)
     \<and> main_run nitro_deps m1 [''serve'', ''--config-file=c.yaml''] = Some (m1, Serve (Addr nitro_file_cfg) b)"
proof -
  have w: "list_all (writable (cmd_Flags serveCmd)) [(''config-file'', ''c.yaml'', True)]"
    by (simp add: serveCmd_def writable_def Lookup_def string_flag_def value_error_def)
  have d: "dp_nitro nitro_deps = enclave_env (dp_blst nitro_deps) test_text test_host [''/key.enc''] test_creds"
    by (simp add: nitro_deps_def test_deps_def)
  have c: "cfg_Backend nitro_file_cfg = BackendAWSNitro" "cfg_Nitro nitro_file_cfg = nitro_cfg"
    by (simp_all add: nitro_file_cfg_def)
  have k: "nw_cid (mc_nitro nitro_machine) = None"
    "ascii_init (host_init (cfg_Nitro nitro_file_cfg) test_creds)"
    "enclave_key_ok test_text test_host ''/key.enc'' (host_init (cfg_Nitro nitro_file_cfg) test_creds) 5"
    using test_key_ok ascii_test_init by (simp_all add: nitro_machine_def test_machine_def idle_world_def c test_host_init)
  from nitro_served_across_restarts [OF d w c(1) nitro_config k, where api = test_api and v = test_world
      and req = "PublicKeyReq ()"]
  show ?thesis
    by (auto simp: render_flags_def nitro_deps_def)
qed

end
