(* ===== verification/Enclave_Secret.thy ===== *)
theory Enclave_Secret
  imports Enclave
begin

text \<open>
  What leaves the enclave: the reply on the init connection, the answers to requests, the log and the error it ends
  with. Two runs are compared, in two hosts whose KMS gives different keys and with two instances of the curve, on the
  same connections: where the public keys agree, and the signatures that are asked for, nobody outside can tell the
  runs apart. So no byte of the key gets out by another way than through these.
\<close>

section \<open>Everything the enclave emits\<close>

definition enclave_output ::
  "('p1, 'p2) blst \<Rightarrow> go_text \<Rightarrow> enclave_host \<Rightarrow> string list \<Rightarrow> (goerr + string) list \<Rightarrow> (goerr + string) list \<Rightarrow>
    string option \<times> string list \<times> enclave_event list" where
  "enclave_output B T H args inits conns =
     (let (phase, reply, ls) = enclave_main B T H args inits
      in (reply, ls, case phase of Serving sk pk \<Rightarrow> enclave_serve B T sk pk conns | _ \<Rightarrow> []))"

section \<open>Keys that look alike\<close>

text \<open>The signatures that a text on a connection asks for, each a message with its separation tag.\<close>

definition asked :: "go_text \<Rightarrow> goerr + string \<Rightarrow> (bytes \<times> bytes) list" where
  "asked T conn =
     (case conn of Inl e \<Rightarrow> []
      | Inr text \<Rightarrow>
     (case decode_Request (gt_jerr T) text of
        Inl e \<Rightarrow> []
      | Inr rq \<Rightarrow> if req_Type rq = RequestSign then [(req_Message rq, DSTSign)]
          else if req_Type rq = RequestSignPoP then [(req_Message rq, DSTPoP)] else []))"

text \<open>Two plaintexts from KMS: of one length, and both keys or neither.\<close>

definition same_plaintext ::
  "('p1, 'p2) blst \<Rightarrow> ('q1, 'q2) blst \<Rightarrow> (bytes \<times> bytes) list \<Rightarrow> bytes \<Rightarrow> bytes \<Rightarrow> bool" where
  "same_plaintext B B' Q pt pt' \<longleftrightarrow> length pt = length pt'
     \<and> rel_option (same_answers B B' Q) (Scalar_Deserialize pt) (Scalar_Deserialize pt')"

definition same_host ::
  "('p1, 'p2) blst \<Rightarrow> ('q1, 'q2) blst \<Rightarrow> (bytes \<times> bytes) list \<Rightarrow> enclave_host \<Rightarrow> enclave_host \<Rightarrow> bool" where
  "same_host B B' Q H H' \<longleftrightarrow> eh_os H = eh_os H' \<and> eh_listen H = eh_listen H'
     \<and> aws_LoadDefaultConfig (vsockHTTPClient H) = aws_LoadDefaultConfig (vsockHTTPClient H')
     \<and> (\<forall>c d. rel_sum (=) (same_plaintext B B' Q) (aws_Decrypt (vsockHTTPClient H) c d) (aws_Decrypt (vsockHTTPClient H') c d))"

section \<open>Nobody can tell\<close>

lemma handleConn_same:
  "same_answers B B' (asked T (Inr text)) sk sk' \<Longrightarrow> handleConn B T sk pk text = handleConn B' T sk' pk text"
  by (cases "decode_Request (gt_jerr T) text")
    (auto simp: handleConn_def asked_def same_answers_def binding_defs bls_sig_def split: if_splits)

lemma serve_same:
  "same_answers B B' (concat (map (asked T) conns)) sk sk' \<Longrightarrow>
     enclave_serve B T sk pk conns = enclave_serve B' T sk' pk conns"
proof (induction conns)
  case (Cons c conns)
  then have "same_answers B B' (asked T c) sk sk'" "same_answers B B' (concat (map (asked T) conns)) sk sk'"
    by (simp_all add: same_answers_def)
  with Cons.IH handleConn_same show ?case by (cases c) auto
qed simp

lemma plaintext_checked:
  "rel_sum (=) (same_plaintext B B' Q) r r' \<Longrightarrow>
     rel_sum (=) (same_plaintext B B' Q)
       (and_then (wrapf f r) (\<lambda>pt. if length pt \<noteq> n then Inl (g (length pt)) else Inr pt))
       (and_then (wrapf f r') (\<lambda>pt. if length pt \<noteq> n then Inl (g (length pt)) else Inr pt))"
  by (erule rel_sum.cases) (auto simp: same_plaintext_def)

lemma decryptKey_same:
  assumes "same_host B B' Q H H'"
  shows "rel_sum (=) (same_plaintext B B' Q) (decryptKey T H im ct) (decryptKey T H' im ct)"
proof -
  note kms = plaintext_checked [where g = "\<lambda>n. Errorf ''expected 32-byte BLS scalar, got %d'' [AInt (int n)]"]
  from assms show ?thesis
    by (cases "os_ReadFile (eh_os H') ''/kms-key-id.txt''")
      (auto simp: decryptKey_def same_host_def Let_def intro: kms split: option.split)
qed

lemmas run_defs = enclave_output_def enclave_main_def log_Fatal_def

section \<open>Property\<close>

text \<open>
  C12. The enclave keeps its key: everything it ever emits, from the reply to the host over its log to the answer
  to any text on any connection, well-formed or not, and whatever goes wrong, is determined by the public key and by the
  signatures that were asked for. In two runs on the same connections, over hosts that differ in the plaintexts
  that KMS gives, and over two curves, in which these values agree, the output is the same to the byte.
\<close>

theorem enclave_keeps_key:
  assumes "same_host B B' (concat (map (asked T) conns)) H H'"
  shows "enclave_output B T H args inits conns = enclave_output B' T H' args inits conns"
proof -
  let ?Q = "concat (map (asked T) conns)"
  note host = assms [unfolded same_host_def]
  show ?thesis
  proof (cases args)
    case (Cons path rest)
    have "enclave_output B T H args inits conns = enclave_output B' T H' args inits conns"
      if im: "receiveInit T inits = Some (Inr im)" and ct: "os_ReadFile (eh_os H) path = Inr ct" for im ct
      using decryptKey_same [OF assms, of T im ct]
    proof (cases rule: rel_sum.cases)
      case (2 pt pt')
      then have "rel_option (same_answers B B' ?Q) (Scalar_Deserialize pt) (Scalar_Deserialize pt')"
        by (simp add: same_plaintext_def)
      then show ?thesis
      proof (cases rule: option.rel_cases)
        case (Some sk sk')
        from Some(3) have "bls_pk B sk = bls_pk B' sk'" by (simp add: same_answers_def)
        with 2 Some serve_same [OF Some(3)] host im ct Cons show ?thesis
          by (simp add: run_defs Let_def binding_defs bls_pk_def split: option.split)
      qed (use 2 host im ct Cons in \<open>simp add: run_defs Let_def split: option.split\<close>)
    qed (use host im ct Cons in \<open>simp add: run_defs Let_def split: option.split\<close>)
    note decrypted = this
    show ?thesis
    proof (cases "os_ReadFile (eh_os H) path")
      case (Inl e)
      with host Cons show ?thesis by (simp add: run_defs)
    next
      case (Inr ct)
      consider "receiveInit T inits = None" | e where "receiveInit T inits = Some (Inl e)"
        | im where "receiveInit T inits = Some (Inr im)"
        by (cases "receiveInit T inits") (auto elim: sum.exhaust)
      then show ?thesis
        by cases (use host Cons Inr decrypted in \<open>simp_all add: run_defs Let_def split: option.split\<close>)
    qed
  qed (simp add: run_defs)
qed

text \<open>Two hosts whose KMS gives the keys 5 and 6.\<close>

definition secret_host :: "nat \<Rightarrow> enclave_host" where
  "secret_host n = test_host\<lparr>eh_vsock := (\<lambda>_ _. (mock_aws mock_key)\<lparr>aws_Decrypt := (\<lambda>_ _. Inr (Scalar_Serialize n))\<rparr>)\<rparr>"

lemma enclave_keeps_key_witness:
  "enclave_output toy_blst test_text (secret_host 5) [''/key.enc''] [Inr (encode_InitMessage test_init)]
       [Inr (encode_Request \<lparr>req_Type = ''sign'', req_Message = [1, 2]\<rparr>)]
     = enclave_output shifted_blst test_text (secret_host 6) [''/key.enc''] [Inr (encode_InitMessage test_init)]
       [Inr (encode_Request \<lparr>req_Type = ''sign'', req_Message = [1, 2]\<rparr>)]
   \<and> fst (enclave_main toy_blst test_text (secret_host 5) [''/key.enc''] [Inr (encode_InitMessage test_init)])
     = Serving 5 (bls_pk toy_blst 5)"
proof
  have six: "scalar_ok 6" by (simp add: scalar_ok_def curve_r_def)
  have same: "same_host toy_blst shifted_blst Q (secret_host 5) (secret_host 6)" for Q
    using shifted_same [of Q 5] Deserialize_Serialize [OF six] Deserialize_Serialize [OF scalar_5]
    by (simp add: same_host_def secret_host_def vsockHTTPClient_def mock_aws_def same_plaintext_def)
  show "enclave_output toy_blst test_text (secret_host 5) [''/key.enc''] [Inr (encode_InitMessage test_init)]
       [Inr (encode_Request \<lparr>req_Type = ''sign'', req_Message = [1, 2]\<rparr>)]
     = enclave_output shifted_blst test_text (secret_host 6) [''/key.enc''] [Inr (encode_InitMessage test_init)]
       [Inr (encode_Request \<lparr>req_Type = ''sign'', req_Message = [1, 2]\<rparr>)]"
    by (rule enclave_keeps_key [OF same])
  have "enclave_key_ok test_text (secret_host 5) ''/key.enc'' test_init 5"
    by (simp add: enclave_key_ok_def secret_host_def test_host_def vsockHTTPClient_def os_ReadFile_def quiet_os_def mock_aws_def)
  from enclave_main_serves [OF this initc.dec_enc [OF ascii_test_init], of "[]" toy_blst "[]" "[]"]
  show "fst (enclave_main toy_blst test_text (secret_host 5) [''/key.enc''] [Inr (encode_InitMessage test_init)])
     = Serving 5 (bls_pk toy_blst 5)" by simp
qed

end
