(* ===== verification/Vault_Plugin_Secret.thy ===== *)
theory Vault_Plugin_Secret
  imports Vault_Plugin_Inv
begin

text \<open>
  What leaves the Vault plugin: the responses to requests of any client, in any order and with any faults of the
  storage. Two runs on the same requests are compared, over storages that hold different keys under the same names;
  where the public keys agree, and the signatures that are asked for, so do all responses.
\<close>

section \<open>Responses\<close>

text \<open>A request is read or written; \<open>plugin_serve\<close> is the storage afterwards and the response.\<close>

definition plugin_serve ::
  "('p1, 'p2) blst \<Rightarrow> bool \<times> vault_request \<Rightarrow> vstorage \<Rightarrow> vstorage \<times> response result" where
  "plugin_serve B q st =
     (if fst q then (st, plugin_read B st (rq_endpoint (snd q)) (rq_data (snd q)))
      else plugin_write B (rq_random (snd q)) st (rq_endpoint (snd q)) (rq_data (snd q)))"

fun plugin_responses ::
  "('p1, 'p2) blst \<Rightarrow> vstorage \<Rightarrow> (bool \<times> vault_request) list \<Rightarrow> response result list" where
  "plugin_responses B st [] = []"
| "plugin_responses B st (q # qs) = (let (st', r) = plugin_serve B q st in r # plugin_responses B st' qs)"

section \<open>Storages that look alike\<close>

text \<open>The signature that a request asks for: the message and the separation tag, where both are hex.\<close>

definition asked_pair :: "string option \<Rightarrow> string \<Rightarrow> (bytes \<times> bytes) list" where
  "asked_pair msgHex dstHex =
     (case msgHex of None \<Rightarrow> []
      | Some m \<Rightarrow> (case (hex_DecodeString m, hex_DecodeString dstHex) of
          (Inr msg, Inr dst) \<Rightarrow> [(msg, dst)] | _ \<Rightarrow> []))"

definition asked_of :: "vault_request \<Rightarrow> (bytes \<times> bytes) list" where
  "asked_of q =
     (case rq_endpoint q of
        SignEp \<Rightarrow> asked_pair (fd_message (rq_data q))
          (case fd_dst (rq_data q) of Some v \<Rightarrow> v | None \<Rightarrow> plugin_dstSign)
      | SignPopEp \<Rightarrow> asked_pair (fd_message (rq_data q)) plugin_dstPopProve
      | _ \<Rightarrow> [])"

definition same_entry ::
  "('p1, 'p2) blst \<Rightarrow> ('q1, 'q2) blst \<Rightarrow> (bytes \<times> bytes) list \<Rightarrow> string \<Rightarrow> string \<Rightarrow> bool" where
  "same_entry B B' Q v v' \<longleftrightarrow> (\<exists>sk sk'. hex_key v sk \<and> hex_key v' sk' \<and> same_answers B B' Q sk sk')"

definition same_storage ::
  "('p1, 'p2) blst \<Rightarrow> ('q1, 'q2) blst \<Rightarrow> (bytes \<times> bytes) list \<Rightarrow> vstorage \<Rightarrow> vstorage \<Rightarrow> bool" where
  "same_storage B B' Q st st' \<longleftrightarrow> st_get_err st = st_get_err st' \<and> st_put_err st = st_put_err st'
     \<and> (\<forall>k. rel_option (\<lambda>v v'. same_entry B B' Q (string_of v) (string_of v')) (st_entries st k) (st_entries st' k))"

text \<open>A key that a client imports is known to it, so the curves agree on it; generated keys may differ.\<close>

definition same_source ::
  "('p1, 'p2) blst \<Rightarrow> ('q1, 'q2) blst \<Rightarrow> (bytes \<times> bytes) list \<Rightarrow> vault_request \<Rightarrow> bool" where
  "same_source B B' Q q \<longleftrightarrow>
     (rq_endpoint q = Import \<longrightarrow> (\<forall>v sk. fd_key (rq_data q) = Some v \<and> hex_key v sk \<longrightarrow> same_answers B B' Q sk sk))"

definition same_keygen :: "('p1, 'p2) blst \<Rightarrow> ('q1, 'q2) blst \<Rightarrow> (bytes \<times> bytes) list \<Rightarrow> bool" where
  "same_keygen B B' Q \<longleftrightarrow> keygen_valid B \<and> keygen_valid B'
     \<and> (\<forall>r. same_answers B B' Q (c_keygen B (fill_buffer 32 r)) (c_keygen B' (fill_buffer 32 r)))"

section \<open>One request\<close>

lemma same_Get:
  "same_storage B B' Q st st' \<Longrightarrow>
     rel_sum (=) (rel_option (\<lambda>v v'. same_entry B B' Q (string_of v) (string_of v'))) (storage_Get st k) (storage_Get st' k)"
  by (auto simp: same_storage_def storage_Get_def of_err_def split: option.split)

lemma same_publicKey:
  "same_entry B B' Q v v' \<Longrightarrow> \<exists>pk. plugin_publicKeyHex B v = Inr pk \<and> plugin_publicKeyHex B' v' = Inr pk"
  by (auto simp: same_entry_def same_answers_def)

lemma same_sign:
  assumes "same_entry B B' Q v v'" "set (asked_pair (Some m) dst) \<subseteq> set Q"
  shows "plugin_sign B v m dst = plugin_sign B' v' m dst"
proof -
  from assms(1) obtain sk sk' where k: "hex_key v sk" "hex_key v' sk'" "same_answers B B' Q sk sk'"
    by (auto simp: same_entry_def)
  from k(1,2) have "plugin_deserialize v = Inr sk" "plugin_deserialize v' = Inr sk'"
    by (simp_all add: plugin_deserialize_Inr_iff)
  with k(3) assms(2) show ?thesis
    by (cases "hex_DecodeString m"; cases "hex_DecodeString dst")
      (auto simp: plugin_sign_def asked_pair_def same_answers_def list_all_iff binding_defs bls_sig_def)
qed

lemma same_doSign:
  assumes "same_storage B B' Q st st'" "set (asked_pair (Some m) dst) \<subseteq> set Q"
  shows "doSign B st name m dst = doSign B' st' name m dst"
  using same_Get [OF assms(1), of "entry_key name"]
proof (cases rule: rel_sum.cases)
  case (2 r r')
  from 2(3) show ?thesis
  proof (cases rule: option.rel_cases)
    case (Some v v')
    from same_sign [OF Some(3) assms(2)] Some 2 show ?thesis
      by (auto simp: doSign_def loadKey_def same_entry_def dest: hex_key_length)
  qed (simp add: 2 doSign_def loadKey_def)
qed (simp add: doSign_def loadKey_def)

lemma same_handlePublicKey:
  assumes "same_storage B B' Q st st'"
  shows "handlePublicKey B st d = handlePublicKey B' st' d"
  using same_Get [OF assms, of "entry_key (fd_name d)"]
proof (cases rule: rel_sum.cases)
  case (2 r r')
  from 2(3) show ?thesis
  proof (cases rule: option.rel_cases)
    case (Some v v')
    from same_publicKey [OF Some(3)] Some 2 show ?thesis
      by (auto simp: handlePublicKey_def loadKey_def same_entry_def Let_def dest: hex_key_length)
  qed (simp add: 2 handlePublicKey_def loadKey_def Let_def)
qed (simp add: handlePublicKey_def loadKey_def Let_def)

lemma same_store:
  assumes "same_storage B B' Q st st'" "same_entry B B' Q v v'"
  shows "rel_prod (same_storage B B' Q) (=) (store_key st name v pk) (store_key st' name v' pk)"
  using assms by (auto simp: store_key_def storage_Put_def same_storage_def split: option.split)

lemma same_handleGenerate:
  assumes "same_storage B B' Q st st'" "same_keygen B B' Q"
  shows "rel_prod (same_storage B B' Q) (=) (handleGenerate B rnd st d) (handleGenerate B' rnd st' d)"
  using same_Get [OF assms(1), of "entry_key (fd_name d)"]
proof (cases rule: rel_sum.cases)
  case (2 r r')
  from 2(3) show ?thesis
  proof (cases rule: option.rel_cases)
    case None
    show ?thesis
    proof (cases rnd)
      case (Inr bs)
      let ?k = "\<lambda>B. c_keygen B (fill_buffer 32 bs)"
      let ?v = "\<lambda>n. hex_EncodeToString (Scalar_Serialize n)"
      have e: "same_entry B B' Q (?v (?k B)) (?v (?k B'))"
      proof -
        have "scalar_ok (?k B)" "scalar_ok (?k B')" "same_answers B B' Q (?k B) (?k B')"
          using assms(2) by (simp_all add: same_keygen_def keygen_valid_def)
        then show ?thesis unfolding same_entry_def by (blast intro: hex_key_encode)
      qed
      from same_publicKey [OF e] same_store [OF assms(1) e] 2 None Inr show ?thesis
        by (auto simp: handleGenerate_def plugin_generateKey_def blst_KeyGen_def Let_def)
    qed (use 2 None assms in \<open>simp add: handleGenerate_def plugin_generateKey_def Let_def\<close>)
  qed (use 2 assms in \<open>simp add: handleGenerate_def Let_def\<close>)
qed (use assms in \<open>simp add: handleGenerate_def Let_def\<close>)

lemma same_handleImport:
  assumes "same_storage B B' Q st st'"
    and "\<forall>v sk. fd_key d = Some v \<and> hex_key v sk \<longrightarrow> same_answers B B' Q sk sk"
  shows "rel_prod (same_storage B B' Q) (=) (handleImport B st d) (handleImport B' st' d)"
proof (cases "fd_key d")
  case (Some v)
  show ?thesis
  proof (cases "plugin_deserialize v")
    case (Inl e)
    with Some assms(1) show ?thesis by (simp add: handleImport_def plugin_publicKeyHex_def Let_def)
  next
    case (Inr sk)
    then have k: "hex_key v sk" by (simp add: plugin_deserialize_Inr_iff)
    with Some assms(2) have e: "same_entry B B' Q v v" by (auto simp: same_entry_def)
    from same_Get [OF assms(1), of "entry_key (fd_name d)"] show ?thesis
    proof (cases rule: rel_sum.cases)
      case (2 r r')
      from 2(3) show ?thesis
      proof (cases rule: option.rel_cases)
        case None
        with 2 Some same_publicKey [OF e] same_store [OF assms(1) e] assms(1) show ?thesis
          by (auto simp: handleImport_def Let_def)
      qed (use 2 Some same_publicKey [OF e] assms(1) in \<open>auto simp: handleImport_def Let_def\<close>)
    qed (use Some same_publicKey [OF e] assms(1) in \<open>auto simp: handleImport_def Let_def\<close>)
  qed
qed (use assms(1) in \<open>simp add: handleImport_def Let_def\<close>)

lemma same_operation:
  assumes "same_storage B B' Q st st'"
  shows "write_operation st ep d = write_operation st' ep d"
proof -
  have "keyExists st d = keyExists st' d"
    using same_Get [OF assms, of "entry_key (fd_name d)"]
    by (cases rule: rel_sum.cases) (auto simp: keyExists_def elim: option.rel_cases)
  then show ?thesis by (cases ep) (simp_all add: keyDoesNotExist_is_keyExists)
qed

lemma same_handle:
  assumes "same_storage B B' Q st st'" "same_keygen B B' Q" "same_source B B' Q q" "set (asked_of q) \<subseteq> set Q"
  shows "rel_prod (same_storage B B' Q) (=) (plugin_handle B rnd st (rq_endpoint q) op (rq_data q))
    (plugin_handle B' rnd st' (rq_endpoint q) op (rq_data q))"
proof (cases "rq_endpoint q")
  case Generate
  with same_handleGenerate [OF assms(1,2)] assms(1) show ?thesis by (cases op) simp_all
next
  case Import
  with same_handleImport [OF assms(1)] assms(1,3) show ?thesis by (cases op) (simp_all add: same_source_def)
next
  case PublicKeyRead
  with same_handlePublicKey [OF assms(1)] assms(1) show ?thesis by (cases op) simp_all
next
  case SignEp
  with same_doSign [OF assms(1)] assms(1,4) show ?thesis
    by (cases op; cases "fd_message (rq_data q)") (simp_all add: handleSign_def asked_of_def Let_def)
next
  case SignPopEp
  with same_doSign [OF assms(1)] assms(1,4) show ?thesis
    by (cases op; cases "fd_message (rq_data q)") (simp_all add: handleSignPoP_def asked_of_def)
qed

lemma same_serve:
  assumes "same_storage B B' Q st st'" "same_keygen B B' Q"
    and "same_source B B' Q (snd q)" "set (asked_of (snd q)) \<subseteq> set Q"
  shows "rel_prod (same_storage B B' Q) (=) (plugin_serve B q st) (plugin_serve B' q st')"
proof -
  note h = same_handle [OF assms]
  from assms(1) h [of "Inl err_unsupported_operation" ReadOperation] h [of "rq_random (snd q)"] show ?thesis
    by (auto simp: plugin_serve_def plugin_read_def plugin_write_def same_operation [OF assms(1)] rel_prod_sel
        split: sum.split)
qed

lemma same_responses:
  assumes "same_keygen B B' Q"
  shows "same_storage B B' Q st st' \<Longrightarrow> list_all (\<lambda>q. same_source B B' Q (snd q) \<and> set (asked_of (snd q)) \<subseteq> set Q) qs \<Longrightarrow>
    plugin_responses B st qs = plugin_responses B' st' qs"
proof (induction qs arbitrary: st st')
  case (Cons q qs)
  then have "rel_prod (same_storage B B' Q) (=) (plugin_serve B q st) (plugin_serve B' q st')"
    using same_serve [OF _ assms] by simp
  with Cons show ?case by (auto simp: rel_prod_sel split: prod.splits)
qed simp

section \<open>Property\<close>

text \<open>
  C11. The plugin never gives its keys away: the responses to any requests, well-formed or not, of any endpoint, in any
  order and with any storage faults, are determined by the public keys and by the signatures that were asked for. Two
  plugins on the same requests, with different keys in their storages and different keys generated on the way,
  for which these values agree, give the same responses.
\<close>

theorem plugin_keeps_keys:
  assumes "Q = concat (map (asked_of \<circ> snd) qs)" "same_storage B B' Q st st'" "same_keygen B B' Q"
    and "\<forall>q \<in> set qs. same_source B B' Q (snd q)"
  shows "plugin_responses B st qs = plugin_responses B' st' qs"
  using assms by (intro same_responses [OF assms(3,2)]) (auto simp: list_all_iff)

text \<open>The key 5 and the key 6 under the same name; a key is generated besides, and a signature and a key are asked for.\<close>

definition storage_with :: "nat \<Rightarrow> vstorage" where
  "storage_with sk = empty_storage\<lparr>st_entries := [entry_key ''validator'' \<mapsto> bytes_of (hex_EncodeToString (Scalar_Serialize sk))]\<rparr>"

definition secret_requests :: "(bool \<times> vault_request) list" where
  "secret_requests =
     [(False, \<lparr>rq_endpoint = Generate, rq_data = \<lparr>fd_name = ''b'', fd_key = None, fd_message = None, fd_dst = None\<rparr>,
        rq_random = Inr [7]\<rparr>),
      (True, \<lparr>rq_endpoint = PublicKeyRead, rq_data = test_request None None, rq_random = Inr []\<rparr>),
      (False, \<lparr>rq_endpoint = SignEp, rq_data = test_request None (Some ''0a''), rq_random = Inr []\<rparr>)]"

lemma plugin_keeps_keys_witness:
  "plugin_responses toy_blst (storage_with 5) secret_requests = plugin_responses shifted_blst (storage_with 6) secret_requests"
proof -
  have six: "scalar_ok 6" by (simp add: scalar_ok_def curve_r_def)
  have "same_entry toy_blst shifted_blst Q (hex_EncodeToString (Scalar_Serialize 5)) (hex_EncodeToString (Scalar_Serialize 6))" for Q
    using shifted_same [of Q 5, simplified] hex_key_encode [OF scalar_ok_5] hex_key_encode [OF six]
    unfolding same_entry_def by blast
  then have st: "same_storage toy_blst shifted_blst Q (storage_with 5) (storage_with 6)" for Q
    by (simp add: same_storage_def storage_with_def empty_storage_def)
  have "scalar_ok (unat b + 2)" for b :: byte
  proof -
    have "unat b < 256" by simp
    then have "unat b + 2 < curve_r" unfolding curve_r_def by linarith
    then show ?thesis by (simp add: scalar_ok_def)
  qed
  moreover have "scalar_ok (Suc (Suc 0))" by (simp add: scalar_ok_def curve_r_def)
  ultimately have "scalar_ok (c_keygen shifted_blst ikm)" for ikm
    by (cases ikm) (simp_all add: shifted_blst_def toy_blst_def)
  then have gen: "same_keygen toy_blst shifted_blst Q" for Q
    using shifted_same [of Q] keygen_valid_toy by (simp add: same_keygen_def keygen_valid_def shifted_blst_def)
  show ?thesis
    by (rule plugin_keeps_keys [OF refl st gen]) (simp add: same_source_def secret_requests_def)
qed

end
