(* ===== verification/Spec2Isabelle.thy ===== *)
theory Spec2Isabelle
  imports Vault_Paths Vault_Plugin_Conc Main_Live Main_Vault Main_Nitro Enclave_Secret Vault_Plugin_Secret
begin

text \<open>
  The avalanche remote signer keeps a validator's BLS key outside the node: a gRPC sidecar answers the node's
  requests for the public key, signatures and proofs of possession. This development models the whole Go program
  (everything under \<open>src/\<close> that is neither vendored nor test), and of the vendored libraries what carries a
  call.

  The parts and how they interact.

  \<^item> \<open>main/main.go\<close> (\<open>Main_Cmd\<close>) merges file, environment and flags, builds one of six backends and serves it, or
    runs \<open>keytool\<close>; \<open>Main_CLI\<close> is the program from its argument list, over the flag sets and command trees of
    pflag and cobra in \<open>Go_Flags\<close>; \<open>Main_Process\<close> is the serving process with its log and exit status.
    \<open>config/config.go\<close> (\<open>Config\<close>) is the configuration with its defaults and environment.
  \<^item> \<open>signerserver/signerserver.go\<close> (\<open>Signer_Server\<close>, what it promises in \<open>Signer_Spec\<close>) is the service over the
    interface of \<open>backend/backend.go\<close> (\<open>Backend_Iface\<close>); \<open>proto/pb/signer\<close> (\<open>Signer_Grpc\<close>) are the stubs,
    handlers and messages, which \<open>Signer_Wire\<close> carries as gRPC frames of the protobuf encoding in \<open>Go_Proto\<close>.
  \<^item> The backends: \<open>backend/memory\<close>, \<open>awskms\<close>, \<open>gcpkms\<close>, \<open>azurekv\<close> (\<open>Backend_Memory\<close>, \<open>Backend_AWS\<close>,
    \<open>Backend_GCP\<close>, \<open>Backend_Azure\<close>) hold the decrypted key and sign with \<open>internal/blstutil\<close> (\<open>Blstutil\<close>);
    \<open>backend/vault\<close> (\<open>Vault_Backend\<close>, its renewal goroutine in \<open>Vault_Renew\<close>) asks the Vault plugin
    \<open>vault-plugin\<close> (\<open>Vault_Plugin\<close>, its registration in \<open>Vault_Paths\<close>) to sign; \<open>backend/awsnitro\<close> (\<open>Nitro\<close>)
    asks the program of \<open>enclave/main.go\<close> (\<open>Enclave\<close>) over the messages of \<open>internal/enclaveproto\<close> (\<open>Wire\<close>).
  \<^item> \<open>keytool/keytool.go\<close> (\<open>Keytool\<close>) makes or migrates the key those backends later load.

  How the model is laid out. \<open>Go_Prelude\<close>, \<open>Go_Strings\<close>, \<open>Go_OS\<close>, \<open>Go_Fmt\<close>, \<open>Go_Base64\<close>, \<open>Go_Json\<close> and
  \<open>Go_Json_Parse\<close> are the pieces of Go and its standard library the code uses: errors as values that keep their
  format and arguments, log lines (\<open>Go_Log\<close>), hex, \<open>Sscanf\<close>, numbers, files with failing system calls, JSON.
  Structs are records with the fields of the source, a function returning \<open>(T, error)\<close> returns \<open>goerr + T\<close>, a
  byte is an 8-bit word, a Go int an \<open>int\<close> and a \<open>uint32\<close> a 32-bit word. Code outside the repository is a record
  of functions that the operations take: the C routines of blst, the clouds, the Vault client library, the
  machine with its enclave. \<open>Vault_Server\<close>, \<open>Vault_Live\<close> and \<open>Nitro_Enclave\<close> put the model of the plugin and of
  the enclave behind the parameter of the host's backend, so that theorems there speak of both ends.

  The contracts. The locale \<open>signing_backend\<close> says what a backend that holds a key answers, \<open>local_backend\<close> what
  one with the key in its memory promises on top, for those values that have one. Four backends are interpreted
  as the second, and so are the values of the factory; the Vault backend over the plugin, the Nitro backend over
  the enclave, and the values of the factory over either or both, as the first; the answers over the wire are
  proved once in it. \<open>served_backend\<close> says what the server needs of its backend, while what is behind it
  changes, for its runs to be those of an abstract signer, and is interpreted on the values of the factory with
  a key in memory and, over the plugin and the enclave, on all (\<open>Main_Process\<close>); over a Vault server whose tokens
  expire both are interpreted once more (\<open>Main_Live\<close>). \<open>typed_backend\<close> says what sizes
  a backend keeps to whoever stands behind it, and is interpreted on all six backends at once
  (\<open>Built_Backends\<close>). \<open>codec\<close> of \<open>Go_Prelude\<close> is the contract of an encoding, interpreted on hex, scalars and
  the four messages.

  What the theorems show. From one command line to the next and out to a client: the key that
  \<open>keytool\<close> prints is the key served, for the clouds (\<open>Main_Runs\<close>, over
  \<open>Keytool_Roundtrip\<close> and \<open>Main_Props\<close>), for Vault (\<open>Main_Vault\<close>) and,
  across restarts, for an enclave (\<open>Main_Nitro\<close>); a migration does not lose it
  (\<open>Keytool_Props\<close>, with the one way in which it does). The signer as a client sees it over the
  wire, where its backend's key comes from and the sizes of all it answers (\<open>Built_Backends\<close>,
  \<open>Signer_Wire\<close>). The plugin's storage over all requests in order (\<open>Vault_Plugin_Inv\<close>)
  and interleaved: the one race that loses a key, and that there is no other (\<open>Vault_Plugin_Conc\<close>);
  and that no response tells more of a key than its public key and the signatures that were asked for
  (\<open>Vault_Plugin_Secret\<close>, two runs over different keys compared). Every process of the program is
  one of an abstract signer's, with its answers, log lines and exit status (the lines of the renewal goroutine
  are in \<open>Vault_Renew\<close>); it loses no call, and ends when told to (\<open>Main_Process\<close>, over
  the simulation in \<open>Signer_Spec\<close>). The agreement of the program's three copies of the BLS code
  (here). The renewal loop: the state it cannot leave (\<open>Vault_Renew\<close>) and, against a server with a
  clock, that it is never reached when the loop is scheduled in time (\<open>Vault_Live\<close>), so that a
  process with the Vault backend and its loop is a signer as well (\<open>Main_Live\<close>). The enclave end to
  end (\<open>Enclave\<close>, \<open>Nitro_Enclave\<close>), and that nothing it emits, its log included, tells
  more of the key than the public key and the signatures that were asked for (\<open>Enclave_Secret\<close>).
  What a written command line runs, when none runs, and what \<open>--delete-input false\<close> does
  (\<open>Main_CLI\<close>). Exactness of key validation and the precedence of settings.

  State machines. \<open>serve_step\<close> is \<open>ListenAndServe\<close> with the deferred \<open>Close\<close>, labelled with the calls, answers,
  log lines, signals and exit status that the outside sees, and \<open>main_process\<close> the command around it, over a
  Vault server and an enclave that may be in another state at every step; \<open>renew_step\<close> the renewal goroutine
  against time, cancellation and the server, \<open>live_step\<close> the same against a clock; \<open>conc_step\<close> is any number of
  generate and import requests at the grain of storage calls. Their theorems quantify over every reachable
  state.

  Fuel and bounds. The JSON parser runs on fuel \<open>json_fuel\<close>, one more than twice the length of its input;
  \<open>parse_value_fuel\<close> shows that more fuel never changes its result. The enclave's two polling loops are partial
  functions that return \<open>None\<close> when they do not end; \<open>nitro_New_returns\<close> proves that they end when the clock
  goes on. The renewal sleep is three quarters of the token's time to live in nanoseconds, exact because a time
  to live is a whole number of seconds. Skipping an unknown protobuf group keeps the open groups in a list
  instead of recursing, with the runtime's limit of 10000; the length of the input bounds every loop of the
  decoder.

  Not modelled: the curve arithmetic of blst (a group element is whatever the parameter computes), the YAML
  decoder, the help texts and shell completion of the command line, TLS, HTTP/2 and the network below a request,
  what the gRPC library logs, the reflection part of the generated protobuf code, the Vault
  framework between a request and the plugin's path tables. The wording of JSON syntax errors and Unicode case,
  quoting and trimming outside ASCII are parameters too. Files are distinct when their paths are.
\<close>

section \<open>Blstutil\<close>

text \<open>
  C29. Key validation is exact, and validation, public-key derivation and signing agree: a byte string is
  accepted exactly when it is the 32-byte big-endian form of a scalar between 1 and r - 1; for accepted
  bytes the public key and the signature are the reference ones, 48 and 96 bytes long, and for all others
  both operations fail.
\<close>

theorem blstutil_operations:
  "(ValidateSecretKey bs \<longleftrightarrow> (\<exists>sk. 0 < sk \<and> sk < curve_r \<and> bs = Scalar_Serialize sk))
   \<and> (case blstutil_PublicKey B bs of
        Inr pk \<Rightarrow> (\<exists>sk. 0 < sk \<and> sk < curve_r \<and> bs = Scalar_Serialize sk \<and> pk = bls_pk B sk) \<and> length pk = PublicKeySize
      | Inl e \<Rightarrow> \<not> ValidateSecretKey bs)
   \<and> (case blstutil_Sign B bs msg dst of
        Inr sig \<Rightarrow> (\<exists>sk. 0 < sk \<and> sk < curve_r \<and> bs = Scalar_Serialize sk \<and> sig = bls_sig B sk msg dst)
          \<and> length sig = SignatureSize
      | Inl e \<Rightarrow> \<not> ValidateSecretKey bs)"
proof -
  have v: "ValidateSecretKey bs \<longleftrightarrow> (\<exists>sk. 0 < sk \<and> sk < curve_r \<and> bs = Scalar_Serialize sk)"
    by (auto simp: ValidateSecretKey_iff scalar_ok_def)
  show ?thesis
  proof (cases "blstutil_deserialize bs")
    case (Inl e)
    with deserialize_ok_iff [of bs] v show ?thesis
      by (simp add: PublicKey_eq Sign_eq)
  next
    case (Inr sk)
    with deserialize_Inr_iff [of bs sk] v show ?thesis
      by (auto simp: PublicKey_eq Sign_eq scalar_ok_def size_defs)
  qed
qed

text \<open>
  The scalar encoding and its hex form lose nothing: a valid scalar is read back from the 32 bytes,
  and from the 64 hex digits that keytool sends to Vault.
\<close>

lemma scalar_roundtrip:
  "scalar_ok sk \<Longrightarrow> blstutil_deserialize (Scalar_Serialize sk) = Inr sk
     \<and> plugin_deserialize (hex_EncodeToString (Scalar_Serialize sk)) = Inr sk
     \<and> length (hex_EncodeToString (Scalar_Serialize sk)) = 64"
  by (simp add: plugin_deserialize_Inr_iff)

text \<open>
  C19. The program has three copies of the BLS code, and they are one function: on the hex form of a key the plugin
  derives the public key and signs exactly when \<open>blstutil\<close> does, with the hex form of the same bytes, under any
  separation tag; a key the enclave accepts is one \<open>blstutil\<close> accepts, and its answer to a signing request
  carries the signature \<open>blstutil\<close> makes under the tag of the request; and from the same random bytes the plugin
  generates the same key.
\<close>

theorem bls_copies_agree:
  "(case blstutil_PublicKey B bs of
      Inr pk \<Rightarrow> plugin_publicKeyHex B (hex_EncodeToString bs) = Inr (hex_EncodeToString pk)
    | Inl e \<Rightarrow> \<not> is_ok (plugin_publicKeyHex B (hex_EncodeToString bs)))
   \<and> (case blstutil_Sign B bs msg dst of
        Inr sig \<Rightarrow> plugin_sign B (hex_EncodeToString bs) (hex_EncodeToString msg) (hex_EncodeToString dst)
          = Inr (hex_EncodeToString sig)
      | Inl e \<Rightarrow> \<not> is_ok (plugin_sign B (hex_EncodeToString bs) (hex_EncodeToString msg) (hex_EncodeToString dst)))
   \<and> (case Scalar_Deserialize bs of
        Some sk \<Rightarrow> (\<exists>sig pop. blstutil_Sign B bs msg DSTSign = Inr sig \<and> blstutil_Sign B bs msg DSTPoP = Inr pop
          \<and> handleConn B T sk (bls_pk B sk) (encode_Request \<lparr>req_Type = RequestSign, req_Message = msg\<rparr>)
              = encode_Response \<lparr>resp_Result = sig, resp_Error = []\<rparr>
          \<and> handleConn B T sk (bls_pk B sk) (encode_Request \<lparr>req_Type = RequestSignPoP, req_Message = msg\<rparr>)
              = encode_Response \<lparr>resp_Result = pop, resp_Error = []\<rparr>)
      | None \<Rightarrow> \<not> ValidateSecretKey bs)
   \<and> (case blstutil_KeyGen B (fill_buffer 32 r) of
        Inr key \<Rightarrow> plugin_generateKey B (Inr r) = Inr (hex_EncodeToString key)
      | Inl e \<Rightarrow> \<not> is_ok (plugin_generateKey B (Inr r)))"
proof (intro conjI)
  note copies = plugin_publicKeyHex_def plugin_sign_def plugin_deserialize_def blstutil_PublicKey_def blstutil_Sign_def
    blstutil_deserialize_def size_defs
  show "case blstutil_PublicKey B bs of
      Inr pk \<Rightarrow> plugin_publicKeyHex B (hex_EncodeToString bs) = Inr (hex_EncodeToString pk)
    | Inl e \<Rightarrow> \<not> is_ok (plugin_publicKeyHex B (hex_EncodeToString bs))"
    by (simp add: copies split: option.splits)
  show "case blstutil_Sign B bs msg dst of
      Inr sig \<Rightarrow> plugin_sign B (hex_EncodeToString bs) (hex_EncodeToString msg) (hex_EncodeToString dst)
        = Inr (hex_EncodeToString sig)
    | Inl e \<Rightarrow> \<not> is_ok (plugin_sign B (hex_EncodeToString bs) (hex_EncodeToString msg) (hex_EncodeToString dst))"
    by (simp add: copies split: option.splits)
  show "case blstutil_KeyGen B (fill_buffer 32 r) of
      Inr key \<Rightarrow> plugin_generateKey B (Inr r) = Inr (hex_EncodeToString key)
    | Inl e \<Rightarrow> \<not> is_ok (plugin_generateKey B (Inr r))"
    by (simp add: blstutil_KeyGen_def plugin_generateKey_def split: option.splits)
qed (auto simp: Deserialize_Some_iff ValidateSecretKey_def handleConn_request request_types is_ascii_def
    split: option.split)

section \<open>Closing\<close>

definition toy_keypair :: keypair where
  "toy_keypair = \<lparr>skBytes = Scalar_Serialize 5, pkBytes = bls_pk toy_blst 5\<rparr>"

text \<open>
  C30. Closing wipes the key: after \<open>Close\<close> of a backend that holds its key in memory the key bytes are all
  zero, both signing operations fail and the cached public key is still there.
\<close>

theorem close_wipes:
  "M \<in> {memory_ops B, awskms_ops B, azurekv_ops B} \<Longrightarrow>
    (let b' = fst (be_Close M b); g' = fst (be_Close (gcpkms_ops B) g)
     in skBytes b' = replicate (length (skBytes b)) 0 \<and> \<not> is_ok (be_Sign M b' msg)
        \<and> \<not> is_ok (be_SignProofOfPossession M b' msg) \<and> be_PublicKey M b' = be_PublicKey M b
        \<and> skBytes g' = replicate (length (skBytes g)) 0 \<and> \<not> is_ok (be_Sign (gcpkms_ops B) g' msg)
        \<and> \<not> is_ok (be_SignProofOfPossession (gcpkms_ops B) g' msg)
        \<and> be_PublicKey (gcpkms_ops B) g' = be_PublicKey (gcpkms_ops B) g)"
  using memb.Close_spec [of B b msg] awsb.Close_spec [of B b msg] azb.Close_spec [of B b msg]
    gcpb.Close_spec [of B g msg] by (auto simp: Let_def)

lemma close_wipes_witness:
  "skBytes (fst (be_Close (memory_ops toy_blst) toy_keypair)) = replicate 32 0"
  using close_wipes [of "memory_ops toy_blst" toy_blst toy_keypair gcp_b "[]"]
  by (simp add: toy_keypair_def Let_def)

end
